(* ===== verification/Prelude.thy ===== *)
theory Prelude
  imports Main "HOL-Library.Word"
begin

text \<open>
  What every component of the development shares: the result type of the Rust code as a
  sum, the combinators its \<^verbatim>\<open>?\<close>, \<^verbatim>\<open>map_err\<close>, \<^verbatim>\<open>ok_or\<close> and \<^verbatim>\<open>and_then\<close> become,
  computations that thread a mutable value through calls that may fail, the locale of
  relations every such computation keeps, and the locale of prefix codes.
\<close>

named_theorems result_iffs \<open>when a result combinator succeeds or fails\<close>
named_theorems step_simps \<open>evaluation of stateful steps\<close>

section \<open>Machine integers and bytes\<close>

type_synonym u8 = "8 word"
type_synonym u16 = "16 word"
type_synonym u32 = "32 word"
type_synonym bytes = "u8 list"

text \<open>
  \<^verbatim>\<open>usize\<close> values are lengths and budgets: they are \<open>nat\<close>, and the operations of the
  source that could leave the 64-bit range say what they do there.
\<close>

definition usize_max :: nat where
  "usize_max = 2 ^ 64 - 1"

definition saturating_mul :: "nat \<Rightarrow> nat \<Rightarrow> nat" where
  "saturating_mul a b = min (a * b) usize_max"

definition checked_sub :: "nat \<Rightarrow> nat \<Rightarrow> nat option" where
  "checked_sub a b = (if b \<le> a then Some (a - b) else None)"

lemma checked_sub_Some_iff [simp]:
  "checked_sub a b = Some c \<longleftrightarrow> b \<le> a \<and> c = a - b"
  by (auto simp: checked_sub_def)

lemma checked_sub_None_iff [simp]: "checked_sub a b = None \<longleftrightarrow> a < b"
  by (auto simp: checked_sub_def)

section \<open>Results\<close>

text \<open>\<^verbatim>\<open>Result<T, E>\<close> is \<open>'e + 'a\<close>, with the error on the left.\<close>

abbreviation Ok :: "'a \<Rightarrow> 'e + 'a" where
  "Ok \<equiv> Inr"

abbreviation Err :: "'e \<Rightarrow> 'e + 'a" where
  "Err \<equiv> Inl"

fun and_then :: "'e + 'a \<Rightarrow> ('a \<Rightarrow> 'e + 'b) \<Rightarrow> 'e + 'b" where
  "and_then (Inl e) f = Inl e"
| "and_then (Inr a) f = f a"

fun map_err :: "('e \<Rightarrow> 'f) \<Rightarrow> 'e + 'a \<Rightarrow> 'f + 'a" where
  "map_err f (Inl e) = Inl (f e)"
| "map_err f (Inr a) = Inr a"

fun map_ok :: "('a \<Rightarrow> 'b) \<Rightarrow> 'e + 'a \<Rightarrow> 'e + 'b" where
  "map_ok f (Inl e) = Inl e"
| "map_ok f (Inr a) = Inr (f a)"

fun ok_or :: "'e \<Rightarrow> 'a option \<Rightarrow> 'e + 'a" where
  "ok_or e None = Inl e"
| "ok_or e (Some a) = Inr a"

text \<open>\<^verbatim>\<open>if !cond { return Err(e) }\<close>, the guard of an early return.\<close>

definition ensure :: "bool \<Rightarrow> 'e \<Rightarrow> 'e + unit" where
  "ensure b e = (if b then Inr () else Inl e)"

fun is_ok :: "'e + 'a \<Rightarrow> bool" where
  "is_ok (Inl _) = False"
| "is_ok (Inr _) = True"

fun ok_value :: "'e + 'a \<Rightarrow> 'a option" where
  "ok_value (Inl _) = None"
| "ok_value (Inr a) = Some a"

text \<open>
  \<^verbatim>\<open>iter().map(f).collect::<Result<Vec<_>>>()\<close>: the first error ends the traversal.
\<close>

fun collect_ok :: "('a \<Rightarrow> 'e + 'b) \<Rightarrow> 'a list \<Rightarrow> 'e + 'b list" where
  "collect_ok f [] = Inr []"
| "collect_ok f (x # xs) = and_then (f x) (\<lambda>y. map_ok ((#) y) (collect_ok f xs))"

lemma and_then_Ok_iff [result_iffs]:
  "and_then m f = Inr b \<longleftrightarrow> (\<exists>a. m = Inr a \<and> f a = Inr b)"
  by (cases m) auto

lemma and_then_Err_iff [result_iffs]:
  "and_then m f = Inl e \<longleftrightarrow> m = Inl e \<or> (\<exists>a. m = Inr a \<and> f a = Inl e)"
  by (cases m) auto

lemma map_err_Ok_iff [result_iffs]: "map_err f m = Inr a \<longleftrightarrow> m = Inr a"
  by (cases m) auto

lemma map_err_Err_iff [result_iffs]: "map_err f m = Inl e \<longleftrightarrow> (\<exists>e'. m = Inl e' \<and> e = f e')"
  by (cases m) auto

lemma map_ok_Ok_iff [result_iffs]: "map_ok f m = Inr b \<longleftrightarrow> (\<exists>a. m = Inr a \<and> b = f a)"
  by (cases m) auto

lemma map_ok_Err_iff [result_iffs]: "map_ok f m = Inl e \<longleftrightarrow> m = Inl e"
  by (cases m) auto

lemma ok_or_Ok_iff [result_iffs]: "ok_or e m = Inr a \<longleftrightarrow> m = Some a"
  by (cases m) auto

lemma ok_or_Err_iff [result_iffs]: "ok_or e m = Inl e' \<longleftrightarrow> m = None \<and> e' = e"
  by (cases m) auto

lemma ensure_Ok_iff [result_iffs]: "ensure b e = Inr u \<longleftrightarrow> b"
  by (auto simp: ensure_def)

lemma ensure_Err_iff [result_iffs]: "ensure b e = Inl e' \<longleftrightarrow> \<not> b \<and> e' = e"
  by (auto simp: ensure_def)

text \<open>\<^verbatim>\<open>expect\<close> in a test: on an error the test has failed.\<close>

definition expect :: "'e + 'a \<Rightarrow> ('a \<Rightarrow> bool) \<Rightarrow> bool" where
  "expect r test = (case r of Inl _ \<Rightarrow> False | Inr x \<Rightarrow> test x)"

lemma is_ok_iff: "is_ok m \<longleftrightarrow> (\<exists>a. m = Inr a)"
  by (cases m) auto

lemma not_is_ok_iff: "\<not> is_ok m \<longleftrightarrow> (\<exists>e. m = Inl e)"
  by (cases m) auto

lemma ok_value_Some_iff: "ok_value m = Some a \<longleftrightarrow> m = Inr a"
  by (cases m) auto

lemma and_then_assoc: "and_then (and_then m f) g = and_then m (\<lambda>a. and_then (f a) g)"
  by (cases m) auto

lemma collect_ok_length: "collect_ok f xs = Inr ys \<Longrightarrow> length ys = length xs"
  by (induction xs arbitrary: ys) (auto simp: result_iffs)

lemma collect_ok_set:
  "collect_ok f xs = Inr ys \<Longrightarrow> y \<in> set ys \<Longrightarrow> \<exists>x \<in> set xs. f x = Inr y"
  by (induction xs arbitrary: ys) (auto simp: result_iffs)

lemma collect_ok_Err_iff:
  "(\<exists>e. collect_ok f xs = Inl e) \<longleftrightarrow> (\<exists>x \<in> set xs. \<exists>e. f x = Inl e)"
proof (induction xs)
  case Nil
  then show ?case by simp
next
  case (Cons x xs)
  then show ?case by (cases "f x") (auto simp: result_iffs)
qed

section \<open>Steps: computations over a mutable value that may fail\<close>

text \<open>
  A function taking \<^verbatim>\<open>&mut s\<close> and returning a result changes \<open>s\<close> on every path, the
  failing ones included, so the new state is returned beside the result.
\<close>

type_synonym ('s, 'e, 'a) step = "'s \<Rightarrow> ('e + 'a) \<times> 's"

definition pure_step :: "'a \<Rightarrow> ('s, 'e, 'a) step" where
  "pure_step a s = (Inr a, s)"

definition lift_step :: "'e + 'a \<Rightarrow> ('s, 'e, 'a) step" where
  "lift_step r s = (r, s)"

definition bind_step ::
    "('s, 'e, 'a) step \<Rightarrow> ('a \<Rightarrow> ('s, 'e, 'b) step) \<Rightarrow> ('s, 'e, 'b) step" where
  "bind_step m f s = (case m s of (Inl e, s') \<Rightarrow> (Inl e, s') | (Inr a, s') \<Rightarrow> f a s')"

definition modify_step :: "('s \<Rightarrow> 's) \<Rightarrow> ('s, 'e, unit) step" where
  "modify_step f s = (Inr (), f s)"

lemma pure_step_eq [step_simps]: "pure_step a s = (r, s') \<longleftrightarrow> r = Inr a \<and> s' = s"
  by (auto simp: pure_step_def)

lemma lift_step_eq [step_simps]: "lift_step m s = (r, s') \<longleftrightarrow> m = r \<and> s' = s"
  by (auto simp: lift_step_def)

lemma modify_step_eq [step_simps]: "modify_step f s = (r, s') \<longleftrightarrow> r = Inr () \<and> s' = f s"
  by (auto simp: modify_step_def)

lemma bind_step_Ok_iff [step_simps]:
  "bind_step m f s = (Inr b, s') \<longleftrightarrow> (\<exists>a t. m s = (Inr a, t) \<and> f a t = (Inr b, s'))"
  by (auto simp: bind_step_def split: prod.splits sum.splits)

lemma bind_step_Err_iff [step_simps]:
  "bind_step m f s = (Inl e, s') \<longleftrightarrow>
     m s = (Inl e, s') \<or> (\<exists>a t. m s = (Inr a, t) \<and> f a t = (Inl e, s'))"
  by (auto simp: bind_step_def split: prod.splits sum.splits)

lemma bind_step_assoc:
  "bind_step (bind_step m f) g = bind_step m (\<lambda>a. bind_step (f a) g)"
  by (rule ext) (simp add: bind_step_def split: prod.split sum.split)

text \<open>
  A property of runs that holds of doing nothing and of two runs in a row holds of every
  composition of steps that keep it. Interpreted by the components with state of their own.
\<close>

locale step_relation =
  fixes rel :: "'s \<Rightarrow> 's \<Rightarrow> bool"
  assumes rel_refl: "rel s s"
    and rel_trans: "rel s t \<Longrightarrow> rel t u \<Longrightarrow> rel s u"
begin

definition keeps :: "('s, 'e, 'a) step \<Rightarrow> bool" where
  "keeps m \<longleftrightarrow> (\<forall>s. rel s (snd (m s)))"

lemma keepsI: "(\<And>s r t. m s = (r, t) \<Longrightarrow> rel s t) \<Longrightarrow> keeps m"
  unfolding keeps_def by (metis prod.collapse)

lemma keepsD: "keeps m \<Longrightarrow> m s = (r, t) \<Longrightarrow> rel s t"
  unfolding keeps_def by (metis snd_conv)

lemma keeps_pure [intro]: "keeps (pure_step a)"
  by (rule keepsI) (simp add: step_simps rel_refl)

lemma keeps_lift [intro]: "keeps (lift_step r)"
  by (rule keepsI) (simp add: step_simps rel_refl)

lemma keeps_modify [intro]: "(\<And>s. rel s (f s)) \<Longrightarrow> keeps (modify_step f)"
  by (rule keepsI) (simp add: step_simps)

lemma keeps_bind [intro]:
  assumes m: "keeps m" and f: "\<And>a. keeps (f a)"
  shows "keeps (bind_step m f)"
proof (rule keepsI)
  fix s r t
  assume run: "bind_step m f s = (r, t)"
  obtain r1 s1 where m1: "m s = (r1, s1)" by (cases "m s")
  have s1: "rel s s1" using m m1 by (rule keepsD)
  show "rel s t"
  proof (cases r1)
    case (Inl e)
    with run m1 s1 show ?thesis by (simp add: bind_step_def)
  next
    case (Inr a)
    with run m1 have "f a s1 = (r, t)" by (simp add: bind_step_def)
    with f have "rel s1 t" by (rule keepsD)
    with s1 show ?thesis by (rule rel_trans)
  qed
qed

end

section \<open>Prefix codes\<close>

text \<open>
  An encoding whose output tells where it ends. Character encodings, hex digits and
  length-prefixed fields are instances; what they share is that the concatenation of
  several encodings can be read back.
\<close>

locale prefix_code =
  fixes enc :: "'a \<Rightarrow> 'b list" and valid :: "'a \<Rightarrow> bool"
  assumes prefix_free:
    "valid x \<Longrightarrow> valid y \<Longrightarrow> enc x @ r = enc y @ s \<Longrightarrow> x = y \<and> r = s"
begin

lemma enc_inj: "valid x \<Longrightarrow> valid y \<Longrightarrow> enc x = enc y \<Longrightarrow> x = y"
  using prefix_free [of x y "[]" "[]"] by simp

lemma concat_same_length:
  assumes "length xs = length ys" "list_all valid xs" "list_all valid ys"
    and "concat (map enc xs) @ r = concat (map enc ys) @ s"
  shows "xs = ys \<and> r = s"
  using assms
proof (induction xs ys rule: list_induct2)
  case Nil
  then show ?case by simp
next
  case (Cons x xs y ys)
  then have "x = y \<and> concat (map enc xs) @ r = concat (map enc ys) @ s"
    using prefix_free [of x y] by simp
  with Cons show ?case by simp
qed

end

locale visible_prefix_code = prefix_code +
  assumes enc_nonempty: "valid x \<Longrightarrow> enc x \<noteq> []"
begin

lemma concat_inj:
  assumes "list_all valid xs" "list_all valid ys"
    and "concat (map enc xs) = concat (map enc ys)"
  shows "xs = ys"
  using assms
proof (induction xs arbitrary: ys)
  case Nil
  then show ?case using enc_nonempty by (cases ys) auto
next
  case (Cons x xs)
  then obtain y ys' where ys: "ys = y # ys'"
    using enc_nonempty by (cases ys) auto
  with Cons.prems have "x = y \<and> concat (map enc xs) = concat (map enc ys')"
    using prefix_free [of x y] by simp
  with Cons ys show ?case by simp
qed

end

end
