(* ===== verification/Rust_Text.thy ===== *)
theory Rust_Text
  imports Prelude "HOL-Library.List_Lexorder"
begin

text \<open>
  Rust's \<^verbatim>\<open>str\<close> and the operations of the standard library the sources use on it. A
  string is a list of Unicode scalar values, and \<open>utf8\<close> is its representation in memory:
  \<^verbatim>\<open>s.len()\<close> and the indices \<^verbatim>\<open>find\<close> returns count bytes (\<open>byte_len\<close>), while
  \<^verbatim>\<open>s.chars().count()\<close> counts scalar values (\<open>length\<close>).
\<close>

section \<open>Characters and strings\<close>

type_synonym uchar = nat
type_synonym str = "uchar list"

definition lit :: "string \<Rightarrow> str" where
  "lit s = map of_char s"

definition uc :: "char \<Rightarrow> uchar" where
  [simp]: "uc c = of_char c"

definition is_scalar :: "uchar \<Rightarrow> bool" where
  "is_scalar c \<longleftrightarrow> c < 0xD800 \<or> (0xE000 \<le> c \<and> c \<le> 0x10FFFF)"

definition valid_str :: "str \<Rightarrow> bool" where
  "valid_str s \<longleftrightarrow> list_all is_scalar s"

text \<open>\<^verbatim>\<open>char::from_u32\<close>.\<close>

definition char_from_u32 :: "nat \<Rightarrow> uchar option" where
  "char_from_u32 n = (if is_scalar n then Some n else None)"

definition is_ascii :: "uchar \<Rightarrow> bool" where
  "is_ascii c \<longleftrightarrow> c < 128"

definition is_ascii_digit :: "uchar \<Rightarrow> bool" where
  "is_ascii_digit c \<longleftrightarrow> 48 \<le> c \<and> c \<le> 57"

definition is_ascii_lowercase :: "uchar \<Rightarrow> bool" where
  "is_ascii_lowercase c \<longleftrightarrow> 97 \<le> c \<and> c \<le> 122"

definition is_ascii_uppercase :: "uchar \<Rightarrow> bool" where
  "is_ascii_uppercase c \<longleftrightarrow> 65 \<le> c \<and> c \<le> 90"

text \<open>\<^verbatim>\<open>char::is_control\<close>: the general category Cc.\<close>

definition is_control :: "uchar \<Rightarrow> bool" where
  "is_control c \<longleftrightarrow> c < 32 \<or> (127 \<le> c \<and> c \<le> 159)"

text \<open>\<^verbatim>\<open>char::is_whitespace\<close>: the property White_Space.\<close>

definition is_whitespace :: "uchar \<Rightarrow> bool" where
  "is_whitespace c \<longleftrightarrow>
     (9 \<le> c \<and> c \<le> 13) \<or> c = 32 \<or> c = 0x85 \<or> c = 0xA0 \<or> c = 0x1680 \<or>
     (0x2000 \<le> c \<and> c \<le> 0x200A) \<or> c = 0x2028 \<or> c = 0x2029 \<or> c = 0x202F \<or>
     c = 0x205F \<or> c = 0x3000"

definition to_ascii_lower :: "uchar \<Rightarrow> uchar" where
  "to_ascii_lower c = (if is_ascii_uppercase c then c + 32 else c)"

definition to_ascii_lowercase :: "str \<Rightarrow> str" where
  "to_ascii_lowercase s = map to_ascii_lower s"

definition eq_ignore_ascii_case :: "str \<Rightarrow> str \<Rightarrow> bool" where
  "eq_ignore_ascii_case s t \<longleftrightarrow> to_ascii_lowercase s = to_ascii_lowercase t"

lemma to_ascii_lower_idem [simp]: "to_ascii_lower (to_ascii_lower c) = to_ascii_lower c"
  by (auto simp: to_ascii_lower_def is_ascii_uppercase_def)

lemma to_ascii_lowercase_idem [simp]:
  "to_ascii_lowercase (to_ascii_lowercase s) = to_ascii_lowercase s"
  by (simp add: to_ascii_lowercase_def)

lemma to_ascii_lowercase_simps [simp]:
  "to_ascii_lowercase [] = []"
  "to_ascii_lowercase (c # s) = to_ascii_lower c # to_ascii_lowercase s"
  "to_ascii_lowercase (s @ t) = to_ascii_lowercase s @ to_ascii_lowercase t"
  by (simp_all add: to_ascii_lowercase_def)

lemma length_to_ascii_lowercase [simp]: "length (to_ascii_lowercase s) = length s"
  by (simp add: to_ascii_lowercase_def)

section \<open>UTF-8\<close>

definition utf8_char :: "uchar \<Rightarrow> bytes" where
  "utf8_char c =
     (if c < 0x80 then [word_of_nat c]
      else if c < 0x800 then
        [word_of_nat (0xC0 + c div 64), word_of_nat (0x80 + c mod 64)]
      else if c < 0x10000 then
        [word_of_nat (0xE0 + c div 4096), word_of_nat (0x80 + c div 64 mod 64),
         word_of_nat (0x80 + c mod 64)]
      else
        [word_of_nat (0xF0 + c div 262144), word_of_nat (0x80 + c div 4096 mod 64),
         word_of_nat (0x80 + c div 64 mod 64), word_of_nat (0x80 + c mod 64)])"

text \<open>\<^verbatim>\<open>str::as_bytes\<close> and \<^verbatim>\<open>str::len\<close>.\<close>

definition utf8 :: "str \<Rightarrow> bytes" where
  "utf8 s = concat (map utf8_char s)"

definition len_utf8 :: "uchar \<Rightarrow> nat" where
  "len_utf8 c = (if c < 0x80 then 1 else if c < 0x800 then 2 else if c < 0x10000 then 3 else 4)"

definition byte_len :: "str \<Rightarrow> nat" where
  "byte_len s = sum_list (map len_utf8 s)"

lemma utf8_simps [simp]:
  "utf8 [] = []"
  "utf8 (c # s) = utf8_char c @ utf8 s"
  "utf8 (s @ t) = utf8 s @ utf8 t"
  by (simp_all add: utf8_def)

lemma byte_len_simps [simp]:
  "byte_len [] = 0"
  "byte_len (c # s) = len_utf8 c + byte_len s"
  "byte_len (s @ t) = byte_len s + byte_len t"
  by (simp_all add: byte_len_def)

lemma length_utf8_char [simp]: "length (utf8_char c) = len_utf8 c"
  by (simp add: utf8_char_def len_utf8_def)

lemma length_utf8 [simp]: "length (utf8 s) = byte_len s"
  by (induction s) auto

lemma len_utf8_bounds: "1 \<le> len_utf8 c" "len_utf8 c \<le> 4"
  by (auto simp: len_utf8_def)

lemma len_utf8_ascii: "is_ascii c \<Longrightarrow> len_utf8 c = 1"
  by (simp add: is_ascii_def len_utf8_def)

lemma length_le_byte_len: "length s \<le> byte_len s"
  by (induction s) (auto simp: len_utf8_def)

lemma byte_len_le_4_length: "byte_len s \<le> 4 * length s"
  by (induction s) (auto simp: len_utf8_def)

lemma byte_len_ascii: "list_all is_ascii s \<Longrightarrow> byte_len s = length s"
  by (induction s) (auto simp: len_utf8_ascii)

text \<open>
  The lead byte tells the length and the continuation bytes the rest, so no character's
  encoding is a prefix of another's.
\<close>

lemma unat_byte_of_nat: "n < 256 \<Longrightarrow> unat (word_of_nat n :: u8) = n"
  by (simp add: unat_of_nat)

definition utf8_codes :: "uchar \<Rightarrow> nat list" where
  "utf8_codes c =
     (if c < 0x80 then [c]
      else if c < 0x800 then [0xC0 + c div 64, 0x80 + c mod 64]
      else if c < 0x10000 then
        [0xE0 + c div 4096, 0x80 + c div 64 mod 64, 0x80 + c mod 64]
      else
        [0xF0 + c div 262144, 0x80 + c div 4096 mod 64,
         0x80 + c div 64 mod 64, 0x80 + c mod 64])"

lemma utf8_char_codes: "utf8_char c = map word_of_nat (utf8_codes c)"
  by (simp add: utf8_char_def utf8_codes_def)

lemma utf8_codes_bytes: "c < 0x200000 \<Longrightarrow> list_all (\<lambda>n. n < 256) (utf8_codes c)"
proof -
  assume "c < 0x200000"
  then have "c div 262144 < 8" by auto
  moreover have "n mod 64 < 128" for n :: nat
    using mod_less_divisor [of 64 n] by linarith
  ultimately show ?thesis by (simp add: utf8_codes_def less_mult_imp_div_less)
qed

lemma map_unat_bytes:
  "list_all (\<lambda>n. n < 256) ns \<Longrightarrow> map unat (map word_of_nat ns :: bytes) = ns"
  by (induction ns) (auto simp: unat_byte_of_nat)

lemma map_unat_utf8_char: "c < 0x200000 \<Longrightarrow> map unat (utf8_char c) = utf8_codes c"
  unfolding utf8_char_codes by (intro map_unat_bytes utf8_codes_bytes)

text \<open>Reading the first character back from its bytes.\<close>

fun utf8_head :: "nat list \<Rightarrow> uchar" where
  "utf8_head [] = 0"
| "utf8_head (a # r) =
     (if a < 0x80 then a
      else if a < 0xE0 then (a - 0xC0) * 64 + (r ! 0 - 0x80)
      else if a < 0xF0 then ((a - 0xE0) * 64 + (r ! 0 - 0x80)) * 64 + (r ! 1 - 0x80)
      else (((a - 0xF0) * 64 + (r ! 0 - 0x80)) * 64 + (r ! 1 - 0x80)) * 64 + (r ! 2 - 0x80))"

lemma utf8_head_codes: "utf8_head (utf8_codes c @ r) = c"
proof -
  have low: "c div 64 * 64 + c mod 64 = c"
    by simp
  have mid: "c div 4096 * 64 + c div 64 mod 64 = c div 64"
    using div_mult_mod_eq [of "c div 64" 64] by (simp add: div_mult2_eq [symmetric])
  have high: "c div 262144 * 64 + c div 4096 mod 64 = c div 4096"
    using div_mult_mod_eq [of "c div 4096" 64] by (simp add: div_mult2_eq [symmetric])
  show ?thesis
    by (simp add: utf8_codes_def utf8_head.simps less_mult_imp_div_less low mid high)
qed

declare utf8_head.simps [simp del]

lemma utf8_codes_prefix_free:
  "utf8_codes c @ r = utf8_codes d @ s \<Longrightarrow> c = d"
  by (metis utf8_head_codes)

lemma utf8_char_prefix_free:
  assumes "c < 0x200000" "d < 0x200000" "utf8_char c @ r = utf8_char d @ s"
  shows "c = d \<and> r = s"
proof -
  have "utf8_codes c @ map unat r = utf8_codes d @ map unat s"
    using arg_cong [OF assms(3), of "map unat"] assms(1,2) by (simp add: map_unat_utf8_char)
  then have "c = d" by (rule utf8_codes_prefix_free)
  with assms(3) show ?thesis by simp
qed

lemma is_scalar_bound: "is_scalar c \<Longrightarrow> c < 0x200000"
  by (auto simp: is_scalar_def)

interpretation utf8_code: visible_prefix_code utf8_char is_scalar
proof unfold_locales
  fix x y r s
  assume "is_scalar x" "is_scalar y" "utf8_char x @ r = utf8_char y @ s"
  then show "x = y \<and> r = s"
    by (intro utf8_char_prefix_free) (simp_all add: is_scalar_bound)
next
  fix x
  show "utf8_char x \<noteq> []" by (simp add: utf8_char_def)
qed

lemma utf8_inj: "valid_str s \<Longrightarrow> valid_str t \<Longrightarrow> utf8 s = utf8 t \<Longrightarrow> s = t"
  unfolding valid_str_def utf8_def by (rule utf8_code.concat_inj)

text \<open>
  \<^verbatim>\<open>String::from_utf8\<close>: strict, so a character is read only when the bytes are exactly its
  encoding; overlong forms, surrogates and truncated sequences are errors.
\<close>

fun utf8_decode :: "nat list \<Rightarrow> str option" where
  "utf8_decode [] = Some []"
| "utf8_decode (a # r) =
     (let c = utf8_head (a # r); k = length (utf8_codes c) - 1
      in if is_scalar c \<and> a # take k r = utf8_codes c
         then map_option ((#) c) (utf8_decode (drop k r)) else None)"

definition from_utf8 :: "bytes \<Rightarrow> str option" where
  "from_utf8 bs = utf8_decode (map unat bs)"

lemma utf8_codes_nonempty [simp]: "utf8_codes c \<noteq> []"
  by (simp add: utf8_codes_def)

lemma utf8_decode_step:
  assumes "is_scalar c"
  shows "utf8_decode (utf8_codes c @ r) = map_option ((#) c) (utf8_decode r)"
proof -
  obtain a cs where codes: "utf8_codes c = a # cs" by (cases "utf8_codes c") auto
  have "utf8_head (a # cs @ r) = c" using utf8_head_codes [of c r] codes by simp
  then show ?thesis using assms codes by simp
qed

lemma utf8_decode_encode:
  "valid_str s \<Longrightarrow> utf8_decode (concat (map utf8_codes s)) = Some s"
  by (induction s) (auto simp: valid_str_def utf8_decode_step)

lemma utf8_decode_sound:
  "utf8_decode ns = Some s \<Longrightarrow> valid_str s \<and> concat (map utf8_codes s) = ns"
proof (induction ns arbitrary: s rule: utf8_decode.induct)
  case 1
  then show ?case by (auto simp: valid_str_def)
next
  case (2 a r)
  let ?c = "utf8_head (a # r)"
  let ?k = "length (utf8_codes ?c) - 1"
  obtain t where c: "is_scalar ?c" and a: "a # take ?k r = utf8_codes ?c"
    and t: "utf8_decode (drop ?k r) = Some t" "s = ?c # t"
    using "2.prems" by (auto simp: Let_def split: if_splits)
  have IH: "valid_str t \<and> concat (map utf8_codes t) = drop ?k r"
    using "2.IH" [OF refl refl conjI [OF c a] t(1)] .
  have "concat (map utf8_codes s) = utf8_codes ?c @ drop ?k r"
    using IH t(2) by simp
  also have "\<dots> = (a # take ?k r) @ drop ?k r"
    by (rule arg_cong [OF a [symmetric]])
  also have "\<dots> = a # r" by simp
  finally have "concat (map utf8_codes s) = a # r" .
  then show ?case using IH c t(2) by (simp add: valid_str_def)
qed

lemma map_unat_utf8: "valid_str s \<Longrightarrow> map unat (utf8 s) = concat (map utf8_codes s)"
  by (induction s) (auto simp: valid_str_def map_unat_utf8_char is_scalar_bound)

lemma from_utf8_utf8 [simp]: "valid_str s \<Longrightarrow> from_utf8 (utf8 s) = Some s"
  by (simp add: from_utf8_def map_unat_utf8 utf8_decode_encode)

lemma from_utf8_SomeD: "from_utf8 bs = Some s \<Longrightarrow> valid_str s \<and> utf8 s = bs"
proof -
  assume "from_utf8 bs = Some s"
  then have s: "valid_str s" "concat (map utf8_codes s) = map unat bs"
    using utf8_decode_sound by (auto simp: from_utf8_def)
  then have "map unat (utf8 s) = map unat bs" by (simp add: map_unat_utf8)
  then have "utf8 s = bs"
    by (simp add: inj_map_eq_map inj_def word_unat_eq_iff)
  with s show ?thesis by simp
qed

section \<open>Trimming, splitting and searching\<close>

text \<open>\<^verbatim>\<open>trim_matches\<close> with a predicate; \<^verbatim>\<open>trim\<close> is the instance at white space.\<close>

definition trim_start_by :: "(uchar \<Rightarrow> bool) \<Rightarrow> str \<Rightarrow> str" where
  "trim_start_by p s = dropWhile p s"

definition trim_end_by :: "(uchar \<Rightarrow> bool) \<Rightarrow> str \<Rightarrow> str" where
  "trim_end_by p s = rev (dropWhile p (rev s))"

definition trim_matches :: "(uchar \<Rightarrow> bool) \<Rightarrow> str \<Rightarrow> str" where
  "trim_matches p s = trim_end_by p (trim_start_by p s)"

definition trim :: "str \<Rightarrow> str" where
  "trim s = trim_matches is_whitespace s"

text \<open>\<^verbatim>\<open>s.split(c)\<close> always has a first part, the whole string when \<open>c\<close> is absent.\<close>

fun split_on :: "uchar \<Rightarrow> str \<Rightarrow> str list" where
  "split_on c [] = [[]]"
| "split_on c (x # xs) =
     (if x = c then [] # split_on c xs
      else (case split_on c xs of [] \<Rightarrow> [[x]] | p # ps \<Rightarrow> (x # p) # ps))"

definition split_once :: "uchar \<Rightarrow> str \<Rightarrow> (str \<times> str) option" where
  "split_once c s =
     (if c \<in> set s then Some (takeWhile (\<lambda>x. x \<noteq> c) s, drop 1 (dropWhile (\<lambda>x. x \<noteq> c) s))
      else None)"

fun strip_prefix :: "str \<Rightarrow> str \<Rightarrow> str option" where
  "strip_prefix [] s = Some s"
| "strip_prefix (p # ps) [] = None"
| "strip_prefix (p # ps) (x # xs) = (if p = x then strip_prefix ps xs else None)"

definition starts_with :: "str \<Rightarrow> str \<Rightarrow> bool" where
  "starts_with p s \<longleftrightarrow> strip_prefix p s \<noteq> None"

fun str_contains :: "str \<Rightarrow> str \<Rightarrow> bool" where
  "str_contains p [] = (p = [])"
| "str_contains p (x # xs) = (starts_with p (x # xs) \<or> str_contains p xs)"

text \<open>\<^verbatim>\<open>s.find(c)\<close> with a character: the index of its first byte.\<close>

definition find_char :: "uchar \<Rightarrow> str \<Rightarrow> nat option" where
  "find_char c s =
     (if c \<in> set s then Some (byte_len (takeWhile (\<lambda>x. x \<noteq> c) s)) else None)"

text \<open>
  \<^verbatim>\<open>&s[..n]\<close> and \<^verbatim>\<open>&s[n..]\<close> at a byte index on a character boundary. Off a boundary
  Rust panics; the indices the sources slice at come from \<^verbatim>\<open>find\<close> and are boundaries.
\<close>

fun slice_to :: "nat \<Rightarrow> str \<Rightarrow> str" where
  "slice_to n [] = []"
| "slice_to n (c # s) = (if len_utf8 c \<le> n then c # slice_to (n - len_utf8 c) s else [])"

fun slice_from :: "nat \<Rightarrow> str \<Rightarrow> str" where
  "slice_from n [] = []"
| "slice_from n (c # s) = (if len_utf8 c \<le> n then slice_from (n - len_utf8 c) s else c # s)"

text \<open>\<^verbatim>\<open>s.matches(p).count()\<close>: occurrences that do not overlap, from the left.\<close>

fun count_matches_aux :: "str \<Rightarrow> nat \<Rightarrow> str \<Rightarrow> nat" where
  "count_matches_aux p skip [] = 0"
| "count_matches_aux p skip (x # xs) =
     (case skip of
        Suc k \<Rightarrow> count_matches_aux p k xs
      | 0 \<Rightarrow> if starts_with p (x # xs) then Suc (count_matches_aux p (length p - 1) xs)
             else count_matches_aux p 0 xs)"

definition count_matches :: "str \<Rightarrow> str \<Rightarrow> nat" where
  "count_matches p s = count_matches_aux p 0 s"

text \<open>
  \<^verbatim>\<open>str::lines\<close>: the parts between line feeds, each without a final carriage return; the
  part after the last line feed is a line only when it is not empty, and keeps its own.
\<close>

definition strip_cr :: "str \<Rightarrow> str" where
  "strip_cr l = (if l \<noteq> [] \<and> last l = 13 then butlast l else l)"

definition str_lines :: "str \<Rightarrow> str list" where
  "str_lines s =
     (let parts = split_on 10 s
      in map strip_cr (butlast parts) @ (if last parts = [] then [] else [last parts]))"

lemma trim_start_by_props:
  "trim_start_by p s = [] \<or> \<not> p (hd (trim_start_by p s))"
  using hd_dropWhile [of p s] by (auto simp: trim_start_by_def)

lemma trim_matches_Nil [simp]: "trim_matches p [] = []"
  by (simp add: trim_matches_def trim_end_by_def trim_start_by_def)

lemma dropWhile_hd: "s = [] \<or> \<not> p (hd s) \<Longrightarrow> dropWhile p s = s"
  by (cases s) auto

lemma trim_matches_stable:
  assumes "s \<noteq> [] \<Longrightarrow> \<not> p (hd s)" "s \<noteq> [] \<Longrightarrow> \<not> p (last s)"
  shows "trim_matches p s = s"
proof -
  have "dropWhile p s = s" using assms(1) by (intro dropWhile_hd) auto
  moreover have "dropWhile p (rev s) = rev s"
    using assms(2) by (intro dropWhile_hd) (auto simp: hd_rev)
  ultimately show ?thesis by (simp add: trim_matches_def trim_end_by_def trim_start_by_def)
qed

lemma trim_end_by_append:
  "\<exists>t. s = trim_end_by p s @ t \<and> list_all p t"
proof (intro exI conjI)
  show "s = trim_end_by p s @ rev (takeWhile p (rev s))"
    by (metis rev_append rev_rev_ident takeWhile_dropWhile_id trim_end_by_def)
  show "list_all p (rev (takeWhile p (rev s)))"
    by (auto simp: list_all_iff dest: set_takeWhileD)
qed

lemma trim_matches_set: "set (trim_matches p s) \<subseteq> set s"
  unfolding trim_matches_def trim_end_by_def trim_start_by_def
  by (auto dest!: set_dropWhileD)

lemma trim_matches_ends:
  assumes "trim_matches p s \<noteq> []"
  shows "\<not> p (hd (trim_matches p s))" "\<not> p (last (trim_matches p s))"
proof -
  obtain t where t: "trim_start_by p s = trim_matches p s @ t"
    using trim_end_by_append [of "trim_start_by p s" p] by (auto simp: trim_matches_def)
  then have "hd (trim_start_by p s) = hd (trim_matches p s)" using assms by simp
  moreover have "trim_start_by p s \<noteq> []" using t assms by auto
  ultimately show "\<not> p (hd (trim_matches p s))"
    using trim_start_by_props [of p s] by auto
  show "\<not> p (last (trim_matches p s))"
    using assms hd_dropWhile [of p "rev (trim_start_by p s)"]
    by (auto simp: trim_matches_def trim_end_by_def last_rev)
qed

lemma trim_matches_idem [simp]: "trim_matches p (trim_matches p s) = trim_matches p s"
  by (rule trim_matches_stable) (use trim_matches_ends in blast)+

lemma trim_idem [simp]: "trim (trim s) = trim s"
  by (simp add: trim_def)

lemma trim_Nil [simp]: "trim [] = []"
  by (simp add: trim_def)

lemma split_on_nonempty [simp]: "split_on c s \<noteq> []"
  by (induction s) (auto split: list.splits)

lemma split_on_absent: "c \<notin> set s \<Longrightarrow> split_on c s = [s]"
  by (induction s) auto

lemma split_on_append: "split_on c (s @ c # t) = split_on c s @ split_on c t"
  by (induction s) (auto split: list.splits)

lemma split_on_free: "p \<in> set (split_on c s) \<Longrightarrow> c \<notin> set p"
  by (induction s arbitrary: p) (auto split: list.splits if_splits)

lemma split_on_set: "p \<in> set (split_on c s) \<Longrightarrow> set p \<subseteq> set s"
proof (induction s arbitrary: p)
  case Nil
  then show ?case by simp
next
  case (Cons a s)
  then show ?case by (fastforce split: list.splits if_splits)
qed

lemma split_once_SomeD:
  "split_once c s = Some (a, b) \<Longrightarrow> s = a @ c # b \<and> c \<notin> set a"
proof -
  assume "split_once c s = Some (a, b)"
  then have c: "c \<in> set s" and a: "a = takeWhile (\<lambda>x. x \<noteq> c) s"
    and b: "b = drop 1 (dropWhile (\<lambda>x. x \<noteq> c) s)"
    by (auto simp: split_once_def split: if_splits)
  have "dropWhile (\<lambda>x. x \<noteq> c) s \<noteq> []" using c by (simp add: dropWhile_eq_Nil_conv)
  then have "dropWhile (\<lambda>x. x \<noteq> c) s = c # b"
    using b hd_dropWhile [of "\<lambda>x. x \<noteq> c" s] by (cases "dropWhile (\<lambda>x. x \<noteq> c) s") auto
  then show ?thesis
    using a takeWhile_dropWhile_id [of "\<lambda>x. x \<noteq> c" s] by (auto dest: set_takeWhileD)
qed

lemma split_once_append: "c \<notin> set a \<Longrightarrow> split_once c (a @ c # b) = Some (a, b)"
  by (simp add: split_once_def takeWhile_append dropWhile_append)

lemma split_once_None_iff: "split_once c s = None \<longleftrightarrow> c \<notin> set s"
  by (simp add: split_once_def)

lemma strip_prefix_Some_iff: "strip_prefix p s = Some t \<longleftrightarrow> s = p @ t"
  by (induction p s rule: strip_prefix.induct) auto

lemma starts_with_iff: "starts_with p s \<longleftrightarrow> (\<exists>t. s = p @ t)"
  by (simp add: starts_with_def strip_prefix_Some_iff)

lemma str_contains_iff: "str_contains p s \<longleftrightarrow> (\<exists>a b. s = a @ p @ b)"
proof (induction s)
  case Nil
  then show ?case by auto
next
  case (Cons x xs)
  show ?case
  proof
    assume "str_contains p (x # xs)"
    then consider t where "x # xs = p @ t" | a b where "xs = a @ p @ b"
      using Cons.IH by (auto simp: starts_with_iff)
    then show "\<exists>a b. x # xs = a @ p @ b"
    proof cases
      case 1
      then have "x # xs = [] @ p @ t" by simp
      then show ?thesis by blast
    next
      case 2
      then have "x # xs = (x # a) @ p @ b" by simp
      then show ?thesis by blast
    qed
  next
    assume "\<exists>a b. x # xs = a @ p @ b"
    then obtain a b where ab: "x # xs = a @ p @ b" by blast
    show "str_contains p (x # xs)"
    proof (cases a)
      case Nil
      with ab have "starts_with p (x # xs)" by (simp add: starts_with_iff)
      then show ?thesis by simp
    next
      case (Cons y ys)
      with ab Cons.IH show ?thesis by auto
    qed
  qed
qed

lemma slice_zero [simp]: "slice_to 0 s = []" "slice_from 0 s = s"
  using len_utf8_bounds(1) by (cases s; force simp: len_utf8_def)+

lemma slice_to_append: "slice_to (byte_len s) (s @ t) = s"
  by (induction s) auto

lemma slice_from_append: "slice_from (byte_len s) (s @ t) = t"
  by (induction s) auto

text \<open>A literal of several lines.\<close>

definition page_text :: "string list \<Rightarrow> str" where
  "page_text rows = concat (map (\<lambda>row. lit row @ [10]) (butlast rows)) @ lit (last rows)"

text \<open>The equations that evaluate string operations on literals.\<close>

lemmas text_eval =
  lit_def trim_def trim_matches_def trim_start_by_def trim_end_by_def is_whitespace_def
  is_ascii_def is_ascii_digit_def is_ascii_lowercase_def is_ascii_uppercase_def is_control_def
  to_ascii_lower_def split_once_def starts_with_def eq_ignore_ascii_case_def len_utf8_def

end
