(* ===== verification/Rust_Numbers.thy ===== *)
theory Rust_Numbers
  imports Rust_Text
begin

text \<open>
  Numbers as text and as bytes: \<^verbatim>\<open>from_str_radix\<close> and \<^verbatim>\<open>parse\<close> on unsigned integers,
  decimal display, lower-case hex, big-endian bytes, and the length-prefixed fields
  built from them.
\<close>

section \<open>Parsing unsigned integers\<close>

text \<open>\<^verbatim>\<open>char::to_digit\<close>, for a radix of at most 36.\<close>

definition to_digit :: "nat \<Rightarrow> uchar \<Rightarrow> nat option" where
  "to_digit radix c =
     (let d = (if is_ascii_digit c then Some (c - 48)
               else if is_ascii_lowercase c then Some (c - 87)
               else if is_ascii_uppercase c then Some (c - 55)
               else None)
      in case d of None \<Rightarrow> None | Some n \<Rightarrow> if n < radix then Some n else None)"

text \<open>
  The digit loop of \<^verbatim>\<open>from_str_radix\<close> for a type with \<open>bound\<close> values: a multiplication
  or an addition that would overflow is an error, as a character that is no digit is.
\<close>

fun parse_digits :: "nat \<Rightarrow> nat \<Rightarrow> nat \<Rightarrow> str \<Rightarrow> nat option" where
  "parse_digits radix bound acc [] = Some acc"
| "parse_digits radix bound acc (c # cs) =
     (case to_digit radix c of
        None \<Rightarrow> None
      | Some d \<Rightarrow>
          if acc * radix + d < bound then parse_digits radix bound (acc * radix + d) cs
          else None)"

text \<open>
  One leading plus sign is skipped; the empty string and a lone sign are errors, and an
  unsigned type has no minus sign, so \<^verbatim>\<open>-\<close> is not a digit.
\<close>

definition parse_uint :: "nat \<Rightarrow> nat \<Rightarrow> str \<Rightarrow> nat option" where
  "parse_uint radix bound s =
     (let digits = (case s of [] \<Rightarrow> [] | c # cs \<Rightarrow> if c = uc CHR ''+'' then cs else s)
      in if digits = [] then None else parse_digits radix bound 0 digits)"

lemma parse_digits_bound:
  "parse_digits radix bound acc s = Some n \<Longrightarrow> acc < bound \<Longrightarrow> n < bound"
  by (induction radix bound acc s rule: parse_digits.induct)
     (auto split: option.splits if_splits)

lemma parse_uint_bound: "parse_uint radix bound s = Some n \<Longrightarrow> 0 < bound \<Longrightarrow> n < bound"
  unfolding parse_uint_def Let_def
  by (auto split: if_splits dest: parse_digits_bound)

lemma parse_digits_append:
  "parse_digits radix bound acc (s @ t) =
     Option.bind (parse_digits radix bound acc s) (\<lambda>n. parse_digits radix bound n t)"
  by (induction radix bound acc s rule: parse_digits.induct) (auto split: option.splits)

section \<open>Decimal display\<close>

fun show_nat :: "nat \<Rightarrow> str" where
  "show_nat n = (if n < 10 then [48 + n] else show_nat (n div 10) @ [48 + n mod 10])"

declare show_nat.simps [simp del]

lemma to_digit_decimal: "n < 10 \<Longrightarrow> to_digit 10 (48 + n) = Some n"
  by (simp add: to_digit_def is_ascii_digit_def)

lemma parse_digits_show: "n < bound \<Longrightarrow> parse_digits 10 bound 0 (show_nat n) = Some n"
proof (induction n rule: show_nat.induct)
  case (1 n)
  show ?case
  proof (cases "n < 10")
    case True
    with "1.prems" show ?thesis
      by (subst show_nat.simps) (simp add: to_digit_decimal)
  next
    case False
    then have "parse_digits 10 bound 0 (show_nat (n div 10)) = Some (n div 10)"
      using "1.IH" "1.prems" by simp
    moreover have "n div 10 * 10 + n mod 10 = n" by simp
    ultimately show ?thesis using False "1.prems"
      by (subst show_nat.simps)
         (simp add: parse_digits_append to_digit_decimal mult.commute)
  qed
qed

lemma show_nat_digits: "c \<in> set (show_nat n) \<Longrightarrow> is_ascii_digit c"
proof (induction n rule: show_nat.induct)
  case (1 n)
  have "n mod 10 < 10" by simp
  then show ?case
    using 1 by (subst (asm) show_nat.simps) (auto simp: is_ascii_digit_def split: if_splits)
qed

lemma show_nat_nonempty [simp]: "show_nat n \<noteq> []"
  by (subst show_nat.simps) simp

lemma parse_uint_show: "n < bound \<Longrightarrow> parse_uint 10 bound (show_nat n) = Some n"
proof -
  assume "n < bound"
  moreover have "hd (show_nat n) \<noteq> 43"
    using show_nat_digits [of "hd (show_nat n)" n] by (auto simp: is_ascii_digit_def)
  ultimately show ?thesis
    using parse_digits_show [of n bound]
    by (cases "show_nat n") (auto simp: parse_uint_def)
qed

lemma length_show_nat: "n < 10 ^ Suc k \<Longrightarrow> length (show_nat n) \<le> Suc k"
proof (induction k arbitrary: n)
  case 0
  then show ?case by (subst show_nat.simps) simp
next
  case (Suc k)
  then have "n div 10 < 10 ^ Suc k" by (simp add: less_mult_imp_div_less)
  then show ?case using Suc.IH by (subst show_nat.simps) simp
qed

section \<open>Hexadecimal and big-endian bytes\<close>

definition hex_digit :: "nat \<Rightarrow> uchar" where
  "hex_digit n = (if n < 10 then 48 + n else 87 + n)"

text \<open>\<^verbatim>\<open>format!("{byte:02x}")\<close>.\<close>

definition hex_byte :: "u8 \<Rightarrow> str" where
  "hex_byte b = [hex_digit (unat b div 16), hex_digit (unat b mod 16)]"

definition to_hex :: "bytes \<Rightarrow> str" where
  "to_hex bs = concat (map hex_byte bs)"

text \<open>\<^verbatim>\<open>u64::to_be_bytes\<close>, of a value given as a natural number.\<close>

definition be_bytes :: "nat \<Rightarrow> nat \<Rightarrow> bytes" where
  "be_bytes k n = map (\<lambda>i. word_of_nat (n div 256 ^ i)) (rev [0..<k])"

lemma unat_byte_less: "unat (b :: u8) < 256"
  using unsigned_less [of b] by simp

lemma hex_digit_inj: "a < 16 \<Longrightarrow> b < 16 \<Longrightarrow> hex_digit a = hex_digit b \<Longrightarrow> a = b"
  by (auto simp: hex_digit_def split: if_splits)

lemma hex_byte_inj: "hex_byte a = hex_byte b \<Longrightarrow> a = b"
proof -
  assume eq: "hex_byte a = hex_byte b"
  have "unat a div 16 < 16" "unat b div 16 < 16"
    using unat_byte_less [of a] unat_byte_less [of b] by auto
  with eq have "unat a div 16 = unat b div 16" "unat a mod 16 = unat b mod 16"
    by (auto simp: hex_byte_def intro: hex_digit_inj)
  then have "unat a = unat b" by (metis div_mult_mod_eq)
  then show ?thesis by (rule unsigned_word_eqI)
qed

interpretation hex_code: visible_prefix_code hex_byte "\<lambda>_. True"
proof unfold_locales
  fix x y :: u8 and r s
  assume "hex_byte x @ r = hex_byte y @ s"
  then have "hex_byte x = hex_byte y \<and> r = s" by (simp add: hex_byte_def)
  then show "x = y \<and> r = s" using hex_byte_inj by blast
next
  show "hex_byte x \<noteq> []" for x by (simp add: hex_byte_def)
qed

lemma to_hex_inj: "to_hex a = to_hex b \<Longrightarrow> a = b"
  unfolding to_hex_def by (rule hex_code.concat_inj) (simp_all add: list_all_iff)

lemma length_to_hex [simp]: "length (to_hex bs) = 2 * length bs"
  by (induction bs) (auto simp: to_hex_def hex_byte_def)

lemma to_hex_chars: "c \<in> set (to_hex bs) \<Longrightarrow> is_ascii_digit c \<or> (97 \<le> c \<and> c \<le> 102)"
proof -
  assume "c \<in> set (to_hex bs)"
  then obtain b :: u8 where "c \<in> set (hex_byte b)" by (auto simp: to_hex_def)
  moreover have "unat b div 16 < 16" using unat_byte_less [of b] by auto
  moreover have "unat b mod 16 < 16" by simp
  ultimately show ?thesis
    unfolding hex_byte_def
    by (auto simp: hex_digit_def is_ascii_digit_def split: if_splits)
qed

lemma to_hex_ascii: "list_all is_ascii (to_hex bs)"
  using to_hex_chars by (fastforce simp: list_all_iff is_ascii_def is_ascii_digit_def)

lemma to_hex_valid: "valid_str (to_hex bs)"
  using to_hex_ascii [of bs] by (auto simp: valid_str_def list_all_iff is_ascii_def is_scalar_def)

lemma length_be_bytes [simp]: "length (be_bytes k n) = k"
  by (simp add: be_bytes_def)

lemma be_bytes_inj:
  "m < 256 ^ k \<Longrightarrow> n < 256 ^ k \<Longrightarrow> be_bytes k m = be_bytes k n \<Longrightarrow> m = n"
proof (induction k arbitrary: m n)
  case 0
  then show ?case by simp
next
  case (Suc k)
  have low: "be_bytes (Suc k) x = be_bytes k (x div 256) @ [word_of_nat x]" for x
    by (simp add: be_bytes_def upt_conv_Cons rev_map div_mult2_eq del: upt_Suc
        flip: map_Suc_upt)
  from Suc.prems(3) have "be_bytes k (m div 256) = be_bytes k (n div 256)"
    and "(word_of_nat m :: u8) = word_of_nat n" by (simp_all add: low)
  moreover from this(2) have "m mod 256 = n mod 256"
    by (simp add: word_of_nat_eq_iff take_bit_eq_mod)
  moreover have "m div 256 < 256 ^ k" "n div 256 < 256 ^ k"
    using Suc.prems(1,2) by (simp_all add: less_mult_imp_div_less mult.commute)
  ultimately have "m div 256 = n div 256" "m mod 256 = n mod 256"
    using Suc.IH by blast+
  then show ?case by (metis div_mult_mod_eq)
qed

text \<open>A field preceded by its length in eight bytes: where one ends, its length says.\<close>

definition length_prefixed :: "bytes \<Rightarrow> bytes" where
  "length_prefixed bs = be_bytes 8 (length bs) @ bs"

interpretation field_code: visible_prefix_code length_prefixed "\<lambda>bs. length bs < 2 ^ 64"
proof unfold_locales
  fix x y r s :: bytes
  assume bounds: "length x < 2 ^ 64" "length y < 2 ^ 64"
    and eq: "length_prefixed x @ r = length_prefixed y @ s"
  then have "be_bytes 8 (length x) = be_bytes 8 (length y)" and rest: "x @ r = y @ s"
    by (auto simp: length_prefixed_def)
  then have "length x = length y"
    using bounds be_bytes_inj [of "length x" 8 "length y"] by simp
  with rest show "x = y \<and> r = s" by simp
next
  show "length_prefixed x \<noteq> []" for x :: bytes
    using length_be_bytes [of 8 "length x"]
    by (auto simp: length_prefixed_def simp del: length_be_bytes)
qed

end
