(* ===== verification/Contracts.thy ===== *)
theory Contracts
  imports Rust_Numbers
begin

text \<open>
  \<^verbatim>\<open>contracts/src/lib.rs\<close> and \<^verbatim>\<open>contracts/src/limits.rs\<close>: the error every wire contract
  reports, and the ceilings both stages enforce.
\<close>

named_theorems limit_defs \<open>the numeric ceilings\<close>

section \<open>Contract errors\<close>

datatype contract_error = ContractError (message: str)

definition contract_error_new :: "str \<Rightarrow> contract_error" where
  "contract_error_new m = ContractError m"

text \<open>\<^verbatim>\<open>Err(ContractError::new("..."))\<close> with a fixed message.\<close>

definition refuse :: "string \<Rightarrow> contract_error + 'a" where
  "refuse s = Inl (contract_error_new (lit s))"

text \<open>The same with text appended, as \<^verbatim>\<open>format!("...: {error}")\<close> does.\<close>

definition refuse_with :: "string \<Rightarrow> str \<Rightarrow> contract_error + 'a" where
  "refuse_with s t = Inl (contract_error_new (lit s @ t))"

definition context_err :: "string \<Rightarrow> str + 'a \<Rightarrow> contract_error + 'a" where
  "context_err s m = map_err (\<lambda>e. contract_error_new (lit s @ e)) m"

lemma refuse_not_Ok [simp]: "refuse s \<noteq> Inr a" "refuse_with s t \<noteq> Inr a"
  by (simp_all add: refuse_def refuse_with_def)

lemma Ok_not_refuse [simp]: "Inr a \<noteq> refuse s" "Inr a \<noteq> refuse_with s t"
  by (simp_all add: refuse_def refuse_with_def)

lemma is_ok_refuse [simp]: "\<not> is_ok (refuse s)" "\<not> is_ok (refuse_with s t)"
  by (simp_all add: refuse_def refuse_with_def)

lemma and_then_refuse [simp]:
  "and_then (refuse s) f = refuse s" "and_then (refuse_with s t) f = refuse_with s t"
  by (simp_all add: refuse_def refuse_with_def)

lemma context_err_Ok_iff [result_iffs]: "context_err s m = Inr a \<longleftrightarrow> m = Inr a"
  by (simp add: context_err_def result_iffs)

section \<open>Limits\<close>

definition MAX_REDIRECTS :: u32 where
  [limit_defs]: "MAX_REDIRECTS = 3"

definition MAX_HEADER_BYTES :: nat where
  [limit_defs]: "MAX_HEADER_BYTES = 32 * 1024"

definition MAX_WIRE_BYTES :: nat where
  [limit_defs]: "MAX_WIRE_BYTES = 1024 * 1024"

definition MAX_DECODED_BYTES :: nat where
  [limit_defs]: "MAX_DECODED_BYTES = 1024 * 1024"

definition MAX_DECODE_EXPANSION :: nat where
  [limit_defs]: "MAX_DECODE_EXPANSION = 64"

definition MAX_SCAN_INPUT_BYTES :: nat where
  [limit_defs]: "MAX_SCAN_INPUT_BYTES = 8 * 1024 * 1024"

definition MAX_CONTENT_CHARS :: nat where
  [limit_defs]: "MAX_CONTENT_CHARS = 1024 * 1024"

definition FETCH_DEADLINE_SECONDS :: nat where
  [limit_defs]: "FETCH_DEADLINE_SECONDS = 15"

definition INSPECTION_DEADLINE_SECONDS :: nat where
  [limit_defs]: "INSPECTION_DEADLINE_SECONDS = 5"

definition MAX_URL_CHARS :: nat where
  [limit_defs]: "MAX_URL_CHARS = 2048"

definition MAX_CONTENT_TYPE_CHARS :: nat where
  [limit_defs]: "MAX_CONTENT_TYPE_CHARS = 200"

definition MAX_SCAN_MATCHES :: nat where
  [limit_defs]: "MAX_SCAN_MATCHES = 32"

text \<open>\<^verbatim>\<open>Duration\<close> values are nanoseconds.\<close>

type_synonym duration = nat

definition from_secs :: "nat \<Rightarrow> duration" where
  "from_secs s = s * 1000000000"

end
