(* ===== verification/Rust_Net.thy ===== *)
theory Rust_Net
  imports Rust_Numbers
begin

text \<open>
  What the workers use of \<^verbatim>\<open>std::net\<close>: addresses as their octets and segments, the
  predicates on them, and the reader of textual addresses.
\<close>

section \<open>Addresses\<close>

datatype ipv4_addr = Ipv4 u8 u8 u8 u8

datatype ipv6_addr = Ipv6 u16 u16 u16 u16 u16 u16 u16 u16

datatype ip_addr = V4 ipv4_addr | V6 ipv6_addr

record socket_addr =
  sa_ip :: ip_addr
  sa_port :: u16

text \<open>\<^verbatim>\<open>u16::to_be_bytes\<close> and \<^verbatim>\<open>u16::from_be_bytes\<close>.\<close>

definition u16_bytes :: "u16 \<Rightarrow> bytes" where
  "u16_bytes w = [ucast (drop_bit 8 w), ucast w]"

definition u16_of :: "u8 \<Rightarrow> u8 \<Rightarrow> u16" where
  "u16_of hi lo = or (push_bit 8 (ucast hi)) (ucast lo)"

fun octets4 :: "ipv4_addr \<Rightarrow> bytes" where
  "octets4 (Ipv4 a b c d) = [a, b, c, d]"

fun segments :: "ipv6_addr \<Rightarrow> u16 list" where
  "segments (Ipv6 a b c d e f g h) = [a, b, c, d, e, f, g, h]"

definition octets6 :: "ipv6_addr \<Rightarrow> bytes" where
  "octets6 v = concat (map u16_bytes (segments v))"

fun octets :: "ip_addr \<Rightarrow> bytes" where
  "octets (V4 v) = octets4 v"
| "octets (V6 v) = octets6 v"

fun is_ipv4 :: "ip_addr \<Rightarrow> bool" where
  "is_ipv4 (V4 v) = True"
| "is_ipv4 (V6 v) = False"

definition is_unspecified4 :: "ipv4_addr \<Rightarrow> bool" where
  "is_unspecified4 v \<longleftrightarrow> octets4 v = [0, 0, 0, 0]"

definition is_loopback4 :: "ipv4_addr \<Rightarrow> bool" where
  "is_loopback4 v \<longleftrightarrow> octets4 v ! 0 = 127"

fun is_private4 :: "ipv4_addr \<Rightarrow> bool" where
  "is_private4 (Ipv4 a b c d) \<longleftrightarrow>
     a = 10 \<or> (a = 172 \<and> b \<ge> 16 \<and> b \<le> 31) \<or> (a = 192 \<and> b = 168)"

fun is_link_local4 :: "ipv4_addr \<Rightarrow> bool" where
  "is_link_local4 (Ipv4 a b c d) \<longleftrightarrow> a = 169 \<and> b = 254"

fun is_multicast4 :: "ipv4_addr \<Rightarrow> bool" where
  "is_multicast4 (Ipv4 a b c d) \<longleftrightarrow> a \<ge> 224 \<and> a \<le> 239"

definition is_broadcast4 :: "ipv4_addr \<Rightarrow> bool" where
  "is_broadcast4 v \<longleftrightarrow> octets4 v = [255, 255, 255, 255]"

fun is_documentation4 :: "ipv4_addr \<Rightarrow> bool" where
  "is_documentation4 (Ipv4 a b c d) \<longleftrightarrow>
     (a = 192 \<and> b = 0 \<and> c = 2) \<or> (a = 198 \<and> b = 51 \<and> c = 100) \<or> (a = 203 \<and> b = 0 \<and> c = 113)"

definition is_unspecified6 :: "ipv6_addr \<Rightarrow> bool" where
  "is_unspecified6 v \<longleftrightarrow> segments v = [0, 0, 0, 0, 0, 0, 0, 0]"

definition is_loopback6 :: "ipv6_addr \<Rightarrow> bool" where
  "is_loopback6 v \<longleftrightarrow> segments v = [0, 0, 0, 0, 0, 0, 0, 1]"

definition is_multicast6 :: "ipv6_addr \<Rightarrow> bool" where
  "is_multicast6 v \<longleftrightarrow> and (segments v ! 0) 0xff00 = 0xff00"

fun is_loopback :: "ip_addr \<Rightarrow> bool" where
  "is_loopback (V4 v) = is_loopback4 v"
| "is_loopback (V6 v) = is_loopback6 v"

fun to_ipv4_mapped :: "ipv6_addr \<Rightarrow> ipv4_addr option" where
  "to_ipv4_mapped (Ipv6 s0 s1 s2 s3 s4 s5 s6 s7) =
     (if [s0, s1, s2, s3, s4, s5] = [0, 0, 0, 0, 0, 0xffff]
      then Some (Ipv4 (ucast (drop_bit 8 s6)) (ucast s6) (ucast (drop_bit 8 s7)) (ucast s7))
      else None)"

lemma length_octets [simp]: "length (octets4 v) = 4" "length (segments w) = 8"
  by (cases v; simp) (cases w; simp)

lemma length_octets6 [simp]: "length (octets6 w) = 16"
  by (cases w) (simp add: octets6_def u16_bytes_def)

lemma u16_of_bytes [simp]:
  "ucast (drop_bit 8 (u16_of hi lo)) = hi" "ucast (u16_of hi lo) = lo"
  unfolding u16_of_def
  by (rule bit_word_eqI; auto simp: bit_simps dest: bit_imp_le_length)+

section \<open>Reading addresses\<close>

text \<open>
  A reader takes a value off the front of the text or fails and takes nothing
  (\<^verbatim>\<open>read_atomically\<close>). A number has at most \<open>max\<close> digits, and a decimal octet no
  superfluous zero.
\<close>

type_synonym 'a reader = "str \<Rightarrow> ('a \<times> str) option"

fun read_digits :: "nat \<Rightarrow> nat \<Rightarrow> nat \<Rightarrow> str \<Rightarrow> (nat \<times> nat \<times> str) option" where
  "read_digits radix k n [] = Some (n, 0, [])"
| "read_digits radix k n (c # cs) =
     (case to_digit radix c of
        None \<Rightarrow> Some (n, 0, c # cs)
      | Some d \<Rightarrow>
          if k = 0 then None
          else map_option (\<lambda>(v, count, rest). (v, Suc count, rest))
            (read_digits radix (k - 1) (n * radix + d) cs))"

definition read_number :: "nat \<Rightarrow> nat \<Rightarrow> bool \<Rightarrow> nat \<Rightarrow> nat reader" where
  "read_number radix max_digits allow_zero_prefix bound s =
     (case read_digits radix max_digits 0 s of
        None \<Rightarrow> None
      | Some (n, count, rest) \<Rightarrow>
          if bound \<le> n \<or> count = 0 then None
          else if \<not> allow_zero_prefix \<and> hd s = uc CHR ''0'' \<and> 1 < count then None
          else Some (n, rest))"

definition read_given_char :: "uchar \<Rightarrow> unit reader" where
  "read_given_char c s = (case s of [] \<Rightarrow> None | x # xs \<Rightarrow> if x = c then Some ((), xs) else None)"

definition read_then :: "'a reader \<Rightarrow> ('a \<Rightarrow> 'b reader) \<Rightarrow> 'b reader" where
  "read_then r f s = (case r s of None \<Rightarrow> None | Some (a, rest) \<Rightarrow> f a rest)"

text \<open>\<^verbatim>\<open>read_separator\<close>: the separator comes before every element but the first.\<close>

definition read_separator :: "uchar \<Rightarrow> nat \<Rightarrow> 'a reader \<Rightarrow> 'a reader" where
  "read_separator c index r = (if index = 0 then r else read_then (read_given_char c) (\<lambda>_. r))"

definition read_octet :: "nat \<Rightarrow> nat reader" where
  "read_octet i = read_separator (uc CHR ''.'') i (read_number 10 3 False 256)"

definition read_ipv4 :: "ipv4_addr reader" where
  "read_ipv4 =
     read_then (read_octet 0) (\<lambda>a. read_then (read_octet 1) (\<lambda>b.
     read_then (read_octet 2) (\<lambda>c. read_then (read_octet 3) (\<lambda>d s.
       Some (Ipv4 (word_of_nat a) (word_of_nat b) (word_of_nat c) (word_of_nat d), s)))))"

text \<open>
  Up to \<open>limit\<close> groups: the groups read, whether the last two were an embedded IPv4
  address, and the text left. This reader never fails; it stops.
\<close>

fun read_groups :: "nat \<Rightarrow> nat \<Rightarrow> str \<Rightarrow> u16 list \<times> bool \<times> str" where
  "read_groups 0 i s = ([], False, s)"
| "read_groups (Suc left) i s =
     (case (if 0 < left then read_separator (uc CHR '':'') i read_ipv4 s else None) of
        Some (Ipv4 a b c d, rest) \<Rightarrow> ([u16_of a b, u16_of c d], True, rest)
      | None \<Rightarrow>
          (case read_separator (uc CHR '':'') i (read_number 16 4 True 65536) s of
             None \<Rightarrow> ([], False, s)
           | Some (g, rest) \<Rightarrow>
               (case read_groups left (Suc i) rest of
                  (gs, v4, rest') \<Rightarrow> (word_of_nat g # gs, v4, rest'))))"

lemmas read_groups_numeral [simp] = read_groups.simps(2) [of "pred_numeral k" for k, folded numeral_eq_Suc]

definition ipv6_of :: "u16 list \<Rightarrow> ipv6_addr" where
  "ipv6_of gs = Ipv6 (gs ! 0) (gs ! 1) (gs ! 2) (gs ! 3) (gs ! 4) (gs ! 5) (gs ! 6) (gs ! 7)"

definition read_ipv6 :: "ipv6_addr reader" where
  "read_ipv6 s =
     (case read_groups 8 0 s of
        (head, v4, rest) \<Rightarrow>
          if length head = 8 then Some (ipv6_of head, rest)
          else if v4 then None
          else read_then (read_given_char (uc CHR '':'')) (\<lambda>_.
               read_then (read_given_char (uc CHR '':'')) (\<lambda>_ rest'.
                 case read_groups (7 - length head) 0 rest' of
                   (tail, _, rest'') \<Rightarrow>
                     Some (ipv6_of (head @ replicate (8 - length head - length tail) 0 @ tail),
                       rest''))) rest)"

text \<open>\<^verbatim>\<open>str::parse::<IpAddr>\<close>: all of the text must be read.\<close>

definition parse_ip :: "str \<Rightarrow> ip_addr option" where
  "parse_ip s =
     (case (case read_ipv4 s of
              Some (v, rest) \<Rightarrow> Some (V4 v, rest)
            | None \<Rightarrow> map_option (\<lambda>(v, rest). (V6 v, rest)) (read_ipv6 s)) of
        Some (a, []) \<Rightarrow> Some a
      | _ \<Rightarrow> None)"

text \<open>\<^verbatim>\<open>Ipv4Addr\<close>'s display.\<close>

fun show_ipv4 :: "ipv4_addr \<Rightarrow> str" where
  "show_ipv4 (Ipv4 a b c d) =
     show_nat (unat a) @ lit ''.'' @ show_nat (unat b) @ lit ''.'' @ show_nat (unat c)
       @ lit ''.'' @ show_nat (unat d)"

lemmas read_eval =
  parse_ip_def read_ipv4_def read_ipv6_def read_then_def read_octet_def read_separator_def
  read_number_def read_given_char_def to_digit_def ipv6_of_def nth_append

lemma show_octet:
  assumes "n < 256"
  shows "show_nat n =
    (if n < 10 then [48 + n] else if n < 100 then [48 + n div 10, 48 + n mod 10]
     else [48 + n div 100, 48 + n div 10 mod 10, 48 + n mod 10])"
  using assms
  by (simp add: show_nat.simps [of n] show_nat.simps [of "n div 10"] show_nat.simps [of "n div 100"]
      flip: div_mult2_eq) auto

lemma read_number_show:
  assumes n: "n < 256" and rest: "rest = [] \<or> to_digit 10 (hd rest) = None"
  shows "read_number 10 3 False 256 (show_nat n @ rest) = Some (n, rest)"
proof -
  have stop: "read_digits 10 k m rest = Some (m, 0, rest)" for k m
    using rest by (cases rest) auto
  have digits: "to_digit 10 (48 + n mod 10) = Some (n mod 10)"
    "to_digit 10 (48 + n div 10 mod 10) = Some (n div 10 mod 10)"
    by (simp_all add: to_digit_decimal)
  consider "n < 10" | "10 \<le> n" "n < 100" | "100 \<le> n" by linarith
  then show ?thesis
  proof cases
    case 1
    then show ?thesis
      using n stop by (simp add: read_number_def show_octet to_digit_decimal)
  next
    case 2
    then have "to_digit 10 (48 + n div 10) = Some (n div 10)"
      by (intro to_digit_decimal) auto
    moreover have "n div 10 * 10 + n mod 10 = n" by simp
    ultimately show ?thesis
      using 2 n stop digits by (simp add: read_number_def show_octet)
  next
    case 3
    then have "to_digit 10 (48 + n div 100) = Some (n div 100)"
      using n by (intro to_digit_decimal) auto
    moreover have "(n div 100 * 10 + n div 10 mod 10) * 10 + n mod 10 = n"
    proof -
      have "n div 100 = n div 10 div 10" by (simp flip: div_mult2_eq)
      then show ?thesis by (simp only: div_mult_mod_eq)
    qed
    moreover have "n div 100 > 0" using 3 by simp
    ultimately show ?thesis
      using 3 n stop digits by (simp add: read_number_def show_octet)
  qed
qed

lemma read_octet_show:
  assumes "rest = [] \<or> to_digit 10 (hd rest) = None"
  shows "read_octet 0 (show_nat (unat (a :: u8)) @ rest) = Some (unat a, rest)"
    "0 < i \<Longrightarrow> read_octet i (46 # show_nat (unat a) @ rest) = Some (unat a, rest)"
  using read_number_show [OF unat_byte_less assms, of a]
  by (simp_all add: read_octet_def read_separator_def read_then_def read_given_char_def)

lemma parse_show_ipv4: "parse_ip (show_ipv4 v) = Some (V4 v)"
proof (cases v)
  case (Ipv4 a b c d)
  have dot: "to_digit 10 46 = None" by (simp add: to_digit_def text_eval)
  have last: "read_octet 3 (46 # show_nat (unat d)) = Some (unat d, [])"
    using read_octet_show(2) [of "[]" 3 d] by simp
  show ?thesis
    using dot unfolding Ipv4
    by (simp add: parse_ip_def read_ipv4_def read_then_def read_octet_show last lit_def)
qed

end
