(* ===== verification/Policy.thy ===== *)
theory Policy
  imports Contracts Rust_Net
begin

text \<open>
  \<^verbatim>\<open>fetch-worker/src/policy.rs\<close>: which addresses the deployment may talk to. The policy
  file's JSON reader is an argument; addresses and their textual form are those of theory
  Rust_Net.
\<close>

section \<open>Ranges\<close>

datatype profile = Production | Test

fun profile_as_str :: "profile \<Rightarrow> str" where
  "profile_as_str Production = lit ''production''"
| "profile_as_str Test = lit ''test''"

record cidr =
  network :: ip_addr
  prefix :: u8

definition cidr_parse :: "str \<Rightarrow> contract_error + cidr" where
  "cidr_parse v =
     and_then (ok_or (contract_error_new (lit ''denied range is not CIDR notation: '' @ v))
       (split_once (uc CHR ''/'') v)) (\<lambda>(address, pfx).
     and_then (ok_or (contract_error_new (lit ''denied range has no valid address: '' @ v))
       (parse_ip address)) (\<lambda>net.
     and_then (ok_or (contract_error_new (lit ''denied range has no valid prefix: '' @ v))
       (parse_uint 10 256 pfx)) (\<lambda>n.
     let width = (if is_ipv4 net then 32 else 128) in
     if n > width
       then Inl (contract_error_new (lit ''denied range prefix is out of bounds: '' @ v))
     else Inr \<lparr>network = net, prefix = word_of_nat n\<rparr>)))"

text \<open>The indexing of the source stays inside both slices when the prefix fits them.\<close>

definition matches_prefix :: "bytes \<Rightarrow> bytes \<Rightarrow> u8 \<Rightarrow> bool" where
  "matches_prefix net candidate pfx =
     (let full = unat (pfx div 8); remainder = pfx mod 8 in
      if take full net \<noteq> take full candidate then False
      else if remainder = 0 then True
      else (let mask = push_bit (unat (8 - remainder)) (0xff :: u8)
            in and (net ! full) mask = and (candidate ! full) mask))"

definition canonical6 :: "ipv6_addr \<Rightarrow> ip_addr" where
  "canonical6 v6 =
     (let segs = segments v6;
          v4 = (\<lambda>hi lo. V4 (Ipv4 (ucast (drop_bit 8 hi)) (ucast hi) (ucast (drop_bit 8 lo)) (ucast lo)))
      in case to_ipv4_mapped v6 of
           Some v4 \<Rightarrow> V4 v4
         | None \<Rightarrow>
             if take 6 segs = [0, 0, 0, 0, 0, 0] \<and> \<not> is_unspecified6 v6 \<and> \<not> is_loopback6 v6
               then v4 (segs ! 6) (segs ! 7)
             else if segs ! 0 = 0x2002 then v4 (segs ! 1) (segs ! 2)
             else if take 6 segs = [0x0064, 0xff9b, 0, 0, 0, 0] then v4 (segs ! 6) (segs ! 7)
             else V6 v6)"

fun canonical :: "ip_addr \<Rightarrow> ip_addr" where
  "canonical (V4 v) = V4 v"
| "canonical (V6 v) = canonical6 v"

definition cidr_contains :: "cidr \<Rightarrow> ip_addr \<Rightarrow> bool" where
  "cidr_contains c address =
     (case (network c, canonical address) of
        (V4 net, V4 candidate) \<Rightarrow> matches_prefix (octets4 net) (octets4 candidate) (prefix c)
      | (V6 net, V6 candidate) \<Rightarrow> matches_prefix (octets6 net) (octets6 candidate) (prefix c)
      | _ \<Rightarrow> False)"

section \<open>Public address space\<close>

fun is_public_v4 :: "ipv4_addr \<Rightarrow> bool" where
  "is_public_v4 (Ipv4 a b c d) =
     (let address = Ipv4 a b c d;
          special = is_unspecified4 address \<or> is_loopback4 address \<or> is_private4 address
            \<or> is_link_local4 address \<or> is_multicast4 address \<or> is_broadcast4 address
            \<or> is_documentation4 address
            \<or> a = 0
            \<or> (a = 100 \<and> 64 \<le> b \<and> b < 128)
            \<or> (a = 192 \<and> b = 0 \<and> c = 0)
            \<or> (a = 192 \<and> b = 88 \<and> c = 99)
            \<or> (a = 198 \<and> (b = 18 \<or> b = 19))
            \<or> a \<ge> 240
      in \<not> special)"

definition is_public_v6 :: "ipv6_addr \<Rightarrow> bool" where
  "is_public_v6 address =
     (let segs = segments address;
          special = is_unspecified6 address \<or> is_loopback6 address \<or> is_multicast6 address
            \<or> and (segs ! 0) 0xfe00 = 0xfc00
            \<or> and (segs ! 0) 0xffc0 = 0xfe80
            \<or> and (segs ! 0) 0xffc0 = 0xfec0
            \<or> segs ! 0 = 0x2001 \<and> segs ! 1 = 0x0db8
            \<or> segs ! 0 = 0x2001 \<and> segs ! 1 = 0x0000
            \<or> take 4 segs = [0x0100, 0, 0, 0]
      in \<not> special)"

definition is_public :: "ip_addr \<Rightarrow> bool" where
  "is_public address =
     (case canonical address of V4 v4 \<Rightarrow> is_public_v4 v4 | V6 v6 \<Rightarrow> is_public_v6 v6)"

section \<open>The policy\<close>

record policy_file =
  policy_version :: u32
  file_profile :: profile
  denied_cidrs :: "str list"

record destination_policy =
  profile :: profile
  denied :: "cidr list"

text \<open>Reading the file and parsing its JSON are arguments.\<close>

definition policy_load ::
    "(str \<Rightarrow> str + policy_file) \<Rightarrow> str + str \<Rightarrow> contract_error + destination_policy" where
  "policy_load from_json contents =
     and_then (context_err ''destination policy is unreadable: '' contents) (\<lambda>raw.
     and_then (context_err ''destination policy is not valid: '' (from_json raw)) (\<lambda>file.
     if policy_version file \<noteq> 1 then refuse ''unsupported destination policy version''
     else if denied_cidrs file = []
       then refuse ''destination policy lists no cluster ranges; refusing to run without them''
     else
       and_then (collect_ok cidr_parse (denied_cidrs file)) (\<lambda>ranges.
         Inr \<lparr>profile = file_profile file, denied = ranges\<rparr>)))"

definition permits_port :: "destination_policy \<Rightarrow> u16 \<Rightarrow> bool" where
  "permits_port P port \<longleftrightarrow> (port = 80 \<or> port = 443) \<or> profile P = Test"

definition permits :: "destination_policy \<Rightarrow> ip_addr \<Rightarrow> bool" where
  "permits P address0 =
     (let address = canonical address0 in
      if list_ex (\<lambda>r. cidr_contains r address) (denied P) then False
      else if is_public address then True
      else profile P = Test \<and> is_loopback address)"

end
