(* ===== verification/Policy_Facts.thy ===== *)
theory Policy_Facts
  imports Policy
begin

text \<open>
  What the destination policy decides: prefix matching is equality of leading bits, the
  built-in refusal is a table of ranges, and every IPv6 spelling of an IPv4 address is
  decided as that address.
\<close>

section \<open>Prefixes\<close>

text \<open>The bits of an address, most significant first.\<close>

definition msb_bits :: "u8 \<Rightarrow> bool list" where
  "msb_bits b = map (bit b) (rev [0..<8])"

definition bits_of :: "bytes \<Rightarrow> bool list" where
  "bits_of bs = concat (map msb_bits bs)"

lemma length_msb_bits [simp]: "length (msb_bits b) = 8"
  by (simp add: msb_bits_def)

lemma length_bits_of [simp]: "length (bits_of bs) = 8 * length bs"
  by (induction bs) (simp_all add: bits_of_def)

lemma take_msb_bits_eq_iff:
  assumes "r \<le> 8"
  shows "take r (msb_bits a) = take r (msb_bits b) \<longleftrightarrow> (\<forall>i. 8 - r \<le> i \<and> i < 8 \<longrightarrow> bit a i = bit b i)"
proof -
  have nth: "msb_bits w ! i = bit w (7 - i)" if "i < 8" for w i
    using that by (simp add: msb_bits_def rev_nth)
  have "take r (msb_bits a) = take r (msb_bits b) \<longleftrightarrow> (\<forall>i<r. bit a (7 - i) = bit b (7 - i))"
    using assms by (auto simp: list_eq_iff_nth_eq nth)
  also have "\<dots> \<longleftrightarrow> (\<forall>i. 8 - r \<le> i \<and> i < 8 \<longrightarrow> bit a i = bit b i)"
  proof
    assume *: "\<forall>i<r. bit a (7 - i) = bit b (7 - i)"
    show "\<forall>i. 8 - r \<le> i \<and> i < 8 \<longrightarrow> bit a i = bit b i"
    proof (intro allI impI)
      fix i assume "8 - r \<le> i \<and> i < 8"
      then have "7 - i < r" "7 - (7 - i) = i" by auto
      with * show "bit a i = bit b i" by metis
    qed
  next
    assume *: "\<forall>i. 8 - r \<le> i \<and> i < 8 \<longrightarrow> bit a i = bit b i"
    show "\<forall>i<r. bit a (7 - i) = bit b (7 - i)"
      using assms by (auto intro!: *[rule_format])
  qed
  finally show ?thesis .
qed

lemma byte_bit_less: "bit (w :: u8) i \<Longrightarrow> i < 8"
  using bit_imp_le_length [of w i] by simp

lemma and_mask_eq_iff:
  assumes "k \<le> 8"
  shows "and a (push_bit k (0xff :: u8)) = and b (push_bit k 0xff)
    \<longleftrightarrow> (\<forall>i. k \<le> i \<and> i < 8 \<longrightarrow> bit a i = bit b i)"
proof -
  have "(0xff :: u8) = mask 8" by (simp add: mask_eq_exp_minus_1)
  then have ff: "bit (0xff :: u8) i \<longleftrightarrow> i < 8" for i
    by (simp only: bit_mask_iff) simp
  have *: "bit (and w (push_bit k (0xff :: u8))) i \<longleftrightarrow> k \<le> i \<and> i < 8 \<and> bit w i" for w i
    unfolding bit_and_iff bit_push_bit_iff ff by auto
  show ?thesis
  proof
    assume eq: "and a (push_bit k (0xff :: u8)) = and b (push_bit k 0xff)"
    show "\<forall>i. k \<le> i \<and> i < 8 \<longrightarrow> bit a i = bit b i"
      using * [of a] * [of b] unfolding eq by blast
  next
    assume "\<forall>i. k \<le> i \<and> i < 8 \<longrightarrow> bit a i = bit b i"
    then show "and a (push_bit k (0xff :: u8)) = and b (push_bit k 0xff)"
      by (intro bit_word_eqI) (simp only: *, blast)
  qed
qed

lemma msb_bits_inj: "msb_bits a = msb_bits b \<Longrightarrow> a = b"
  using take_msb_bits_eq_iff [of 8 a b] by (auto intro: bit_word_eqI)

interpretation bit_code: visible_prefix_code msb_bits "\<lambda>_. True"
proof unfold_locales
  fix x y r s
  assume "msb_bits x @ r = msb_bits y @ s"
  then show "x = y \<and> r = s" by (auto intro: msb_bits_inj)
next
  show "msb_bits x \<noteq> []" for x by (simp add: msb_bits_def)
qed

lemma take_bits_of:
  assumes "q < length bs" "r \<le> 8"
  shows "take (8 * q + r) (bits_of bs) = bits_of (take q bs) @ take r (msb_bits (bs ! q))"
proof -
  have "bits_of bs = bits_of (take q bs) @ msb_bits (bs ! q) @ bits_of (drop (Suc q) bs)"
    using id_take_nth_drop [OF assms(1)] unfolding bits_of_def
    by (metis concat.simps(2) concat_append list.simps(9) map_append)
  with assms show ?thesis by simp
qed

lemma drop_bit_eq_bits:
  "k \<le> 8 \<Longrightarrow> drop_bit k a = drop_bit k b \<longleftrightarrow> (\<forall>i. k \<le> i \<and> i < 8 \<longrightarrow> bit a i = bit b i)"
  for a b :: u8
proof
  assume eq: "drop_bit k a = drop_bit k b"
  show "\<forall>i. k \<le> i \<and> i < 8 \<longrightarrow> bit a i = bit b i"
  proof (intro allI impI)
    fix i assume "k \<le> i \<and> i < 8"
    then show "bit a i = bit b i"
      using arg_cong [OF eq, of "\<lambda>w. bit w (i - k)"] by (simp add: bit_drop_bit_eq)
  qed
next
  assume "\<forall>i. k \<le> i \<and> i < 8 \<longrightarrow> bit a i = bit b i"
  then show "drop_bit k a = drop_bit k b"
  proof (intro bit_word_eqI)
    fix n
    show "bit (drop_bit k a) n = bit (drop_bit k b) n"
      using \<open>\<forall>i. k \<le> i \<and> i < 8 \<longrightarrow> bit a i = bit b i\<close> byte_bit_less [of a "k + n"]
        byte_bit_less [of b "k + n"]
      by (cases "k + n < 8") (auto simp: bit_drop_bit_eq)
  qed
qed

lemma drop_bit_eq_div_byte:
  "drop_bit k x = drop_bit k y \<longleftrightarrow> unat x div 2 ^ k = unat y div 2 ^ k" for x y :: u8
proof -
  have "unat (drop_bit k w) = unat w div 2 ^ k" for w :: u8
    by (simp add: unat_drop_bit_eq del: drop_bit_eq_div) (simp add: drop_bit_eq_div)
  then show ?thesis by (simp only: word_unat_eq_iff)
qed

text \<open>Whole octets are compared as such, and of the next one the leading bits.\<close>

lemma matches_prefix_iff:
  "matches_prefix net candidate p \<longleftrightarrow>
     take (unat p div 8) net = take (unat p div 8) candidate
     \<and> (unat p mod 8 = 0 \<or> unat (net ! (unat p div 8)) div 2 ^ (8 - unat p mod 8)
           = unat (candidate ! (unat p div 8)) div 2 ^ (8 - unat p mod 8))"
proof -
  have words: "unat (p div 8) = unat p div 8" "unat (p mod 8) = unat p mod 8"
      "p mod 8 = 0 \<longleftrightarrow> unat p mod 8 = 0"
    by (simp_all add: unat_div unat_mod flip: unat_eq_0)
  have "unat p mod 8 < 8" by simp
  then have shift: "unat (8 - p mod 8) = 8 - unat p mod 8"
    using words(2) by (subst unat_sub) (simp_all add: word_le_nat_alt)
  then show ?thesis
    by (auto simp: matches_prefix_def words shift and_mask_eq_iff Let_def
        simp flip: drop_bit_eq_bits drop_bit_eq_div_byte)
qed

lemma matches_prefix_bits:
  assumes "length net = length candidate" and "unat p \<le> 8 * length net"
  shows "matches_prefix net candidate p \<longleftrightarrow>
    take (unat p) (bits_of net) = take (unat p) (bits_of candidate)"
proof -
  define q r where "q = unat p div 8" and "r = unat p mod 8"
  have r: "r < 8" and p: "unat p = 8 * q + r" by (simp_all add: q_def r_def)
  have inj: "bits_of x = bits_of y \<longleftrightarrow> x = y" for x y
    using bit_code.concat_inj [of x y] by (auto simp: bits_of_def list_all_iff)
  have div_bits: "unat x div 2 ^ (8 - r) = unat y div 2 ^ (8 - r) \<longleftrightarrow>
      take r (msb_bits x) = take r (msb_bits y)" for x y
    using r by (simp add: take_msb_bits_eq_iff flip: drop_bit_eq_bits drop_bit_eq_div_byte)
  show ?thesis
  proof (cases "r = 0")
    case True
    have "take (8 * q) (bits_of bs) = bits_of (take q bs)" if "q \<le> length bs" for bs
      using that take_bits_of [of q bs 0] by (cases "q = length bs") simp_all
    with True p assms show ?thesis
      by (simp add: matches_prefix_iff inj flip: q_def r_def)
  next
    case False
    with p assms have q: "q < length net" "q < length candidate" by simp_all
    have "matches_prefix net candidate p \<longleftrightarrow> take q net = take q candidate
        \<and> take r (msb_bits (net ! q)) = take r (msb_bits (candidate ! q))"
      using False by (simp add: matches_prefix_iff div_bits flip: q_def r_def)
    also have "\<dots> \<longleftrightarrow> bits_of (take q net) @ take r (msb_bits (net ! q)) =
        bits_of (take q candidate) @ take r (msb_bits (candidate ! q))"
      using q by (subst append_eq_append_conv) (auto simp: inj)
    finally show ?thesis using q r by (simp add: p take_bits_of)
  qed
qed

lemma cidr_contains_iff:
  assumes "unat (prefix c) \<le> 8 * length (octets (network c))"
  shows "cidr_contains c a \<longleftrightarrow> is_ipv4 (network c) = is_ipv4 (canonical a)
    \<and> take (unat (prefix c)) (bits_of (octets (network c)))
      = take (unat (prefix c)) (bits_of (octets (canonical a)))"
  using assms
  by (cases "network c"; cases "canonical a")
     (simp_all add: cidr_contains_def matches_prefix_bits)

section \<open>Spellings\<close>

text \<open>The IPv6 addresses that stand for an IPv4 one.\<close>

fun mapped_spelling :: "ipv4_addr \<Rightarrow> ipv6_addr" where
  "mapped_spelling (Ipv4 a b c d) = Ipv6 0 0 0 0 0 0xffff (u16_of a b) (u16_of c d)"

fun compatible_spelling :: "ipv4_addr \<Rightarrow> ipv6_addr" where
  "compatible_spelling (Ipv4 a b c d) = Ipv6 0 0 0 0 0 0 (u16_of a b) (u16_of c d)"

fun six_to_four_spelling :: "ipv4_addr \<Rightarrow> u16 list \<Rightarrow> ipv6_addr" where
  "six_to_four_spelling (Ipv4 a b c d) r =
     Ipv6 0x2002 (u16_of a b) (u16_of c d) (r ! 0) (r ! 1) (r ! 2) (r ! 3) (r ! 4)"

fun nat64_spelling :: "ipv4_addr \<Rightarrow> ipv6_addr" where
  "nat64_spelling (Ipv4 a b c d) = Ipv6 0x64 0xff9b 0 0 0 0 (u16_of a b) (u16_of c d)"

lemmas canonical_eval =
  canonical6_def is_unspecified6_def is_loopback6_def Let_def

lemma canonical6_cases:
  "canonical6 v = V6 v \<or> (\<exists>w. canonical6 v = V4 w)"
  by (cases v) (auto simp: canonical_eval split: if_splits)

lemma canonical_idem [simp]: "canonical (canonical a) = canonical a"
proof (cases a)
  case (V6 v)
  then show ?thesis using canonical6_cases [of v] by auto
qed simp

lemma canonical_spellings:
  "canonical (V6 (mapped_spelling v)) = V4 v"
  "canonical (V6 (six_to_four_spelling v r)) = V4 v"
  "canonical (V6 (nat64_spelling v)) = V4 v"
  by (cases v; simp add: canonical_eval)+

lemma u16_of_eq_iff: "u16_of a b = w \<longleftrightarrow> a = ucast (drop_bit 8 w) \<and> b = ucast w"
proof
  assume "a = ucast (drop_bit 8 w) \<and> b = ucast w"
  then show "u16_of a b = w"
    unfolding u16_of_def
    by (intro bit_word_eqI) (auto simp: bit_simps)
qed auto

lemma canonical_compatible:
  "v \<noteq> Ipv4 0 0 0 0 \<Longrightarrow> v \<noteq> Ipv4 0 0 0 1 \<Longrightarrow> canonical (V6 (compatible_spelling v)) = V4 v"
  by (cases v) (auto simp: canonical_eval u16_of_eq_iff)

lemma cidr_contains_canonical [simp]: "cidr_contains c (canonical a) = cidr_contains c a"
  by (simp add: cidr_contains_def)

lemma is_public_canonical [simp]: "is_public (canonical a) = is_public a"
  by (simp add: is_public_def)

lemma permits_canonical: "permits P (canonical a) = permits P a"
  by (simp add: permits_def)

text \<open>One decision for every spelling. An IPv4 address written as an IPv4-mapped, a
  6to4 (whatever follows the address) or a NAT64 IPv6 address is permitted exactly when the
  IPv4 address itself is, and so is the deprecated compatible form of every address but the
  two that \<^verbatim>\<open>::\<close> and \<^verbatim>\<open>::1\<close> stand for.\<close>

lemma permits_spellings:
  "permits P (V6 (mapped_spelling v)) = permits P (V4 v)
   \<and> permits P (V6 (six_to_four_spelling v r)) = permits P (V4 v)
   \<and> permits P (V6 (nat64_spelling v)) = permits P (V4 v)
   \<and> (v \<notin> {Ipv4 0 0 0 0, Ipv4 0 0 0 1} \<longrightarrow>
        permits P (V6 (compatible_spelling v)) = permits P (V4 v))"
  using canonical_spellings canonical_compatible
  by (metis permits_canonical insertCI)

section \<open>The built-in table\<close>

definition range4 :: "u8 \<Rightarrow> u8 \<Rightarrow> u8 \<Rightarrow> u8 \<Rightarrow> u8 \<Rightarrow> cidr" where
  "range4 a b c d p = \<lparr>network = V4 (Ipv4 a b c d), prefix = p\<rparr>"

definition range6 :: "u16 \<Rightarrow> u16 \<Rightarrow> u16 \<Rightarrow> u8 \<Rightarrow> cidr" where
  "range6 a b h p = \<lparr>network = V6 (Ipv6 a b 0 0 0 0 0 h), prefix = p\<rparr>"

definition special_v4 :: "cidr list" where
  "special_v4 =
     [range4 0 0 0 0 8, range4 10 0 0 0 8, range4 100 64 0 0 10, range4 127 0 0 0 8,
      range4 169 254 0 0 16, range4 172 16 0 0 12, range4 192 0 0 0 24, range4 192 0 2 0 24,
      range4 192 88 99 0 24, range4 192 168 0 0 16, range4 198 18 0 0 15,
      range4 198 51 100 0 24, range4 203 0 113 0 24, range4 224 0 0 0 4, range4 240 0 0 0 4]"

definition special_v6 :: "cidr list" where
  "special_v6 =
     [range6 0 0 0 128, range6 0 0 1 128, range6 0xff00 0 0 8, range6 0xfc00 0 0 7,
      range6 0xfe80 0 0 10, range6 0xfec0 0 0 10, range6 0x2001 0x0db8 0 32,
      range6 0x2001 0 0 32, range6 0x0100 0 0 64]"

definition loopback_ranges :: "cidr list" where
  "loopback_ranges = [range4 127 0 0 0 8, range6 0 0 1 128]"

text \<open>Membership in a written range, octet by octet.\<close>

lemma contains_range4:
  "cidr_contains (range4 a b c d p) (V4 (Ipv4 a' b' c' d')) \<longleftrightarrow>
     matches_prefix [a, b, c, d] [a', b', c', d'] p"
  by (simp add: cidr_contains_def range4_def)

lemma div_eq_range: "0 < k \<Longrightarrow> n div k = m \<longleftrightarrow> k * m \<le> n \<and> n < k * m + k" for n k m :: nat
proof -
  assume "0 < k"
  then have "m \<le> n div k \<and> n div k < Suc m \<longleftrightarrow> k * m \<le> n \<and> n < k * m + k"
    by (simp add: less_eq_div_iff_mult_less_eq div_less_iff_less_mult algebra_simps del: less_Suc_eq_le)
  then show ?thesis by linarith
qed

lemma octet_ranges:
  fixes x :: u8
  shows "Suc 0 = unat x div 64 \<longleftrightarrow> 64 \<le> x \<and> x < 128"
    and "Suc 0 = unat x div 16 \<longleftrightarrow> 16 \<le> x \<and> x \<le> 31"
    and "unat x div 2 = 9 \<longleftrightarrow> x = 18 \<or> x = 19"
    and "unat x div 16 = 14 \<longleftrightarrow> 224 \<le> x \<and> x \<le> 239"
    and "unat x div 16 = 15 \<longleftrightarrow> 240 \<le> x"
  using unat_byte_less [of x]
  by (auto simp: div_eq_range word_le_nat_alt word_less_nat_alt word_unat_eq_iff
      eq_commute [of "Suc 0" "unat x div k" for k])

lemma is_public_v4_table: "is_public_v4 v \<longleftrightarrow> \<not> list_ex (\<lambda>c. cidr_contains c (V4 v)) special_v4"
proof (cases v)
  case (Ipv4 a b c d)
  have "a = 0 \<or> 240 \<le> a \<or> (a \<noteq> 0 \<and> a \<noteq> 255 \<and> \<not> 240 \<le> a)" by auto
  then show ?thesis unfolding Ipv4
  proof (elim disjE conjE)
    assume "a \<noteq> 0" "a \<noteq> 255" "\<not> 240 \<le> a"
    then show "is_public_v4 (Ipv4 a b c d) \<longleftrightarrow>
        \<not> list_ex (\<lambda>r. cidr_contains r (V4 (Ipv4 a b c d))) special_v4"
      by (simp add: special_v4_def contains_range4 matches_prefix_iff is_unspecified4_def
          is_loopback4_def is_broadcast4_def octet_ranges) argo
  qed (simp_all add: special_v4_def contains_range4 matches_prefix_iff octet_ranges)
qed

text \<open>Segments and their two octets.\<close>

lemma unat_high_octet: "unat (ucast (drop_bit 8 (w :: u16)) :: u8) = unat w div 256"
proof -
  have "unat w < 65536" using unsigned_less [of w] by simp
  then have "unat w div 256 < 256" by (simp add: div_less_iff_less_mult)
  moreover have "unat (drop_bit 8 w) = unat w div 256"
    by (simp add: unat_drop_bit_eq del: drop_bit_eq_div) (simp add: drop_bit_eq_div)
  ultimately show ?thesis by (simp add: unsigned_ucast_eq take_bit_eq_mod)
qed

lemma unat_low_octet: "unat (ucast (w :: u16) :: u8) = unat w mod 256"
  by (simp add: unsigned_ucast_eq take_bit_eq_mod)

lemma octets_eq_iff:
  "ucast (drop_bit 8 w) = (ucast (drop_bit 8 v) :: u8) \<and> ucast w = (ucast v :: u8) \<longleftrightarrow> w = v"
  for w v :: u16
proof -
  have "w = v" if "unat w div 256 = unat v div 256" "unat w mod 256 = unat v mod 256"
    using that by (metis div_mult_mod_eq unsigned_word_eqI)
  then show ?thesis
    by (metis unat_high_octet unat_low_octet)
qed

lemma and_high_bits:
  fixes w v :: u16
  assumes "k \<le> 16"
  shows "and w (push_bit k (mask (16 - k))) = v \<longleftrightarrow> unat v = unat w div 2 ^ k * 2 ^ k"
proof -
  have "and w (push_bit k (mask (16 - k))) = push_bit k (drop_bit k w)"
    using assms
    by (intro bit_word_eqI) (auto simp: bit_and_iff bit_push_bit_iff bit_mask_iff bit_drop_bit_eq)
  moreover have "unat (push_bit k (drop_bit k w)) = unat w div 2 ^ k * 2 ^ k"
  proof -
    have "unat (drop_bit k w) = unat w div 2 ^ k"
      by (simp add: unat_drop_bit_eq del: drop_bit_eq_div) (simp add: drop_bit_eq_div)
    moreover have "unat w div 2 ^ k * 2 ^ k < 65536"
    proof -
      have "unat w < 65536" using unsigned_less [of w] by simp
      then show ?thesis using div_times_less_eq_dividend [of "unat w" "2 ^ k"] by linarith
    qed
    moreover have "unat (push_bit k (drop_bit k w)) = take_bit 16 (push_bit k (unat (drop_bit k w)))"
      by (subst unsigned_push_bit_eq) simp
    ultimately show ?thesis
      by (simp only: push_bit_eq_mult take_bit_eq_mod) simp
  qed
  ultimately show ?thesis by (auto simp: word_unat_eq_iff)
qed

lemma high_bits:
  fixes w :: u16
  shows "and w 0xff00 = 0xff00 \<longleftrightarrow> unat w div 256 = 255"
    and "and w 0xfe00 = 0xfc00 \<longleftrightarrow> unat w div 512 = 126"
    and "and w 0xffc0 = 0xfe80 \<longleftrightarrow> unat w div 64 = 1018"
    and "and w 0xffc0 = 0xfec0 \<longleftrightarrow> unat w div 64 = 1019"
proof -
  show "and w 0xff00 = 0xff00 \<longleftrightarrow> unat w div 256 = 255"
    using and_high_bits [where k = 8 and v = "0xff00" and w = w]
    by (auto simp: mask_eq_exp_minus_1)
  show "and w 0xfe00 = 0xfc00 \<longleftrightarrow> unat w div 512 = 126"
    using and_high_bits [where k = 9 and v = "0xfc00" and w = w]
    by (auto simp: mask_eq_exp_minus_1)
  show "and w 0xffc0 = 0xfe80 \<longleftrightarrow> unat w div 64 = 1018"
    using and_high_bits [where k = 6 and v = "0xfe80" and w = w]
    by (auto simp: mask_eq_exp_minus_1)
  show "and w 0xffc0 = 0xfec0 \<longleftrightarrow> unat w div 64 = 1019"
    using and_high_bits [where k = 6 and v = "0xfec0" and w = w]
    by (auto simp: mask_eq_exp_minus_1)
qed

lemma octet_pairs:
  fixes w :: u16
  shows "255 = (ucast (drop_bit 8 w) :: u8) \<longleftrightarrow> unat w div 256 = 255"
    and "126 = unat (ucast (drop_bit 8 w) :: u8) div 2 \<longleftrightarrow> unat w div 512 = 126"
    and "((ucast (drop_bit 8 w) :: u8) = 254 \<longrightarrow> unat (ucast w :: u8) div 64 \<noteq> 2)
      \<longleftrightarrow> unat w div 64 \<noteq> 1018"
    and "((ucast (drop_bit 8 w) :: u8) = 254 \<longrightarrow> unat (ucast w :: u8) div 64 \<noteq> 3)
      \<longleftrightarrow> unat w div 64 \<noteq> 1019"
proof -
  define n q where "n = unat w" and "q = n div 64"
  have high: "k = (ucast (drop_bit 8 w) :: u8) \<longleftrightarrow> unat k = q div 4" for k :: u8
    unfolding word_unat_eq_iff unat_high_octet n_def [symmetric] q_def by (simp flip: div_mult2_eq)
  have low: "unat (ucast w :: u8) div 64 = q mod 4"
    unfolding unat_low_octet n_def [symmetric] q_def using mod_mult2_eq [of n 64 4] by simp
  show "255 = (ucast (drop_bit 8 w) :: u8) \<longleftrightarrow> unat w div 256 = 255"
    unfolding high n_def [symmetric] q_def by (auto simp flip: div_mult2_eq)
  show "126 = unat (ucast (drop_bit 8 w) :: u8) div 2 \<longleftrightarrow> unat w div 512 = 126"
    unfolding unat_high_octet by (auto simp flip: div_mult2_eq)
  have "(ucast (drop_bit 8 w) :: u8) = 254 \<longleftrightarrow> q div 4 = 254"
    using high [of 254] by auto
  then show "((ucast (drop_bit 8 w) :: u8) = 254 \<longrightarrow> unat (ucast w :: u8) div 64 \<noteq> 2)
      \<longleftrightarrow> unat w div 64 \<noteq> 1018"
    "((ucast (drop_bit 8 w) :: u8) = 254 \<longrightarrow> unat (ucast w :: u8) div 64 \<noteq> 3)
      \<longleftrightarrow> unat w div 64 \<noteq> 1019"
    unfolding low n_def [symmetric] q_def [symmetric] by (simp_all, presburger+)
qed

lemma contains_range6:
  "canonical (V6 v) = V6 v \<Longrightarrow> cidr_contains (range6 a b h p) (V6 v) \<longleftrightarrow>
     matches_prefix (octets6 (Ipv6 a b 0 0 0 0 0 h)) (octets6 v) p"
  by (simp add: cidr_contains_def range6_def)

lemma u16_bytes_simps [simp]:
  "length (u16_bytes w) = 2" "u16_bytes w = u16_bytes v \<longleftrightarrow> w = v"
  "take (Suc 0) (u16_bytes w) = [ucast (drop_bit 8 w)]"
  "take (Suc 0) (u16_bytes w @ r) = [ucast (drop_bit 8 w)]"
  "(u16_bytes w @ r) ! 0 = ucast (drop_bit 8 w)" "(u16_bytes w @ r) ! Suc 0 = ucast w"
  using octets_eq_iff [of w v] by (auto simp: u16_bytes_def)

lemma is_public_v6_table:
  assumes "canonical (V6 v) = V6 v"
  shows "is_public_v6 v \<longleftrightarrow> \<not> list_ex (\<lambda>c. cidr_contains c (V6 v)) special_v6"
proof (cases v)
  case (Ipv6 a b c d e f g h)
  have table: "list_ex (\<lambda>c. cidr_contains c (V6 v)) special_v6 \<longleftrightarrow>
      list_ex (\<lambda>c. matches_prefix (octets (network c)) (octets6 v) (prefix c)) special_v6"
    by (simp add: special_v6_def contains_range6 [OF assms]) (simp add: range6_def)
  show ?thesis
    unfolding table unfolding Ipv6
    by (simp add: special_v6_def range6_def matches_prefix_iff octets6_def is_public_v6_def
        high_bits octet_pairs is_unspecified6_def is_loopback6_def is_multicast6_def Let_def)
qed

lemma contains_kind: "cidr_contains c a \<Longrightarrow> is_ipv4 (network c) = is_ipv4 (canonical a)"
  by (auto simp: cidr_contains_def split: ip_addr.splits)

lemma special_kinds:
  "list_all (\<lambda>c. is_ipv4 (network c)) special_v4" "list_all (\<lambda>c. \<not> is_ipv4 (network c)) special_v6"
  by (simp_all add: special_v4_def special_v6_def range4_def range6_def)

lemma is_public_table:
  "is_public a \<longleftrightarrow> \<not> list_ex (\<lambda>c. cidr_contains c a) (special_v4 @ special_v6)"
proof (cases "canonical a")
  case (V4 v)
  then have "\<not> list_ex (\<lambda>c. cidr_contains c a) special_v6"
    using special_kinds(2) by (auto simp: list_ex_iff list_all_iff dest: contains_kind)
  then show ?thesis
    using is_public_v4_table [of v] cidr_contains_canonical [of _ a] V4
    by (simp add: is_public_def)
next
  case (V6 v)
  then have "\<not> list_ex (\<lambda>c. cidr_contains c a) special_v4"
    using special_kinds(1) by (auto simp: list_ex_iff list_all_iff dest: contains_kind)
  moreover have "canonical (V6 v) = V6 v" using canonical_idem [of a] V6 by metis
  ultimately show ?thesis
    using is_public_v6_table [of v] cidr_contains_canonical [of _ a] V6
    by (simp add: is_public_def)
qed

lemma is_loopback_table:
  "is_loopback (canonical a) \<longleftrightarrow> list_ex (\<lambda>c. cidr_contains c a) loopback_ranges"
proof (cases "canonical a")
  case (V4 v)
  then show ?thesis
    by (cases v; simp add: loopback_ranges_def cidr_contains_def range4_def range6_def
        matches_prefix_iff is_loopback4_def)
next
  case (V6 v)
  then show ?thesis
    by (cases v; simp add: loopback_ranges_def cidr_contains_def range4_def range6_def
        matches_prefix_iff is_loopback6_def octets6_def)
qed

lemma permits_table:
  "permits P a \<longleftrightarrow>
     \<not> list_ex (\<lambda>c. cidr_contains c a) (denied P)
     \<and> (\<not> list_ex (\<lambda>c. cidr_contains c a) (special_v4 @ special_v6)
        \<or> profile P = Test \<and> list_ex (\<lambda>c. cidr_contains c a) loopback_ranges)"
  by (auto simp: permits_def Let_def is_public_table is_loopback_table simp del: list_ex_append)


text \<open>Prefix matching is right on every length. For a range whose prefix fits its
  address, membership is equality of the first \<^verbatim>\<open>prefix\<close> bits of the two addresses, whole
  octets and partial ones alike.\<close>

lemma cidr_contains_prefix:
  assumes "unat (prefix c) \<le> 8 * length (octets (network c))"
  shows "cidr_contains c a \<longleftrightarrow> is_ipv4 (network c) = is_ipv4 (canonical a)
    \<and> take (unat (prefix c)) (bits_of (octets (network c)))
      = take (unat (prefix c)) (bits_of (octets (canonical a)))"
  using assms by (rule cidr_contains_iff)

section \<open>Loading\<close>

lemma cidr_parse_OkD:
  assumes "cidr_parse t = Inr c"
  shows "unat (prefix c) \<le> 8 * length (octets (network c))"
proof -
  from assms obtain net n where c: "c = \<lparr>network = net, prefix = word_of_nat n\<rparr>"
    and n: "n \<le> (if is_ipv4 net then 32 else 128)"
    by (auto simp: cidr_parse_def result_iffs Let_def split: prod.splits if_splits)
  then have "unat (word_of_nat n :: u8) = n"
    by (cases "is_ipv4 net") (simp_all add: unsigned_of_nat take_bit_nat_eq_self)
  with c n show ?thesis by (cases net) auto
qed

lemma collect_ok_list_all2:
  "collect_ok f xs = Inr ys \<longleftrightarrow> list_all2 (\<lambda>x y. f x = Inr y) xs ys"
  by (induction xs arbitrary: ys) (auto simp: result_iffs list_all2_Cons1)

text \<open>A policy that loads is a policy that restricts. The file must be readable and
  valid, of version 1 and list at least one range; each listed text becomes one range of the
  policy, in order, and each range's prefix fits its address family, so matching never
  indexes out of bounds.\<close>

lemma policy_load_sound:
  assumes "policy_load from_json contents = Inr P"
  shows "\<exists>raw file. contents = Inr raw \<and> from_json raw = Inr file \<and> policy_version file = 1
    \<and> profile P = file_profile file \<and> denied P \<noteq> []
    \<and> list_all2 (\<lambda>t c. cidr_parse t = Inr c \<and> unat (prefix c) \<le> 8 * length (octets (network c)))
        (denied_cidrs file) (denied P)"
proof -
  from assms obtain raw pf where "contents = Inr raw" "from_json raw = Inr pf"
    "policy_version pf = 1" "denied_cidrs pf \<noteq> []" "profile P = file_profile pf"
    and ranges: "list_all2 (\<lambda>t c. cidr_parse t = Inr c) (denied_cidrs pf) (denied P)"
    by (auto simp: policy_load_def result_iffs collect_ok_list_all2 split: if_splits)
  moreover from this have "denied P \<noteq> []" by auto
  moreover have "list_all2 (\<lambda>t c. cidr_parse t = Inr c
      \<and> unat (prefix c) \<le> 8 * length (octets (network c))) (denied_cidrs pf) (denied P)"
    using ranges by (rule list_all2_mono) (auto dest: cidr_parse_OkD)
  ultimately show ?thesis by blast
qed

lemma show_ipv4_no_slash: "47 \<notin> set (show_ipv4 v)"
proof (cases v)
  case (Ipv4 a b c d)
  have "47 \<notin> set (show_nat n)" for n
    using show_nat_digits [of 47 n] by (auto simp: is_ascii_digit_def)
  then show ?thesis by (simp add: Ipv4 lit_def)
qed

text \<open>A range written in the usual notation is read as that range. For every IPv4 network
  and every prefix a byte can hold, the text \<^verbatim>\<open>a.b.c.d/p\<close> is accepted exactly when \<^verbatim>\<open>p\<close> is at
  most 32, and gives that network and prefix.\<close>

lemma cidr_parse_display:
  "cidr_parse (show_ipv4 v @ lit ''/'' @ show_nat (unat p)) =
     (if p \<le> 32 then Inr \<lparr>network = V4 v, prefix = p\<rparr>
      else Inl (contract_error_new (lit ''denied range prefix is out of bounds: ''
        @ show_ipv4 v @ lit ''/'' @ show_nat (unat p))))"
proof -
  have "split_once (uc CHR ''/'') (show_ipv4 v @ lit ''/'' @ show_nat (unat p)) =
      Some (show_ipv4 v, show_nat (unat p))"
    using show_ipv4_no_slash [of v] by (simp add: split_once_append lit_def)
  moreover have "parse_uint 10 256 (show_nat (unat p)) = Some (unat p)"
    by (rule parse_uint_show [OF unat_byte_less])
  ultimately show ?thesis by (simp add: cidr_parse_def parse_show_ipv4 word_le_nat_alt)
qed

section \<open>Ranges that can never match\<close>

lemma mapped_prefix_canonical:
  assumes "take 12 (octets6 (mapped_spelling v)) = take 12 (octets6 w)"
  shows "canonical (V6 w) \<noteq> V6 w"
proof (cases v)
  case v: (Ipv4 a b c d)
  show ?thesis
  proof (cases w)
    case w: (Ipv6 s0 s1 s2 s3 s4 s5 s6 s7)
    have "s0 = 0 \<and> s1 = 0 \<and> s2 = 0 \<and> s3 = 0 \<and> s4 = 0 \<and> s5 = 0xffff"
      using assms by (simp add: v w octets6_def)
    then show ?thesis by (simp add: w canonical6_def)
  qed
qed

lemma mapped_range_prefix:
  assumes "cidr_contains \<lparr>network = V6 (mapped_spelling v), prefix = p\<rparr> a"
  shows "unat p < 96"
proof (rule ccontr)
  assume "\<not> unat p < 96"
  then have q: "12 \<le> unat p div 8" by simp
  from assms obtain w where w: "canonical a = V6 w"
    and "matches_prefix (octets6 (mapped_spelling v)) (octets6 w) p"
    by (auto simp: cidr_contains_def split: ip_addr.splits)
  then have "take (unat p div 8) (octets6 (mapped_spelling v)) = take (unat p div 8) (octets6 w)"
    by (simp add: matches_prefix_iff)
  then have "take 12 (take (unat p div 8) (octets6 (mapped_spelling v))) =
      take 12 (take (unat p div 8) (octets6 w))" by simp
  then have "take 12 (octets6 (mapped_spelling v)) = take 12 (octets6 w)"
    using q by (simp only: take_take min_absorb1)
  then have "canonical (V6 w) \<noteq> V6 w" by (rule mapped_prefix_canonical)
  then show False using canonical_idem [of a] w by simp
qed

text \<open>C40: a configured range written as IPv4-mapped addresses is accepted and never matches
  anything, because only the candidate address is reduced: every such range with the 96 or
  more bits that make it IPv4-mapped contains no address at all.\<close>

theorem mapped_range_is_dead:
  "unat p < 96 \<or> \<not> cidr_contains \<lparr>network = V6 (mapped_spelling v), prefix = p\<rparr> a"
  using mapped_range_prefix by blast

text \<open>The reader accepts such a text, the policy loads, and the address it names is permitted.\<close>

lemma mapped_range_is_dead_witness:
  "cidr_parse (lit ''::ffff:8.8.8.0/120'') =
     Inr \<lparr>network = V6 (mapped_spelling (Ipv4 8 8 8 0)), prefix = 120\<rparr>
   \<and> permits \<lparr>profile = Production,
        denied = [\<lparr>network = V6 (mapped_spelling (Ipv4 8 8 8 0)), prefix = 120\<rparr>]\<rparr> (V4 (Ipv4 8 8 8 8))"
proof
  show "cidr_parse (lit ''::ffff:8.8.8.0/120'') =
     Inr \<lparr>network = V6 (mapped_spelling (Ipv4 8 8 8 0)), prefix = 120\<rparr>"
    by (simp add: cidr_parse_def text_eval read_eval u16_of_def parse_uint_def)
  have "is_public (V4 (Ipv4 8 8 8 8))"
    by (simp add: is_public_def is_unspecified4_def is_loopback4_def is_broadcast4_def)
  then show "permits \<lparr>profile = Production,
        denied = [\<lparr>network = V6 (mapped_spelling (Ipv4 8 8 8 0)), prefix = 120\<rparr>]\<rparr> (V4 (Ipv4 8 8 8 8))"
    using mapped_range_is_dead [of 120 "Ipv4 8 8 8 0" "V4 (Ipv4 8 8 8 8)"]
    by (simp add: permits_def del: mapped_spelling.simps)
qed

end
