(* ===== verification/Media.thy ===== *)
theory Media
  imports Contracts
begin

text \<open>
  \<^verbatim>\<open>contracts/src/media.rs\<close>: parsing a \<^verbatim>\<open>Content-Type\<close>, the supported media types and
  charsets, and the normalized header form. What matters across the two stages is that
  the fetcher stores the normalized form and the inspector parses it again: for supported
  types the second parse gives the value the fetcher judged.
\<close>

record media_type =
  essence :: str
  charset :: "str option"

definition SUPPORTED_MEDIA_TYPES :: "str list" where
  "SUPPORTED_MEDIA_TYPES = map lit
     [''text/html'', ''application/xhtml+xml'', ''text/plain'', ''text/markdown'',
      ''text/csv'', ''text/xml'', ''application/xml'', ''application/json'']"

definition SUPPORTED_CHARSETS :: "str list" where
  "SUPPORTED_CHARSETS = map lit
     [''utf-8'', ''utf8'', ''us-ascii'', ''ascii'', ''iso-8859-1'', ''latin1'',
      ''windows-1252'', ''utf-16'', ''utf-16le'', ''utf-16be'']"

definition is_quote :: "uchar \<Rightarrow> bool" where
  "is_quote c \<longleftrightarrow> c = uc (CHR 0x22)"

definition clean_charset :: "str \<Rightarrow> str" where
  "clean_charset raw = to_ascii_lowercase (trim (trim_matches is_quote (trim raw)))"

text \<open>The loop over the parameters; the last charset parameter wins.\<close>

fun parse_parameters :: "str list \<Rightarrow> str option \<Rightarrow> contract_error + str option" where
  "parse_parameters [] found = Inr found"
| "parse_parameters (parameter # rest) found =
     (case split_once (uc CHR ''='') parameter of
        None \<Rightarrow> parse_parameters rest found
      | Some (name, raw) \<Rightarrow>
          if eq_ignore_ascii_case (trim name) (lit ''charset'') then
            (if clean_charset raw = [] then refuse ''content type has an empty charset''
             else parse_parameters rest (Some (clean_charset raw)))
          else parse_parameters rest found)"

definition media_parse :: "str \<Rightarrow> contract_error + media_type" where
  "media_parse value =
     (let parts = split_on (uc CHR '';'') value;
          ess = to_ascii_lowercase (trim (hd parts))
      in if ess = [] \<or> length (split_on (uc CHR ''/'') ess) \<noteq> 2
            \<or> list_ex (\<lambda>p. p = []) (split_on (uc CHR ''/'') ess)
         then refuse ''content type is not a media type''
         else map_ok (\<lambda>cs. \<lparr>essence = ess, charset = cs\<rparr>) (parse_parameters (tl parts) None))"

definition is_supported :: "media_type \<Rightarrow> bool" where
  "is_supported m \<longleftrightarrow>
     essence m \<in> set SUPPORTED_MEDIA_TYPES
     \<and> (case charset m of None \<Rightarrow> True | Some c \<Rightarrow> c \<in> set SUPPORTED_CHARSETS)"

definition is_html :: "media_type \<Rightarrow> bool" where
  "is_html m \<longleftrightarrow> essence m = lit ''text/html'' \<or> essence m = lit ''application/xhtml+xml''"

definition header_value :: "media_type \<Rightarrow> str" where
  "header_value m =
     (case charset m of
        Some c \<Rightarrow> essence m @ lit ''; charset='' @ c
      | None \<Rightarrow> essence m)"

definition is_supported_content_encoding :: "str \<Rightarrow> bool" where
  "is_supported_content_encoding value \<longleftrightarrow>
     to_ascii_lowercase (trim value)
       \<in> set (map lit [[], ''identity'', ''gzip'', ''deflate''])"

section \<open>What a parsed media type looks like\<close>

lemma is_whitespace_lower [simp]: "is_whitespace (to_ascii_lower c) = is_whitespace c"
  by (auto simp: is_whitespace_def to_ascii_lower_def is_ascii_uppercase_def)

lemma trim_lowercase: "trim (to_ascii_lowercase s) = to_ascii_lowercase (trim s)"
  by (simp add: trim_def trim_matches_def trim_end_by_def trim_start_by_def
      to_ascii_lowercase_def dropWhile_map rev_map comp_def)

lemma lower_in_set: "c \<notin> set s \<Longrightarrow> \<not> is_ascii_lowercase c \<Longrightarrow> c \<notin> set (to_ascii_lowercase s)"
  by (auto simp: to_ascii_lowercase_def to_ascii_lower_def is_ascii_uppercase_def
      is_ascii_lowercase_def)

definition plain_token :: "str \<Rightarrow> bool" where
  "plain_token s \<longleftrightarrow>
     s \<noteq> [] \<and> trim s = s \<and> to_ascii_lowercase s = s \<and> uc CHR '';'' \<notin> set s"

lemma plain_tokenI:
  assumes "uc CHR '';'' \<notin> set s" "to_ascii_lowercase (trim s) \<noteq> []"
  shows "plain_token (to_ascii_lowercase (trim s))"
proof -
  have "uc CHR '';'' \<notin> set (trim s)"
    using assms(1) trim_matches_set [of is_whitespace s] by (auto simp: trim_def)
  then show ?thesis
    using assms(2) lower_in_set [of "uc CHR '';''" "trim s"]
    by (auto simp: plain_token_def trim_lowercase is_ascii_lowercase_def)
qed

lemma parse_parameters_charset:
  assumes "parse_parameters ps found = Inr (Some c)"
    and "\<forall>p \<in> set ps. uc CHR '';'' \<notin> set p"
    and "\<And>f. found = Some f \<Longrightarrow> plain_token f"
  shows "plain_token c"
  using assms
proof (induction ps found rule: parse_parameters.induct)
  case (1 found)
  then show ?case by simp
next
  case (2 parameter rest found)
  have token: "plain_token (clean_charset raw)"
    if "split_once (uc CHR ''='') parameter = Some (name, raw)" "clean_charset raw \<noteq> []"
    for name raw
  proof -
    have "uc CHR '';'' \<notin> set raw"
      using split_once_SomeD [OF that(1)] "2.prems"(2) by auto
    moreover have "set (trim_matches is_quote (trim raw)) \<subseteq> set raw"
      using trim_matches_set [of is_quote "trim raw"] trim_matches_set [of is_whitespace raw]
      by (auto simp: trim_def)
    ultimately have "uc CHR '';'' \<notin> set (trim_matches is_quote (trim raw))" by blast
    with that(2) show ?thesis
      unfolding clean_charset_def by (rule plain_tokenI [rotated])
  qed
  show ?case
    using "2.prems" "2.IH" token
    by (auto split: option.splits if_splits)
qed

lemma media_parse_OkD:
  assumes "media_parse v = Inr m"
  shows "plain_token (essence m)"
    and "length (split_on (uc CHR ''/'') (essence m)) = 2"
    and "[] \<notin> set (split_on (uc CHR ''/'') (essence m))"
    and "\<And>c. charset m = Some c \<Longrightarrow> plain_token c"
proof -
  let ?parts = "split_on (uc CHR '';'') v"
  obtain ps where parts: "?parts = hd ?parts # ps" "ps = tl ?parts"
    by (cases ?parts) (auto simp del: uc_def)
  have free: "uc CHR '';'' \<notin> set p" if "p \<in> set ?parts" for p
    using that by (rule split_on_free)
  have ess: "essence m = to_ascii_lowercase (trim (hd ?parts))"
    "essence m \<noteq> []"
    using assms by (auto simp: media_parse_def Let_def result_iffs split: if_splits)
  have "hd ?parts \<in> set ?parts" by simp
  then show "plain_token (essence m)" using ess free plain_tokenI by metis
  show "length (split_on (uc CHR ''/'') (essence m)) = 2"
    and "[] \<notin> set (split_on (uc CHR ''/'') (essence m))"
    using assms by (auto simp: media_parse_def Let_def result_iffs list_ex_iff split: if_splits)
  have params: "parse_parameters ps None = Inr (charset m)"
    using assms parts by (auto simp: media_parse_def Let_def result_iffs split: if_splits)
  show "plain_token c" if "charset m = Some c" for c
  proof (rule parse_parameters_charset)
    show "parse_parameters ps None = Inr (Some c)" using params that by simp
    show "\<forall>p \<in> set ps. uc CHR '';'' \<notin> set p"
      using free parts by (metis list.set_intros(2))
  qed simp
qed

section \<open>Round trip through the normalized header\<close>

definition unquoted :: "str \<Rightarrow> bool" where
  "unquoted c \<longleftrightarrow> c \<noteq> [] \<longrightarrow> \<not> is_quote (hd c) \<and> \<not> is_quote (last c)"

lemma clean_charset_plain: "plain_token c \<Longrightarrow> unquoted c \<Longrightarrow> clean_charset c = c"
  by (simp add: clean_charset_def plain_token_def unquoted_def trim_matches_stable)

lemma charset_name: "eq_ignore_ascii_case (trim (lit '' charset'')) (lit ''charset'')"
  by (simp add: text_eval)

lemma media_parse_header_value:
  assumes parsed: "media_parse v = Inr m"
    and quotes: "\<And>c. charset m = Some c \<Longrightarrow> unquoted c"
  shows "media_parse (header_value m) = Inr m"
proof -
  note facts = media_parse_OkD [OF parsed]
  have ess: "to_ascii_lowercase (trim (essence m)) = essence m" "essence m \<noteq> []"
    "uc CHR '';'' \<notin> set (essence m)"
    using facts(1) by (auto simp: plain_token_def)
  have parts: "split_on (uc CHR '';'') (header_value m) =
      essence m # (case charset m of None \<Rightarrow> [] | Some c \<Rightarrow> [lit '' charset='' @ c])"
  proof (cases "charset m")
    case None
    then show ?thesis using ess by (simp add: header_value_def split_on_absent)
  next
    case (Some c)
    then have "uc CHR '';'' \<notin> set (lit '' charset='' @ c)"
      using facts(4) by (auto simp: plain_token_def lit_def)
    then have "split_on (uc CHR '';'') (lit '' charset='' @ c) = [lit '' charset='' @ c]"
      by (rule split_on_absent)
    moreover have "lit ''; charset='' @ c = uc CHR '';'' # lit '' charset='' @ c"
      by (simp add: lit_def)
    ultimately show ?thesis
      using Some ess split_on_append [of "uc CHR '';''" "essence m" "lit '' charset='' @ c"]
      by (simp add: header_value_def split_on_absent del: uc_def)
  qed
  have "parse_parameters [lit '' charset='' @ c] None = Inr (Some c)"
    if "charset m = Some c" for c
  proof -
    have "split_once (uc CHR ''='') (lit '' charset'' @ uc CHR ''='' # c) =
        Some (lit '' charset'', c)"
      by (rule split_once_append) (simp add: lit_def)
    moreover have "lit '' charset='' = lit '' charset'' @ [uc CHR ''='']"
      by (simp add: lit_def)
    moreover have "clean_charset c = c" "c \<noteq> []"
      using clean_charset_plain facts(4) quotes that by (auto simp: plain_token_def)
    ultimately show ?thesis using charset_name by (simp del: uc_def)
  qed
  then have "parse_parameters (case charset m of None \<Rightarrow> [] | Some c \<Rightarrow> [lit '' charset='' @ c])
      None = Inr (charset m)"
    by (cases "charset m") auto
  then show ?thesis
    using parts ess facts(2,3)
    by (simp add: media_parse_def Let_def list_ex_iff del: uc_def)
qed

lemma supported_charset_unquoted: "c \<in> set SUPPORTED_CHARSETS \<Longrightarrow> unquoted c"
proof -
  have "list_all unquoted SUPPORTED_CHARSETS"
    by (simp add: SUPPORTED_CHARSETS_def unquoted_def is_quote_def lit_def)
  then show "c \<in> set SUPPORTED_CHARSETS \<Longrightarrow> unquoted c" by (simp add: list_all_iff)
qed

lemma media_parse_header_value_supported:
  assumes "media_parse v = Inr m" "is_supported m"
  shows "media_parse (header_value m) = Inr m"
  using assms
  by (intro media_parse_header_value)
     (auto simp: is_supported_def intro: supported_charset_unquoted)

text \<open>The header form of a supported type is short and printable ASCII.\<close>

definition printable :: "str \<Rightarrow> bool" where
  "printable s \<longleftrightarrow> s \<noteq> [] \<and> list_all (\<lambda>c. is_ascii c \<and> \<not> is_control c) s"

lemma supported_parts_bounds:
  "list_all (\<lambda>e. printable e \<and> length e \<le> 21) SUPPORTED_MEDIA_TYPES"
  "list_all (\<lambda>c. printable c \<and> length c \<le> 12) SUPPORTED_CHARSETS"
  "printable (lit ''; charset='')" "length (lit ''; charset='') = 10"
  by (simp_all add: SUPPORTED_MEDIA_TYPES_def SUPPORTED_CHARSETS_def printable_def text_eval)

lemma header_value_supported:
  assumes "is_supported m"
  shows "printable (header_value m)" "byte_len (header_value m) \<le> 43"
proof -
  have ess: "printable (essence m)" "length (essence m) \<le> 21"
    using assms supported_parts_bounds(1) by (auto simp: is_supported_def list_all_iff)
  have cs: "printable c \<and> length c \<le> 12" if "charset m = Some c" for c
    using assms that supported_parts_bounds(2) by (auto simp: is_supported_def list_all_iff)
  show printable: "printable (header_value m)"
    using ess(1) cs supported_parts_bounds(3)
    by (cases "charset m") (auto simp: header_value_def printable_def)
  then have "byte_len (header_value m) = length (header_value m)"
    by (intro byte_len_ascii) (auto simp: printable_def list_all_iff)
  also have "\<dots> \<le> 43"
    using ess(2) cs supported_parts_bounds(4)
    by (cases "charset m") (fastforce simp: header_value_def)+
  finally show "byte_len (header_value m) \<le> 43" .
qed

end
