(* ===== verification/Envelope.thy ===== *)
theory Envelope
  imports Contracts
begin

text \<open>
  \<^verbatim>\<open>contracts/src/envelope.rs\<close>: the reusable result envelope. The payload type is a
  parameter of every operation, as the trait \<^verbatim>\<open>Payload\<close> is of \<^verbatim>\<open>Envelope<P>\<close>; parsing JSON
  (serde) is an argument of \<open>envelope_from_json\<close> and \<open>envelope_to_json\<close>.
\<close>

definition ENVELOPE_VERSION :: u32 where
  "ENVELOPE_VERSION = 1"

text \<open>The trait \<^verbatim>\<open>Payload\<close>: its two constants and its validation.\<close>

record 'p payload =
  TOOL :: str
  TOOL_VERSION :: u32
  payload_validate :: "'p \<Rightarrow> contract_error + unit"

datatype status = Status_Ok | Status_Rejected | Status_Error

datatype trust = ExternalUntrusted

datatype inspection_status = Insp_NoMatch | Insp_Match | Insp_Failed | Insp_NotRun

record inspection_field =
  insp_status :: inspection_status
  insp_policy_id :: "str option"

definition inspection_new :: "inspection_status \<Rightarrow> str option \<Rightarrow> inspection_field" where
  "inspection_new s p = \<lparr>insp_status = s, insp_policy_id = p\<rparr>"

definition inspection_not_run :: inspection_field where
  "inspection_not_run = inspection_new Insp_NotRun None"

definition inspection_failed :: "str option \<Rightarrow> inspection_field" where
  "inspection_failed p = inspection_new Insp_Failed p"

datatype error_code =
    ContentRejected
  | InspectionFailed
  | UnsafeSource
  | UnsupportedContent
  | ResponseLimitExceeded
  | FetchFailed
  | DeadlineExceeded
  | InternalError

definition code_message :: "error_code \<Rightarrow> str" where
  "code_message c = lit (case c of
     ContentRejected \<Rightarrow> ''Response content was withheld from model context.''
   | InspectionFailed \<Rightarrow> ''Response inspection did not complete; no content was returned.''
   | UnsafeSource \<Rightarrow> ''The requested destination is not allowed.''
   | UnsupportedContent \<Rightarrow> ''The response media type or encoding is not supported.''
   | ResponseLimitExceeded \<Rightarrow> ''The response exceeded a configured limit.''
   | FetchFailed \<Rightarrow> ''The request to the source could not be completed.''
   | DeadlineExceeded \<Rightarrow> ''The request did not complete within its deadline.''
   | InternalError \<Rightarrow> ''The tool could not complete this request.'')"

definition permits_status :: "error_code \<Rightarrow> inspection_status \<Rightarrow> bool" where
  "permits_status c s = (case c of
     ContentRejected \<Rightarrow> s = Insp_Match
   | InspectionFailed \<Rightarrow> s = Insp_Failed
   | _ \<Rightarrow> s = Insp_NotRun \<or> s = Insp_Failed)"

definition code_status :: "error_code \<Rightarrow> status" where
  "code_status c = (case c of ContentRejected \<Rightarrow> Status_Rejected | _ \<Rightarrow> Status_Error)"

record tool_error =
  err_code :: error_code
  err_message :: str

definition tool_error_new :: "error_code \<Rightarrow> tool_error" where
  "tool_error_new c = \<lparr>err_code = c, err_message = code_message c\<rparr>"

record 'p envelope =
  envelope_version :: u32
  tool :: str
  tool_version :: u32
  env_status :: status
  trust :: trust
  inspection :: inspection_field
  env_data :: "'p option"
  env_error :: "tool_error option"

text \<open>The derived \<^verbatim>\<open>Debug\<close> names that error texts show.\<close>

definition debug_status :: "status \<Rightarrow> str" where
  "debug_status s = lit (case s of
     Status_Ok \<Rightarrow> ''Ok'' | Status_Rejected \<Rightarrow> ''Rejected'' | Status_Error \<Rightarrow> ''Error'')"

definition debug_inspection_status :: "inspection_status \<Rightarrow> str" where
  "debug_inspection_status s = lit (case s of
     Insp_NoMatch \<Rightarrow> ''NoMatch'' | Insp_Match \<Rightarrow> ''Match''
   | Insp_Failed \<Rightarrow> ''Failed'' | Insp_NotRun \<Rightarrow> ''NotRun'')"

definition debug_code :: "error_code \<Rightarrow> str" where
  "debug_code c = lit (case c of
     ContentRejected \<Rightarrow> ''ContentRejected'' | InspectionFailed \<Rightarrow> ''InspectionFailed''
   | UnsafeSource \<Rightarrow> ''UnsafeSource'' | UnsupportedContent \<Rightarrow> ''UnsupportedContent''
   | ResponseLimitExceeded \<Rightarrow> ''ResponseLimitExceeded'' | FetchFailed \<Rightarrow> ''FetchFailed''
   | DeadlineExceeded \<Rightarrow> ''DeadlineExceeded'' | InternalError \<Rightarrow> ''InternalError'')"

definition policy_id_shaped :: "str \<Rightarrow> bool" where
  "policy_id_shaped v \<longleftrightarrow>
     v \<noteq> [] \<and> byte_len v \<le> 64
     \<and> list_all (\<lambda>c. is_ascii_lowercase c \<or> is_ascii_digit c
          \<or> c = uc CHR ''-'' \<or> c = uc CHR ''_'' \<or> c = uc CHR ''.'') v"

definition validate_policy_id :: "str \<Rightarrow> contract_error + unit" where
  "validate_policy_id v =
     (if policy_id_shaped v then Inr ()
      else refuse ''inspection.policy_id is not a valid policy identifier'')"

text \<open>The \<^verbatim>\<open>match\<close> of \<^verbatim>\<open>Envelope::validate\<close> on status, data and error.\<close>

fun validate_outcome ::
    "'p payload \<Rightarrow> inspection_field \<Rightarrow> status \<Rightarrow> 'p option \<Rightarrow> tool_error option
       \<Rightarrow> contract_error + unit" where
  "validate_outcome P i Status_Ok (Some d) None =
     (if insp_status i \<noteq> Insp_NoMatch then refuse ''ok requires a completed no_match inspection''
      else if insp_policy_id i = None
        then refuse ''ok requires the policy that cleared the response''
      else payload_validate P d)"
| "validate_outcome P i Status_Ok d e = refuse ''ok requires non-null data and null error''"
| "validate_outcome P i s None (Some e) =
     (if code_status (err_code e) \<noteq> s
        then Inl (contract_error_new (debug_status s @ lit '' is not the status for error code ''
               @ debug_code (err_code e)))
      else if err_message e \<noteq> code_message (err_code e)
        then refuse ''error.message is not this code's fixed message''
      else if \<not> permits_status (err_code e) (insp_status i)
        then Inl (contract_error_new (lit ''inspection status ''
               @ debug_inspection_status (insp_status i)
               @ lit '' cannot accompany error code '' @ debug_code (err_code e)))
      else Inr ())"
| "validate_outcome P i s d e = refuse ''a failure requires null data and a fixed error''"

definition validate_inspection_policy :: "inspection_field \<Rightarrow> contract_error + unit" where
  "validate_inspection_policy i =
     (case insp_policy_id i of
        Some p \<Rightarrow> validate_policy_id p
      | None \<Rightarrow>
          if insp_status i = Insp_Match
          then refuse ''a match must name the policy that matched''
          else Inr ())"

definition envelope_validate :: "'p payload \<Rightarrow> 'p envelope \<Rightarrow> contract_error + unit" where
  "envelope_validate P e =
     (if envelope_version e \<noteq> ENVELOPE_VERSION
        then refuse_with ''unsupported envelope_version: '' (show_nat (unat (envelope_version e)))
      else if tool e \<noteq> TOOL P \<or> tool_version e \<noteq> TOOL_VERSION P
        then Inl (contract_error_new (lit ''envelope carries '' @ tool e @ lit '':v''
               @ show_nat (unat (tool_version e)) @ lit '', expected '' @ TOOL P @ lit '':v''
               @ show_nat (unat (TOOL_VERSION P))))
      else and_then
             (validate_outcome P (inspection e) (env_status e) (env_data e) (env_error e))
             (\<lambda>_. validate_inspection_policy (inspection e)))"

text \<open>The value \<^verbatim>\<open>Envelope::ok\<close> assembles before it validates it.\<close>

definition ok_envelope :: "'p payload \<Rightarrow> 'p \<Rightarrow> str \<Rightarrow> 'p envelope" where
  "ok_envelope P d policy_id =
     \<lparr>envelope_version = ENVELOPE_VERSION, tool = TOOL P, tool_version = TOOL_VERSION P,
      env_status = Status_Ok, trust = ExternalUntrusted,
      inspection = inspection_new Insp_NoMatch (Some policy_id),
      env_data = Some d, env_error = None\<rparr>"

definition envelope_ok :: "'p payload \<Rightarrow> 'p \<Rightarrow> str \<Rightarrow> contract_error + 'p envelope" where
  "envelope_ok P d policy_id =
     (let e = ok_envelope P d policy_id
      in and_then (envelope_validate P e) (\<lambda>_. Inr e))"

text \<open>The value \<^verbatim>\<open>Envelope::failure\<close> assembles before it validates it.\<close>

definition failure_envelope ::
    "'p payload \<Rightarrow> error_code \<Rightarrow> inspection_field \<Rightarrow> 'p envelope" where
  "failure_envelope P c i =
     \<lparr>envelope_version = ENVELOPE_VERSION, tool = TOOL P, tool_version = TOOL_VERSION P,
      env_status = code_status c, trust = ExternalUntrusted, inspection = i,
      env_data = None, env_error = Some (tool_error_new c)\<rparr>"

definition envelope_failure ::
    "'p payload \<Rightarrow> error_code \<Rightarrow> inspection_field \<Rightarrow> contract_error + 'p envelope" where
  "envelope_failure P c i =
     (let e = failure_envelope P c i
      in and_then (envelope_validate P e) (\<lambda>_. Inr e))"

text \<open>
  \<^verbatim>\<open>from_json\<close> and \<^verbatim>\<open>to_json\<close>, given serde's parser and printer for the envelope type. Each
  has an error text of its own.
\<close>

definition envelope_from_json ::
    "(str \<Rightarrow> str + 'p envelope) \<Rightarrow> 'p payload \<Rightarrow> str \<Rightarrow> contract_error + 'p envelope" where
  "envelope_from_json de P v =
     and_then (context_err ''envelope is not valid: '' (de v))
       (\<lambda>e. and_then (envelope_validate P e) (\<lambda>_. Inr e))"

definition envelope_to_json ::
    "('p envelope \<Rightarrow> str + str) \<Rightarrow> 'p payload \<Rightarrow> 'p envelope \<Rightarrow> contract_error + str" where
  "envelope_to_json ser P e =
     and_then (envelope_validate P e)
       (\<lambda>_. context_err ''envelope could not be serialized: '' (ser e))"

section \<open>What a valid envelope is\<close>

text \<open>
  The contract the envelope promises its reader, without the order of the checks or their
  error texts.
\<close>

definition clean_success :: "'p payload \<Rightarrow> 'p envelope \<Rightarrow> bool" where
  "clean_success P e \<longleftrightarrow>
     env_status e = Status_Ok \<and> env_error e = None
     \<and> (\<exists>d. env_data e = Some d \<and> payload_validate P d = Inr ())
     \<and> insp_status (inspection e) = Insp_NoMatch
     \<and> (\<exists>p. insp_policy_id (inspection e) = Some p \<and> policy_id_shaped p)"

definition fixed_failure :: "'p envelope \<Rightarrow> bool" where
  "fixed_failure e \<longleftrightarrow>
     env_data e = None
     \<and> (\<exists>c. env_error e = Some (tool_error_new c) \<and> env_status e = code_status c
          \<and> permits_status c (insp_status (inspection e)))
     \<and> (\<forall>p. insp_policy_id (inspection e) = Some p \<longrightarrow> policy_id_shaped p)
     \<and> (insp_status (inspection e) = Insp_Match \<longrightarrow> insp_policy_id (inspection e) \<noteq> None)"

definition envelope_contract :: "'p payload \<Rightarrow> 'p envelope \<Rightarrow> bool" where
  "envelope_contract P e \<longleftrightarrow>
     envelope_version e = ENVELOPE_VERSION \<and> tool e = TOOL P
     \<and> tool_version e = TOOL_VERSION P \<and> (clean_success P e \<or> fixed_failure e)"

lemma code_status_not_ok [simp]: "code_status c \<noteq> Status_Ok" "Status_Ok \<noteq> code_status c"
  by (cases c; simp add: code_status_def)+

lemma permits_match_iff: "permits_status c Insp_Match \<longleftrightarrow> c = ContentRejected"
  by (cases c) (auto simp: permits_status_def)

lemma permits_no_match [simp]: "\<not> permits_status c Insp_NoMatch"
  by (cases c) (auto simp: permits_status_def)

lemma validate_policy_id_iff [simp]: "validate_policy_id v = Inr u \<longleftrightarrow> policy_id_shaped v"
  by (simp add: validate_policy_id_def)

lemma validate_inspection_policy_iff:
  "validate_inspection_policy i = Inr u \<longleftrightarrow>
     (\<forall>p. insp_policy_id i = Some p \<longrightarrow> policy_id_shaped p)
     \<and> (insp_status i = Insp_Match \<longrightarrow> insp_policy_id i \<noteq> None)"
  by (auto simp: validate_inspection_policy_def split: option.splits)

lemma tool_error_eq_new_iff:
  "(e :: tool_error) = tool_error_new c \<longleftrightarrow> err_code e = c \<and> err_message e = code_message c"
  by (cases e) (auto simp: tool_error_new_def)

lemma validate_outcome_iff:
  "validate_outcome P i s d e = Inr u \<longleftrightarrow>
     (s = Status_Ok \<and> e = None \<and> insp_status i = Insp_NoMatch \<and> insp_policy_id i \<noteq> None
        \<and> (\<exists>x. d = Some x \<and> payload_validate P x = Inr ()))
     \<or> (d = None \<and> (\<exists>c. e = Some (tool_error_new c) \<and> s = code_status c
          \<and> permits_status c (insp_status i)))"
proof (cases s)
  case Status_Ok
  then show ?thesis
    by (cases d; cases e; cases "insp_policy_id i") (auto simp: tool_error_eq_new_iff)
next
  case Status_Rejected
  then show ?thesis by (cases d; cases e) (auto simp: tool_error_eq_new_iff)
next
  case Status_Error
  then show ?thesis by (cases d; cases e) (auto simp: tool_error_eq_new_iff)
qed

lemma envelope_validate_contract: "envelope_validate P e = Inr u \<longleftrightarrow> envelope_contract P e"
proof (cases "envelope_version e = ENVELOPE_VERSION \<and> tool e = TOOL P
    \<and> tool_version e = TOOL_VERSION P")
  case False
  then show ?thesis by (auto simp: envelope_validate_def envelope_contract_def)
next
  case True
  then show ?thesis
    by (auto simp: envelope_validate_def result_iffs validate_outcome_iff
        validate_inspection_policy_iff envelope_contract_def clean_success_def fixed_failure_def)
qed

section \<open>The two constructors\<close>

lemma ok_envelope_contract:
  "envelope_contract P (ok_envelope P d p) \<longleftrightarrow>
     payload_validate P d = Inr () \<and> policy_id_shaped p"
  by (auto simp: envelope_contract_def clean_success_def fixed_failure_def ok_envelope_def
      inspection_new_def)

lemma envelope_ok_iff:
  "envelope_ok P d p = Inr e \<longleftrightarrow>
     e = ok_envelope P d p \<and> payload_validate P d = Inr () \<and> policy_id_shaped p"
  by (auto simp: envelope_ok_def Let_def result_iffs envelope_validate_contract
      ok_envelope_contract)

definition failure_admitted :: "error_code \<Rightarrow> inspection_field \<Rightarrow> bool" where
  "failure_admitted c i \<longleftrightarrow>
     permits_status c (insp_status i)
     \<and> (case insp_policy_id i of
          Some p \<Rightarrow> policy_id_shaped p
        | None \<Rightarrow> c \<noteq> ContentRejected)"

lemma failure_envelope_contract:
  "envelope_contract P (failure_envelope P c i) \<longleftrightarrow> failure_admitted c i"
proof -
  have inj: "tool_error_new c = tool_error_new c' \<longleftrightarrow> c = c'" for c'
    by (auto simp: tool_error_new_def)
  have "permits_status c s \<Longrightarrow> s = Insp_Match \<longleftrightarrow> c = ContentRejected" for s
    by (cases c) (auto simp: permits_status_def)
  then have "fixed_failure (failure_envelope P c i) \<longleftrightarrow> failure_admitted c i"
    unfolding fixed_failure_def failure_admitted_def
    by (cases "insp_policy_id i") (auto simp: failure_envelope_def inj)
  then show ?thesis
    by (auto simp: envelope_contract_def clean_success_def failure_envelope_def)
qed

lemma envelope_failure_iff:
  "envelope_failure P c i = Inr e \<longleftrightarrow> e = failure_envelope P c i \<and> failure_admitted c i"
  by (auto simp: envelope_failure_def Let_def result_iffs envelope_validate_contract
      failure_envelope_contract)

lemma envelope_failure_not_run:
  "envelope_failure P c inspection_not_run = Inr (failure_envelope P c inspection_not_run)
     \<longleftrightarrow> c \<noteq> ContentRejected \<and> c \<noteq> InspectionFailed"
  by (cases c) (auto simp: envelope_failure_iff failure_admitted_def inspection_not_run_def
      inspection_new_def permits_status_def)

text \<open>\<^verbatim>\<open>Envelope::failure\<close> builds an envelope for exactly the pairs of code and inspection
  the contract admits, the envelope it builds is the fixed one for that pair and validates,
  and \<^verbatim>\<open>Envelope::ok\<close> builds one exactly for a payload that validates under a well-formed
  policy id. No other field is the caller's.\<close>

lemma envelope_constructors:
  "(envelope_failure P c i = Inr e \<longleftrightarrow> e = failure_envelope P c i \<and> failure_admitted c i)
   \<and> (envelope_ok P d p = Inr e' \<longleftrightarrow>
        e' = ok_envelope P d p \<and> payload_validate P d = Inr () \<and> policy_id_shaped p)"
  by (simp add: envelope_failure_iff envelope_ok_iff)

section \<open>Across the wire\<close>

lemma envelope_from_json_iff:
  "envelope_from_json de P v = Inr e \<longleftrightarrow> de v = Inr e \<and> envelope_contract P e"
  by (auto simp: envelope_from_json_def result_iffs envelope_validate_contract)

lemma envelope_to_json_iff:
  "envelope_to_json ser P e = Inr t \<longleftrightarrow> ser e = Inr t \<and> envelope_contract P e"
  by (auto simp: envelope_to_json_def result_iffs envelope_validate_contract)

end
