(* ===== verification/Web_Fetch.thy ===== *)
theory Web_Fetch
  imports Media Envelope
begin

text \<open>
  \<^verbatim>\<open>contracts/src/web_fetch.rs\<close>: the \<^verbatim>\<open>web_fetch:v1\<close> request and payload. The crates
  \<^verbatim>\<open>url\<close> and \<^verbatim>\<open>time\<close> are not part of the repository: a URL is a value of an arbitrary type
  with the accessors the code calls, collected in \<open>url_lib\<close>, and a timestamp likewise in
  \<open>time_lib\<close>.
\<close>

section \<open>The URL and time libraries\<close>

text \<open>\<open>url_parse\<close> and \<open>url_join\<close> return the library's error text on failure.\<close>

record 'u url_lib =
  url_parse :: "str \<Rightarrow> str + 'u"
  url_join :: "'u \<Rightarrow> str \<Rightarrow> str + 'u"
  url_scheme :: "'u \<Rightarrow> str"
  url_username :: "'u \<Rightarrow> str"
  url_password :: "'u \<Rightarrow> str option"
  url_host_str :: "'u \<Rightarrow> str option"
  url_port :: "'u \<Rightarrow> u16 option"
  url_port_or_known_default :: "'u \<Rightarrow> u16 option"
  url_clear_fragment :: "'u \<Rightarrow> 'u"
  url_as_str :: "'u \<Rightarrow> str"

record 't time_lib =
  rfc3339_parse :: "str \<Rightarrow> 't option"
  rfc3339_format :: "'t \<Rightarrow> str option"

section \<open>Requests\<close>

definition WEB_FETCH_TOOL :: str where
  "WEB_FETCH_TOOL = lit ''web_fetch''"

definition WEB_FETCH_TOOL_VERSION :: u32 where
  "WEB_FETCH_TOOL_VERSION = 1"

datatype format = Markdown | Text | Html

datatype conversion_method = Native | Extracted | Basic | Passthrough | Source

record web_fetch_request =
  req_url :: str
  req_format :: format

definition request_new :: "str \<Rightarrow> format \<Rightarrow> web_fetch_request" where
  "request_new url fmt = \<lparr>req_url = url, req_format = fmt\<rparr>"

definition check_destination :: "'u url_lib \<Rightarrow> 'u \<Rightarrow> contract_error + unit" where
  "check_destination L u =
     (if url_scheme L u \<noteq> lit ''http'' \<and> url_scheme L u \<noteq> lit ''https''
        then refuse_with ''unsupported URL scheme: '' (url_scheme L u)
      else if url_username L u \<noteq> [] \<or> url_password L u \<noteq> None
        then refuse ''URL userinfo is not supported''
      else if (case url_host_str L u of None \<Rightarrow> True | Some h \<Rightarrow> h = [])
        then refuse ''URL must have a host''
      else Inr ())"

definition check_fetchable :: "'u url_lib \<Rightarrow> 'u \<Rightarrow> contract_error + unit" where
  "check_fetchable L u =
     and_then (check_destination L u)
       (\<lambda>_. case url_port L u of
              None \<Rightarrow> Inr ()
            | Some p \<Rightarrow>
                if p = 80 \<or> p = 443 then Inr ()
                else Inl (contract_error_new
                       (lit ''port '' @ show_nat (unat p) @ lit '' is not supported'')))"

definition destination_url :: "'u url_lib \<Rightarrow> web_fetch_request \<Rightarrow> contract_error + 'u" where
  "destination_url L r =
     (if byte_len (req_url r) > MAX_URL_CHARS
        then Inl (contract_error_new (lit ''request.url must be at most ''
               @ show_nat MAX_URL_CHARS @ lit '' characters''))
      else and_then (context_err ''request.url is not a URL: '' (url_parse L (trim (req_url r))))
             (\<lambda>u. and_then (check_destination L u) (\<lambda>_. Inr (url_clear_fragment L u))))"

definition validated_url :: "'u url_lib \<Rightarrow> web_fetch_request \<Rightarrow> contract_error + 'u" where
  "validated_url L r =
     and_then (destination_url L r) (\<lambda>u. and_then (check_fetchable L u) (\<lambda>_. Inr u))"

text \<open>
  \<^verbatim>\<open>WebFetchRequest::from_json\<close>, given serde's parser for the struct, which refuses unknown
  fields and supplies the default format.
\<close>

definition request_from_json ::
    "(str \<Rightarrow> str + web_fetch_request) \<Rightarrow> 'u url_lib \<Rightarrow> str
       \<Rightarrow> contract_error + web_fetch_request" where
  "request_from_json de L v =
     and_then (context_err ''request is not valid: '' (de v))
       (\<lambda>r. and_then (validated_url L r) (\<lambda>_. Inr r))"

section \<open>The payload\<close>

record web_fetch_data =
  source_id :: str
  final_url :: str
  http_status :: u16
  content_type :: str
  retrieved_at :: str
  data_format :: format
  data_method :: conversion_method
  data_content :: str

definition is_source_id :: "str \<Rightarrow> bool" where
  "is_source_id value \<longleftrightarrow>
     (case strip_prefix (lit ''source-'') value of
        None \<Rightarrow> False
      | Some suffix \<Rightarrow>
          suffix \<noteq> [] \<and> byte_len suffix \<le> 32 \<and> list_all is_ascii_digit suffix)"

definition data_validate ::
    "'u url_lib \<Rightarrow> 't time_lib \<Rightarrow> web_fetch_data \<Rightarrow> contract_error + unit" where
  "data_validate L T d =
     (if \<not> is_source_id (source_id d)
        then refuse ''data.source_id must be a run-scoped source identifier''
      else if byte_len (final_url d) > MAX_URL_CHARS
        then refuse ''data.final_url is too long''
      else and_then (context_err ''data.final_url is not a URL: '' (url_parse L (final_url d)))
       (\<lambda>u. and_then (check_destination L u)
       (\<lambda>_. if \<not> (100 \<le> http_status d \<and> http_status d \<le> 599)
              then refuse ''data.http_status is not an HTTP status code''
            else if content_type d = [] \<or> byte_len (content_type d) > MAX_CONTENT_TYPE_CHARS
              then refuse ''data.content_type is not a usable media type''
            else if list_ex (\<lambda>c. is_control c \<or> \<not> is_ascii c) (content_type d)
              then refuse ''data.content_type must be printable ASCII''
            else if rfc3339_parse T (retrieved_at d) = None
              then refuse ''data.retrieved_at must be an RFC 3339 timestamp''
            else if length (data_content d) > MAX_CONTENT_CHARS
              then refuse ''data.content exceeds the returned-content limit''
            else if data_format d = Html \<and> data_method d \<noteq> Source
              then refuse ''html output is only ever returned as inert source''
            else Inr ())))"

definition web_fetch_payload ::
    "'u url_lib \<Rightarrow> 't time_lib \<Rightarrow> web_fetch_data payload" where
  "web_fetch_payload L T =
     \<lparr>TOOL = WEB_FETCH_TOOL, TOOL_VERSION = WEB_FETCH_TOOL_VERSION,
      payload_validate = data_validate L T\<rparr>"

section \<open>What the checks admit\<close>

definition plain_http :: "'u url_lib \<Rightarrow> 'u \<Rightarrow> bool" where
  "plain_http L u \<longleftrightarrow>
     url_scheme L u \<in> {lit ''http'', lit ''https''}
     \<and> url_username L u = [] \<and> url_password L u = None
     \<and> (\<exists>h. url_host_str L u = Some h \<and> h \<noteq> [])"

lemma check_destination_iff: "check_destination L u = Inr x \<longleftrightarrow> plain_http L u"
  by (auto simp: check_destination_def plain_http_def split: option.splits)

lemma check_fetchable_iff:
  "check_fetchable L u = Inr x \<longleftrightarrow>
     plain_http L u \<and> url_port L u \<in> {None, Some 80, Some 443}"
  by (auto simp: check_fetchable_def result_iffs check_destination_iff
      split: option.splits if_splits)

lemma destination_url_iff:
  "destination_url L r = Inr v \<longleftrightarrow>
     byte_len (req_url r) \<le> MAX_URL_CHARS
     \<and> (\<exists>u. url_parse L (trim (req_url r)) = Inr u \<and> plain_http L u
          \<and> v = url_clear_fragment L u)"
  by (auto simp: destination_url_def result_iffs check_destination_iff)

text \<open>
  Clearing the fragment leaves the parts that are judged alone, as the url crate documents
  of \<^verbatim>\<open>set_fragment\<close>.
\<close>

definition fragment_inert :: "'u url_lib \<Rightarrow> 'u \<Rightarrow> bool" where
  "fragment_inert L u \<longleftrightarrow>
     (let v = url_clear_fragment L u
      in url_scheme L v = url_scheme L u \<and> url_username L v = url_username L u
         \<and> url_password L v = url_password L u \<and> url_host_str L v = url_host_str L u
         \<and> url_port L v = url_port L u)"

lemma plain_http_clear_fragment:
  "fragment_inert L u \<Longrightarrow> plain_http L (url_clear_fragment L u) = plain_http L u"
  by (simp add: fragment_inert_def plain_http_def Let_def)

definition payload_contract :: "'u url_lib \<Rightarrow> 't time_lib \<Rightarrow> web_fetch_data \<Rightarrow> bool" where
  "payload_contract L T d \<longleftrightarrow>
     (\<exists>n. source_id d = lit ''source-'' @ n \<and> n \<noteq> [] \<and> byte_len n \<le> 32
        \<and> list_all is_ascii_digit n)
     \<and> byte_len (final_url d) \<le> MAX_URL_CHARS
     \<and> (\<exists>u. url_parse L (final_url d) = Inr u \<and> plain_http L u)
     \<and> 100 \<le> unat (http_status d) \<and> unat (http_status d) \<le> 599
     \<and> printable (content_type d) \<and> byte_len (content_type d) \<le> MAX_CONTENT_TYPE_CHARS
     \<and> rfc3339_parse T (retrieved_at d) \<noteq> None
     \<and> length (data_content d) \<le> MAX_CONTENT_CHARS
     \<and> (data_format d = Html \<longrightarrow> data_method d = Source)"

lemma is_source_id_iff:
  "is_source_id v \<longleftrightarrow>
     (\<exists>n. v = lit ''source-'' @ n \<and> n \<noteq> [] \<and> byte_len n \<le> 32 \<and> list_all is_ascii_digit n)"
  by (auto simp: is_source_id_def strip_prefix_Some_iff [symmetric] split: option.splits)

lemma data_validate_contract: "data_validate L T d = Inr x \<longleftrightarrow> payload_contract L T d"
proof -
  have "100 \<le> http_status d \<and> http_status d \<le> 599 \<longleftrightarrow>
      100 \<le> unat (http_status d) \<and> unat (http_status d) \<le> 599"
    by (simp add: word_le_nat_alt)
  moreover have "printable (content_type d) \<longleftrightarrow>
      content_type d \<noteq> [] \<and> \<not> list_ex (\<lambda>c. is_control c \<or> \<not> is_ascii c) (content_type d)"
    by (auto simp: printable_def list_ex_iff list_all_iff)
  ultimately show ?thesis
    unfolding data_validate_def payload_contract_def is_source_id_iff
    by (auto simp: result_iffs check_destination_iff not_less)
qed

text \<open>C0: \<^verbatim>\<open>WebFetchData::validate\<close> accepts a payload exactly when its source id is
  \<^verbatim>\<open>source-\<close> and 1 to 32 digits, its final URL is at most 2048 bytes and a plain HTTP(S) URL
  with a host and no userinfo, its status is 100 to 599, its content type is non-empty
  printable ASCII of at most 200 bytes, its timestamp parses, its content has at most
  1048576 characters, and HTML output is only reported as inert source.\<close>

theorem data_validate_iff: "data_validate L T d = Inr () \<longleftrightarrow> payload_contract L T d"
  by (rule data_validate_contract)

text \<open>A request is accepted by \<^verbatim>\<open>WebFetchRequest::validated_url\<close> only if its URL is at
  most 2048 bytes, parses to a plain HTTP(S) URL without userinfo and names no port but 80
  or 443, and what the fetcher gets is that URL without its fragment, plain HTTP(S) itself.\<close>

lemma validated_url_sound:
  assumes "validated_url L r = Inr v"
    and "\<And>u. url_parse L (trim (req_url r)) = Inr u \<Longrightarrow> fragment_inert L u"
  shows "byte_len (req_url r) \<le> 2048
    \<and> (\<exists>u. url_parse L (trim (req_url r)) = Inr u \<and> v = url_clear_fragment L u
         \<and> url_port L u \<in> {None, Some 80, Some 443})
    \<and> plain_http L v"
  using assms
  by (auto simp: validated_url_def result_iffs destination_url_iff check_fetchable_iff
      limit_defs fragment_inert_def Let_def)

section \<open>A concrete URL library\<close>

text \<open>
  Instances of the library parameters on which hypotheses about them can be checked: URLs
  are their own text, with the scheme \<^verbatim>\<open>https\<close>, the host up to the first slash or number
  sign, and a port read from nowhere.
\<close>

definition example_url_lib :: "str url_lib" where
  "example_url_lib =
     \<lparr>url_parse = (\<lambda>s. if starts_with (lit ''https://'') s then Inr s
                       else Inl (lit ''relative URL without a base'')),
      url_join = (\<lambda>u l. if starts_with (lit ''https://'') l then Inr l
                        else Inr (u @ l)),
      url_scheme = (\<lambda>u. lit ''https''),
      url_username = (\<lambda>u. []),
      url_password = (\<lambda>u. None),
      url_host_str = (\<lambda>u. Some (takeWhile (\<lambda>c. c \<noteq> 47 \<and> c \<noteq> 35) (drop 8 u))),
      url_port = (\<lambda>u. None),
      url_port_or_known_default = (\<lambda>u. Some 443),
      url_clear_fragment = (\<lambda>u. takeWhile (\<lambda>c. c \<noteq> 35) u),
      url_as_str = (\<lambda>u. u)\<rparr>"

definition example_time_lib :: "str time_lib" where
  "example_time_lib = \<lparr>rfc3339_parse = Some, rfc3339_format = Some\<rparr>"

definition example_request :: web_fetch_request where
  "example_request = request_new (lit '' https://example.com/page#top'') Markdown"

section \<open>The URL limit counts bytes\<close>

lemma byte_len_replicate [simp]: "byte_len (replicate n c) = n * len_utf8 c"
  by (induction n) auto

text \<open>The length rule of \<^verbatim>\<open>destination_url\<close> is on bytes although its constant and its
  error speak of characters: a request whose URL has 1100 two-byte characters, well under
  2048, is refused as too long whatever the URL library says.\<close>

lemma destination_url_limit_is_bytes:
  "destination_url L (request_new (replicate 1100 0xE9) fmt) =
     Inl (contract_error_new (lit ''request.url must be at most 2048 characters''))
   \<and> length (req_url (request_new (replicate 1100 0xE9) fmt)) \<le> MAX_URL_CHARS"
proof -
  have "lit ''request.url must be at most 2048 characters'' =
      lit ''request.url must be at most '' @ show_nat 2048 @ lit '' characters''"
    by (simp add: lit_def show_nat.simps)
  then show ?thesis
    by (simp add: destination_url_def request_new_def limit_defs len_utf8_def)
qed

end
