(* ===== verification/Resolve.thy ===== *)
theory Resolve
  imports Policy_Facts Web_Fetch
begin

text \<open>
  \<^verbatim>\<open>fetch-worker/src/resolve.rs\<close>: one lookup per hop, judged as a whole and pinned to the
  connection. A resolver is a function from a host and a port to an I/O error or the
  addresses it answers; nothing is assumed of the answers.
\<close>

section \<open>Resolvers\<close>

type_synonym host_resolver = "str \<Rightarrow> u16 \<Rightarrow> str + ip_addr list"

text \<open>\<^verbatim>\<open>SystemResolver\<close>, over the operating system's \<^verbatim>\<open>to_socket_addrs\<close>.\<close>

definition system_lookup :: "(str \<Rightarrow> u16 \<Rightarrow> str + socket_addr list) \<Rightarrow> host_resolver" where
  "system_lookup to_socket_addrs host port =
     and_then (to_socket_addrs host port) (\<lambda>addresses. Inr (map sa_ip addresses))"

text \<open>\<^verbatim>\<open>StaticResolver\<close>, a table keyed by the lower-cased host.\<close>

type_synonym static_resolver = "str \<rightharpoonup> ip_addr list"

definition static_with :: "static_resolver \<Rightarrow> str \<Rightarrow> ip_addr list \<Rightarrow> static_resolver" where
  "static_with answers host addresses = answers(to_ascii_lowercase host \<mapsto> addresses)"

definition static_lookup :: "static_resolver \<Rightarrow> host_resolver" where
  "static_lookup answers host _ = ok_or (lit ''no answer'') (answers (to_ascii_lowercase host))"

section \<open>Validated destinations\<close>

record 'u validated_destination =
  dest_url :: 'u
  dest_addresses :: "socket_addr list"

definition resolve ::
    "'u url_lib \<Rightarrow> host_resolver \<Rightarrow> destination_policy \<Rightarrow> 'u
       \<Rightarrow> error_code + 'u validated_destination" where
  "resolve L lookup P url =
     and_then (map_err (\<lambda>_. UnsafeSource) (check_destination L url)) (\<lambda>_.
     and_then (ok_or UnsafeSource (url_host_str L url)) (\<lambda>host.
     and_then (ok_or UnsafeSource (url_port_or_known_default L url)) (\<lambda>port.
     if \<not> permits_port P port then Inl UnsafeSource
     else
       and_then (map_err (\<lambda>_. FetchFailed) (lookup host port)) (\<lambda>addresses.
       if addresses = [] then Inl FetchFailed
       else if \<not> list_all (permits P) addresses then Inl UnsafeSource
       else Inr \<lparr>dest_url = url,
              dest_addresses = map (\<lambda>address. \<lparr>sa_ip = address, sa_port = port\<rparr>) addresses\<rparr>))))"

datatype ureq_error =
    Ureq_Timeout
  | Ureq_BodyStalled
  | Ureq_BodyExceedsLimit
  | Ureq_LargeResponseHeader
  | Ureq_TooManyRedirects
  | Ureq_RequireHttpsOnly
  | Ureq_BadUri
  | Ureq_TlsRequired
  | Ureq_HostNotFound
  | Ureq_Other str

text \<open>The pinned resolver holds addresses and answers with them whatever it is asked.\<close>

type_synonym pinned_addresses = "socket_addr list"

definition pinned_resolver :: "'u validated_destination \<Rightarrow> pinned_addresses" where
  "pinned_resolver d = dest_addresses d"

definition pinned_resolve :: "pinned_addresses \<Rightarrow> str \<Rightarrow> ureq_error + socket_addr list" where
  "pinned_resolve addresses _ =
     (let resolved = take 16 addresses
      in if resolved = [] then Inl Ureq_HostNotFound else Inr resolved)"

section \<open>What a validated destination guarantees\<close>

definition approved :: "'u url_lib \<Rightarrow> destination_policy \<Rightarrow> 'u \<Rightarrow> socket_addr \<Rightarrow> bool" where
  "approved L P url sa \<longleftrightarrow>
     permits P (sa_ip sa) \<and> permits_port P (sa_port sa)
     \<and> url_port_or_known_default L url = Some (sa_port sa)"

lemma resolve_Ok_iff:
  "resolve L lookup P url = Inr d \<longleftrightarrow>
     is_ok (check_destination L url)
     \<and> (\<exists>host port addresses. url_host_str L url = Some host
          \<and> url_port_or_known_default L url = Some port \<and> permits_port P port
          \<and> lookup host port = Inr addresses \<and> addresses \<noteq> [] \<and> list_all (permits P) addresses
          \<and> d = \<lparr>dest_url = url,
                 dest_addresses = map (\<lambda>a. \<lparr>sa_ip = a, sa_port = port\<rparr>) addresses\<rparr>)"
  by (auto simp: resolve_def result_iffs is_ok_iff split: if_splits)

lemma resolve_Err: "resolve L lookup P url = Inl e \<Longrightarrow> e = UnsafeSource \<or> e = FetchFailed"
  by (auto simp: resolve_def result_iffs split: if_splits)

lemma resolve_approved:
  "resolve L lookup P url = Inr d \<Longrightarrow> sa \<in> set (dest_addresses d) \<Longrightarrow> approved L P url sa"
  by (auto simp: resolve_Ok_iff approved_def list_all_iff)

lemma pinned_resolve_Ok_iff:
  "pinned_resolve r uri = Inr sas \<longleftrightarrow> r \<noteq> [] \<and> sas = take 16 r"
  by (auto simp: pinned_resolve_def Let_def)


text \<open>A mixed answer is refused. When any of the addresses a lookup returns is not
  permitted, the destination is refused as unsafe, however many permitted ones come with it.\<close>

lemma mixed_answer_refused:
  assumes "is_ok (check_destination L url)" and "url_host_str L url = Some host"
    and "url_port_or_known_default L url = Some port"
    and "lookup host port = Inr answers" and "a \<in> set answers" and "\<not> permits P a"
  shows "resolve L lookup P url = Inl UnsafeSource"
  using assms by (auto simp: resolve_def is_ok_iff list_all_iff)

lemma static_lookup_with:
  "static_lookup (static_with t host addresses) h port =
     (if eq_ignore_ascii_case h host then Inr addresses else static_lookup t h port)"
  by (simp add: static_lookup_def static_with_def eq_ignore_ascii_case_def)

definition example_policy :: destination_policy where
  "example_policy = \<lparr>profile = Production, denied = [range4 10 42 0 0 16]\<rparr>"

definition example_answers :: static_resolver where
  "example_answers =
     static_with (static_with (\<lambda>_. None) (lit ''example.com'') [V4 (Ipv4 93 184 216 34)])
       (lit ''Mixed.test'') [V4 (Ipv4 93 184 216 34), V4 (Ipv4 10 42 0 9)]"

lemma example_permits [simp]:
  "permits example_policy (V4 (Ipv4 93 184 216 34))"
  "\<not> permits example_policy (V4 (Ipv4 10 42 0 9))"
  by (simp_all add: permits_def example_policy_def is_public_def cidr_contains_def range4_def
      matches_prefix_iff is_unspecified4_def is_loopback4_def is_broadcast4_def)


end
