(* ===== verification/Artifact.thy ===== *)
theory Artifact
  imports Web_Fetch
begin

text \<open>
  \<^verbatim>\<open>contracts/src/artifact.rs\<close> and \<^verbatim>\<open>contracts/src/stage.rs\<close>: the description of one
  completed fetch, and what the fetch stage tells the inspection stage about how it
  ended. The digest function is an argument.
\<close>

definition ARTIFACT_VERSION :: u32 where
  "ARTIFACT_VERSION = 1"

record fetch_artifact =
  artifact_version :: u32
  art_run_id :: str
  art_source_id :: str
  requested_url_sha256 :: str
  art_final_url :: str
  art_http_status :: u16
  art_content_type :: "str option"
  art_content_encoding :: "str option"
  art_redirects :: u32
  art_retrieved_at :: str
  art_format :: format
  body_bytes :: nat
  body_sha256 :: str
  policy_profile :: str

definition sha256_hex :: "(bytes \<Rightarrow> bytes) \<Rightarrow> bytes \<Rightarrow> str" where
  "sha256_hex digest bs = to_hex (digest bs)"

lemma sha256_hex_eq_iff: "sha256_hex H a = sha256_hex H b \<longleftrightarrow> H a = H b"
  by (auto simp: sha256_hex_def dest: to_hex_inj)

section \<open>Stage outcomes\<close>

definition STAGE_VERSION :: u32 where
  "STAGE_VERSION = 1"

datatype stage = Stage_Fetch | Stage_Inspect

record stage_outcome =
  stage_version :: u32
  outcome_stage :: stage
  outcome_run_id :: str
  outcome_code :: "error_code option"

definition STAGE_FILE :: str where
  "STAGE_FILE = lit ''stage.json''"

definition outcome_ok :: "stage \<Rightarrow> str \<Rightarrow> stage_outcome" where
  "outcome_ok s run_id =
     \<lparr>stage_version = STAGE_VERSION, outcome_stage = s, outcome_run_id = run_id,
      outcome_code = None\<rparr>"

definition outcome_failed :: "stage \<Rightarrow> str \<Rightarrow> error_code \<Rightarrow> stage_outcome" where
  "outcome_failed s run_id c =
     \<lparr>stage_version = STAGE_VERSION, outcome_stage = s, outcome_run_id = run_id,
      outcome_code = Some c\<rparr>"

definition outcome_check :: "stage_outcome \<Rightarrow> str \<Rightarrow> contract_error + unit" where
  "outcome_check o' expected_run_id =
     (if stage_version o' \<noteq> STAGE_VERSION then refuse ''unsupported stage_version''
      else if outcome_run_id o' \<noteq> expected_run_id
        then refuse ''stage outcome belongs to a different run''
      else if outcome_stage o' \<noteq> Stage_Fetch
        then refuse ''handoff was not written by the fetch stage''
      else Inr ())"

lemma outcome_check_iff:
  "outcome_check o' r = Inr u \<longleftrightarrow>
     stage_version o' = STAGE_VERSION \<and> outcome_run_id o' = r \<and> outcome_stage o' = Stage_Fetch"
  by (auto simp: outcome_check_def)

lemma outcome_check_written [simp]:
  "outcome_check (outcome_ok Stage_Fetch r) r = Inr ()"
  "outcome_check (outcome_failed Stage_Fetch r c) r = Inr ()"
  by (simp_all add: outcome_check_iff outcome_ok_def outcome_failed_def)

lemma outcome_code_written [simp]:
  "outcome_code (outcome_ok s r) = None"
  "outcome_code (outcome_failed s r c) = Some c"
  by (simp_all add: outcome_ok_def outcome_failed_def)

end
