(* ===== verification/Fetch.thy ===== *)
theory Fetch
  imports Resolve Artifact
begin

text \<open>
  \<^verbatim>\<open>fetch-worker/src/fetch.rs\<close>: one bounded GET. The network is an oracle: the environment
  fixes how long after the start each hop begins, what the resolver answers on it and how
  the exchange ends, and every exchange is recorded with the agent it was made with, so
  theorems can speak about all the contacts of a run, the failing ones included.
\<close>

section \<open>The environment\<close>

text \<open>The HTTP client's responses, and its body reader with a limit in bytes.\<close>

record 'r http_lib =
  resp_status :: "'r \<Rightarrow> u16"
  resp_headers :: "'r \<Rightarrow> (str \<times> bytes) list"
  resp_get :: "'r \<Rightarrow> str \<Rightarrow> bytes option"
  header_to_str :: "bytes \<Rightarrow> str option"
  read_body :: "'r \<Rightarrow> nat \<Rightarrow> ureq_error + bytes"

record agent =
  agent_max_redirects :: nat
  agent_save_history :: bool
  agent_status_as_error :: bool
  agent_proxy :: "str option"
  agent_timeout :: "duration option"
  agent_max_header_size :: nat
  agent_resolver :: pinned_addresses

record http_request =
  request_url :: str
  request_headers :: "(str \<times> str) list"

record ('u, 'r) call =
  call_url :: 'u
  call_agent :: agent
  call_request :: http_request
  call_result :: "ureq_error + 'r"

record ('u, 'r, 't) fetch_env =
  url :: "'u url_lib"
  http :: "'r http_lib"
  time :: "'t time_lib"
  digest :: "bytes \<Rightarrow> bytes"
  elapsed :: "nat \<Rightarrow> duration"
  answers :: "nat \<Rightarrow> host_resolver"
  exchange :: "nat \<Rightarrow> agent \<Rightarrow> http_request \<Rightarrow> ureq_error + 'r"
  now_utc :: 't

section \<open>The fetcher\<close>

definition USER_AGENT :: str where
  "USER_AGENT = lit ''HearthAI-webfetch/1 (isolated fetch; no scripting)''"

definition ACCEPT :: str where
  "ACCEPT = lit (''text/html,application/xhtml+xml,text/plain;q=0.9,text/markdown;q=0.9,''
     @ ''application/json;q=0.8,application/xml;q=0.7,text/csv;q=0.7,*/*;q=0.1'')"

definition ACCEPT_ENCODING :: str where
  "ACCEPT_ENCODING = lit ''identity, gzip''"

record fetcher =
  fetcher_policy :: destination_policy
  fetcher_deadline :: duration

definition fetcher_new :: "destination_policy \<Rightarrow> fetcher" where
  "fetcher_new P =
     \<lparr>fetcher_policy = P, fetcher_deadline = from_secs FETCH_DEADLINE_SECONDS\<rparr>"

definition with_deadline :: "fetcher \<Rightarrow> duration \<Rightarrow> fetcher" where
  "with_deadline F d = F\<lparr>fetcher_deadline := d\<rparr>"

record fetched =
  fetched_artifact :: fetch_artifact
  fetched_body :: bytes

fun classify_transport_error :: "ureq_error \<Rightarrow> error_code" where
  "classify_transport_error Ureq_Timeout = DeadlineExceeded"
| "classify_transport_error Ureq_BodyStalled = DeadlineExceeded"
| "classify_transport_error Ureq_BodyExceedsLimit = ResponseLimitExceeded"
| "classify_transport_error Ureq_LargeResponseHeader = ResponseLimitExceeded"
| "classify_transport_error Ureq_TooManyRedirects = ResponseLimitExceeded"
| "classify_transport_error Ureq_RequireHttpsOnly = UnsafeSource"
| "classify_transport_error Ureq_BadUri = UnsafeSource"
| "classify_transport_error Ureq_TlsRequired = UnsafeSource"
| "classify_transport_error Ureq_HostNotFound = FetchFailed"
| "classify_transport_error (Ureq_Other _) = FetchFailed"

definition build_agent :: "'u validated_destination \<Rightarrow> duration \<Rightarrow> agent" where
  "build_agent destination remaining =
     \<lparr>agent_max_redirects = 0, agent_save_history = False, agent_status_as_error = False,
      agent_proxy = None, agent_timeout = Some remaining,
      agent_max_header_size = MAX_HEADER_BYTES,
      agent_resolver = pinned_resolver destination\<rparr>"

definition measure_headers :: "'r http_lib \<Rightarrow> 'r \<Rightarrow> nat" where
  "measure_headers H response =
     sum_list (map (\<lambda>(name, value). byte_len name + length value + 4) (resp_headers H response))"

definition header_str :: "'r http_lib \<Rightarrow> 'r \<Rightarrow> string \<Rightarrow> str option" where
  "header_str H response name =
     Option.bind (resp_get H response (lit name)) (header_to_str H)"

definition redirect_target :: "'r http_lib \<Rightarrow> 'r \<Rightarrow> str option" where
  "redirect_target H response =
     (if resp_status H response \<notin> {301, 302, 303, 307, 308} then None
      else header_str H response ''location'')"

definition fetch_complete ::
    "('u, 'r, 't) fetch_env \<Rightarrow> fetcher \<Rightarrow> str \<Rightarrow> web_fetch_request \<Rightarrow> 'u \<Rightarrow> 'u \<Rightarrow> u32 \<Rightarrow> 'r
       \<Rightarrow> error_code + fetched" where
  "fetch_complete E F run_id request requested final redirects response =
     and_then (ok_or UnsupportedContent (header_str (http E) response ''content-type''))
       (\<lambda>ctype.
     and_then (map_err (\<lambda>_. UnsupportedContent) (media_parse ctype)) (\<lambda>media.
     if \<not> is_supported media then Inl UnsupportedContent
     else
       let encoding = header_str (http E) response ''content-encoding'' in
       if \<not> (case encoding of None \<Rightarrow> True | Some e \<Rightarrow> is_supported_content_encoding e)
         then Inl UnsupportedContent
       else
         and_then (map_err classify_transport_error
             (read_body (http E) response MAX_WIRE_BYTES)) (\<lambda>body.
         and_then (ok_or InternalError (rfc3339_format (time E) (now_utc E))) (\<lambda>at.
           Inr \<lparr>fetched_artifact =
                 \<lparr>artifact_version = ARTIFACT_VERSION, art_run_id = run_id,
                  art_source_id = lit ''source-1'',
                  requested_url_sha256 =
                    sha256_hex (digest E) (utf8 (url_as_str (url E) requested)),
                  art_final_url = url_as_str (url E) final,
                  art_http_status = resp_status (http E) response,
                  art_content_type = Some (header_value media),
                  art_content_encoding = encoding, art_redirects = redirects,
                  art_retrieved_at = at, art_format = req_format request,
                  body_bytes = length body, body_sha256 = sha256_hex (digest E) body,
                  policy_profile = profile_as_str (profile (fetcher_policy F))\<rparr>,
                fetched_body = body\<rparr>))))"

text \<open>What is left of the deadline when hop number \<open>n\<close> begins.\<close>

definition remaining :: "('u, 'r, 't) fetch_env \<Rightarrow> fetcher \<Rightarrow> nat \<Rightarrow> error_code + duration" where
  "remaining E F n =
     ok_or DeadlineExceeded
       (case checked_sub (fetcher_deadline F) (elapsed E n) of
          None \<Rightarrow> None
        | Some left \<Rightarrow> if left \<noteq> 0 then Some left else None)"

text \<open>The top of the loop, up to the response; the calls made so far are its state.\<close>

definition fetch_hop ::
    "('u, 'r, 't) fetch_env \<Rightarrow> fetcher \<Rightarrow> 'u \<Rightarrow> (('u, 'r) call list, error_code, 'r) step" where
  "fetch_hop E F current calls =
     (case and_then (remaining E F (length calls)) (\<lambda>left.
           map_ok (Pair left)
             (resolve (url E) (answers E (length calls)) (fetcher_policy F) current)) of
        Inl e \<Rightarrow> (Inl e, calls)
      | Inr (left, destination) \<Rightarrow>
          (let ag = build_agent destination left;
               request = \<lparr>request_url = url_as_str (url E) (dest_url destination),
                  request_headers = [(lit ''user-agent'', USER_AGENT), (lit ''accept'', ACCEPT),
                    (lit ''accept-encoding'', ACCEPT_ENCODING)]\<rparr>;
               result = exchange E (length calls) ag request
           in (map_err classify_transport_error result,
               calls @ [\<lparr>call_url = current, call_agent = ag, call_request = request,
                         call_result = result\<rparr>])))"

text \<open>
  Each turn that goes on has counted one more redirect and not passed the limit. The
  counter is a \<^verbatim>\<open>u32\<close> and starts at 0; were it to start at its largest value it would wrap
  once, which the measure allows for.
\<close>

definition redirects_left :: "u32 \<Rightarrow> nat" where
  "redirects_left r = (if r \<le> MAX_REDIRECTS then unat (MAX_REDIRECTS - r) else 4)"

lemma redirects_left_less: "\<not> r + 1 > MAX_REDIRECTS \<Longrightarrow> redirects_left (r + 1) < redirects_left r"
proof -
  assume "\<not> r + 1 > MAX_REDIRECTS"
  then have le: "r + 1 \<le> 3" by (simp add: MAX_REDIRECTS_def)
  show ?thesis
  proof (cases "r \<le> 3")
    case True
    then have "r = 0 \<or> r = 1 \<or> r = 2 \<or> r = 3"
      by (simp add: word_le_nat_alt word_unat_eq_iff) linarith
    with le show ?thesis by (auto simp: redirects_left_def MAX_REDIRECTS_def)
  next
    case False
    moreover have "unat (3 - (r + 1)) = 3 - unat (r + 1)"
      using le by (subst unat_sub) simp_all
    ultimately show ?thesis
      using le by (simp only: redirects_left_def MAX_REDIRECTS_def) simp
  qed
qed

function fetch_loop ::
    "('u, 'r, 't) fetch_env \<Rightarrow> fetcher \<Rightarrow> str \<Rightarrow> web_fetch_request \<Rightarrow> 'u \<Rightarrow> 'u \<Rightarrow> nat \<Rightarrow> u32
       \<Rightarrow> ('u, 'r) call list \<Rightarrow> (error_code + fetched) \<times> ('u, 'r) call list" where
  "fetch_loop E F run_id request requested current header_bytes redirects calls =
     (case fetch_hop E F current calls of
        (Inl e, calls') \<Rightarrow> (Inl e, calls')
      | (Inr response, calls') \<Rightarrow>
          (let header_bytes' = header_bytes + measure_headers (http E) response in
           if header_bytes' > MAX_HEADER_BYTES then (Inl ResponseLimitExceeded, calls')
           else
             (case redirect_target (http E) response of
                Some location \<Rightarrow>
                  if redirects + 1 > MAX_REDIRECTS then (Inl ResponseLimitExceeded, calls')
                  else
                    (case url_join (url E) current location of
                       Inl _ \<Rightarrow> (Inl UnsafeSource, calls')
                     | Inr target \<Rightarrow>
                         fetch_loop E F run_id request requested target header_bytes'
                           (redirects + 1) calls')
              | None \<Rightarrow>
                  (fetch_complete E F run_id request requested current redirects response,
                   calls'))))"
  by pat_completeness auto

termination
  by (relation "measure (\<lambda>(E, F, run, req, rq, cur, hb, redirects, calls). redirects_left redirects)")
     (simp_all add: redirects_left_less)

declare fetch_loop.simps [simp del]

definition fetch ::
    "('u, 'r, 't) fetch_env \<Rightarrow> fetcher \<Rightarrow> str \<Rightarrow> web_fetch_request
       \<Rightarrow> (error_code + fetched) \<times> ('u, 'r) call list" where
  "fetch E F run_id request =
     (case map_err (\<lambda>_. UnsafeSource) (destination_url (url E) request) of
        Inl e \<Rightarrow> (Inl e, [])
      | Inr requested \<Rightarrow> fetch_loop E F run_id request requested requested 0 0 [])"

end
