(* ===== verification/Fetch_Facts.thy ===== *)
theory Fetch_Facts
  imports Fetch
begin

text \<open>
  What every run of the fetcher guarantees, whatever the resolver and the network answer:
  which connections it can make and when, how its redirects chain, which errors it can
  end with, and what the artifact of a successful run says.
\<close>

section \<open>Calls\<close>

text \<open>The \<open>i\<close>-th call of a run: its deadline, its configuration and its addresses.\<close>

definition within_policy :: "('u, 'r, 't) fetch_env \<Rightarrow> fetcher \<Rightarrow> nat \<Rightarrow> ('u, 'r) call \<Rightarrow> bool" where
  "within_policy E F i c \<longleftrightarrow>
     elapsed E i < fetcher_deadline F
     \<and> agent_timeout (call_agent c) = Some (fetcher_deadline F - elapsed E i)
     \<and> agent_max_redirects (call_agent c) = 0 \<and> agent_proxy (call_agent c) = None
     \<and> agent_max_header_size (call_agent c) = MAX_HEADER_BYTES
     \<and> request_url (call_request c) = url_as_str (url E) (call_url c)
     \<and> is_ok (check_destination (url E) (call_url c))
     \<and> agent_resolver (call_agent c) \<noteq> []
     \<and> (\<forall>sa \<in> set (agent_resolver (call_agent c)).
          approved (url E) (fetcher_policy F) (call_url c) sa)"

text \<open>The response of a call sends the client on to a URL.\<close>

definition follows :: "('u, 'r, 't) fetch_env \<Rightarrow> ('u, 'r) call \<Rightarrow> 'u \<Rightarrow> bool" where
  "follows E c u \<longleftrightarrow>
     (\<exists>response location. call_result c = Inr response
        \<and> redirect_target (http E) response = Some location
        \<and> url_join (url E) (call_url c) location = Inr u)"

fun call_header_bytes :: "('u, 'r, 't) fetch_env \<Rightarrow> ('u, 'r) call \<Rightarrow> nat" where
  "call_header_bytes E c =
     (case call_result c of Inl _ \<Rightarrow> 0 | Inr response \<Rightarrow> measure_headers (http E) response)"

definition header_total :: "('u, 'r, 't) fetch_env \<Rightarrow> ('u, 'r) call list \<Rightarrow> nat" where
  "header_total E calls = sum_list (map (call_header_bytes E) calls)"

text \<open>A sequence of calls that starts at one URL and goes where its responses send it.\<close>

definition trace_ok ::
    "('u, 'r, 't) fetch_env \<Rightarrow> fetcher \<Rightarrow> 'u \<Rightarrow> ('u, 'r) call list \<Rightarrow> bool" where
  "trace_ok E F requested calls \<longleftrightarrow>
     (\<forall>i < length calls. within_policy E F i (calls ! i))
     \<and> (calls \<noteq> [] \<longrightarrow> call_url (calls ! 0) = requested)
     \<and> (\<forall>i. Suc i < length calls \<longrightarrow> follows E (calls ! i) (call_url (calls ! Suc i)))"

text \<open>What holds at the top of the loop.\<close>

definition loop_inv ::
    "('u, 'r, 't) fetch_env \<Rightarrow> fetcher \<Rightarrow> 'u \<Rightarrow> 'u \<Rightarrow> nat \<Rightarrow> u32 \<Rightarrow> ('u, 'r) call list \<Rightarrow> bool" where
  "loop_inv E F requested current header_bytes redirects calls \<longleftrightarrow>
     trace_ok E F requested calls \<and> length calls = unat redirects \<and> redirects \<le> MAX_REDIRECTS
     \<and> header_bytes = header_total E calls
     \<and> (if calls = [] then current = requested else follows E (last calls) current)"

lemma remaining_Ok_iff:
  "remaining E F n = Inr left \<longleftrightarrow>
     elapsed E n < fetcher_deadline F \<and> left = fetcher_deadline F - elapsed E n"
  by (auto simp: remaining_def result_iffs split: option.splits if_splits)

lemma remaining_Err: "remaining E F n = Inl e \<Longrightarrow> e = DeadlineExceeded"
  by (simp add: remaining_def result_iffs)

definition fetch_errors :: "error_code set" where
  "fetch_errors =
     {UnsafeSource, UnsupportedContent, ResponseLimitExceeded, FetchFailed, DeadlineExceeded,
      InternalError}"

lemma classify_in [simp]: "classify_transport_error e \<in> fetch_errors"
  by (cases e) (simp_all add: fetch_errors_def)

lemma fetch_hop_call:
  assumes "fetch_hop E F current calls = (r, calls')"
  shows "(\<exists>e. r = Inl e \<and> e \<in> fetch_errors \<and> calls' = calls)
    \<or> (\<exists>c. calls' = calls @ [c] \<and> within_policy E F (length calls) c \<and> call_url c = current
         \<and> r = map_err classify_transport_error (call_result c))"
proof (cases "and_then (remaining E F (length calls)) (\<lambda>left.
    map_ok (Pair left)
      (resolve (url E) (answers E (length calls)) (fetcher_policy F) current))")
  case (Inl e)
  then have "e \<in> fetch_errors"
    by (auto simp: result_iffs fetch_errors_def dest: remaining_Err resolve_Err)
  moreover have "r = Inl e" "calls' = calls" using Inl assms by (auto simp: fetch_hop_def)
  ultimately show ?thesis by blast
next
  case (Inr p)
  obtain left d where p: "p = (left, d)" by (cases p)
  with Inr have left: "remaining E F (length calls) = Inr left"
    and d: "resolve (url E) (answers E (length calls)) (fetcher_policy F) current = Inr d"
    by (auto simp: result_iffs)
  let ?req = "\<lparr>request_url = url_as_str (url E) (dest_url d),
      request_headers = [(lit ''user-agent'', USER_AGENT), (lit ''accept'', ACCEPT),
        (lit ''accept-encoding'', ACCEPT_ENCODING)]\<rparr>"
  let ?c = "\<lparr>call_url = current, call_agent = build_agent d left, call_request = ?req,
      call_result = exchange E (length calls) (build_agent d left) ?req\<rparr>"
  have "dest_url d = current" "dest_addresses d \<noteq> []" "is_ok (check_destination (url E) current)"
    using d by (auto simp: resolve_Ok_iff)
  moreover have "\<forall>sa \<in> set (dest_addresses d). approved (url E) (fetcher_policy F) current sa"
    using resolve_approved [OF d] by blast
  ultimately have "within_policy E F (length calls) ?c"
    using left by (simp add: within_policy_def remaining_Ok_iff build_agent_def pinned_resolver_def)
  moreover have "calls' = calls @ [?c]" "r = map_err classify_transport_error (call_result ?c)"
    using assms Inr p by (auto simp: fetch_hop_def Let_def)
  ultimately show ?thesis by (intro disjI2 exI [of _ ?c]) simp
qed

lemma trace_ok_snoc:
  assumes "trace_ok E F requested calls" "within_policy E F (length calls) c"
    "if calls = [] then call_url c = requested else follows E (last calls) (call_url c)"
  shows "trace_ok E F requested (calls @ [c])"
proof -
  have "follows E ((calls @ [c]) ! i) (call_url ((calls @ [c]) ! Suc i))"
    if "Suc i < length (calls @ [c])" for i
  proof (cases "Suc i = length calls")
    case True
    then have "calls \<noteq> []" "last calls = calls ! i" by (cases calls rule: rev_cases; auto)+
    with assms(3) True show ?thesis by (simp add: nth_append)
  next
    case False
    then show ?thesis using that assms(1) by (auto simp: trace_ok_def nth_append)
  qed
  then show ?thesis
    using assms by (auto simp: trace_ok_def nth_append less_Suc_eq)
qed

section \<open>Completing a fetch\<close>

text \<open>What an artifact records, given the response and where the run got to.\<close>

definition describes ::
    "('u, 'r, 't) fetch_env \<Rightarrow> fetcher \<Rightarrow> str \<Rightarrow> web_fetch_request \<Rightarrow> 'u \<Rightarrow> 'u \<Rightarrow> u32 \<Rightarrow> 'r
       \<Rightarrow> fetched \<Rightarrow> bool" where
  "describes E F run_id request requested final redirects response f \<longleftrightarrow>
     (let a = fetched_artifact f; body = fetched_body f in
      art_run_id a = run_id \<and> art_format a = req_format request
      \<and> art_source_id a = lit ''source-1''
      \<and> rfc3339_format (time E) (now_utc E) = Some (art_retrieved_at a)
      \<and> artifact_version a = ARTIFACT_VERSION
      \<and> requested_url_sha256 a = sha256_hex (digest E) (utf8 (url_as_str (url E) requested))
      \<and> art_final_url a = url_as_str (url E) final
      \<and> art_http_status a = resp_status (http E) response
      \<and> art_redirects a = redirects
      \<and> body_bytes a = length body \<and> body_sha256 a = sha256_hex (digest E) body
      \<and> read_body (http E) response MAX_WIRE_BYTES = Inr body
      \<and> policy_profile a = profile_as_str (profile (fetcher_policy F))
      \<and> (\<exists>m value. header_str (http E) response ''content-type'' = Some value
           \<and> media_parse value = Inr m \<and> is_supported m
           \<and> art_content_type a = Some (header_value m))
      \<and> art_content_encoding a = header_str (http E) response ''content-encoding''
      \<and> (\<forall>e. art_content_encoding a = Some e \<longrightarrow> is_supported_content_encoding e))"

lemma fetch_complete_Ok:
  assumes "fetch_complete E F run_id request requested final redirects response = Inr f"
  shows "describes E F run_id request requested final redirects response f"
proof -
  let ?encoding = "header_str (http E) response ''content-encoding''"
  from assms obtain ctype media body at where
    "header_str (http E) response ''content-type'' = Some ctype" "media_parse ctype = Inr media"
    "is_supported media"
    "case ?encoding of None \<Rightarrow> True | Some e \<Rightarrow> is_supported_content_encoding e"
    "read_body (http E) response MAX_WIRE_BYTES = Inr body"
    "rfc3339_format (time E) (now_utc E) = Some at"
    "f = \<lparr>fetched_artifact =
                 \<lparr>artifact_version = ARTIFACT_VERSION, art_run_id = run_id,
                  art_source_id = lit ''source-1'',
                  requested_url_sha256 =
                    sha256_hex (digest E) (utf8 (url_as_str (url E) requested)),
                  art_final_url = url_as_str (url E) final,
                  art_http_status = resp_status (http E) response,
                  art_content_type = Some (header_value media),
                  art_content_encoding = ?encoding, art_redirects = redirects,
                  art_retrieved_at = at, art_format = req_format request,
                  body_bytes = length body, body_sha256 = sha256_hex (digest E) body,
                  policy_profile = profile_as_str (profile (fetcher_policy F))\<rparr>,
                fetched_body = body\<rparr>"
    unfolding fetch_complete_def and_then_Ok_iff ok_or_Ok_iff map_err_Ok_iff Let_def
    by (auto simp: result_iffs split: if_splits)
  then show ?thesis by (auto simp: describes_def)
qed

lemma fetch_complete_Err:
  assumes "fetch_complete E F run_id request requested final redirects response = Inl e"
  shows "e \<in> fetch_errors"
proof -
  have "e \<in> {UnsupportedContent, InternalError} \<or> (\<exists>x. e = classify_transport_error x)"
    using assms unfolding fetch_complete_def Let_def
    by (auto simp: result_iffs split: if_splits)
  then show ?thesis using classify_in by (auto simp: fetch_errors_def)
qed

section \<open>The loop\<close>

lemma trace_ok_chain:
  assumes inv: "loop_inv E F requested current hb redirects calls"
    and c: "calls' = calls @ [c]" "within_policy E F (length calls) c" "call_url c = current"
  shows "trace_ok E F requested calls'"
  using assms by (auto simp: loop_inv_def intro!: trace_ok_snoc)

lemma redirects_Suc:
  assumes "length calls = unat r" "r \<le> MAX_REDIRECTS" "\<not> r + 1 > MAX_REDIRECTS"
  shows "Suc (length calls) = unat (r + 1)"
proof -
  have "unat r \<le> 3" using assms(2) by (simp add: MAX_REDIRECTS_def word_le_nat_alt)
  then have "unat (r + 1) = unat r + 1" by (simp add: unat_word_ariths(1))
  with assms(1) show ?thesis by simp
qed

lemma fetch_loop_run:
  assumes "fetch_loop E F run_id request requested current hb redirects calls = (r, calls')"
    and "loop_inv E F requested current hb redirects calls"
  shows "trace_ok E F requested calls' \<and> length calls' \<le> 4
    \<and> (case r of
         Inl e \<Rightarrow> e \<in> fetch_errors
       | Inr f \<Rightarrow> calls' \<noteq> [] \<and> header_total E calls' \<le> MAX_HEADER_BYTES
           \<and> (\<exists>response. call_result (last calls') = Inr response
                \<and> describes E F run_id request requested (call_url (last calls'))
                    (word_of_nat (length calls' - 1)) response f))"
  using assms
proof (induction E F run_id request requested current hb redirects calls rule: fetch_loop.induct)
  case (1 E F run_id request requested current hb redirects calls)
  note inv = "1.prems"(2)
  have len: "length calls \<le> 3" and redirects: "length calls = unat redirects"
    using inv by (auto simp: loop_inv_def MAX_REDIRECTS_def word_le_nat_alt)
  obtain r1 calls1 where hop: "fetch_hop E F current calls = (r1, calls1)"
    by (cases "fetch_hop E F current calls")
  consider (quit) e where "r1 = Inl e" "e \<in> fetch_errors" "calls1 = calls"
    | (called) c where "calls1 = calls @ [c]" "within_policy E F (length calls) c"
        "call_url c = current" "r1 = map_err classify_transport_error (call_result c)"
    using fetch_hop_call [OF hop] by blast
  then show ?case
  proof cases
    case quit
    then show ?thesis
      using "1.prems" hop len by (auto simp: fetch_loop.simps loop_inv_def)
  next
    case called
    have trace: "trace_ok E F requested calls1"
      using trace_ok_chain [OF inv called(1-3)] .
    have len1: "length calls1 \<le> 4" using called(1) len by simp
    show ?thesis
    proof (cases "call_result c")
      case (Inl e)
      then show ?thesis
        using "1.prems" hop called trace len1 by (auto simp: fetch_loop.simps)
    next
      case (Inr response)
      let ?hb = "hb + measure_headers (http E) response"
      have total: "header_total E calls1 = ?hb"
        using called(1) Inr inv by (simp add: header_total_def loop_inv_def)
      have r1: "r1 = Inr response" using called Inr by simp
      show ?thesis
      proof (cases "redirect_target (http E) response")
        case None
        have n: "word_of_nat (length calls1 - 1) = redirects" "calls1 \<noteq> []" "last calls1 = c"
          using called(1) redirects by simp_all
        show ?thesis
        proof (cases "?hb > MAX_HEADER_BYTES")
          case True
          then show ?thesis
            using "1.prems"(1) hop r1 trace len1 by (auto simp: fetch_loop.simps fetch_errors_def)
        next
          case False
          then have "r = fetch_complete E F run_id request requested current redirects response"
              "calls' = calls1"
            using "1.prems"(1) hop r1 None by (simp_all add: fetch_loop.simps)
          then show ?thesis
            using False trace len1 total n called(3) Inr fetch_complete_Ok fetch_complete_Err
            by (cases r) fastforce+
        qed
      next
        case (Some location)
        show ?thesis
        proof (cases "?hb > MAX_HEADER_BYTES \<or> redirects + 1 > MAX_REDIRECTS
            \<or> (\<exists>e. url_join (url E) current location = Inl e)")
          case True
          then have "(r = Inl ResponseLimitExceeded \<or> r = Inl UnsafeSource) \<and> calls' = calls1"
            using "1.prems"(1) hop r1 Some
            by (auto simp: fetch_loop.simps Let_def split: if_splits)
          then show ?thesis using trace len1 by (auto simp: fetch_errors_def)
        next
          case False
          then obtain target where target: "url_join (url E) current location = Inr target"
            by (cases "url_join (url E) current location") auto
          have "loop_inv E F requested target ?hb (redirects + 1) calls1"
            using trace total called Inr Some target False redirects_Suc [of calls redirects] inv
            by (auto simp: loop_inv_def follows_def)
          moreover have "fetch_loop E F run_id request requested target ?hb (redirects + 1) calls1
              = (r, calls')"
            using "1.prems"(1) hop r1 Some False target by (simp add: fetch_loop.simps Let_def)
          ultimately show ?thesis
            using "1.IH" [OF hop [symmetric] r1 refl _ Some _ target] False hop r1 by simp
        qed
      qed
    qed
  qed
qed

section \<open>Runs\<close>

lemma fetch_run:
  assumes "fetch E F run_id request = (r, calls)"
  shows "length calls \<le> 4
    \<and> (calls = [] \<or> (\<exists>requested. destination_url (url E) request = Inr requested
         \<and> trace_ok E F requested calls))
    \<and> (case r of
         Inl e \<Rightarrow> e \<in> fetch_errors
       | Inr f \<Rightarrow> calls \<noteq> [] \<and> header_total E calls \<le> MAX_HEADER_BYTES
           \<and> (\<exists>requested response. destination_url (url E) request = Inr requested
                \<and> call_result (last calls) = Inr response
                \<and> describes E F run_id request requested (call_url (last calls))
                    (word_of_nat (length calls - 1)) response f))"
proof (cases "destination_url (url E) request")
  case (Inl e)
  then show ?thesis using assms by (auto simp: fetch_def fetch_errors_def)
next
  case (Inr requested)
  have "loop_inv E F requested requested 0 0 []"
    by (simp add: loop_inv_def trace_ok_def header_total_def)
  moreover have "fetch_loop E F run_id request requested requested 0 0 [] = (r, calls)"
    using assms Inr by (simp add: fetch_def)
  ultimately show ?thesis
    using fetch_loop_run [of E F run_id request requested requested 0 0 "[]" r calls] Inr
    by (cases r) auto
qed

definition example_http :: "(u16 \<times> (str \<times> bytes) list \<times> bytes) http_lib" where
  "example_http =
     \<lparr>resp_status = fst, resp_headers = (\<lambda>r. fst (snd r)),
      resp_get = (\<lambda>r name. map_of (fst (snd r)) name),
      header_to_str = (\<lambda>bs. Some (map unat bs)),
      read_body = (\<lambda>r limit. if length (snd (snd r)) \<le> limit then Inr (snd (snd r))
                    else Inl Ureq_BodyExceedsLimit)\<rparr>"

definition example_response :: "nat \<Rightarrow> u16 \<times> (str \<times> bytes) list \<times> bytes" where
  "example_response n =
     (if n = 0 then (302, [(lit ''location'', utf8 (lit ''https://example.com''))], [])
      else (200, [(lit ''content-type'', utf8 (lit ''text/plain''))], [104, 105]))"

definition example_env :: "(str, u16 \<times> (str \<times> bytes) list \<times> bytes, str) fetch_env" where
  "example_env =
     \<lparr>url = example_url_lib, http = example_http, time = example_time_lib,
      digest = take 1, elapsed = (\<lambda>n. n), answers = (\<lambda>_. static_lookup example_answers),
      exchange = (\<lambda>n _ _. Inr (example_response n)),
      now_utc = lit ''2024-01-01T00:00:00Z''\<rparr>"

text \<open>Any environment that differs from it in its digest and its resolver alone.\<close>

definition example_like :: "(str, u16 \<times> (str \<times> bytes) list \<times> bytes, str) fetch_env \<Rightarrow> bool" where
  "example_like E \<longleftrightarrow>
     url E = example_url_lib \<and> http E = example_http \<and> time E = example_time_lib
     \<and> elapsed E = (\<lambda>n. n) \<and> exchange E = (\<lambda>n _ _. Inr (example_response n))
     \<and> (\<forall>n. answers E n (lit ''example.com'') 443 = Inr [V4 (Ipv4 93 184 216 34)])"

lemma example_env_like: "example_like example_env"
  by (simp add: example_like_def example_env_def example_answers_def static_lookup_with text_eval)

lemma example_resolve:
  assumes "u = lit ''https://example.com/page'' \<or> u = lit ''https://example.com''"
    and "lookup (lit ''example.com'') 443 = Inr [V4 (Ipv4 93 184 216 34)]"
  shows "\<exists>d. resolve example_url_lib lookup example_policy u = Inr d \<and> dest_url d = u"
proof -
  have "url_host_str example_url_lib u = Some (lit ''example.com'')"
    "is_ok (check_destination example_url_lib u)"
    using assms(1) by (auto simp: check_destination_def example_url_lib_def text_eval)
  then show ?thesis
    using assms(2) by (auto simp: resolve_Ok_iff permits_port_def example_url_lib_def)
qed

lemma example_hop:
  assumes "example_like E"
    and "u = lit ''https://example.com/page'' \<or> u = lit ''https://example.com''"
    and "length calls < 2"
  shows "\<exists>c. fetch_hop E (fetcher_new example_policy) u calls =
      (Inr (example_response (length calls)), calls @ [c])
    \<and> call_url c = u \<and> call_result c = Inr (example_response (length calls))"
proof -
  have "answers E n (lit ''example.com'') 443 = Inr [V4 (Ipv4 93 184 216 34)]" for n
    using assms(1) by (simp add: example_like_def)
  then obtain d where "resolve example_url_lib (answers E (length calls)) example_policy u = Inr d"
      "dest_url d = u"
    using example_resolve [OF assms(2)] by blast
  moreover have "remaining E (fetcher_new example_policy) (length calls) =
      Inr (15000000000 - length calls)"
    using assms(1,3)
    by (simp add: remaining_Ok_iff fetcher_new_def from_secs_def limit_defs example_like_def)
  ultimately show ?thesis
    using assms(1) by (simp add: fetch_hop_def example_like_def fetcher_new_def)
qed

lemma example_fetch:
  assumes E: "example_like E"
  shows "\<exists>f calls. fetch E (fetcher_new example_policy) (lit ''run'') example_request = (Inr f, calls)
     \<and> length calls = 2 \<and> call_url (last calls) = lit ''https://example.com''
     \<and> call_result (last calls) = Inr (example_response 1)"
proof -
  let ?F = "fetcher_new example_policy"
  have url: "destination_url example_url_lib example_request = Inr (lit ''https://example.com/page'')"
    by (simp add: destination_url_def check_destination_def context_err_def example_url_lib_def
        example_request_def request_new_def limit_defs text_eval)
  obtain c1 where c1: "fetch_hop E ?F (lit ''https://example.com/page'') [] =
      (Inr (example_response 0), [c1])"
    using example_hop [OF E, of "lit ''https://example.com/page''" "[]"] by auto
  obtain c2 where c2: "fetch_hop E ?F (lit ''https://example.com'') [c1] =
      (Inr (example_response 1), [c1, c2])"
    and last: "call_url c2 = lit ''https://example.com''" "call_result c2 = Inr (example_response 1)"
    using example_hop [OF E, of "lit ''https://example.com''" "[c1]"] by auto
  have headers: "measure_headers example_http (example_response n) < 100"
    "redirect_target example_http (example_response 0) = Some (lit ''https://example.com'')"
    "redirect_target example_http (example_response 1) = None" for n
    by (simp_all add: measure_headers_def example_http_def example_response_def redirect_target_def
        header_str_def text_eval utf8_char_def)
  have env: "url E = example_url_lib" "http E = example_http" "time E = example_time_lib"
    using E by (simp_all add: example_like_def)
  have fin: "\<exists>f. fetch_complete E ?F run example_request u v r (example_response 1) = Inr f"
    for run u v r
    by (simp add: fetch_complete_def header_str_def env example_http_def
        example_response_def text_eval utf8_char_def media_parse_def is_supported_def
        SUPPORTED_MEDIA_TYPES_def limit_defs example_time_lib_def)
  have join: "url_join example_url_lib u (lit ''https://example.com'') = Inr (lit ''https://example.com'')" for u
    by (simp add: example_url_lib_def text_eval)
  show ?thesis
    using headers(1) [of 0] headers(1) [of 1] fin last
    by (simp add: fetch_def url env fetch_loop.simps [of _ _ _ _ _ _ 0] c1 c2 headers(2) join
        headers(3) [unfolded One_nat_def]
        Let_def limit_defs fetch_loop.simps [of _ _ _ _ _ "lit ''https://example.com''"])
qed

section \<open>Properties\<close>

text \<open>C0: what the fetcher may contact, on every run and every path, failing ones included.
  There are at most four calls; the \<open>i\<close>-th is made before the deadline with exactly the time
  that is left as its timeout, follows no redirect and uses no proxy, is for a plain HTTP(S)
  URL, and can connect only to addresses that the policy permits, on the permitted port of
  that URL. The first call is for the URL that was requested, and every later one for where
  the response before it redirected to.\<close>

theorem fetch_contacts:
  assumes "fetch E F run_id request = (r, calls)" and "i < length calls"
  shows "length calls \<le> 4 \<and> within_policy E F i (calls ! i)
    \<and> (if i = 0 then destination_url (url E) request = Inr (call_url (calls ! i))
       else follows E (calls ! (i - 1)) (call_url (calls ! i)))"
  using fetch_run [OF assms(1)] assms(2) by (cases i) (auto simp: trace_ok_def)

lemma fetch_contacts_witness:
  "\<exists>r calls. fetch example_env (fetcher_new example_policy) (lit ''run'') example_request = (r, calls)
     \<and> 1 < length calls
     \<and> within_policy example_env (fetcher_new example_policy) 1 (calls ! 1)
     \<and> follows example_env (calls ! 0) (call_url (calls ! 1))"
proof -
  obtain f calls where run: "fetch example_env (fetcher_new example_policy) (lit ''run'')
      example_request = (Inr f, calls)" and len: "length calls = 2"
    using example_fetch [OF example_env_like] by blast
  show ?thesis using fetch_contacts [OF run, of 1] run len by auto
qed

text \<open>C16: what a successful fetch hands on. The artifact belongs to the run and describes the
  body it comes with by length and digest; the body obeys the wire limit, given a body reader
  that obeys the limit it is given; the header bytes of all responses together obey theirs;
  the recorded redirect count is one less than the calls made; the status is that of the last
  response and the URL that of the last call; and media type and content encoding are
  supported ones.\<close>

theorem fetch_success:
  assumes "fetch E F run_id request = (Inr f, calls)"
    and "\<And>response limit body. read_body (http E) response limit = Inr body \<Longrightarrow> length body \<le> limit"
  shows "calls \<noteq> [] \<and> length calls \<le> 4 \<and> header_total E calls \<le> 32768
    \<and> length (fetched_body f) \<le> 1048576
    \<and> (\<exists>requested response. destination_url (url E) request = Inr requested
         \<and> call_result (last calls) = Inr response
         \<and> describes E F run_id request requested (call_url (last calls))
             (word_of_nat (length calls - 1)) response f)"
proof -
  obtain requested response where run: "calls \<noteq> []" "length calls \<le> 4"
    "header_total E calls \<le> MAX_HEADER_BYTES" "destination_url (url E) request = Inr requested"
    "call_result (last calls) = Inr response"
    and desc: "describes E F run_id request requested (call_url (last calls))
             (word_of_nat (length calls - 1)) response f"
    using fetch_run [OF assms(1)] by auto
  have "length (fetched_body f) \<le> MAX_WIRE_BYTES"
    using desc assms(2) by (auto simp: describes_def Let_def)
  with run desc show ?thesis by (auto simp: limit_defs)
qed

lemma fetch_success_witness:
  "\<exists>f calls. fetch example_env (fetcher_new example_policy) (lit ''run'') example_request
       = (Inr f, calls)
     \<and> header_total example_env calls \<le> 32768 \<and> length (fetched_body f) \<le> 1048576"
proof -
  obtain f calls where run: "fetch example_env (fetcher_new example_policy) (lit ''run'')
      example_request = (Inr f, calls)"
    using example_fetch [OF example_env_like] by blast
  have "length body \<le> limit" if "read_body (http example_env) response limit = Inr body"
    for response limit body
    using that by (auto simp: example_env_def example_http_def split: if_splits)
  with fetch_success [OF run] run show ?thesis by blast
qed

text \<open>Every failure a fetch reports is one the envelope admits without an inspection.\<close>

lemma fetch_failure_admitted:
  assumes "fetch E F run_id request = (Inl code, calls)"
  shows "envelope_failure P code inspection_not_run =
    Inr (failure_envelope P code inspection_not_run)"
proof -
  have "code \<in> fetch_errors" using fetch_run [OF assms] by simp
  then show ?thesis
    by (auto simp: fetch_errors_def envelope_failure_not_run)
qed

end
