(* ===== verification/Disk.thy ===== *)
theory Disk
  imports Contracts
begin

text \<open>
  The part of \<^verbatim>\<open>std::fs\<close> the handoff uses, on one directory. Every call may fail: the
  environment says what happens to the \<open>n\<close>-th one, and a failing write may have left a
  prefix of its bytes behind. Another process may have changed the files between calls,
  so nothing here assumes the state is what the last call left.
\<close>

datatype io_kind = NotFound_Kind | Other_Kind

datatype io_error = IoError (io_kind: io_kind) (io_text: str)

text \<open>
  \<open>Unreadable\<close> is an entry that is there but is not a file the process can open: a
  directory, a broken mount, a permission problem. Only an entry that is not there gives
  the kind \<^verbatim>\<open>NotFound\<close>.
\<close>

datatype node = File bytes | Unreadable str

datatype io_fault = Healthy | Refused str | Torn nat str

definition other_error :: "str \<Rightarrow> io_error" where
  "other_error text = IoError Other_Kind text"

record disk =
  dir_exists :: bool
  nodes :: "str \<Rightarrow> node option"
  calls :: nat

record fs_env =
  faults :: "nat \<Rightarrow> io_fault"
  not_found_text :: str

definition not_found :: "fs_env \<Rightarrow> io_error" where
  "not_found E = IoError NotFound_Kind (not_found_text E)"

definition tick :: "disk \<Rightarrow> disk" where
  "tick d = d\<lparr>calls := Suc (calls d)\<rparr>"

definition entry :: "disk \<Rightarrow> str \<Rightarrow> node option" where
  "entry d name = (if dir_exists d then nodes d name else None)"

definition fs_read :: "fs_env \<Rightarrow> str \<Rightarrow> (disk, io_error, bytes) step" where
  "fs_read E name d =
     (case faults E (calls d) of
        Healthy \<Rightarrow>
          (case entry d name of
             None \<Rightarrow> Inl (not_found E)
           | Some (File bs) \<Rightarrow> Inr bs
           | Some (Unreadable e) \<Rightarrow> Inl (other_error e))
      | Refused e \<Rightarrow> Inl (other_error e)
      | Torn _ e \<Rightarrow> Inl (other_error e), tick d)"

definition put_file :: "str \<Rightarrow> bytes \<Rightarrow> disk \<Rightarrow> disk" where
  "put_file name bs d = d\<lparr>nodes := (nodes d)(name \<mapsto> File bs)\<rparr>"

definition fs_write :: "fs_env \<Rightarrow> str \<Rightarrow> bytes \<Rightarrow> (disk, io_error, unit) step" where
  "fs_write E name bs d =
     (case faults E (calls d) of
        Refused e \<Rightarrow> (Inl (other_error e), tick d)
      | fault \<Rightarrow>
          if \<not> dir_exists d then (Inl (not_found E), tick d)
          else (case nodes d name of
                  Some (Unreadable e) \<Rightarrow> (Inl (other_error e), tick d)
                | _ \<Rightarrow>
                    (case fault of
                       Torn k e \<Rightarrow> (Inl (other_error e), tick (put_file name (take k bs) d))
                     | _ \<Rightarrow> (Inr (), tick (put_file name bs d)))))"

definition fs_remove :: "fs_env \<Rightarrow> str \<Rightarrow> (disk, io_error, unit) step" where
  "fs_remove E name d =
     (case faults E (calls d) of
        Healthy \<Rightarrow>
          (case entry d name of
             None \<Rightarrow> (Inl (not_found E), tick d)
           | Some (File _) \<Rightarrow> (Inr (), tick (d\<lparr>nodes := (nodes d)(name := None)\<rparr>))
           | Some (Unreadable e) \<Rightarrow> (Inl (other_error e), tick d))
      | Refused e \<Rightarrow> (Inl (other_error e), tick d)
      | Torn _ e \<Rightarrow> (Inl (other_error e), tick d))"

definition fs_create_dir_all :: "fs_env \<Rightarrow> (disk, io_error, unit) step" where
  "fs_create_dir_all E d =
     (case faults E (calls d) of
        Healthy \<Rightarrow> (Inr (), tick (d\<lparr>dir_exists := True\<rparr>))
      | Refused e \<Rightarrow> (Inl (other_error e), tick d)
      | Torn _ e \<Rightarrow> (Inl (other_error e), tick d))"

text \<open>\<^verbatim>\<open>fs::read_to_string\<close>: the bytes must be UTF-8.\<close>

definition fs_read_to_string :: "fs_env \<Rightarrow> str \<Rightarrow> (disk, io_error, str) step" where
  "fs_read_to_string E name =
     bind_step (fs_read E name)
       (\<lambda>bs. lift_step (ok_or
          (other_error (lit ''stream did not contain valid UTF-8'')) (from_utf8 bs)))"

text \<open>\<^verbatim>\<open>.ok()\<close> drops a result, \<^verbatim>\<open>map_err\<close> rewrites its error.\<close>

definition ignore_step :: "('s, 'e, 'a) step \<Rightarrow> ('s, 'f, unit) step" where
  "ignore_step m s = (Inr (), snd (m s))"

definition map_err_step :: "('e \<Rightarrow> 'f) \<Rightarrow> ('s, 'e, 'a) step \<Rightarrow> ('s, 'f, 'a) step" where
  "map_err_step f m s = (case m s of (r, s') \<Rightarrow> (map_err f r, s'))"

lemma ignore_step_eq [step_simps]:
  "ignore_step m s = (r, s') \<longleftrightarrow> r = Inr () \<and> s' = snd (m s)"
  by (auto simp: ignore_step_def)

lemma map_err_step_Ok_iff [step_simps]:
  "map_err_step f m s = (Inr a, s') \<longleftrightarrow> m s = (Inr a, s')"
  by (auto simp: map_err_step_def result_iffs split: prod.splits)

lemma map_err_step_Err_iff [step_simps]:
  "map_err_step f m s = (Inl e, s') \<longleftrightarrow> (\<exists>e'. m s = (Inl e', s') \<and> e = f e')"
  by (auto simp: map_err_step_def result_iffs split: prod.splits)

section \<open>What each call does\<close>

lemma tick_simps [simp]:
  "dir_exists (tick d) = dir_exists d" "nodes (tick d) = nodes d" "entry (tick d) = entry d"
  "calls (tick d) = Suc (calls d)"
  by (simp_all add: tick_def entry_def fun_eq_iff)

lemma put_file_simps [simp]:
  "dir_exists (put_file n bs d) = dir_exists d"
  "nodes (put_file n bs d) = (nodes d)(n \<mapsto> File bs)"
  "calls (put_file n bs d) = calls d"
  by (simp_all add: put_file_def)

lemma entry_put_file [simp]:
  "dir_exists d \<Longrightarrow> entry (put_file n bs d) m = (if m = n then Some (File bs) else entry d m)"
  by (simp add: entry_def)

lemma fs_read_state: "fs_read E name d = (r, d') \<Longrightarrow> d' = tick d"
  by (simp add: fs_read_def)

lemma fs_read_Ok_iff:
  "fs_read E name d = (Inr bs, d') \<longleftrightarrow>
     faults E (calls d) = Healthy \<and> entry d name = Some (File bs) \<and> d' = tick d"
  by (auto simp: fs_read_def split: io_fault.splits option.splits node.splits)

lemma fs_read_not_found:
  "fs_read E name d = (Inl e, d') \<Longrightarrow> io_kind e = NotFound_Kind \<Longrightarrow> entry d name = None"
  by (auto simp: fs_read_def other_error_def split: io_fault.splits option.splits node.splits)

lemma fs_read_to_string_Ok_iff:
  "fs_read_to_string E name d = (Inr s, d') \<longleftrightarrow>
     faults E (calls d) = Healthy \<and> d' = tick d \<and> valid_str s
     \<and> entry d name = Some (File (utf8 s))"
  by (auto simp: fs_read_to_string_def step_simps result_iffs fs_read_Ok_iff
      dest: from_utf8_SomeD)

lemma fs_write_Ok:
  "fs_write E name bs d = (Inr u, d') \<Longrightarrow> dir_exists d \<and> d' = tick (put_file name bs d)"
  by (auto simp: fs_write_def split: io_fault.splits option.splits node.splits if_splits)

lemma fs_write_Err:
  "fs_write E name bs d = (Inl e, d') \<Longrightarrow>
     d' = tick d \<or> (\<exists>k. d' = tick (put_file name (take k bs) d))"
  by (auto simp: fs_write_def split: io_fault.splits option.splits node.splits if_splits)

lemma fs_write_healthy:
  "faults E (calls d) = Healthy \<Longrightarrow> dir_exists d \<Longrightarrow>
     (\<And>e. nodes d name \<noteq> Some (Unreadable e)) \<Longrightarrow>
     fs_write E name bs d = (Inr (), tick (put_file name bs d))"
  by (auto simp: fs_write_def split: option.splits node.splits)

lemma fs_create_dir_all_Ok:
  "fs_create_dir_all E d = (Inr u, d') \<Longrightarrow> d' = tick (d\<lparr>dir_exists := True\<rparr>)"
  by (auto simp: fs_create_dir_all_def split: io_fault.splits)

lemma fs_create_dir_all_Err:
  "fs_create_dir_all E d = (Inl e, d') \<Longrightarrow> d' = tick d"
  by (auto simp: fs_create_dir_all_def split: io_fault.splits)

lemma fs_remove_cases:
  "fs_remove E name d = (r, d') \<Longrightarrow>
     d' = tick d \<or> d' = tick (d\<lparr>nodes := (nodes d)(name := None)\<rparr>)"
  by (auto simp: fs_remove_def split: io_fault.splits option.splits node.splits)

lemma fs_remove_state [simp]:
  "dir_exists (snd (fs_remove E name d)) = dir_exists d"
  "calls (snd (fs_remove E name d)) = Suc (calls d)"
  "m \<noteq> name \<Longrightarrow> nodes (snd (fs_remove E name d)) m = nodes d m"
  using fs_remove_cases [of E name d "fst (fs_remove E name d)" "snd (fs_remove E name d)"]
  by auto

lemma fs_remove_healthy:
  "faults E (calls d) = Healthy \<Longrightarrow> dir_exists d \<Longrightarrow>
     (\<And>e. nodes d name \<noteq> Some (Unreadable e)) \<Longrightarrow>
     nodes (snd (fs_remove E name d)) name = None"
  by (auto simp: fs_remove_def entry_def split: option.splits node.splits)

section \<open>Frames\<close>

text \<open>A run that changes no entry outside a set of names.\<close>

definition frame :: "str set \<Rightarrow> disk \<Rightarrow> disk \<Rightarrow> bool" where
  "frame names d d' \<longleftrightarrow> (\<forall>n. n \<notin> names \<longrightarrow> nodes d' n = nodes d n)"

interpretation disk_frame: step_relation "frame names" for names
  by unfold_locales (auto simp: frame_def)

lemma frame_read [intro]: "disk_frame.keeps names (fs_read E n)"
  by (rule disk_frame.keepsI) (auto simp: frame_def dest: fs_read_state)

lemma frame_read_to_string [intro]: "disk_frame.keeps names (fs_read_to_string E n)"
  unfolding fs_read_to_string_def by blast

lemma frame_write [intro]: "n \<in> names \<Longrightarrow> disk_frame.keeps names (fs_write E n bs)"
proof (rule disk_frame.keepsI)
  fix s r t
  assume n: "n \<in> names" and run: "fs_write E n bs s = (r, t)"
  then show "frame names s t"
    by (cases r) (auto simp: frame_def dest!: fs_write_Ok fs_write_Err)
qed

lemma frame_remove [intro]: "n \<in> names \<Longrightarrow> disk_frame.keeps names (fs_remove E n)"
  by (rule disk_frame.keepsI) (auto simp: frame_def dest!: fs_remove_cases)

lemma frame_create [intro]: "disk_frame.keeps names (fs_create_dir_all E)"
proof (rule disk_frame.keepsI)
  fix s r t
  assume "fs_create_dir_all E s = (r, t)"
  then show "frame names s t"
    by (cases r) (auto simp: frame_def dest!: fs_create_dir_all_Ok fs_create_dir_all_Err)
qed

lemma frame_ignore [intro]: "disk_frame.keeps names m \<Longrightarrow> disk_frame.keeps names (ignore_step m)"
  by (simp add: disk_frame.keeps_def ignore_step_def)

lemma frame_map_err [intro]:
  "disk_frame.keeps names m \<Longrightarrow> disk_frame.keeps names (map_err_step f m)"
  unfolding disk_frame.keeps_def map_err_step_def
  by (auto split: prod.splits) (metis snd_conv)

end
