(* ===== verification/Handoff.thy ===== *)
theory Handoff
  imports Artifact Disk
begin

text \<open>
  \<^verbatim>\<open>contracts/src/handoff.rs\<close>: the directory the fetch stage leaves behind. SHA-256, HMAC
  and the JSON coding of the two descriptions are arguments (\<open>handoff_lib\<close>); the file
  system is the one of theory Disk, with its faults.
\<close>

named_theorems handoff_defs \<open>the names and fixed values of a handoff\<close>

section \<open>Files, key and libraries\<close>

definition ARTIFACT_FILE :: str where
  [handoff_defs]: "ARTIFACT_FILE = lit ''artifact.json''"

definition BODY_FILE :: str where
  [handoff_defs]: "BODY_FILE = lit ''body.bin''"

definition SEAL_FILE :: str where
  [handoff_defs]: "SEAL_FILE = lit ''handoff.mac''"

definition SEAL_DOMAIN :: bytes where
  "SEAL_DOMAIN = utf8 (lit ''hearthai-webfetch-handoff-v1'')"

definition MIN_KEY_BYTES :: nat where
  "MIN_KEY_BYTES = 32"

definition handoff_files :: "str set" where
  "handoff_files = {STAGE_FILE, ARTIFACT_FILE, BODY_FILE, SEAL_FILE}"

lemma handoff_files_distinct [simp]:
  "STAGE_FILE \<noteq> ARTIFACT_FILE" "STAGE_FILE \<noteq> BODY_FILE" "STAGE_FILE \<noteq> SEAL_FILE"
  "ARTIFACT_FILE \<noteq> STAGE_FILE" "ARTIFACT_FILE \<noteq> BODY_FILE" "ARTIFACT_FILE \<noteq> SEAL_FILE"
  "BODY_FILE \<noteq> STAGE_FILE" "BODY_FILE \<noteq> ARTIFACT_FILE" "BODY_FILE \<noteq> SEAL_FILE"
  "SEAL_FILE \<noteq> STAGE_FILE" "SEAL_FILE \<noteq> ARTIFACT_FILE" "SEAL_FILE \<noteq> BODY_FILE"
  by (simp_all add: handoff_defs STAGE_FILE_def lit_def)

datatype handoff_key = HandoffKey (key_material: bytes)

definition key_from_bytes :: "bytes \<Rightarrow> contract_error + handoff_key" where
  "key_from_bytes material =
     (if length material < MIN_KEY_BYTES
        then Inl (contract_error_new (lit ''handoff key must be at least ''
               @ show_nat MIN_KEY_BYTES @ lit '' bytes''))
      else Inr (HandoffKey material))"

record handoff_lib =
  sha256 :: "bytes \<Rightarrow> bytes"
  hmac_sha256 :: "bytes \<Rightarrow> bytes \<Rightarrow> bytes"
  ser_outcome :: "stage_outcome \<Rightarrow> str + bytes"
  de_outcome :: "bytes \<Rightarrow> str + stage_outcome"
  ser_artifact :: "fetch_artifact \<Rightarrow> str + bytes"
  de_artifact :: "bytes \<Rightarrow> str + fetch_artifact"

datatype handed =
    Handed_Failed error_code
  | Handed_Fetched fetch_artifact bytes

text \<open>The directory of a handoff is the disk the operations run on.\<close>

record handoff =
  handoff_run_id :: str
  handoff_mac_key :: handoff_key

definition handoff_new :: "str \<Rightarrow> handoff_key \<Rightarrow> handoff" where
  "handoff_new run_id k = \<lparr>handoff_run_id = run_id, handoff_mac_key = k\<rparr>"

section \<open>The seal\<close>

definition seal_message :: "handoff \<Rightarrow> bytes \<Rightarrow> bytes \<Rightarrow> str option \<Rightarrow> bytes" where
  "seal_message h stage_bytes artifact_bytes body_digest =
     concat (map length_prefixed
       [SEAL_DOMAIN, utf8 (handoff_run_id h), stage_bytes, artifact_bytes,
        utf8 (case body_digest of None \<Rightarrow> [] | Some d \<Rightarrow> d)])"

definition seal :: "handoff_lib \<Rightarrow> handoff \<Rightarrow> bytes \<Rightarrow> bytes \<Rightarrow> str option \<Rightarrow> str" where
  "seal L h stage_bytes artifact_bytes body_digest =
     to_hex (hmac_sha256 L (key_material (handoff_mac_key h))
       (seal_message h stage_bytes artifact_bytes body_digest))"

definition constant_time_eq :: "bytes \<Rightarrow> bytes \<Rightarrow> bool" where
  "constant_time_eq left right \<longleftrightarrow>
     (if length left \<noteq> length right then False
      else fold (\<lambda>(a, b) difference. or difference (xor a b)) (zip left right) 0 = 0)"

section \<open>Writing\<close>

definition file_error :: "str \<Rightarrow> io_error \<Rightarrow> contract_error" where
  "file_error name e = contract_error_new (name @ lit '': '' @ io_text e)"

definition put :: "fs_env \<Rightarrow> str \<Rightarrow> bytes \<Rightarrow> (disk, contract_error, unit) step" where
  "put E name bs = map_err_step (file_error name) (fs_write E name bs)"

definition get :: "fs_env \<Rightarrow> str \<Rightarrow> (disk, contract_error, bytes) step" where
  "get E name = map_err_step (file_error name) (fs_read E name)"

definition get_optional :: "fs_env \<Rightarrow> str \<Rightarrow> (disk, contract_error, bytes option) step" where
  "get_optional E name d =
     (case fs_read E name d of
        (Inr bs, d') \<Rightarrow> (Inr (Some bs), d')
      | (Inl e, d') \<Rightarrow>
          (if io_kind e = NotFound_Kind then Inr None else Inl (file_error name e), d'))"

definition encode :: "('a \<Rightarrow> str + bytes) \<Rightarrow> 'a \<Rightarrow> string \<Rightarrow> contract_error + bytes" where
  "encode ser value what = context_err (what @ '' could not be serialized: '') (ser value)"

definition make_directory :: "fs_env \<Rightarrow> (disk, contract_error, unit) step" where
  "make_directory E =
     map_err_step (\<lambda>e. contract_error_new (lit ''handoff directory: '' @ io_text e))
       (fs_create_dir_all E)"

definition write_fetched ::
    "handoff_lib \<Rightarrow> fs_env \<Rightarrow> handoff \<Rightarrow> fetch_artifact \<Rightarrow> bytes
       \<Rightarrow> (disk, contract_error, unit) step" where
  "write_fetched L E h a body =
     (if art_run_id a \<noteq> handoff_run_id h
        then lift_step (refuse ''artifact belongs to a different run'')
      else if length body \<noteq> body_bytes a \<or> sha256_hex (sha256 L) body \<noteq> body_sha256 a
        then lift_step (refuse ''artifact does not describe the body it is written with'')
      else
        bind_step (lift_step (encode (ser_outcome L)
            (outcome_ok Stage_Fetch (handoff_run_id h)) ''stage outcome'')) (\<lambda>stage_bytes.
        bind_step (lift_step (encode (ser_artifact L) a ''artifact description''))
          (\<lambda>artifact_bytes.
        bind_step (make_directory E) (\<lambda>_.
        bind_step (put E BODY_FILE body) (\<lambda>_.
        bind_step (put E ARTIFACT_FILE artifact_bytes) (\<lambda>_.
        bind_step (put E STAGE_FILE stage_bytes) (\<lambda>_.
          put E SEAL_FILE
            (utf8 (seal L h stage_bytes artifact_bytes (Some (body_sha256 a)))))))))))"

definition write_failure ::
    "handoff_lib \<Rightarrow> fs_env \<Rightarrow> handoff \<Rightarrow> error_code \<Rightarrow> (disk, contract_error, unit) step" where
  "write_failure L E h c =
     bind_step (lift_step (encode (ser_outcome L)
         (outcome_failed Stage_Fetch (handoff_run_id h) c) ''stage outcome'')) (\<lambda>stage_bytes.
     bind_step (make_directory E) (\<lambda>_.
     bind_step (ignore_step (fs_remove E ARTIFACT_FILE)) (\<lambda>_.
     bind_step (ignore_step (fs_remove E BODY_FILE)) (\<lambda>_.
     bind_step (put E STAGE_FILE stage_bytes) (\<lambda>_.
       put E SEAL_FILE (utf8 (seal L h stage_bytes [] None)))))))"

definition remove_body :: "fs_env \<Rightarrow> (disk, contract_error, unit) step" where
  "remove_body E = ignore_step (fs_remove E BODY_FILE)"

section \<open>Reading\<close>

text \<open>What \<^verbatim>\<open>read\<close> does once it holds the bytes of the four files.\<close>

definition accept_handoff ::
    "handoff_lib \<Rightarrow> handoff \<Rightarrow> bytes \<Rightarrow> bytes \<Rightarrow> str \<Rightarrow> bytes \<Rightarrow> contract_error + handed" where
  "accept_handoff L h stage_bytes artifact_bytes recorded body =
     (let body_digest =
            (if artifact_bytes \<noteq> [] then Some (sha256_hex (sha256 L) body) else None);
          expected = seal L h stage_bytes artifact_bytes body_digest
      in if \<not> constant_time_eq (utf8 (trim recorded)) (utf8 expected)
           then refuse ''handoff seal does not match its contents''
         else
           and_then (context_err ''stage outcome is not valid: '' (de_outcome L stage_bytes))
             (\<lambda>outcome.
           and_then (outcome_check outcome (handoff_run_id h)) (\<lambda>_.
             case outcome_code outcome of
               Some c \<Rightarrow> Inr (Handed_Failed c)
             | None \<Rightarrow>
                 if artifact_bytes = []
                   then refuse ''handoff reports success without an artifact''
                 else
                   and_then (context_err ''artifact description is not valid: ''
                       (de_artifact L artifact_bytes)) (\<lambda>a.
                     if artifact_version a \<noteq> ARTIFACT_VERSION
                       then refuse ''unsupported artifact_version''
                     else if art_run_id a \<noteq> handoff_run_id h
                       then refuse ''artifact belongs to a different run''
                     else if length body \<noteq> body_bytes a
                       then refuse ''artifact body length does not match its description''
                     else if body_digest \<noteq> Some (body_sha256 a)
                       then refuse ''artifact body digest does not match its description''
                     else Inr (Handed_Fetched a body)))))"

definition handoff_read ::
    "handoff_lib \<Rightarrow> fs_env \<Rightarrow> handoff \<Rightarrow> (disk, contract_error, handed) step" where
  "handoff_read L E h =
     bind_step (get E STAGE_FILE) (\<lambda>stage_bytes.
     bind_step (get_optional E ARTIFACT_FILE) (\<lambda>found.
     let artifact_bytes = (case found of None \<Rightarrow> [] | Some bs \<Rightarrow> bs) in
     bind_step (map_err_step
         (\<lambda>e. contract_error_new (lit ''handoff is not sealed: '' @ io_text e))
         (fs_read_to_string E SEAL_FILE)) (\<lambda>recorded.
     bind_step (if artifact_bytes = [] then pure_step [] else get E BODY_FILE) (\<lambda>body.
       lift_step (accept_handoff L h stage_bytes artifact_bytes recorded body)))))"

section \<open>Comparing seals\<close>

lemma fold_or_xor_zero:
  "length xs = length ys \<Longrightarrow>
     fold (\<lambda>(a, b) difference. or difference (xor a b)) (zip xs ys) acc = (0 :: u8)
       \<longleftrightarrow> acc = 0 \<and> xs = ys"
proof (induction xs ys arbitrary: acc rule: list_induct2)
  case Nil
  then show ?case by simp
next
  case (Cons x xs y ys)
  have "or acc (xor x y) = 0 \<longleftrightarrow> acc = 0 \<and> x = y"
    by (metis or_eq_0_iff xor_self_eq bit.xor_left_self xor.right_neutral)
  with Cons.IH show ?case by auto
qed

lemma constant_time_eq_iff [simp]: "constant_time_eq xs ys \<longleftrightarrow> xs = ys"
  by (auto simp: constant_time_eq_def fold_or_xor_zero)

lemma seal_trimmed [simp]: "trim (seal L h s a d) = seal L h s a d"
proof -
  have "\<not> is_whitespace c" if "c \<in> set (seal L h s a d)" for c
    using to_hex_chars [of c] that
    by (auto simp: seal_def is_ascii_digit_def is_whitespace_def)
  then show ?thesis
    unfolding trim_def by (intro trim_matches_stable) auto
qed

lemma seal_valid [simp]: "valid_str (seal L h s a d)"
  by (simp add: seal_def to_hex_valid)

lemma seal_eq_iff:
  "seal L h s a d = seal L h' s' a' d' \<longleftrightarrow>
     hmac_sha256 L (key_material (handoff_mac_key h)) (seal_message h s a d) =
     hmac_sha256 L (key_material (handoff_mac_key h')) (seal_message h' s' a' d')"
  by (auto simp: seal_def dest: to_hex_inj)

text \<open>
  Two sealed messages are equal only when their five fields are: the length prefixes leave
  no other way to split one. \<^verbatim>\<open>usize\<close> lengths are below \<open>2 ^ 64\<close>.
\<close>

lemma seal_message_inj:
  assumes "seal_message h s a d = seal_message h' s' a' d'"
    and "list_all (\<lambda>b. length b < 2 ^ 64) [utf8 (handoff_run_id h), s, a, utf8 (case d of None \<Rightarrow> [] | Some x \<Rightarrow> x)]"
    and "list_all (\<lambda>b. length b < 2 ^ 64) [utf8 (handoff_run_id h'), s', a', utf8 (case d' of None \<Rightarrow> [] | Some x \<Rightarrow> x)]"
  shows "utf8 (handoff_run_id h) = utf8 (handoff_run_id h') \<and> s = s' \<and> a = a'
    \<and> utf8 (case d of None \<Rightarrow> [] | Some x \<Rightarrow> x) = utf8 (case d' of None \<Rightarrow> [] | Some x \<Rightarrow> x)"
proof -
  have "length SEAL_DOMAIN < 2 ^ 64" by (simp add: SEAL_DOMAIN_def lit_def len_utf8_def)
  then have "[SEAL_DOMAIN, utf8 (handoff_run_id h), s, a, utf8 (case d of None \<Rightarrow> [] | Some x \<Rightarrow> x)] =
      [SEAL_DOMAIN, utf8 (handoff_run_id h'), s', a', utf8 (case d' of None \<Rightarrow> [] | Some x \<Rightarrow> x)]"
    using assms unfolding seal_message_def
    by (intro field_code.concat_inj) auto
  then show ?thesis by simp
qed

end
