(* ===== verification/Handoff_Facts.thy ===== *)
theory Handoff_Facts
  imports Handoff
begin

text \<open>
  What the handoff promises: delivery of the last message written, evidence of tampering
  up to a collision of the MAC or the digest on the very values involved, and safety of
  writes that fail half way.
\<close>

section \<open>Messages and what is on the disk\<close>

text \<open>One operation per message: what a sender calls, and what it seals.\<close>

definition handoff_write ::
    "handoff_lib \<Rightarrow> fs_env \<Rightarrow> handoff \<Rightarrow> handed \<Rightarrow> (disk, contract_error, unit) step" where
  "handoff_write L E h m =
     (case m of
        Handed_Failed c \<Rightarrow> write_failure L E h c
      | Handed_Fetched a body \<Rightarrow> write_fetched L E h a body)"

definition outcome_of :: "handoff \<Rightarrow> handed \<Rightarrow> stage_outcome" where
  "outcome_of h m =
     (case m of
        Handed_Failed c \<Rightarrow> outcome_failed Stage_Fetch (handoff_run_id h) c
      | Handed_Fetched a body \<Rightarrow> outcome_ok Stage_Fetch (handoff_run_id h))"

text \<open>The stage bytes, artifact bytes and digest a message is sealed with.\<close>

definition sealed_parts ::
    "handoff_lib \<Rightarrow> handoff \<Rightarrow> handed \<Rightarrow> bytes \<Rightarrow> bytes \<Rightarrow> str option \<Rightarrow> bool" where
  "sealed_parts L h m sb ab dig \<longleftrightarrow>
     ser_outcome L (outcome_of h m) = Inr sb
     \<and> (case m of
          Handed_Failed c \<Rightarrow> ab = [] \<and> dig = None
        | Handed_Fetched a body \<Rightarrow>
            ser_artifact L a = Inr ab \<and> dig = Some (sha256_hex (sha256 L) body))"

text \<open>
  What the handoff relies on of the JSON library for one message: the outcome and the
  artifact it prints are not empty and are parsed back.
\<close>

definition carries :: "handoff_lib \<Rightarrow> handoff \<Rightarrow> handed \<Rightarrow> bool" where
  "carries L h m \<longleftrightarrow>
     (\<forall>sb. ser_outcome L (outcome_of h m) = Inr sb \<longrightarrow> de_outcome L sb = Inr (outcome_of h m))
     \<and> (\<forall>a body ab. m = Handed_Fetched a body \<longrightarrow> ser_artifact L a = Inr ab \<longrightarrow>
          ab \<noteq> [] \<and> de_artifact L ab = Inr a \<and> artifact_version a = ARTIFACT_VERSION)"

definition file_bytes :: "disk \<Rightarrow> str \<Rightarrow> bytes" where
  "file_bytes d n = (case entry d n of Some (File bs) \<Rightarrow> bs | _ \<Rightarrow> [])"

text \<open>The message a reader computes the seal of, from what it finds.\<close>

definition presented_digest :: "handoff_lib \<Rightarrow> disk \<Rightarrow> str option" where
  "presented_digest L d =
     (if file_bytes d ARTIFACT_FILE \<noteq> []
      then Some (sha256_hex (sha256 L) (file_bytes d BODY_FILE)) else None)"

definition presented_message :: "handoff_lib \<Rightarrow> handoff \<Rightarrow> disk \<Rightarrow> bytes" where
  "presented_message L h d =
     seal_message h (file_bytes d STAGE_FILE) (file_bytes d ARTIFACT_FILE)
       (presented_digest L d)"

lemma file_bytes_entry: "entry d n = Some (File bs) \<Longrightarrow> file_bytes d n = bs"
  by (simp add: file_bytes_def)

lemma file_bytes_tick [simp]: "file_bytes (tick d) = file_bytes d"
  by (simp add: file_bytes_def fun_eq_iff)

section \<open>A successful write\<close>

lemma put_Ok: "put E n bs d = (Inr u, d') \<Longrightarrow> dir_exists d \<and> d' = tick (put_file n bs d)"
  by (auto simp: put_def step_simps dest: fs_write_Ok)

lemma make_directory_Ok:
  "make_directory E d = (Inr u, d') \<Longrightarrow> dir_exists d' \<and> nodes d' = nodes d"
  by (auto simp: make_directory_def step_simps dest: fs_create_dir_all_Ok)

lemma put_Err:
  "put E n bs d = (Inl e, d') \<Longrightarrow> d' = tick d \<or> (\<exists>k. d' = tick (put_file n (take k bs) d))"
  by (auto simp: put_def step_simps dest: fs_write_Err)

lemma make_directory_nodes: "make_directory E d = (r, d') \<Longrightarrow> nodes d' = nodes d"
  by (cases r) (auto simp: make_directory_def step_simps
      dest!: fs_create_dir_all_Ok fs_create_dir_all_Err)

lemma encode_Ok_iff [simp]: "encode ser v w = Inr bs \<longleftrightarrow> ser v = Inr bs"
  by (simp add: encode_def result_iffs)

lemma write_fetched_Ok:
  assumes "write_fetched L E h a body d = (Inr u, d')"
  obtains sb ab where
    "sealed_parts L h (Handed_Fetched a body) sb ab (Some (body_sha256 a))"
    "art_run_id a = handoff_run_id h" "length body = body_bytes a"
    "sha256_hex (sha256 L) body = body_sha256 a" "dir_exists d'"
    "nodes d' = (nodes d)(BODY_FILE \<mapsto> File body, ARTIFACT_FILE \<mapsto> File ab,
       STAGE_FILE \<mapsto> File sb, SEAL_FILE \<mapsto> File (utf8 (seal L h sb ab (Some (body_sha256 a)))))"
  using assms unfolding write_fetched_def sealed_parts_def outcome_of_def
  by (auto simp: step_simps split: if_splits dest!: put_Ok make_directory_Ok)

lemma write_failure_Ok:
  assumes "write_failure L E h c d = (Inr u, d')"
  obtains sb where
    "sealed_parts L h (Handed_Failed c) sb [] None" "dir_exists d'"
    "nodes d' STAGE_FILE = Some (File sb)"
    "nodes d' SEAL_FILE = Some (File (utf8 (seal L h sb [] None)))"
    "\<And>n. n \<notin> handoff_files \<Longrightarrow> nodes d' n = nodes d n"
proof -
  from assms obtain sb d1 where sb: "ser_outcome L (outcome_of h (Handed_Failed c)) = Inr sb"
    and dir: "make_directory E d = (Inr (), d1)"
    and d': "nodes d' = (nodes (snd (fs_remove E BODY_FILE (snd (fs_remove E ARTIFACT_FILE d1)))))
       (STAGE_FILE \<mapsto> File sb, SEAL_FILE \<mapsto> File (utf8 (seal L h sb [] None)))" "dir_exists d'"
    unfolding write_failure_def outcome_of_def
    by (auto simp: step_simps dest!: put_Ok)
  have "nodes d' n = nodes d n" if "n \<notin> handoff_files" for n
    using that d' make_directory_Ok [OF dir] by (simp add: handoff_files_def)
  with sb d' show thesis
    by (intro that [of sb]) (auto simp: sealed_parts_def)
qed

lemma handoff_write_Ok:
  assumes "handoff_write L E h m d = (Inr u, d')"
  obtains sb ab dig where
    "sealed_parts L h m sb ab dig" "dir_exists d'"
    "nodes d' STAGE_FILE = Some (File sb)"
    "nodes d' SEAL_FILE = Some (File (utf8 (seal L h sb ab dig)))"
proof (cases m)
  case (Handed_Failed c)
  with assms show thesis
    by (auto simp: handoff_write_def elim!: write_failure_Ok intro: that)
next
  case (Handed_Fetched a body)
  with assms have "write_fetched L E h a body d = (Inr u, d')" by (simp add: handoff_write_def)
  then show thesis
    using Handed_Fetched by (elim write_fetched_Ok) (auto intro: that)
qed

section \<open>An accepted read\<close>

lemma handoff_read_Ok:
  assumes "handoff_read L E h d = (Inr r, d')"
  obtains rec where
    "valid_str rec" "entry d SEAL_FILE = Some (File (utf8 rec))"
    "entry d STAGE_FILE = Some (File (file_bytes d STAGE_FILE))"
    "accept_handoff L h (file_bytes d STAGE_FILE) (file_bytes d ARTIFACT_FILE) rec
       (if file_bytes d ARTIFACT_FILE = [] then [] else file_bytes d BODY_FILE) = Inr r"
proof -
  have optional: "(case found of None \<Rightarrow> [] | Some bs \<Rightarrow> bs) = file_bytes d ARTIFACT_FILE \<and> t = tick s"
    if "get_optional E ARTIFACT_FILE s = (Inr found, t)" "entry s = entry d" for found s t
    using that
    by (auto simp: get_optional_def file_bytes_def fs_read_Ok_iff
        split: prod.splits sum.splits if_splits dest: fs_read_not_found fs_read_state)
  have read: "entry d n = Some (File bs) \<and> t = tick s"
    if "get E n s = (Inr bs, t)" "entry s = entry d" for n bs s t
    using that by (auto simp: get_def step_simps fs_read_Ok_iff)
  from assms obtain sb t1 found t2 rec t3 body t4 where
    stage: "get E STAGE_FILE d = (Inr sb, t1)" and
    art: "get_optional E ARTIFACT_FILE t1 = (Inr found, t2)" and
    seal: "fs_read_to_string E SEAL_FILE t2 = (Inr rec, t3)" and
    body: "(if (case found of None \<Rightarrow> [] | Some bs \<Rightarrow> bs) = [] then pure_step []
       else get E BODY_FILE) t3 = (Inr body, t4)" and
    accept: "accept_handoff L h sb (case found of None \<Rightarrow> [] | Some bs \<Rightarrow> bs) rec body = Inr r"
    unfolding handoff_read_def Let_def bind_step_Ok_iff map_err_step_Ok_iff lift_step_eq
    by blast
  have 1: "entry d STAGE_FILE = Some (File sb)" "t1 = tick d"
    using read [OF stage] by simp_all
  have 2: "(case found of None \<Rightarrow> [] | Some bs \<Rightarrow> bs) = file_bytes d ARTIFACT_FILE" "t2 = tick t1"
    using optional [OF art] 1 by simp_all
  have 3: "valid_str rec" "entry d SEAL_FILE = Some (File (utf8 rec))" "t3 = tick t2"
    using seal 1 2 by (simp_all add: fs_read_to_string_Ok_iff)
  have 4: "body = (if file_bytes d ARTIFACT_FILE = [] then [] else file_bytes d BODY_FILE)"
    using body read [of BODY_FILE t3 body t4] 1 2 3
    by (auto simp: step_simps file_bytes_entry split: if_splits)
  show thesis
    using that [of rec] 1 2 3 4 accept by (simp add: file_bytes_entry)
qed

lemma accept_handoff_Ok:
  assumes "accept_handoff L h sb ab rec body = Inr r" "valid_str rec"
  defines "dig \<equiv> (if ab \<noteq> [] then Some (sha256_hex (sha256 L) body) else None)"
  shows "trim rec = seal L h sb ab dig"
    and "\<exists>out. de_outcome L sb = Inr out \<and> outcome_check out (handoff_run_id h) = Inr ()
      \<and> (case outcome_code out of
           Some c \<Rightarrow> r = Handed_Failed c
         | None \<Rightarrow> ab \<noteq> [] \<and> (\<exists>a. de_artifact L ab = Inr a \<and> r = Handed_Fetched a body
             \<and> artifact_version a = ARTIFACT_VERSION \<and> art_run_id a = handoff_run_id h
             \<and> body_bytes a = length body \<and> body_sha256 a = sha256_hex (sha256 L) body))"
proof -
  have "valid_str (trim rec)"
    using assms(2) trim_matches_set [of is_whitespace rec]
    by (auto simp: valid_str_def list_all_iff trim_def)
  moreover have "utf8 (trim rec) = utf8 (seal L h sb ab dig)"
    using assms(1) unfolding accept_handoff_def dig_def by (auto simp: Let_def split: if_splits)
  ultimately show "trim rec = seal L h sb ab dig"
    by (intro utf8_inj) simp_all
  show "\<exists>out. de_outcome L sb = Inr out \<and> outcome_check out (handoff_run_id h) = Inr ()
      \<and> (case outcome_code out of
           Some c \<Rightarrow> r = Handed_Failed c
         | None \<Rightarrow> ab \<noteq> [] \<and> (\<exists>a. de_artifact L ab = Inr a \<and> r = Handed_Fetched a body
             \<and> artifact_version a = ARTIFACT_VERSION \<and> art_run_id a = handoff_run_id h
             \<and> body_bytes a = length body \<and> body_sha256 a = sha256_hex (sha256 L) body))"
    using assms(1) unfolding accept_handoff_def
    by (auto simp: Let_def result_iffs split: if_splits option.splits)
qed

section \<open>Delivery\<close>

definition healthy :: "fs_env \<Rightarrow> bool" where
  "healthy E \<longleftrightarrow> (\<forall>n. faults E n = Healthy)"

text \<open>No entry of the handoff is something that cannot be opened.\<close>

definition usable :: "disk \<Rightarrow> bool" where
  "usable d \<longleftrightarrow> (\<forall>n \<in> handoff_files. \<forall>e. nodes d n \<noteq> Some (Unreadable e))"

text \<open>What a complete, consistent directory holds for a message.\<close>

definition holds_message :: "handoff_lib \<Rightarrow> handoff \<Rightarrow> handed \<Rightarrow> disk \<Rightarrow> bool" where
  "holds_message L h m d \<longleftrightarrow> dir_exists d \<and>
     (\<exists>sb ab dig. sealed_parts L h m sb ab dig
        \<and> nodes d STAGE_FILE = Some (File sb)
        \<and> nodes d SEAL_FILE = Some (File (utf8 (seal L h sb ab dig)))
        \<and> (case m of
             Handed_Failed c \<Rightarrow> nodes d ARTIFACT_FILE = None \<and> nodes d BODY_FILE = None
           | Handed_Fetched a body \<Rightarrow>
               nodes d ARTIFACT_FILE = Some (File ab) \<and> nodes d BODY_FILE = Some (File body)
               \<and> art_run_id a = handoff_run_id h \<and> length body = body_bytes a
               \<and> sha256_hex (sha256 L) body = body_sha256 a))"

lemma write_fetched_holds:
  assumes "write_fetched L E h a body d = (Inr u, d')"
  shows "holds_message L h (Handed_Fetched a body) d'"
  using assms by (elim write_fetched_Ok) (auto simp: holds_message_def)

lemma write_failure_holds:
  assumes run: "write_failure L E h c d = (Inr u, d')" and "healthy E" "usable d"
  shows "holds_message L h (Handed_Failed c) d'"
proof -
  from run obtain sb d1 where sb: "ser_outcome L (outcome_of h (Handed_Failed c)) = Inr sb"
    and dir: "make_directory E d = (Inr (), d1)"
    and d': "nodes d' = (nodes (snd (fs_remove E BODY_FILE (snd (fs_remove E ARTIFACT_FILE d1)))))
       (STAGE_FILE \<mapsto> File sb, SEAL_FILE \<mapsto> File (utf8 (seal L h sb [] None)))" "dir_exists d'"
    unfolding write_failure_def outcome_of_def
    by (auto simp: step_simps dest!: put_Ok)
  let ?d2 = "snd (fs_remove E ARTIFACT_FILE d1)"
  have d1: "dir_exists d1" "nodes d1 = nodes d" using make_directory_Ok [OF dir] by auto
  have "nodes ?d2 ARTIFACT_FILE = None"
    using assms d1 by (intro fs_remove_healthy) (auto simp: healthy_def usable_def handoff_files_def)
  moreover have "nodes (snd (fs_remove E BODY_FILE ?d2)) BODY_FILE = None"
    using assms d1 by (intro fs_remove_healthy) (auto simp: healthy_def usable_def handoff_files_def)
  ultimately show ?thesis using d' sb by (auto simp: holds_message_def sealed_parts_def)
qed

lemma write_holds:
  assumes "handoff_write L E h m d = (Inr u, d')" "healthy E" "usable d"
  shows "holds_message L h m d'"
  using assms write_fetched_holds write_failure_holds
  by (cases m) (auto simp: handoff_write_def)

lemma accept_written:
  assumes "sealed_parts L h m sb ab dig" "carries L h m"
    and "case m of Handed_Failed c \<Rightarrow> body = []
       | Handed_Fetched a b \<Rightarrow> body = b \<and> art_run_id a = handoff_run_id h
           \<and> length b = body_bytes a \<and> sha256_hex (sha256 L) b = body_sha256 a"
  shows "accept_handoff L h sb ab (seal L h sb ab dig) body = Inr m"
  using assms
  by (cases m)
     (auto simp: accept_handoff_def Let_def sealed_parts_def carries_def outcome_of_def
       context_err_def)

lemma handoff_read_holds:
  assumes holds: "holds_message L h m d" and "carries L h m" "healthy E"
  shows "\<exists>d'. handoff_read L E h d = (Inr m, d')"
proof -
  obtain sb ab dig where parts: "sealed_parts L h m sb ab dig"
    and dir: "dir_exists d" and files: "nodes d STAGE_FILE = Some (File sb)"
      "nodes d SEAL_FILE = Some (File (utf8 (seal L h sb ab dig)))"
    and rest: "case m of
             Handed_Failed c \<Rightarrow> nodes d ARTIFACT_FILE = None \<and> nodes d BODY_FILE = None
           | Handed_Fetched a body \<Rightarrow>
               nodes d ARTIFACT_FILE = Some (File ab) \<and> nodes d BODY_FILE = Some (File body)
               \<and> art_run_id a = handoff_run_id h \<and> length body = body_bytes a
               \<and> sha256_hex (sha256 L) body = body_sha256 a"
    using holds by (auto simp: holds_message_def)
  define body where "body = (case m of Handed_Failed _ \<Rightarrow> [] | Handed_Fetched _ b \<Rightarrow> b)"
  have accept: "accept_handoff L h sb ab (seal L h sb ab dig) body = Inr m"
    using rest parts assms(2) by (intro accept_written) (auto simp: body_def split: handed.splits)
  have ab: "ab = [] \<longleftrightarrow> (\<exists>c. m = Handed_Failed c)"
    using parts assms(2) by (cases m) (auto simp: sealed_parts_def carries_def)
  show ?thesis
    using files rest dir assms(3) accept ab parts
    by (cases m)
       (auto simp: handoff_read_def bind_step_def get_def get_optional_def map_err_step_def
         fs_read_def fs_read_to_string_def entry_def healthy_def not_found_def lift_step_def
         pure_step_def body_def Let_def)
qed

text \<open>
  A channel with one slot: a send that succeeds is what the next receive returns, whatever
  attempts to send came before it. The inspection stage relies on nothing else.
\<close>

locale sealed_channel =
  fixes attempt :: "'m \<Rightarrow> 's \<Rightarrow> 's"
    and send :: "'m \<Rightarrow> 's \<Rightarrow> 's option"
    and receive :: "'s \<Rightarrow> 'm option"
    and fit :: "'m \<Rightarrow> bool" and inv :: "'s \<Rightarrow> bool"
  assumes delivery: "fit m \<Longrightarrow> inv s \<Longrightarrow> \<exists>t. send m s = Some t \<and> receive t = Some m"
    and inv_attempt: "inv s \<Longrightarrow> inv (attempt m s)"
begin

lemma inv_attempts: "inv s \<Longrightarrow> inv (fold attempt ms s)"
  by (induction ms arbitrary: s) (auto intro: inv_attempt)

lemma last_send_wins:
  assumes "inv s" "fit m"
  shows "\<exists>t. send m (fold attempt ms s) = Some t \<and> receive t = Some m"
  using assms by (intro delivery inv_attempts)

end

text \<open>An attempt is a write whose result nobody looks at, under any faults.\<close>

definition handoff_attempt ::
    "handoff_lib \<Rightarrow> fs_env \<Rightarrow> handoff \<Rightarrow> handed \<Rightarrow> disk \<Rightarrow> disk" where
  "handoff_attempt L E h m d = snd (handoff_write L E h m d)"

definition handoff_send ::
    "handoff_lib \<Rightarrow> fs_env \<Rightarrow> handoff \<Rightarrow> handed \<Rightarrow> disk \<Rightarrow> disk option" where
  "handoff_send L E h m d =
     (case handoff_write L E h m d of (Inl _, _) \<Rightarrow> None | (Inr _, d') \<Rightarrow> Some d')"

definition handoff_receive ::
    "handoff_lib \<Rightarrow> fs_env \<Rightarrow> handoff \<Rightarrow> disk \<Rightarrow> handed option" where
  "handoff_receive L E h d = ok_value (fst (handoff_read L E h d))"

lemma handoff_send_Some_iff:
  "handoff_send L E h m d = Some d' \<longleftrightarrow> handoff_write L E h m d = (Inr (), d')"
  by (auto simp: handoff_send_def split: prod.splits sum.splits)

text \<open>What the sender must have got right about a message for the write to go through.\<close>

definition writable :: "handoff_lib \<Rightarrow> handoff \<Rightarrow> handed \<Rightarrow> bool" where
  "writable L h m \<longleftrightarrow>
     is_ok (ser_outcome L (outcome_of h m))
     \<and> (case m of
          Handed_Failed c \<Rightarrow> True
        | Handed_Fetched a body \<Rightarrow>
            is_ok (ser_artifact L a) \<and> art_run_id a = handoff_run_id h
            \<and> length body = body_bytes a \<and> sha256_hex (sha256 L) body = body_sha256 a)"

lemma usable_relation: "step_relation (\<lambda>d d'. usable d \<longrightarrow> usable d')"
  by unfold_locales auto

interpretation usable_kept: step_relation "\<lambda>d d'. usable d \<longrightarrow> usable d'"
  by (rule usable_relation)

lemma usable_put: "usable_kept.keeps (put E n bs)"
proof (rule usable_kept.keepsI)
  fix s r t
  assume run: "put E n bs s = (r, t)"
  have "nodes t = nodes s \<or> (\<exists>bs'. nodes t = (nodes s)(n \<mapsto> File bs'))"
    using run by (cases r) (auto dest!: put_Ok put_Err)
  then show "usable s \<longrightarrow> usable t" by (auto simp: usable_def split: if_splits)
qed

lemma usable_make_directory: "usable_kept.keeps (make_directory E)"
  by (rule usable_kept.keepsI) (simp add: usable_def make_directory_nodes)

lemma usable_fs_remove: "usable d \<Longrightarrow> usable (snd (fs_remove E n d))"
proof -
  have "nodes (snd (fs_remove E n d)) = nodes d
      \<or> nodes (snd (fs_remove E n d)) = (nodes d)(n := None)"
    using fs_remove_cases [OF surjective_pairing, of E n d] by auto
  then show "usable d \<Longrightarrow> usable (snd (fs_remove E n d))"
    by (auto simp: usable_def split: if_splits)
qed

lemma usable_remove: "usable_kept.keeps (ignore_step (fs_remove E n))"
  by (rule usable_kept.keepsI) (simp add: step_simps usable_fs_remove)

lemma usable_attempt: "usable d \<Longrightarrow> usable (handoff_attempt L E h m d)"
proof -
  have "usable_kept.keeps (handoff_write L E h m)"
    unfolding handoff_write_def write_failure_def write_fetched_def
    by (cases m) (auto intro!: usable_kept.keeps_bind usable_kept.keeps_lift usable_put
        usable_make_directory usable_remove)
  then show "usable d \<Longrightarrow> usable (handoff_attempt L E h m d)"
    by (simp add: usable_kept.keeps_def handoff_attempt_def)
qed

lemma put_healthy:
  assumes "healthy E" "usable d" "dir_exists d" "n \<in> handoff_files"
  shows "put E n bs d = (Inr (), tick (put_file n bs d))"
  using assms fs_write_healthy [of E d n bs]
  by (auto simp: put_def map_err_step_def healthy_def usable_def)

lemma make_directory_healthy:
  "healthy E \<Longrightarrow> make_directory E d = (Inr (), tick (d\<lparr>dir_exists := True\<rparr>))"
  by (simp add: make_directory_def map_err_step_def fs_create_dir_all_def healthy_def)

lemma usable_updates [simp]:
  "usable (tick d) = usable d" "usable d \<Longrightarrow> usable (put_file n bs d)"
  "usable (d\<lparr>dir_exists := b\<rparr>) = usable d"
  by (auto simp: usable_def put_file_def split: if_splits)

lemma write_healthy:
  assumes "healthy E" "usable d" "writable L h m"
  shows "\<exists>d'. handoff_write L E h m d = (Inr (), d')"
proof (cases m)
  case (Handed_Failed c)
  with assms obtain sb where "ser_outcome L (outcome_failed Stage_Fetch (handoff_run_id h) c) = Inr sb"
    by (auto simp: writable_def is_ok_iff outcome_of_def)
  with assms Handed_Failed show ?thesis
    by (simp add: handoff_write_def write_failure_def bind_step_def lift_step_def ignore_step_def
        encode_def context_err_def make_directory_healthy put_healthy usable_fs_remove handoff_files_def)
next
  case (Handed_Fetched a body)
  with assms obtain sb ab where "ser_outcome L (outcome_ok Stage_Fetch (handoff_run_id h)) = Inr sb"
      "ser_artifact L a = Inr ab"
    by (auto simp: writable_def is_ok_iff outcome_of_def)
  with assms Handed_Fetched show ?thesis
    by (simp add: handoff_write_def write_fetched_def bind_step_def lift_step_def writable_def
        encode_def context_err_def make_directory_healthy put_healthy handoff_files_def)
qed

lemma send_delivers:
  assumes "carries L h m" "writable L h m" "healthy E" "healthy E'" "usable s"
  shows "\<exists>t. handoff_send L E h m s = Some t \<and> handoff_receive L E' h t = Some m"
proof -
  obtain t where t: "handoff_write L E h m s = (Inr (), t)"
    using write_healthy assms by blast
  then obtain x where "handoff_read L E' h t = (Inr m, x)"
    using handoff_read_holds write_holds assms by blast
  with t show ?thesis by (simp add: handoff_send_Some_iff handoff_receive_def)
qed

interpretation handoff_channel:
  sealed_channel "handoff_attempt L E0 h" "handoff_send L E h" "handoff_receive L E' h"
    "\<lambda>m. carries L h m \<and> writable L h m \<and> healthy E \<and> healthy E'" usable for L E0 E E' h
  by unfold_locales (auto intro: send_delivers usable_attempt)

text \<open>A small library and run the properties are applied to.\<close>

definition example_artifact :: fetch_artifact where
  "example_artifact =
     \<lparr>artifact_version = ARTIFACT_VERSION, art_run_id = lit ''run'', art_source_id = lit ''src'',
      requested_url_sha256 = [], art_final_url = [], art_http_status = 200,
      art_content_type = None, art_content_encoding = None, art_redirects = 0,
      art_retrieved_at = [], art_format = Text, body_bytes = 1, body_sha256 = to_hex [7],
      policy_profile = lit ''test''\<rparr>"

definition example_handoff :: handoff where
  "example_handoff = handoff_new (lit ''run'') (HandoffKey (replicate 32 0))"

definition example_handoff_lib :: handoff_lib where
  "example_handoff_lib =
     \<lparr>sha256 = (\<lambda>bs. take 1 bs), hmac_sha256 = (\<lambda>k m. m),
      ser_outcome = (\<lambda>o'. Inr [if outcome_code o' = None then 1 else 2]),
      de_outcome = (\<lambda>bs. Inr (if bs = [1] then outcome_ok Stage_Fetch (lit ''run'')
        else outcome_failed Stage_Fetch (lit ''run'') FetchFailed)),
      ser_artifact = (\<lambda>a. Inr [3]), de_artifact = (\<lambda>bs. Inr example_artifact)\<rparr>"

definition example_message :: handed where
  "example_message = Handed_Fetched example_artifact [7]"

definition example_disk :: disk where
  "example_disk = \<lparr>dir_exists = False, nodes = (\<lambda>_. None), calls = 0\<rparr>"

definition healthy_env :: fs_env where
  "healthy_env = \<lparr>faults = (\<lambda>_. Healthy), not_found_text = []\<rparr>"

lemma example_good [simp]:
  "writable example_handoff_lib example_handoff example_message"
  "carries example_handoff_lib example_handoff example_message"
  "healthy healthy_env" "usable example_disk"
  by (simp_all add: writable_def carries_def example_message_def example_handoff_lib_def
      example_handoff_def handoff_new_def outcome_of_def outcome_ok_def example_artifact_def
      sha256_hex_def healthy_env_def healthy_def usable_def example_disk_def)

text \<open>C8: what a handoff delivers. Whatever writes the fetch stage attempted before, and
  whichever file system calls failed during them, the next write of a well-formed message
  (a response or a failure) on a healthy file system succeeds, the inspection stage then
  reads exactly that message, and if it is a failure neither a body nor an artifact
  description is left in the directory.\<close>

theorem handoff_delivers_last:
  assumes "usable d" and "healthy E" and "healthy E'"
    and "writable L h m" and "carries L h m"
  shows "\<exists>t. handoff_write L E h m (fold (handoff_attempt L E0 h) earlier d) = (Inr (), t)
    \<and> (\<exists>x. handoff_read L E' h t = (Inr m, x))
    \<and> (\<forall>c. m = Handed_Failed c \<longrightarrow> nodes t BODY_FILE = None \<and> nodes t ARTIFACT_FILE = None)"
proof -
  let ?d = "fold (handoff_attempt L E0 h) earlier d"
  have d: "usable ?d" using assms(1) by (induction earlier arbitrary: d) (auto intro: usable_attempt)
  obtain t where t: "handoff_write L E h m ?d = (Inr (), t)" "handoff_receive L E' h t = Some m"
    using handoff_channel.last_send_wins [of d L h m E E' E0 earlier] assms
    by (auto simp: handoff_send_Some_iff)
  moreover have "\<exists>x. handoff_read L E' h t = (Inr m, x)"
    using t(2) unfolding handoff_receive_def ok_value_Some_iff by (metis prod.collapse)
  moreover have "\<forall>c. m = Handed_Failed c \<longrightarrow> nodes t BODY_FILE = None \<and> nodes t ARTIFACT_FILE = None"
    using write_holds [OF t(1) assms(2) d] by (auto simp: holds_message_def)
  ultimately show ?thesis by blast
qed

lemma handoff_delivers_last_witness:
  "\<exists>t. handoff_write example_handoff_lib healthy_env example_handoff example_message
      (fold (handoff_attempt example_handoff_lib healthy_env example_handoff)
        [Handed_Failed FetchFailed] example_disk) = (Inr (), t)
    \<and> (\<exists>x. handoff_read example_handoff_lib healthy_env example_handoff t = (Inr example_message, x))"
  using handoff_delivers_last [of example_disk healthy_env healthy_env example_handoff_lib
      example_handoff example_message healthy_env "[Handed_Failed FetchFailed]"]
  by auto

section \<open>Tampering\<close>

text \<open>
  The seal cannot exclude that two different messages have one MAC. The theorem below
  says precisely which two would have to.
\<close>

definition mac_clash :: "handoff_lib \<Rightarrow> handoff \<Rightarrow> bytes \<Rightarrow> bytes \<Rightarrow> bool" where
  "mac_clash L h x y \<longleftrightarrow>
     x \<noteq> y \<and> hmac_sha256 L (key_material (handoff_mac_key h)) x =
             hmac_sha256 L (key_material (handoff_mac_key h)) y"

definition digest_clash :: "handoff_lib \<Rightarrow> bytes \<Rightarrow> bytes \<Rightarrow> bool" where
  "digest_clash L x y \<longleftrightarrow> x \<noteq> y \<and> sha256 L x = sha256 L y"

text \<open>Lengths fit in a \<^verbatim>\<open>u64\<close>, as every Rust slice's does.\<close>

definition slices_fit :: "handoff_lib \<Rightarrow> handoff \<Rightarrow> disk \<Rightarrow> bool" where
  "slices_fit L h d \<longleftrightarrow>
     valid_str (handoff_run_id h) \<and> byte_len (handoff_run_id h) < 2 ^ 64
     \<and> (\<forall>n bs. nodes d n = Some (File bs) \<longrightarrow> length bs < 2 ^ 64)
     \<and> (\<forall>bs. 2 * length (sha256 L bs) < 2 ^ 64)"

lemma file_bytes_fit: "slices_fit L h d \<Longrightarrow> length (file_bytes d n) < 2 ^ 64"
  by (auto simp: file_bytes_def slices_fit_def entry_def split: option.splits node.splits)

lemma digest_fits:
  "slices_fit L h d \<Longrightarrow> length (utf8 (sha256_hex (sha256 L) bs)) < 2 ^ 64"
  by (simp add: slices_fit_def sha256_hex_def byte_len_ascii to_hex_ascii)

lemma read_seal:
  assumes "handoff_read L E h d = (Inr r, d')"
  shows "\<exists>rec. valid_str rec \<and> entry d SEAL_FILE = Some (File (utf8 rec))
    \<and> trim rec = to_hex (hmac_sha256 L (key_material (handoff_mac_key h)) (presented_message L h d))"
  using assms
proof (rule handoff_read_Ok)
  fix rec
  assume rec: "valid_str rec" "entry d SEAL_FILE = Some (File (utf8 rec))"
    and accept: "accept_handoff L h (file_bytes d STAGE_FILE) (file_bytes d ARTIFACT_FILE) rec
       (if file_bytes d ARTIFACT_FILE = [] then [] else file_bytes d BODY_FILE) = Inr r"
  show ?thesis
    using rec accept_handoff_Ok(1) [OF accept rec(1)]
    by (auto simp: seal_def presented_message_def presented_digest_def)
qed

lemma sealed_parts_unique:
  "sealed_parts L h m sb ab dig \<Longrightarrow> sealed_parts L h m sb' ab' dig' \<Longrightarrow>
     sb' = sb \<and> ab' = ab \<and> dig' = dig"
  by (auto simp: sealed_parts_def split: handed.splits)

lemma sent_files:
  assumes sent: "handoff_write L E h m d0 = (Inr u, d1)" and parts: "sealed_parts L h m sb ab dig"
  shows "nodes d1 STAGE_FILE = Some (File sb)
    \<and> nodes d1 SEAL_FILE = Some (File (utf8 (seal L h sb ab dig)))
    \<and> (ab \<noteq> [] \<longrightarrow> nodes d1 ARTIFACT_FILE = Some (File ab))"
proof (cases m)
  case (Handed_Failed c)
  from sent obtain sb' ab' dig' where p: "sealed_parts L h m sb' ab' dig'"
    and n: "nodes d1 STAGE_FILE = Some (File sb')"
      "nodes d1 SEAL_FILE = Some (File (utf8 (seal L h sb' ab' dig')))"
    by (rule handoff_write_Ok)
  have "ab = []" using parts Handed_Failed by (simp add: sealed_parts_def)
  with n sealed_parts_unique [OF parts p] show ?thesis by simp
next
  case (Handed_Fetched a body)
  then have "write_fetched L E h a body d0 = (Inr u, d1)"
    using sent by (simp add: handoff_write_def)
  then obtain sb' ab' dig' where p: "sealed_parts L h m sb' ab' dig'"
    and n: "nodes d1 STAGE_FILE = Some (File sb')"
      "nodes d1 SEAL_FILE = Some (File (utf8 (seal L h sb' ab' dig')))"
      "nodes d1 ARTIFACT_FILE = Some (File ab')"
    using Handed_Fetched by (elim write_fetched_Ok) auto
  then show ?thesis using sealed_parts_unique [OF parts p] by simp
qed

lemma read_after_tampering:
  assumes sent: "handoff_write L E h m d0 = (Inr u, d1)" and parts: "sealed_parts L h m sb ab dig"
    and seal_kept: "nodes d2 SEAL_FILE = nodes d1 SEAL_FILE"
    and read: "handoff_read L E' h' d2 = (Inr r, d3)"
    and key: "handoff_mac_key h' = handoff_mac_key h"
  shows "hmac_sha256 L (key_material (handoff_mac_key h)) (presented_message L h' d2) =
         hmac_sha256 L (key_material (handoff_mac_key h)) (seal_message h sb ab dig)"
proof -
  have "nodes d1 SEAL_FILE = Some (File (utf8 (seal L h sb ab dig)))"
    using sent_files [OF sent parts] by simp
  then have d2: "nodes d2 SEAL_FILE = Some (File (utf8 (seal L h sb ab dig)))"
    using seal_kept by simp
  obtain rec where rec: "valid_str rec" "entry d2 SEAL_FILE = Some (File (utf8 rec))"
    and trim: "trim rec = to_hex (hmac_sha256 L (key_material (handoff_mac_key h'))
       (presented_message L h' d2))"
    using read_seal [OF read] by blast
  have "utf8 rec = utf8 (seal L h sb ab dig)"
    using rec(2) d2 by (auto simp: entry_def split: if_splits)
  then have "rec = seal L h sb ab dig"
    by (rule utf8_inj [OF rec(1) seal_valid])
  then have "trim rec = seal L h sb ab dig" by simp
  with trim key have "to_hex (hmac_sha256 L (key_material (handoff_mac_key h))
      (presented_message L h' d2)) = to_hex (hmac_sha256 L (key_material (handoff_mac_key h))
      (seal_message h sb ab dig))"
    by (simp add: seal_def)
  then show ?thesis by (rule to_hex_inj)
qed

text \<open>A reader that accepts what another sealed, after any change but to the seal.\<close>

lemma tampering_detected:
  assumes sent: "handoff_write L E h m d0 = (Inr u, d1)"
    and seal_kept: "nodes d2 SEAL_FILE = nodes d1 SEAL_FILE"
    and read: "handoff_read L E' h' d2 = (Inr r, d3)"
    and key: "handoff_mac_key h' = handoff_mac_key h"
    and carries: "carries L h m" and fit: "slices_fit L h d1" "slices_fit L h' d2"
    and parts: "sealed_parts L h m sb ab dig"
  shows "mac_clash L h (presented_message L h' d2) (seal_message h sb ab dig)
    \<or> (\<exists>a body. m = Handed_Fetched a body
         \<and> digest_clash L (file_bytes d2 BODY_FILE) body)
    \<or> (handoff_run_id h' = handoff_run_id h \<and> r = m)"
proof (cases "presented_message L h' d2 = seal_message h sb ab dig")
  case False
  then show ?thesis
    using read_after_tampering [OF sent parts seal_kept read key] by (simp add: mac_clash_def)
next
  case True
  have "nodes d1 STAGE_FILE = Some (File sb)"
      "ab \<noteq> [] \<longrightarrow> nodes d1 ARTIFACT_FILE = Some (File ab)"
    using sent_files [OF sent parts] by auto
  then have lengths: "length sb < 2 ^ 64" "length ab < 2 ^ 64"
    using fit(1) by (cases "ab = []"; auto simp: slices_fit_def)+
  have dig: "dig = (if ab = [] then None else Some (sha256_hex (sha256 L)
      (case m of Handed_Failed _ \<Rightarrow> [] | Handed_Fetched _ b \<Rightarrow> b)))"
    using parts carries by (auto simp: sealed_parts_def carries_def split: handed.splits)
  have len_dig: "length (utf8 (case dig of None \<Rightarrow> [] | Some x \<Rightarrow> x)) < 2 ^ 64"
    using digest_fits [OF fit(1)] by (simp add: dig)
  have len_dig': "length (utf8 (case presented_digest L d2 of None \<Rightarrow> [] | Some x \<Rightarrow> x)) < 2 ^ 64"
    using digest_fits [OF fit(2)] by (simp add: presented_digest_def)
  have ids: "byte_len (handoff_run_id h) < 2 ^ 64" "byte_len (handoff_run_id h') < 2 ^ 64"
    using fit by (simp_all add: slices_fit_def)
  have same: "utf8 (handoff_run_id h') = utf8 (handoff_run_id h)
    \<and> file_bytes d2 STAGE_FILE = sb \<and> file_bytes d2 ARTIFACT_FILE = ab
    \<and> utf8 (case presented_digest L d2 of None \<Rightarrow> [] | Some x \<Rightarrow> x) =
      utf8 (case dig of None \<Rightarrow> [] | Some x \<Rightarrow> x)"
    using True [unfolded presented_message_def] lengths len_dig len_dig' ids
      file_bytes_fit [OF fit(2)]
    by (intro seal_message_inj) simp_all
  have run: "handoff_run_id h' = handoff_run_id h"
    using same fit by (intro utf8_inj) (auto simp: slices_fit_def)
  from read obtain rec where "valid_str rec"
    and accept: "accept_handoff L h' sb ab rec (if ab = [] then [] else file_bytes d2 BODY_FILE) = Inr r"
    using same by (elim handoff_read_Ok) auto
  show ?thesis
  proof (cases m)
    case (Handed_Failed c)
    then show ?thesis
      using accept_handoff_Ok(2) [OF accept \<open>valid_str rec\<close>] parts carries run
      by (auto simp: sealed_parts_def carries_def outcome_of_def outcome_failed_def)
  next
    case (Handed_Fetched a body)
    then have ab: "ab \<noteq> []" "de_artifact L ab = Inr a" "de_outcome L sb = Inr (outcome_of h m)"
      using parts carries by (auto simp: sealed_parts_def carries_def)
    have "sha256_hex (sha256 L) (file_bytes d2 BODY_FILE) = sha256_hex (sha256 L) body"
      using same ab(1) Handed_Fetched
      by (intro utf8_inj) (auto simp: dig presented_digest_def sha256_hex_def to_hex_valid)
    then have "digest_clash L (file_bytes d2 BODY_FILE) body \<or> file_bytes d2 BODY_FILE = body"
      by (auto simp: digest_clash_def sha256_hex_eq_iff)
    moreover have "r = Handed_Fetched a (file_bytes d2 BODY_FILE)"
      using accept_handoff_Ok(2) [OF accept \<open>valid_str rec\<close>] ab Handed_Fetched
      by (auto simp: outcome_of_def outcome_ok_def)
    ultimately show ?thesis using run Handed_Fetched by auto
  qed
qed

text \<open>C6: tampering shows. When the fetch stage wrote and sealed a message and anything but
  the seal was changed afterwards, a reader with the same key that accepts the directory
  returns that very message and has the same run id, unless the MAC of two different texts
  (given here) or the SHA-256 of two different bodies coincide.\<close>

theorem tamper_evident:
  assumes "handoff_write L E h m d0 = (Inr u, d1)" and "sealed_parts L h m sb ab dig"
    and "nodes d2 SEAL_FILE = nodes d1 SEAL_FILE"
    and "handoff_read L E' h' d2 = (Inr r, d3)" and "handoff_mac_key h' = handoff_mac_key h"
    and "carries L h m" and "slices_fit L h d1" and "slices_fit L h' d2"
  shows "mac_clash L h (presented_message L h' d2) (seal_message h sb ab dig)
    \<or> (\<exists>a body. m = Handed_Fetched a body
         \<and> digest_clash L (file_bytes d2 BODY_FILE) body)
    \<or> (handoff_run_id h' = handoff_run_id h \<and> r = m)"
  using tampering_detected assms by blast

lemma other_file: "lit ''note'' \<notin> handoff_files"
  by (simp add: handoff_files_def handoff_defs STAGE_FILE_def text_eval)

lemma example_write:
  "\<exists>d. handoff_write example_handoff_lib healthy_env example_handoff example_message example_disk
       = (Inr (), d)
     \<and> slices_fit example_handoff_lib example_handoff d
     \<and> slices_fit example_handoff_lib example_handoff (put_file (lit ''note'') [] d)
     \<and> (\<exists>x. handoff_read example_handoff_lib healthy_env example_handoff
              (put_file (lit ''note'') [] d) = (Inr example_message, x))"
proof -
  let ?L = example_handoff_lib and ?h = example_handoff and ?m = example_message
  obtain d where d: "handoff_write ?L healthy_env ?h ?m example_disk = (Inr (), d)"
    using write_healthy example_good by blast
  then have run: "write_fetched ?L healthy_env ?h example_artifact [7] example_disk = (Inr (), d)"
    by (simp add: handoff_write_def example_message_def)
  have len: "length (seal_message ?h [1] [3] (Some (to_hex [7]))) < 1000"
    by (simp add: seal_message_def length_prefixed_def be_bytes_def SEAL_DOMAIN_def text_eval
        example_handoff_def handoff_new_def length_utf8 byte_len_ascii to_hex_ascii)
  from run have nodes: "nodes d = (nodes example_disk)(BODY_FILE \<mapsto> File [7],
      ARTIFACT_FILE \<mapsto> File [3], STAGE_FILE \<mapsto> File [1],
      SEAL_FILE \<mapsto> File (utf8 (seal ?L ?h [1] [3] (Some (to_hex [7])))))"
    by (elim write_fetched_Ok)
       (simp add: sealed_parts_def example_handoff_lib_def outcome_of_def outcome_ok_def
         example_artifact_def)
  have fit: "slices_fit ?L ?h d" "slices_fit ?L ?h (put_file (lit ''note'') [] d)"
    using len by (auto simp: slices_fit_def nodes example_disk_def put_file_def seal_def
        byte_len_ascii to_hex_ascii example_handoff_lib_def example_handoff_def handoff_new_def
        text_eval valid_str_def is_scalar_def split: if_splits)
  have "holds_message ?L ?h ?m (put_file (lit ''note'') [] d)"
    using write_holds [OF d] other_file
    by (auto simp: holds_message_def put_file_def handoff_files_def example_message_def)
  then show ?thesis using d fit handoff_read_holds example_good by blast
qed

lemma tamper_evident_witness:
  "\<exists>d1 d3 r. handoff_write example_handoff_lib healthy_env example_handoff example_message
        example_disk = (Inr (), d1)
     \<and> handoff_read example_handoff_lib healthy_env example_handoff
         (put_file (lit ''note'') [] d1) = (Inr r, d3)
     \<and> (digest_clash example_handoff_lib
           (file_bytes (put_file (lit ''note'') [] d1) BODY_FILE) [7] \<or> r = example_message)"
proof -
  let ?L = example_handoff_lib and ?h = example_handoff and ?m = example_message
  obtain d x where d: "handoff_write ?L healthy_env ?h ?m example_disk = (Inr (), d)"
    "slices_fit ?L ?h d" "slices_fit ?L ?h (put_file (lit ''note'') [] d)"
    "handoff_read ?L healthy_env ?h (put_file (lit ''note'') [] d) = (Inr ?m, x)"
    using example_write by blast
  obtain sb ab dig where p: "sealed_parts ?L ?h ?m sb ab dig"
    using d(1) by (rule handoff_write_Ok)
  have seal: "nodes (put_file (lit ''note'') [] d) SEAL_FILE = nodes d SEAL_FILE"
    by (simp add: put_file_def handoff_defs text_eval)
  have "\<not> mac_clash ?L ?h u v" for u v
    by (simp add: mac_clash_def example_handoff_lib_def)
  then show ?thesis
    using tamper_evident [OF d(1) p seal d(4) refl example_good(2) d(2,3)] d(1,4)
    by (auto simp: example_message_def)
qed

section \<open>Writes that fail half way\<close>

text \<open>The seal goes last: whatever call failed, the seal is absent, torn, or complete.\<close>

lemma unsealed_put:
  "put E n bs d = (r, d') \<Longrightarrow> nodes d SEAL_FILE = None \<Longrightarrow> n \<noteq> SEAL_FILE \<Longrightarrow>
     nodes d' SEAL_FILE = None"
  by (cases r) (auto dest!: put_Ok put_Err)

lemma unsealed_make_directory:
  "make_directory E d = (r, d') \<Longrightarrow> nodes d SEAL_FILE = None \<Longrightarrow> nodes d' SEAL_FILE = None"
  by (simp add: make_directory_nodes)

lemma torn_fetched:
  assumes "write_fetched L E h a body d = (Inl e, d')" and "nodes d SEAL_FILE = None"
  shows "nodes d' SEAL_FILE = None \<or>
    (\<exists>k sb ab. sealed_parts L h (Handed_Fetched a body) sb ab (Some (body_sha256 a))
       \<and> nodes d' = (nodes d)(BODY_FILE \<mapsto> File body, ARTIFACT_FILE \<mapsto> File ab, STAGE_FILE \<mapsto> File sb,
           SEAL_FILE \<mapsto> File (take k (utf8 (seal L h sb ab (Some (body_sha256 a)))))))"
proof (cases "nodes d' SEAL_FILE = None")
  case False
  with assms obtain sb ab d1 d2 d3 d4 where
    "ser_outcome L (outcome_of h (Handed_Fetched a body)) = Inr sb" "ser_artifact L a = Inr ab"
    "sha256_hex (sha256 L) body = body_sha256 a"
    "make_directory E d = (Inr (), d1)" "put E BODY_FILE body d1 = (Inr (), d2)"
    "put E ARTIFACT_FILE ab d2 = (Inr (), d3)" "put E STAGE_FILE sb d3 = (Inr (), d4)"
    "put E SEAL_FILE (utf8 (seal L h sb ab (Some (body_sha256 a)))) d4 = (Inl e, d')"
    unfolding write_fetched_def outcome_of_def
    by (simp add: step_simps split: if_splits)
       (fastforce dest: unsealed_make_directory unsealed_put)
  moreover from this assms(2) have "nodes d4 SEAL_FILE = None"
    by (fastforce dest: unsealed_make_directory unsealed_put)
  ultimately show ?thesis
    using False by (auto simp: sealed_parts_def outcome_of_def dest!: put_Err put_Ok make_directory_Ok)
qed simp

lemma torn_fetched_read:
  assumes torn: "write_fetched L E h a body d = (Inl e, d')" and fresh: "nodes d SEAL_FILE = None"
    and carries: "carries L h (Handed_Fetched a body)"
    and read: "handoff_read L E' h d' = (Inr r, d'')"
  shows "r = Handed_Fetched a body"
  using torn_fetched [OF torn fresh]
proof (elim disjE exE conjE)
  assume "nodes d' SEAL_FILE = None"
  with read show ?thesis by (elim handoff_read_Ok) (auto simp: entry_def split: if_splits)
next
  fix k sb ab
  assume parts: "sealed_parts L h (Handed_Fetched a body) sb ab (Some (body_sha256 a))"
    and disk: "nodes d' = (nodes d)(BODY_FILE \<mapsto> File body, ARTIFACT_FILE \<mapsto> File ab,
      STAGE_FILE \<mapsto> File sb,
      SEAL_FILE \<mapsto> File (take k (utf8 (seal L h sb ab (Some (body_sha256 a))))))"
  from read have dir: "dir_exists d'"
    by (elim handoff_read_Ok) (auto simp: entry_def split: if_splits)
  from parts carries have ab: "ab \<noteq> []" "de_artifact L ab = Inr a"
      "de_outcome L sb = Inr (outcome_of h (Handed_Fetched a body))"
    by (auto simp: sealed_parts_def carries_def)
  have bytes: "file_bytes d' STAGE_FILE = sb" "file_bytes d' ARTIFACT_FILE = ab"
      "file_bytes d' BODY_FILE = body"
    using disk dir by (simp_all add: file_bytes_def entry_def)
  from read obtain rec where "valid_str rec" "accept_handoff L h sb ab rec body = Inr r"
    using bytes ab(1) by (elim handoff_read_Ok) auto
  then show ?thesis
    using accept_handoff_Ok(2) [of L h sb ab rec body r] ab
    by (auto simp: outcome_of_def outcome_ok_def)
qed

text \<open>C26: a write that fails half way is safe. Whatever file system call failed while a
  response was being written to a directory that held no seal, a reader either refuses the
  directory or reads exactly that response, never a mixture.\<close>

theorem torn_write_safe:
  assumes "write_fetched L E h a body d = (Inl e, d')" and "nodes d SEAL_FILE = None"
    and "carries L h (Handed_Fetched a body)"
  shows "(\<exists>e' x. handoff_read L E' h d' = (Inl e', x))
    \<or> (\<exists>x. handoff_read L E' h d' = (Inr (Handed_Fetched a body), x))"
proof (cases "handoff_read L E' h d'")
  case (Pair r x)
  then show ?thesis
    using torn_fetched_read [OF assms] by (cases r) auto
qed

text \<open>The fifth call of the example write stores five bytes of the seal and fails.\<close>

definition torn_env :: fs_env where
  "torn_env = \<lparr>faults = (\<lambda>n. if n = 4 then Torn 5 [] else Healthy), not_found_text = []\<rparr>"

lemma torn_write_safe_witness:
  "\<exists>e d. write_fetched example_handoff_lib torn_env example_handoff example_artifact [7] example_disk
       = (Inl e, d) \<and> nodes d SEAL_FILE \<noteq> None
     \<and> ((\<exists>e' x. handoff_read example_handoff_lib healthy_env example_handoff d = (Inl e', x))
        \<or> (\<exists>x. handoff_read example_handoff_lib healthy_env example_handoff d =
              (Inr example_message, x)))"
proof -
  have "\<exists>e d. write_fetched example_handoff_lib torn_env example_handoff example_artifact [7]
      example_disk = (Inl e, d) \<and> nodes d SEAL_FILE \<noteq> None"
    by (simp add: write_fetched_def bind_step_def lift_step_def encode_def context_err_def put_def
        make_directory_def map_err_step_def fs_create_dir_all_def fs_write_def put_file_def tick_def
        torn_env_def example_handoff_lib_def example_handoff_def handoff_new_def
        example_artifact_def example_disk_def sha256_hex_def outcome_ok_def)
  then show ?thesis
    using torn_write_safe [of example_handoff_lib torn_env example_handoff example_artifact "[7]"
        example_disk _ _ healthy_env] example_good(2)
    by (auto simp: example_message_def example_disk_def)
qed

section \<open>Faithful JSON\<close>

text \<open>What the JSON library must get right for a message to arrive.\<close>

definition json_faithful :: "handoff_lib \<Rightarrow> handoff \<Rightarrow> bool" where
  "json_faithful L h \<longleftrightarrow>
     (\<forall>o'. \<exists>bs. ser_outcome L o' = Inr bs \<and> de_outcome L bs = Inr o')
     \<and> (\<forall>a. \<exists>bs. ser_artifact L a = Inr bs \<and> bs \<noteq> [] \<and> de_artifact L bs = Inr a)"

lemma json_faithful_carries:
  assumes "json_faithful L h"
    and "\<And>a body. m = Handed_Fetched a body \<Longrightarrow> artifact_version a = ARTIFACT_VERSION"
  shows "carries L h m"
proof -
  have "de_outcome L bs = Inr o'" if "ser_outcome L o' = Inr bs" for o' bs
    using assms(1) that unfolding json_faithful_def by (metis Inr_inject)
  moreover have "bs \<noteq> [] \<and> de_artifact L bs = Inr a" if "ser_artifact L a = Inr bs" for a bs
    using assms(1) that unfolding json_faithful_def by (metis Inr_inject)
  ultimately show ?thesis using assms(2) by (auto simp: carries_def)
qed

lemma json_faithful_writable:
  assumes "json_faithful L h"
    and "\<And>a body. m = Handed_Fetched a body \<Longrightarrow> art_run_id a = handoff_run_id h
      \<and> length body = body_bytes a \<and> sha256_hex (sha256 L) body = body_sha256 a"
  shows "writable L h m"
  using assms by (cases m) (force simp: writable_def json_faithful_def is_ok_iff)+

section \<open>Frames\<close>

text \<open>The operations change nothing in the directory but the four files.\<close>

lemma put_frame: "n \<in> names \<Longrightarrow> disk_frame.keeps names (put E n bs)"
  unfolding put_def by (intro frame_map_err frame_write)

lemma get_frame: "disk_frame.keeps names (get E n)"
  unfolding get_def by (intro frame_map_err frame_read)

lemma get_optional_frame: "disk_frame.keeps names (get_optional E n)"
  by (rule disk_frame.keepsI)
     (auto simp: get_optional_def frame_def split: prod.splits sum.splits if_splits
       dest!: fs_read_state)

lemma make_directory_frame: "disk_frame.keeps names (make_directory E)"
  unfolding make_directory_def by (intro frame_map_err frame_create)

lemma handoff_write_frame: "disk_frame.keeps handoff_files (handoff_write L E h m)"
proof (cases m)
  case (Handed_Failed c)
  then show ?thesis
    unfolding handoff_write_def write_failure_def handoff_files_def
    by (auto intro!: disk_frame.keeps_bind disk_frame.keeps_lift put_frame make_directory_frame
        frame_ignore frame_remove)
next
  case (Handed_Fetched a body)
  then show ?thesis
    unfolding handoff_write_def write_fetched_def handoff_files_def
    by (auto intro!: disk_frame.keeps_bind disk_frame.keeps_lift put_frame make_directory_frame)
qed

lemma handoff_read_frame: "disk_frame.keeps {} (handoff_read L E h)"
  unfolding handoff_read_def
  by (auto simp: Let_def intro!: disk_frame.keeps_bind disk_frame.keeps_lift disk_frame.keeps_pure
      get_frame get_optional_frame frame_map_err frame_read_to_string)

text \<open>What the handoff operations may touch. Under any faults, and whether they succeed
  or not, the write operations leave every entry of the directory alone but
  \<^verbatim>\<open>stage.json\<close>, \<^verbatim>\<open>artifact.json\<close>, \<^verbatim>\<open>body.bin\<close> and \<^verbatim>\<open>handoff.mac\<close>; removing the body
  leaves alone every entry but \<^verbatim>\<open>body.bin\<close>; and reading changes no entry at all.\<close>

lemma handoff_frames:
  "frame {STAGE_FILE, ARTIFACT_FILE, BODY_FILE, SEAL_FILE} d (snd (handoff_write L E h m d))
   \<and> frame {BODY_FILE} d (snd (remove_body E d))
   \<and> nodes (snd (handoff_read L E h d)) = nodes d"
proof (intro conjI)
  show "frame {STAGE_FILE, ARTIFACT_FILE, BODY_FILE, SEAL_FILE} d (snd (handoff_write L E h m d))"
    using handoff_write_frame [of L E h m]
    by (simp add: disk_frame.keeps_def handoff_files_def)
  have "disk_frame.keeps {BODY_FILE} (remove_body E)"
    unfolding remove_body_def by (intro frame_ignore frame_remove) simp
  then show "frame {BODY_FILE} d (snd (remove_body E d))"
    by (simp add: disk_frame.keeps_def)
  show "nodes (snd (handoff_read L E h d)) = nodes d"
    using handoff_read_frame [of L E h] by (simp add: disk_frame.keeps_def frame_def fun_eq_iff)
qed

end
