(* ===== verification/Handoff_Key.thy ===== *)
theory Handoff_Key
  imports Handoff
begin

text \<open>
  \<^verbatim>\<open>HandoffKey\<close> of \<^verbatim>\<open>contracts/src/handoff.rs\<close>: where the run-scoped key may live. A path
  is what \<^verbatim>\<open>std::path\<close> sees of it, its root and its components; resolving one against
  the file system (\<^verbatim>\<open>canonicalize\<close>) and reading it are arguments, functions of the state
  of the file system during the call.
\<close>

section \<open>Paths\<close>

datatype path_component = Cur_Dir | Parent_Dir | Normal str

record path =
  absolute :: bool
  components :: "path_component list"

record key_env =
  canonicalize :: "path \<Rightarrow> str + path"
  read_path :: "path \<Rightarrow> str + bytes"

fun component_name :: "path_component \<Rightarrow> str option" where
  "component_name (Normal n) = Some n"
| "component_name Cur_Dir = None"
| "component_name Parent_Dir = None"

definition file_name :: "path \<Rightarrow> str option" where
  "file_name p = (if components p = [] then None else component_name (last (components p)))"

definition path_parent :: "path \<Rightarrow> path option" where
  "path_parent p =
     (if components p = [] then None else Some (p\<lparr>components := butlast (components p)\<rparr>))"

definition push_names :: "path \<Rightarrow> str list \<Rightarrow> path" where
  "push_names p names = p\<lparr>components := components p @ map Normal names\<rparr>"

definition path_starts_with :: "path \<Rightarrow> path \<Rightarrow> bool" where
  "path_starts_with p base \<longleftrightarrow>
     absolute p = absolute base
     \<and> take (length (components base)) (components p) = components base"

lemma path_parent_shorter:
  "path_parent p = Some q \<Longrightarrow> length (components q) < length (components p)"
  by (auto simp: path_parent_def split: if_splits)

lemma parent_name_push:
  "file_name p = Some n \<Longrightarrow> path_parent p = Some q \<Longrightarrow> p = push_names q [n]"
  by (cases "last (components p)")
     (auto simp: file_name_def path_parent_def push_names_def split: if_splits
       dest!: append_butlast_last_id)

lemma push_names_append [simp]: "push_names (push_names p xs) ys = push_names p (xs @ ys)"
  by (simp add: push_names_def)

lemma push_names_Nil [simp]: "push_names p [] = p"
  by (simp add: push_names_def)

section \<open>Resolving a directory that may not exist yet\<close>

text \<open>The loop of \<^verbatim>\<open>resolved\<close>; \<open>remainder\<close> holds the names taken off, the last one first.\<close>

function resolved_loop :: "key_env \<Rightarrow> path \<Rightarrow> path \<Rightarrow> str list \<Rightarrow> path" where
  "resolved_loop K p candidate remainder =
     (case canonicalize K candidate of
        Inr existing \<Rightarrow> push_names existing remainder
      | Inl _ \<Rightarrow>
          (case (file_name candidate, path_parent candidate) of
             (Some name, Some parent) \<Rightarrow> resolved_loop K p parent (name # remainder)
           | _ \<Rightarrow> p))"
  by pat_completeness auto
termination
  by (relation "measure (\<lambda>(K, p, c, r). length (components c))") (auto dest: path_parent_shorter [OF sym])

declare resolved_loop.simps [simp del]

definition resolved :: "key_env \<Rightarrow> path \<Rightarrow> path" where
  "resolved K p = resolved_loop K p p []"

definition key_load :: "key_env \<Rightarrow> path \<Rightarrow> contract_error + handoff_key" where
  "key_load K p =
     and_then (map_err (\<lambda>e. contract_error_new (lit ''handoff key is unreadable: '' @ e))
       (read_path K p)) key_from_bytes"

definition key_load_for :: "key_env \<Rightarrow> path \<Rightarrow> path \<Rightarrow> contract_error + handoff_key" where
  "key_load_for K p directory =
     and_then (map_err (\<lambda>e. contract_error_new (lit ''handoff key is unreadable: '' @ e))
       (canonicalize K p)) (\<lambda>key_path.
     if path_starts_with key_path (resolved K directory)
       then refuse ''handoff key must not live inside the handoff directory; give it its own path or mount''
     else key_load K key_path)"

text \<open>
  What is resolved is a directory that exists, with the names below it that do not; the
  nearest one, since every longer prefix of the path fails to resolve.
\<close>

lemma resolved_loop_ancestor:
  assumes "canonicalize K ancestor = Inr c"
    and "\<And>k. k < length names \<Longrightarrow>
      \<exists>e. canonicalize K (push_names ancestor (take (Suc k) names)) = Inl e"
  shows "resolved_loop K p (push_names ancestor names) remainder = push_names c (names @ remainder)"
  using assms(2)
proof (induction names arbitrary: remainder rule: rev_induct)
  case Nil
  then show ?case using assms(1) by (simp add: resolved_loop.simps)
next
  case (snoc n names)
  have step: "resolved_loop K p (push_names ancestor names) (n # remainder) =
      push_names c (names @ n # remainder)"
  proof (rule snoc.IH)
    fix k assume "k < length names"
    then show "\<exists>e. canonicalize K (push_names ancestor (take (Suc k) names)) = Inl e"
      using snoc.prems [of k] by simp
  qed
  obtain e where "canonicalize K (push_names ancestor (names @ [n])) = Inl e"
    using snoc.prems [of "length names"] by auto
  with step show ?case
    by (subst resolved_loop.simps)
       (simp add: file_name_def path_parent_def push_names_def butlast_append)
qed

lemma resolved_ancestor:
  assumes "canonicalize K ancestor = Inr c"
    and "\<And>k. k < length names \<Longrightarrow>
      \<exists>e. canonicalize K (push_names ancestor (take (Suc k) names)) = Inl e"
  shows "resolved K (push_names ancestor names) = push_names c names"
  using resolved_loop_ancestor [OF assms, where remainder = "[]"] by (simp add: resolved_def)

lemma key_from_bytes_Ok_iff: "key_from_bytes m = Inr k \<longleftrightarrow> k = HandoffKey m \<and> 32 \<le> length m"
  by (auto simp: key_from_bytes_def MIN_KEY_BYTES_def)

lemma key_load_for_Ok_iff:
  "key_load_for K p dir = Inr k \<longleftrightarrow>
     (\<exists>key_path m. canonicalize K p = Inr key_path \<and> \<not> path_starts_with key_path (resolved K dir)
        \<and> read_path K key_path = Inr m \<and> k = HandoffKey m \<and> 32 \<le> length m)"
  by (auto simp: key_load_for_def key_load_def result_iffs key_from_bytes_Ok_iff refuse_def
      split: if_splits)

text \<open>C33: where an accepted key lives. The directory of the handoff is an existing ancestor
  and names below it that may not exist yet. A key is accepted only when its canonical path
  is not inside the canonical ancestor followed by those names, and it is then the whole
  content of that file, at least 32 bytes.\<close>

theorem key_outside_handoff:
  assumes "canonicalize K ancestor = Inr c"
    and "\<And>k. k < length names \<Longrightarrow>
      \<exists>e. canonicalize K (push_names ancestor (take (Suc k) names)) = Inl e"
  shows "key_load_for K p (push_names ancestor names) = Inr key \<longleftrightarrow>
    (\<exists>q m. canonicalize K p = Inr q
       \<and> (\<forall>rest. q \<noteq> \<lparr>absolute = absolute c,
            components = components c @ map Normal names @ rest\<rparr>)
       \<and> read_path K q = Inr m \<and> 32 \<le> length m \<and> key = HandoffKey m)"
proof -
  have "path_starts_with q (push_names c names) \<longleftrightarrow>
      (\<exists>rest. q = \<lparr>absolute = absolute c, components = components c @ map Normal names @ rest\<rparr>)" for q
  proof
    assume starts: "path_starts_with q (push_names c names)"
    have "take (length (components c @ map Normal names)) (components q) =
        components c @ map Normal names"
      using starts by (simp add: path_starts_with_def push_names_def)
    then have "components q = components c @ map Normal names
        @ drop (length (components c @ map Normal names)) (components q)"
      by (metis append_assoc append_take_drop_id)
    then show "\<exists>rest. q = \<lparr>absolute = absolute c, components = components c @ map Normal names @ rest\<rparr>"
      using starts
      by (intro exI [of _ "drop (length (components c @ map Normal names)) (components q)"])
         (cases q, simp add: path_starts_with_def push_names_def)
  qed (auto simp: path_starts_with_def push_names_def)
  then show ?thesis
    by (auto simp: key_load_for_Ok_iff resolved_ancestor [OF assms])
qed

definition rooted :: "str list \<Rightarrow> path" where
  "rooted names = \<lparr>absolute = True, components = map Normal names\<rparr>"

definition example_key_env :: key_env where
  "example_key_env =
     \<lparr>canonicalize = (\<lambda>p. if components p = map Normal [lit ''h''] then Inl [] else Inr p),
      read_path = (\<lambda>p. Inr (replicate 32 0))\<rparr>"

lemma key_outside_handoff_witness:
  "is_ok (key_load_for example_key_env (rooted [lit ''k'']) (rooted [lit ''h'']))
   \<and> \<not> is_ok (key_load_for example_key_env (rooted [lit ''h'', lit ''k'']) (rooted [lit ''h'']))"
proof -
  have dir: "push_names (rooted []) [lit ''h''] = rooted [lit ''h'']"
    by (simp add: push_names_def rooted_def)
  have root: "canonicalize example_key_env (rooted []) = Inr (rooted [])"
    by (simp add: example_key_env_def rooted_def)
  have missing: "\<exists>e. canonicalize example_key_env
      (push_names (rooted []) (take (Suc k) [lit ''h''])) = Inl e" for k
    by (simp add: example_key_env_def push_names_def rooted_def)
  have iff: "key_load_for example_key_env p (rooted [lit ''h'']) = Inr key \<longleftrightarrow>
    (\<exists>q m. canonicalize example_key_env p = Inr q
       \<and> (\<forall>rest. q \<noteq> \<lparr>absolute = True, components = Normal (lit ''h'') # rest\<rparr>)
       \<and> read_path example_key_env q = Inr m \<and> 32 \<le> length m \<and> key = HandoffKey m)" for p key
    using key_outside_handoff [of example_key_env "rooted []" "rooted []" "[lit ''h'']" p key,
        OF root] missing
    by (simp add: dir) (simp add: rooted_def)
  have "key_load_for example_key_env (rooted [lit ''k'']) (rooted [lit ''h'']) =
      Inr (HandoffKey (replicate 32 0))"
    unfolding iff by (simp add: example_key_env_def rooted_def text_eval)
  moreover have "key_load_for example_key_env (rooted [lit ''h'', lit ''k'']) (rooted [lit ''h''])
      \<noteq> Inr key" for key
    unfolding iff by (simp add: example_key_env_def rooted_def)
  ultimately show ?thesis by (simp add: is_ok_iff)
qed

end
