(* ===== verification/Fetch_Main.thy ===== *)
theory Fetch_Main
  imports Fetch_Facts Handoff_Facts Handoff_Key "HOL-Library.Countable"
begin

text \<open>
  \<^verbatim>\<open>fetch-worker/src/main.rs\<close>: the network stage as a process. Its arguments and the files
  it reads are inputs of the model; the messages it prints on stderr are left out. What
  matters is the exit code and what is in the handoff directory afterwards.
\<close>

section \<open>The process\<close>

definition UNAVAILABLE :: u8 where
  "UNAVAILABLE = 2"

definition run_id_arg :: "str \<Rightarrow> str + str" where
  "run_id_arg v =
     (if v \<noteq> [] \<and> byte_len v \<le> 64
         \<and> list_all (\<lambda>c. is_ascii_lowercase c \<or> is_ascii_digit c \<or> c = uc CHR ''-'') v
      then Inr v else Inl (lit ''must be 1-64 characters of [a-z0-9-]''))"

record ('u, 'r, 't) fetch_process =
  proc_run_id :: str
  proc_artifact_dir :: path
  proc_handoff_key :: path
  proc_policy :: "str + str"
  proc_request :: "str + str"
  policy_json :: "str \<Rightarrow> str + policy_file"
  request_json :: "str \<Rightarrow> str + web_fetch_request"
  proc_keys :: key_env
  proc_lib :: handoff_lib
  proc_fs :: fs_env
  proc_net :: "('u, 'r, 't) fetch_env"
  to_socket_addrs :: "nat \<Rightarrow> str \<Rightarrow> u16 \<Rightarrow> str + socket_addr list"

text \<open>\<^verbatim>\<open>SystemResolver\<close> answers, and both stages use one digest function.\<close>

definition main_env :: "('u, 'r, 't) fetch_process \<Rightarrow> ('u, 'r, 't) fetch_env" where
  "main_env W = (proc_net W)\<lparr>answers := \<lambda>n. system_lookup (to_socket_addrs W n),
     digest := sha256 (proc_lib W)\<rparr>"

definition store_outcome ::
    "('u, 'r, 't) fetch_process \<Rightarrow> handoff \<Rightarrow> error_code + fetched \<Rightarrow> disk \<Rightarrow> u8 \<times> disk" where
  "store_outcome W h result d =
     (let (outcome, d1) =
        (case result of
           Inr f \<Rightarrow>
             (case write_fetched (proc_lib W) (proc_fs W) h (fetched_artifact f) (fetched_body f) d of
                (Inl _, d') \<Rightarrow> (Inl InternalError, d')
              | (Inr _, d') \<Rightarrow> (Inr 0, d'))
         | Inl code \<Rightarrow> (Inl code, d))
      in case outcome of
           Inr success \<Rightarrow> (success, d1)
         | Inl code \<Rightarrow>
             (case write_failure (proc_lib W) (proc_fs W) h code d1 of
                (Inr _, d2) \<Rightarrow> (1, d2)
              | (Inl _, d2) \<Rightarrow> (UNAVAILABLE, d2)))"

definition fetch_main :: "('u, 'r, 't) fetch_process \<Rightarrow> disk \<Rightarrow> u8 \<times> disk" where
  "fetch_main W d =
     (case policy_load (policy_json W) (proc_policy W) of
        Inl _ \<Rightarrow> (UNAVAILABLE, d)
      | Inr policy \<Rightarrow>
          (case key_load_for (proc_keys W) (proc_handoff_key W) (proc_artifact_dir W) of
             Inl _ \<Rightarrow> (UNAVAILABLE, d)
           | Inr key \<Rightarrow>
               (case proc_request W of
                  Inl _ \<Rightarrow> (UNAVAILABLE, d)
                | Inr raw \<Rightarrow>
                    (case request_json W raw of
                       Inl _ \<Rightarrow> (UNAVAILABLE, d)
                     | Inr request \<Rightarrow>
                         store_outcome W (handoff_new (proc_run_id W) key)
                           (fst (fetch (main_env W) (fetcher_new policy) (proc_run_id W) request))
                           d))))"

section \<open>What the exit code says\<close>

text \<open>The run the process sets up, when its configuration is usable.\<close>

definition configured ::
    "('u, 'r, 't) fetch_process \<Rightarrow> destination_policy \<Rightarrow> handoff \<Rightarrow> web_fetch_request \<Rightarrow> bool" where
  "configured W policy h request \<longleftrightarrow>
     policy_load (policy_json W) (proc_policy W) = Inr policy
     \<and> (\<exists>key raw. key_load_for (proc_keys W) (proc_handoff_key W) (proc_artifact_dir W) = Inr key
          \<and> h = handoff_new (proc_run_id W) key
          \<and> proc_request W = Inr raw \<and> request_json W raw = Inr request)"

lemma fetch_main_configured:
  "configured W policy h request \<Longrightarrow>
     fetch_main W d = store_outcome W h
       (fst (fetch (main_env W) (fetcher_new policy) (proc_run_id W) request)) d"
  by (auto simp: configured_def fetch_main_def)

lemma fetch_main_unconfigured:
  assumes "\<nexists>policy h request. configured W policy h request"
  shows "fetch_main W d = (UNAVAILABLE, d)"
  using assms by (auto simp: configured_def fetch_main_def split: sum.splits)

lemma configured_run_id: "configured W policy h request \<Longrightarrow> handoff_run_id h = proc_run_id W"
  by (auto simp: configured_def handoff_new_def)

text \<open>On a healthy file system the result of the fetch is what the next stage reads.\<close>

definition message_of :: "error_code + fetched \<Rightarrow> handed" where
  "message_of r =
     (case r of Inl code \<Rightarrow> Handed_Failed code
      | Inr f \<Rightarrow> Handed_Fetched (fetched_artifact f) (fetched_body f))"

lemma store_outcome_sent:
  assumes "healthy (proc_fs W)" "healthy E'" "usable d"
    and "writable (proc_lib W) h (message_of r)" "carries (proc_lib W) h (message_of r)"
  shows "\<exists>d'. store_outcome W h r d = ((if is_ok r then 0 else 1), d')
    \<and> (\<exists>x. handoff_read (proc_lib W) E' h d' = (Inr (message_of r), x))"
proof -
  obtain d' where run: "handoff_write (proc_lib W) (proc_fs W) h (message_of r) d = (Inr (), d')"
    using write_healthy assms(1,3,4) by blast
  have "\<exists>x. handoff_read (proc_lib W) E' h d' = (Inr (message_of r), x)"
    using handoff_read_holds write_holds [OF run assms(1,3)] assms(2,5) by blast
  moreover have "store_outcome W h r d = ((if is_ok r then 0 else 1), d')"
    using run by (cases r) (simp_all add: store_outcome_def handoff_write_def message_of_def)
  ultimately show ?thesis by blast
qed

text \<open>An artifact that belongs to the handoff and describes its body.\<close>

definition describes_body :: "(bytes \<Rightarrow> bytes) \<Rightarrow> str \<Rightarrow> fetched \<Rightarrow> bool" where
  "describes_body H run_id f \<longleftrightarrow>
     art_run_id (fetched_artifact f) = run_id
     \<and> artifact_version (fetched_artifact f) = ARTIFACT_VERSION
     \<and> body_bytes (fetched_artifact f) = length (fetched_body f)
     \<and> body_sha256 (fetched_artifact f) = sha256_hex H (fetched_body f)"

lemma fetch_describes_body:
  assumes "configured W policy h request"
    and "fetch (main_env W) (fetcher_new policy) (proc_run_id W) request = (Inr f, cs)"
  shows "describes_body (sha256 (proc_lib W)) (handoff_run_id h) f"
  using fetch_run [OF assms(2)] configured_run_id [OF assms(1)]
  by (auto simp: describes_def describes_body_def Let_def main_env_def)

lemma fetch_main_delivers:
  assumes "configured W policy h request" and "healthy (proc_fs W)" "healthy E'" "usable d"
    and "json_faithful (proc_lib W) h"
    and "fetch (main_env W) (fetcher_new policy) (proc_run_id W) request = (r, cs)"
  shows "\<exists>d'. fetch_main W d = ((if is_ok r then 0 else 1), d')
    \<and> (\<exists>x. handoff_read (proc_lib W) E' h d' = (Inr (message_of r), x))"
proof -
  have body: "describes_body (sha256 (proc_lib W)) (handoff_run_id h) f" if "r = Inr f" for f
    using fetch_describes_body [OF assms(1)] assms(6) that by blast
  have "writable (proc_lib W) h (message_of r)"
    using assms(5) body
    by (intro json_faithful_writable) (auto simp: message_of_def describes_body_def split: sum.splits)
  moreover have "carries (proc_lib W) h (message_of r)"
    using assms(5) body
    by (intro json_faithful_carries) (auto simp: message_of_def describes_body_def split: sum.splits)
  ultimately show ?thesis
    using store_outcome_sent [OF assms(2-4)] fetch_main_configured [OF assms(1), of d] assms(6) by simp
qed

text \<open>C17: what the network stage leaves behind. When policy, key and request are usable and
  the file system works, the process exits with 0 if the fetch succeeded and with 1 if it
  failed, and the inspection stage, holding the same key and run id, reads from the handoff
  exactly the response with its artifact, or exactly the failure code. The configuration
  being unusable in any way, it exits with 2 and does not touch the handoff.\<close>

theorem fetch_main_hands_over:
  assumes "healthy (proc_fs W)" and "healthy E'" and "usable d"
    and "\<And>key. json_faithful (proc_lib W) (handoff_new (proc_run_id W) key)"
  shows "(\<nexists>policy h request. configured W policy h request) \<and> fetch_main W d = (2, d)
    \<or> (\<exists>policy h request r cs d'. configured W policy h request
         \<and> fetch (main_env W) (fetcher_new policy) (proc_run_id W) request = (r, cs)
         \<and> fetch_main W d = ((if is_ok r then 0 else 1), d')
         \<and> (\<exists>x. handoff_read (proc_lib W) E' h d' = (Inr (message_of r), x)))"
proof (cases "\<exists>policy h request. configured W policy h request")
  case False
  then show ?thesis by (simp add: fetch_main_unconfigured UNAVAILABLE_def)
next
  case True
  then obtain policy h request where c: "configured W policy h request" by blast
  obtain r cs where run: "fetch (main_env W) (fetcher_new policy) (proc_run_id W) request = (r, cs)"
    by (cases "fetch (main_env W) (fetcher_new policy) (proc_run_id W) request")
  have "json_faithful (proc_lib W) h" using c assms(4) by (auto simp: configured_def)
  then obtain d' where "fetch_main W d = ((if is_ok r then 0 else 1), d')"
      "\<exists>x. handoff_read (proc_lib W) E' h d' = (Inr (message_of r), x)"
    using fetch_main_delivers [OF c assms(1,2,3) _ run] by blast
  with c run show ?thesis by blast
qed

section \<open>An example process\<close>

text \<open>Every outcome and artifact has a number, so some coding of them as bytes is faithful.\<close>

instance format :: countable by countable_datatype
instance stage :: countable by countable_datatype
instance error_code :: countable by countable_datatype

definition number_outcome :: "stage_outcome \<Rightarrow> nat" where
  "number_outcome o' =
     to_nat (unat (stage_version o'), outcome_stage o', outcome_run_id o', outcome_code o')"

definition outcome_numbered :: "nat \<Rightarrow> stage_outcome" where
  "outcome_numbered n =
     (case from_nat n of (v, s, r, c) \<Rightarrow>
        \<lparr>stage_version = word_of_nat v, outcome_stage = s, outcome_run_id = r, outcome_code = c\<rparr>)"

definition number_artifact :: "fetch_artifact \<Rightarrow> nat" where
  "number_artifact a =
     to_nat ((unat (artifact_version a), art_run_id a, art_source_id a, requested_url_sha256 a,
         art_final_url a, unat (art_http_status a), art_content_type a),
       (art_content_encoding a, unat (art_redirects a), art_retrieved_at a, art_format a,
         body_bytes a, body_sha256 a, policy_profile a))"

definition artifact_numbered :: "nat \<Rightarrow> fetch_artifact" where
  "artifact_numbered n =
     (case from_nat n of ((v, run, src, req, fin, st, ct), (ce, redirs, at, fmt, len, sha, prof)) \<Rightarrow>
        \<lparr>artifact_version = word_of_nat v, art_run_id = run, art_source_id = src,
         requested_url_sha256 = req, art_final_url = fin, art_http_status = word_of_nat st,
         art_content_type = ct, art_content_encoding = ce, art_redirects = word_of_nat redirs,
         art_retrieved_at = at, art_format = fmt, body_bytes = len, body_sha256 = sha,
         policy_profile = prof\<rparr>)"

lemma numbered_inverse [simp]:
  "outcome_numbered (number_outcome o') = o'" "artifact_numbered (number_artifact a) = a"
  by (simp_all add: outcome_numbered_def number_outcome_def artifact_numbered_def number_artifact_def)

definition numbering_lib :: handoff_lib where
  "numbering_lib =
     \<lparr>sha256 = take 1, hmac_sha256 = (\<lambda>k m. m),
      ser_outcome = (\<lambda>o'. Inr (replicate (number_outcome o') 0)),
      de_outcome = (\<lambda>bs. Inr (outcome_numbered (length bs))),
      ser_artifact = (\<lambda>a. Inr (1 # replicate (number_artifact a) 0)),
      de_artifact = (\<lambda>bs. Inr (artifact_numbered (length bs - 1)))\<rparr>"

lemma numbering_faithful: "json_faithful numbering_lib h"
  by (simp add: json_faithful_def numbering_lib_def)

definition example_process :: "(str, u16 \<times> (str \<times> bytes) list \<times> bytes, str) fetch_process" where
  "example_process =
     \<lparr>proc_run_id = lit ''run'', proc_artifact_dir = rooted [lit ''h''],
      proc_handoff_key = rooted [lit ''k''], proc_policy = Inr [], proc_request = Inr [],
      policy_json = (\<lambda>_. Inr \<lparr>policy_version = 1, file_profile = Production,
         denied_cidrs = [lit ''10.42.0.0/16'']\<rparr>),
      request_json = (\<lambda>_. Inr example_request), proc_keys = example_key_env,
      proc_lib = numbering_lib, proc_fs = healthy_env, proc_net = example_env,
      to_socket_addrs = (\<lambda>_ _ _. Inr [\<lparr>sa_ip = V4 (Ipv4 93 184 216 34), sa_port = 443\<rparr>])\<rparr>"

lemma example_configured:
  "configured example_process example_policy (handoff_new (lit ''run'') (HandoffKey (replicate 32 0)))
     example_request"
proof -
  have "cidr_parse (lit ''10.42.0.0/16'') = Inr (range4 10 42 0 0 16)"
    by (simp add: cidr_parse_def text_eval read_eval parse_uint_def range4_def)
  then have "policy_load (policy_json example_process) (proc_policy example_process) =
      Inr example_policy"
    by (simp add: policy_load_def context_err_def example_process_def example_policy_def)
  moreover have "resolved example_key_env (rooted [lit ''h'']) = rooted [lit ''h'']"
    using resolved_ancestor [of example_key_env "rooted []" "rooted []" "[lit ''h'']"]
    by (simp add: example_key_env_def rooted_def push_names_def)
  then have "key_load_for example_key_env (rooted [lit ''k'']) (rooted [lit ''h'']) =
      Inr (HandoffKey (replicate 32 0))"
    by (simp add: key_load_for_Ok_iff path_starts_with_def)
       (simp add: example_key_env_def rooted_def text_eval)
  ultimately show ?thesis by (simp add: configured_def example_process_def)
qed

lemma fetch_main_hands_over_witness:
  "\<exists>r h d'. fetch_main example_process example_disk = ((if is_ok r then 0 else 1), d')
     \<and> (\<exists>x. handoff_read numbering_lib healthy_env h d' = (Inr (message_of r), x))"
proof -
  have fs: "healthy (proc_fs example_process)" and L: "proc_lib example_process = numbering_lib"
    by (simp_all add: example_process_def)
  show ?thesis
    using fetch_main_hands_over [of example_process healthy_env example_disk, OF fs
        example_good(3,4), unfolded L, OF numbering_faithful] example_configured
    by blast
qed

end
