(* ===== verification/Normalize.thy ===== *)
theory Normalize
  imports Rust_Numbers
begin

text \<open>
  \<^verbatim>\<open>inspector/src/normalize.rs\<close>: the two inspection-only views of a response. Indices are
  byte offsets, as in the source.
\<close>

section \<open>Character references\<close>

definition resolve_entity :: "str \<Rightarrow> uchar option" where
  "resolve_entity reference =
     (case (case strip_prefix (lit ''#x'') reference of
              Some digits \<Rightarrow> Some digits
            | None \<Rightarrow> strip_prefix (lit ''#X'') reference) of
        Some digits \<Rightarrow> Option.bind (parse_uint 16 (2 ^ 32) digits) char_from_u32
      | None \<Rightarrow>
          (case strip_prefix (lit ''#'') reference of
             Some digits \<Rightarrow> Option.bind (parse_uint 10 (2 ^ 32) digits) char_from_u32
           | None \<Rightarrow>
               map_of [(lit ''amp'', uc CHR ''&''), (lit ''lt'', uc CHR ''<''),
                 (lit ''gt'', uc CHR ''>''), (lit ''quot'', uc CHR 0x22),
                 (lit ''apos'', uc CHR 0x27), (lit ''nbsp'', uc CHR '' ''),
                 (lit ''hellip'', uc CHR ''.'')] reference))"

text \<open>The semicolon that ends a reference, if it is at most twelve bytes after the ampersand.\<close>

definition reference_end :: "str \<Rightarrow> nat option" where
  "reference_end tail =
     (case find_char (uc CHR '';'') tail of
        Some e \<Rightarrow> if e \<le> 12 then Some e else None
      | None \<Rightarrow> None)"

lemma find_char_Some_iff:
  "find_char c s = Some n \<longleftrightarrow> (\<exists>a b. s = a @ c # b \<and> c \<notin> set a \<and> n = byte_len a)"
proof
  assume "find_char c s = Some n"
  then have c: "c \<in> set s" and n: "n = byte_len (takeWhile (\<lambda>x. x \<noteq> c) s)"
    by (auto simp: find_char_def split: if_splits)
  have "dropWhile (\<lambda>x. x \<noteq> c) s \<noteq> []" using c by (simp add: dropWhile_eq_Nil_conv)
  then obtain b where "dropWhile (\<lambda>x. x \<noteq> c) s = c # b"
    using hd_dropWhile [of "\<lambda>x. x \<noteq> c" s] by (cases "dropWhile (\<lambda>x. x \<noteq> c) s") auto
  then have "s = takeWhile (\<lambda>x. x \<noteq> c) s @ c # b"
    by (metis takeWhile_dropWhile_id)
  then show "\<exists>a b. s = a @ c # b \<and> c \<notin> set a \<and> n = byte_len a"
    using n by (metis (mono_tags, lifting) set_takeWhileD)
qed (auto simp: find_char_def takeWhile_append)

lemma find_char_None_iff: "find_char c s = None \<longleftrightarrow> c \<notin> set s"
  by (simp add: find_char_def)

lemma length_slice_from: "length (slice_from n s) \<le> length s"
  by (induction n s rule: slice_from.induct) auto

lemma slice_from_shorter: "0 < n \<Longrightarrow> s \<noteq> [] \<Longrightarrow> len_utf8 (hd s) \<le> n \<Longrightarrow> length (slice_from n s) < length s"
  by (cases s) (auto simp: le_imp_less_Suc length_slice_from)

lemma find_char_slice:
  "find_char c s = Some n \<Longrightarrow> \<exists>b. slice_from n s = c # b \<and> s = slice_to n s @ c # b \<and> c \<notin> set (slice_to n s)"
  by (auto simp: find_char_Some_iff slice_from_append slice_to_append)

lemma slice_from_reference:
  assumes "find_char (uc CHR ''&'') rest = Some start" "0 < n"
  shows "length (slice_from n (slice_from start rest)) < length rest"
proof -
  from find_char_slice [OF assms(1)] obtain b where b: "slice_from start rest = uc CHR ''&'' # b"
    by blast
  then show ?thesis
    using slice_from_shorter [of n "slice_from start rest"] assms(2)
      length_slice_from [of start rest] by (simp add: len_utf8_def uc_def)
qed

function decode_entities_loop :: "str \<Rightarrow> str \<Rightarrow> str" where
  "decode_entities_loop out rest =
     (case find_char (uc CHR ''&'') rest of
        None \<Rightarrow> out @ rest
      | Some start \<Rightarrow>
          (let out' = out @ slice_to start rest; tail = slice_from start rest in
           case reference_end tail of
             Some e \<Rightarrow>
               decode_entities_loop
                 (out' @ (case resolve_entity (slice_from 1 (slice_to e tail)) of
                    Some character \<Rightarrow> [character]
                  | None \<Rightarrow> slice_to (e + 1) tail))
                 (slice_from (e + 1) tail)
           | None \<Rightarrow> decode_entities_loop (out' @ [uc CHR ''&'']) (slice_from 1 tail)))"
  by pat_completeness auto
termination
  by (relation "measure (\<lambda>(out, rest). length rest)") (auto simp: slice_from_reference)

declare decode_entities_loop.simps [simp del]

definition decode_entities :: "str \<Rightarrow> str" where
  "decode_entities text = decode_entities_loop [] text"

section \<open>Folding\<close>

definition hidden_char :: "uchar \<Rightarrow> bool" where
  "hidden_char c \<longleftrightarrow>
     c = 0xad \<or> (0x200b \<le> c \<and> c \<le> 0x200f) \<or> (0x2060 \<le> c \<and> c \<le> 0x2064) \<or> c = 0xfeff"

definition fold_char :: "uchar \<Rightarrow> uchar option" where
  "fold_char c =
     (if hidden_char c then None
      else if 0xff01 \<le> c \<and> c \<le> 0xff5e then char_from_u32 (c - 0xfee0)
      else if c = 0xa0 \<or> c = 0x1680 \<or> (0x2000 \<le> c \<and> c \<le> 0x200a) \<or> c = 0x202f \<or> c = 0x205f
           \<or> c = 0x3000
        then Some (uc CHR '' '')
      else if c \<in> {0x2018, 0x2019, 0x201b, 0x2032} then Some (uc CHR 0x27)
      else if c \<in> {0x201c, 0x201d, 0x201f, 0x2033} then Some (uc CHR 0x22)
      else if (0x2010 \<le> c \<and> c \<le> 0x2015) \<or> c = 0x2212 then Some (uc CHR ''-'')
      else Some c)"

definition deobfuscate :: "str \<Rightarrow> str" where
  "deobfuscate text = List.map_filter fold_char text"

section \<open>What entity decoding does\<close>

lemma resolve_entity_numeric:
  "resolve_entity (lit ''#'' @ digits) =
     (case digits of
        [] \<Rightarrow> None
      | c # cs \<Rightarrow> if c \<in> {uc CHR ''x'', uc CHR ''X''}
                 then Option.bind (parse_uint 16 (2 ^ 32) cs) char_from_u32
                 else Option.bind (parse_uint 10 (2 ^ 32) digits) char_from_u32)"
  by (cases digits) (auto simp: resolve_entity_def lit_def uc_def parse_uint_def)

text \<open>The loop only ever appends to what it has written.\<close>

lemma decode_entities_loop_out: "decode_entities_loop out rest = out @ decode_entities rest"
  unfolding decode_entities_def
proof (induction rest arbitrary: out rule: measure_induct_rule [of length])
  case (less rest)
  show ?case
  proof (cases "find_char (uc CHR ''&'') rest")
    case None
    then show ?thesis by (simp add: decode_entities_loop.simps)
  next
    case (Some start)
    have "decode_entities_loop (out @ w) (slice_from n (slice_from start rest)) =
        out @ decode_entities_loop w (slice_from n (slice_from start rest))" if "0 < n" for w n
      using less.IH [OF slice_from_reference [OF Some that], of "out @ w"]
        less.IH [OF slice_from_reference [OF Some that], of w] by simp
    from this [of "Suc _"] Some show ?thesis
      by (subst (1 2) decode_entities_loop.simps) (simp add: Let_def split: option.split)
  qed
qed

lemma find_char_hit: "c \<notin> set a \<Longrightarrow> find_char c (a @ c # b) = Some (byte_len a)"
  by (auto simp: find_char_Some_iff)

text \<open>One round of the loop, on a text split at its first ampersand.\<close>

lemma decode_entities_round:
  assumes "uc CHR ''&'' \<notin> set a"
  shows "decode_entities (a @ uc CHR ''&'' # s) = a @
     (case reference_end (uc CHR ''&'' # s) of
        Some e \<Rightarrow>
          (case resolve_entity (slice_to (e - 1) s) of
             Some c \<Rightarrow> [c] | None \<Rightarrow> uc CHR ''&'' # slice_to e s)
          @ decode_entities (slice_from e s)
      | None \<Rightarrow> uc CHR ''&'' # decode_entities s)"
proof -
  have "find_char (uc CHR ''&'') (a @ uc CHR ''&'' # s) = Some (byte_len a)"
    using assms by (rule find_char_hit)
  moreover have "0 < e" if "reference_end (uc CHR ''&'' # s) = Some e" for e
    using that by (auto simp: reference_end_def find_char_def len_utf8_def uc_def split: if_splits)
  moreover have "decode_entities (a @ uc CHR ''&'' # s) = decode_entities_loop [] (a @ uc CHR ''&'' # s)"
    by (simp add: decode_entities_def)
  moreover note decode_entities_loop.simps [of "[]" "a @ uc CHR ''&'' # s"]
  ultimately show ?thesis
    by (auto simp: Let_def decode_entities_loop_out slice_to_append slice_from_append
        len_utf8_def split: option.split)
qed

lemmas decode_entities_amp = decode_entities_round [of "[]", simplified append_Nil list.set empty_iff not_False_eq_True]

lemma decode_entities_none: "uc CHR ''&'' \<notin> set s \<Longrightarrow> decode_entities s = s"
  by (simp add: decode_entities_def decode_entities_loop.simps find_char_def)

lemma decode_entities_literal:
  assumes "uc CHR ''&'' \<notin> set a"
  shows "decode_entities (a @ s) = a @ decode_entities s"
proof (cases "uc CHR ''&'' \<in> set s")
  case True
  then obtain b r where s: "s = b @ uc CHR ''&'' # r" "uc CHR ''&'' \<notin> set b"
    by (metis split_list_first)
  show ?thesis
    using decode_entities_round [of "a @ b" r] decode_entities_round [of b r] s assms by simp
qed (use assms in \<open>simp add: decode_entities_none\<close>)

lemma decode_entities_reference:
  assumes "uc CHR '';'' \<notin> set r" "byte_len r \<le> 11"
  shows "decode_entities (uc CHR ''&'' # r @ uc CHR '';'' # s) =
    (case resolve_entity r of Some c \<Rightarrow> [c] | None \<Rightarrow> uc CHR ''&'' # r @ [uc CHR '';''])
    @ decode_entities s"
proof -
  have "find_char (uc CHR '';'') (uc CHR ''&'' # r @ uc CHR '';'' # s) = Some (Suc (byte_len r))"
    using find_char_hit [of "uc CHR '';''" "uc CHR ''&'' # r" s] assms(1)
    by (simp add: uc_def len_utf8_def)
  then have "reference_end (uc CHR ''&'' # r @ uc CHR '';'' # s) = Some (Suc (byte_len r))"
    using assms(2) by (simp add: reference_end_def)
  moreover have "byte_len (r @ [uc CHR '';'']) = Suc (byte_len r)" by (simp add: len_utf8_def uc_def)
  then have "slice_to (Suc (byte_len r)) (r @ uc CHR '';'' # s) = r @ [uc CHR '';'']"
      "slice_from (Suc (byte_len r)) (r @ uc CHR '';'' # s) = s"
    using slice_to_append [of "r @ [uc CHR '';'']" s] slice_from_append [of "r @ [uc CHR '';'']" s]
    by (simp_all del: byte_len_simps)
  ultimately show ?thesis
    by (simp add: decode_entities_amp [simplified] slice_to_append split: option.split)
qed

text \<open>How a reader's character can be written in a page: as itself, or as a reference.\<close>

definition spells :: "uchar \<Rightarrow> str \<Rightarrow> bool" where
  "spells c w \<longleftrightarrow>
     w = [c] \<and> c \<noteq> uc CHR ''&''
     \<or> (\<exists>r. w = uc CHR ''&'' # r @ [uc CHR '';''] \<and> uc CHR '';'' \<notin> set r \<and> byte_len r \<le> 11
          \<and> resolve_entity r = Some c)"

lemma decode_entities_spelt:
  "list_all2 spells seen written \<Longrightarrow> decode_entities (concat written @ s) = seen @ decode_entities s"
proof (induction rule: list_all2_induct)
  case (Cons c seen w written)
  from Cons(1) show ?case
    unfolding spells_def
  proof (elim disjE conjE exE)
    assume "w = [c]" "c \<noteq> uc CHR ''&''"
    then show ?thesis using decode_entities_literal [of "[c]"] Cons(3) by simp
  next
    fix r assume r: "w = uc CHR ''&'' # r @ [uc CHR '';'']" "uc CHR '';'' \<notin> set r" "byte_len r \<le> 11"
      "resolve_entity r = Some c"
    then show ?thesis
      using decode_entities_reference [OF r(2,3), of "concat written @ s"] Cons(3) by simp
  qed
qed simp

lemma parse_uint_chars:
  "parse_uint radix bound digits = Some n \<Longrightarrow> c \<in> set digits \<Longrightarrow>
     to_digit radix c \<noteq> None \<or> c = uc CHR ''+''"
proof -
  have "\<forall>c \<in> set s. to_digit radix c \<noteq> None" if "parse_digits radix bound acc s = Some n" for acc s
    using that
    by (induction radix bound acc s rule: parse_digits.induct) (auto split: option.splits if_splits)
  then show "parse_uint radix bound digits = Some n \<Longrightarrow> c \<in> set digits \<Longrightarrow>
     to_digit radix c \<noteq> None \<or> c = uc CHR ''+''"
    unfolding parse_uint_def Let_def
    by (cases "digits \<noteq> [] \<and> hd digits = uc CHR ''+''"; cases digits)
       (auto split: if_splits option.splits)
qed

lemma parse_uint_absent:
  "parse_uint radix bound digits = Some n \<Longrightarrow> c \<in> {uc CHR ''&'', uc CHR '';''} \<Longrightarrow> c \<notin> set digits"
  using parse_uint_chars [of radix bound digits n c]
  by (auto simp: to_digit_def is_ascii_digit_def is_ascii_lowercase_def is_ascii_uppercase_def)

text \<open>Every Unicode scalar value has a decimal reference, and one for each of its hexadecimal
  spellings of at most nine digits.\<close>

definition decimal_reference :: "uchar \<Rightarrow> str" where
  "decimal_reference c = lit ''&#'' @ show_nat c @ lit '';''"

lemma spells_decimal:
  assumes "is_scalar c"
  shows "spells c (decimal_reference c)"
proof -
  have c: "c < 10 ^ Suc 6" "c < 2 ^ 32" "char_from_u32 c = Some c"
    using assms by (auto simp: is_scalar_def char_from_u32_def)
  have p: "parse_uint 10 (2 ^ 32) (show_nat c) = Some c" using c(2) by (rule parse_uint_show)
  have "list_all is_ascii (show_nat c)"
    using show_nat_digits [of _ c] by (fastforce simp: list_all_iff is_ascii_def is_ascii_digit_def)
  then have b: "byte_len (show_nat c) \<le> 7" using length_show_nat [OF c(1)] by (simp add: byte_len_ascii)
  have "\<not> is_ascii_digit 120" "\<not> is_ascii_digit 88" by (simp_all add: is_ascii_digit_def)
  then have "120 \<notin> set (show_nat c)" "88 \<notin> set (show_nat c)"
    using show_nat_digits [of _ c] by blast+
  then have "resolve_entity (lit ''#'' @ show_nat c) = Some c"
    using p c(3) unfolding resolve_entity_numeric by (cases "show_nat c") auto
  moreover have "decimal_reference c = uc CHR ''&'' # (lit ''#'' @ show_nat c) @ [uc CHR '';'']"
    by (simp add: decimal_reference_def lit_def)
  moreover have "byte_len (lit ''#'' @ show_nat c) \<le> 11" "uc CHR '';'' \<notin> set (lit ''#'' @ show_nat c)"
    using b parse_uint_absent [OF p] by (auto simp: lit_def len_utf8_def)
  ultimately show ?thesis unfolding spells_def by blast
qed

lemma spells_hexadecimal:
  assumes "parse_uint 16 (2 ^ 32) digits = Some c" "is_scalar c" "byte_len digits \<le> 9"
  shows "spells c (lit ''&#x'' @ digits @ lit '';'')"
proof -
  have "resolve_entity (lit ''#x'' @ digits) = Some c"
    using resolve_entity_numeric [of "uc CHR ''x'' # digits"] assms(1,2)
    by (simp add: char_from_u32_def lit_def)
  moreover have "byte_len (lit ''#x'' @ digits) \<le> 11" "uc CHR '';'' \<notin> set (lit ''#x'' @ digits)"
    using assms(3) parse_uint_absent [OF assms(1)] by (auto simp: lit_def len_utf8_def)
  moreover have "lit ''&#x'' @ digits @ lit '';'' =
      uc CHR ''&'' # (lit ''#x'' @ digits) @ [uc CHR '';'']"
    by (simp add: lit_def)
  ultimately show ?thesis unfolding spells_def by blast
qed

text \<open>C32: entity decoding undoes every mixture of encodings. A text of Unicode scalar values
  whose characters are written as themselves (an ampersand never), as decimal references or
  as hexadecimal references with up to nine digits, each character its own way, decodes to
  exactly that text, wherever in the page it stands.\<close>

theorem entities_reveal:
  assumes "valid_str seen"
    and "list_all2 (\<lambda>c w. c \<noteq> uc CHR ''&'' \<and> w = [c] \<or> w = decimal_reference c
      \<or> (\<exists>digits. parse_uint 16 (2 ^ 32) digits = Some c \<and> byte_len digits \<le> 9
           \<and> w = lit ''&#x'' @ digits @ lit '';'')) seen written"
  shows "decode_entities (concat written @ s) = seen @ decode_entities s"
proof (rule decode_entities_spelt)
  show "list_all2 spells seen written"
    using assms(2)
  proof (rule list.rel_mono_strong)
    fix c w
    assume "c \<in> set seen" and w: "c \<noteq> uc CHR ''&'' \<and> w = [c] \<or> w = decimal_reference c
      \<or> (\<exists>digits. parse_uint 16 (2 ^ 32) digits = Some c \<and> byte_len digits \<le> 9
           \<and> w = lit ''&#x'' @ digits @ lit '';'')"
    then have "is_scalar c" using assms(1) by (simp add: valid_str_def list_all_iff)
    then show "spells c w"
      using w by (auto simp: spells_decimal spells_hexadecimal) (simp add: spells_def)
  qed
qed

lemma entities_reveal_witness:
  "decode_entities (lit ''&#x69;g&#110;ore'') = lit ''ign'' @ decode_entities (lit ''ore'')"
proof -
  have "show_nat 110 = lit ''110''" by (simp add: show_nat.simps lit_def)
  then have "decimal_reference (uc CHR ''n'') = lit ''&#110;''"
    by (simp add: decimal_reference_def lit_def)
  moreover have "parse_uint 16 (2 ^ 32) (lit ''69'') = Some (uc CHR ''i'')" "byte_len (lit ''69'') \<le> 9"
    by (simp_all add: parse_uint_def text_eval to_digit_def)
  ultimately show ?thesis
    using entities_reveal [of "lit ''ign''" "[lit ''&#x69;'', lit ''g'', lit ''&#110;'']" "lit ''ore''"]
    by (force simp: lit_def valid_str_def is_scalar_def)
qed

text \<open>A reference after an earlier ampersand is part of that ampersand's own window.\<close>

lemma resolve_entity_no_amp: "resolve_entity r = Some c \<Longrightarrow> uc CHR ''&'' \<notin> set r"
  unfolding resolve_entity_def
  by (auto simp: strip_prefix_Some_iff lit_def Option.bind_eq_Some_conv parse_uint_absent
      split: option.splits if_splits)

text \<open>C39: what entity decoding does not undo. It looks at one window per ampersand: when the
  semicolon of a reference is at most twelve bytes after an earlier ampersand, that ampersand
  claims the whole stretch, resolves to nothing, and the reference inside is passed over
  undecoded, although a browser shows the character it stands for.\<close>

theorem stray_ampersand_hides:
  assumes "uc CHR '';'' \<notin> set a" "uc CHR '';'' \<notin> set r" "byte_len a + byte_len r \<le> 10"
  shows "decode_entities (uc CHR ''&'' # a @ uc CHR ''&'' # r @ uc CHR '';'' # s) =
    uc CHR ''&'' # a @ uc CHR ''&'' # r @ uc CHR '';'' # decode_entities s"
proof -
  have "resolve_entity (a @ uc CHR ''&'' # r) = None"
    using resolve_entity_no_amp [of "a @ uc CHR ''&'' # r"] by (cases "resolve_entity (a @ uc CHR ''&'' # r)") auto
  then show ?thesis
    using decode_entities_reference [of "a @ uc CHR ''&'' # r" s] assms by (simp add: len_utf8_def)
qed

lemma stray_ampersand_hides_witness:
  "decode_entities (lit ''& &#105;gnore'') = lit ''& &#105;'' @ decode_entities (lit ''gnore'')"
  using stray_ampersand_hides [of "lit '' ''" "lit ''#105''" "lit ''gnore''"]
  by (simp add: lit_def len_utf8_def)

section \<open>What folding does\<close>

lemma fold_char_cases: "fold_char c = Some d \<Longrightarrow> d = c \<or> 32 \<le> d \<and> d < 127"
  unfolding fold_char_def char_from_u32_def by (simp split: if_splits) auto

lemma fold_char_ascii: "32 \<le> d \<Longrightarrow> d < 127 \<Longrightarrow> fold_char d = Some d"
  by (simp add: fold_char_def hidden_char_def)

lemma fold_char_stable: "fold_char c = Some d \<Longrightarrow> fold_char d = Some d"
  using fold_char_cases [of c d] fold_char_ascii [of d] by auto

lemma fold_char_hidden: "hidden_char c \<Longrightarrow> fold_char c = None"
  by (simp add: fold_char_def)

lemma fold_char_shrinks: "fold_char c = Some d \<Longrightarrow> len_utf8 d \<le> len_utf8 c"
  unfolding fold_char_def hidden_char_def char_from_u32_def is_scalar_def len_utf8_def
  by (auto split: if_splits)

lemma deobfuscate_simps [simp]:
  "deobfuscate [] = []"
  "deobfuscate (c # s) = (case fold_char c of None \<Rightarrow> deobfuscate s | Some d \<Rightarrow> d # deobfuscate s)"
  "deobfuscate (s @ t) = deobfuscate s @ deobfuscate t"
  by (simp_all add: deobfuscate_def List.map_filter_def split: option.split)

lemma deobfuscate_shrinks: "byte_len (deobfuscate s) \<le> byte_len s"
  by (induction s) (auto dest: fold_char_shrinks split: option.split)

lemma deobfuscate_stable: "c \<in> set (deobfuscate s) \<Longrightarrow> fold_char c = Some c"
  by (induction s) (auto intro: fold_char_stable split: option.splits)

definition fullwidth :: "uchar \<Rightarrow> uchar" where
  "fullwidth c = (if 0x21 \<le> c \<and> c \<le> 0x7e then c + 0xfee0 else c)"

lemma fold_fullwidth: "fold_char (fullwidth c) = fold_char c"
  by (auto simp: fold_char_def fullwidth_def hidden_char_def char_from_u32_def is_scalar_def)

text \<open>The folded view. Folding is idempotent and leaves only characters that stand for
  themselves, so none of the hidden ones; hidden characters strewn into a text, or its
  printable characters in their fullwidth forms, give the same view as the text; and the
  view is never longer than the text.\<close>

lemma deobfuscate_canonical:
  "deobfuscate (deobfuscate s) = deobfuscate s
   \<and> map fold_char (deobfuscate s) = map Some (deobfuscate s)
   \<and> filter hidden_char (deobfuscate s) = []
   \<and> deobfuscate (filter (\<lambda>c. \<not> hidden_char c) s) = deobfuscate s
   \<and> deobfuscate (map fullwidth s) = deobfuscate s
   \<and> byte_len (deobfuscate s) \<le> byte_len s"
proof (intro conjI)
  show "deobfuscate (deobfuscate s) = deobfuscate s"
    by (induction s) (auto simp: fold_char_stable split: option.split)
  show "map fold_char (deobfuscate s) = map Some (deobfuscate s)"
    using deobfuscate_stable [of _ s] by simp
  have "\<not> hidden_char c" if "fold_char c = Some c" for c
    using that by (auto simp: fold_char_def)
  then show "filter hidden_char (deobfuscate s) = []"
    using deobfuscate_stable [of _ s] by (simp add: filter_empty_conv)
  show "deobfuscate (filter (\<lambda>c. \<not> hidden_char c) s) = deobfuscate s"
    by (induction s) (auto simp: fold_char_hidden split: option.split)
  show "deobfuscate (map fullwidth s) = deobfuscate s"
    by (induction s) (auto simp: fold_fullwidth split: option.split)
qed (rule deobfuscate_shrinks)

section \<open>The views are never longer than the text\<close>

lemma resolve_entity_long: "resolve_entity r = Some c \<Longrightarrow> len_utf8 c \<le> byte_len r + 2"
proof -
  assume "resolve_entity r = Some c"
  then have "2 \<le> length r"
    by (auto simp: resolve_entity_def strip_prefix_Some_iff lit_def parse_uint_def Let_def
        Option.bind_eq_Some_conv Suc_le_eq split: option.splits if_splits list.splits)
  then show ?thesis using length_le_byte_len [of r] len_utf8_bounds(2) [of c] by linarith
qed

lemma reference_endE:
  assumes "reference_end (uc CHR ''&'' # s) = Some e"
  obtains r t where "s = r @ uc CHR '';'' # t" "uc CHR '';'' \<notin> set r" "byte_len r \<le> 11"
proof -
  from assms have "find_char (uc CHR '';'') (uc CHR ''&'' # s) = Some e" "e \<le> 12"
    by (auto simp: reference_end_def split: option.splits if_splits)
  then obtain b t where b: "uc CHR ''&'' # s = b @ uc CHR '';'' # t" "uc CHR '';'' \<notin> set b" "byte_len b \<le> 12"
    by (auto simp: find_char_Some_iff)
  then obtain r where "b = uc CHR ''&'' # r" by (cases b) (auto simp: uc_def)
  with b that show thesis by (auto simp: uc_def len_utf8_def)
qed

text \<open>So scanning a view costs the scan budget no more than scanning the text does.\<close>

lemma decode_entities_shrinks: "byte_len (decode_entities s) \<le> byte_len s"
proof (induction s rule: measure_induct_rule [of length])
  case (less s)
  show ?case
  proof (cases "uc CHR ''&'' \<in> set s")
    case True
    then obtain a u where s: "s = a @ uc CHR ''&'' # u" "uc CHR ''&'' \<notin> set a"
      by (metis split_list_first)
    show ?thesis
    proof (cases "reference_end (uc CHR ''&'' # u)")
      case None
      then show ?thesis using less.IH [of u] s by (simp add: decode_entities_round [simplified])
    next
      case (Some e)
      then obtain r t where u: "u = r @ uc CHR '';'' # t" "uc CHR '';'' \<notin> set r" "byte_len r \<le> 11"
        by (rule reference_endE)
      have "byte_len (decode_entities t) \<le> byte_len t" using less.IH [of t] s u by simp
      then show ?thesis
        using decode_entities_reference [OF u(2,3), of t] resolve_entity_long [of r] s u(1)
        by (auto simp: decode_entities_literal len_utf8_def split: option.splits)
    qed
  qed (simp add: decode_entities_none)
qed

end
