(* ===== verification/Decode.thy ===== *)
theory Decode
  imports Envelope Media
begin

text \<open>
  \<^verbatim>\<open>inspector/src/decode.rs\<close>: from wire bytes to text. The decompressors of \<^verbatim>\<open>flate2\<close> and the
  charset tables of \<^verbatim>\<open>encoding_rs\<close> are arguments.
\<close>

section \<open>Readers\<close>

text \<open>
  A \<^verbatim>\<open>Read\<close> over a finite body: the bytes it yields, and whether it then reports an error
  instead of its end.
\<close>

record reader =
  yields :: bytes
  breaks :: bool

text \<open>\<^verbatim>\<open>reader.take(limit).read_to_end(..)\<close>: once the limit is used up the reader is not
  asked again, so an error behind the limit is not seen.\<close>

definition take_to_end :: "nat \<Rightarrow> reader \<Rightarrow> unit + bytes" where
  "take_to_end limit r =
     (if limit \<le> length (yields r) then Inr (take limit (yields r))
      else if breaks r then Inl () else Inr (yields r))"

record inflate_lib =
  gz_decoder :: "bytes \<Rightarrow> reader"
  zlib_decoder :: "bytes \<Rightarrow> reader"

section \<open>Content codings\<close>

definition decode_ceiling :: "nat \<Rightarrow> nat" where
  "decode_ceiling wire_bytes =
     min MAX_DECODED_BYTES (max (saturating_mul wire_bytes MAX_DECODE_EXPANSION) 4096)"

definition bounded_read :: "reader \<Rightarrow> nat \<Rightarrow> error_code + bytes" where
  "bounded_read r wire_bytes =
     (let ceiling = decode_ceiling wire_bytes in
      and_then (map_err (\<lambda>_. UnsupportedContent) (take_to_end (ceiling + 1) r)) (\<lambda>decoded.
        if length decoded > ceiling then Inl ResponseLimitExceeded else Inr decoded))"

definition decode_content_encoding ::
    "inflate_lib \<Rightarrow> bytes \<Rightarrow> str option \<Rightarrow> error_code + bytes" where
  "decode_content_encoding Z body content_encoding =
     (let coding = to_ascii_lowercase (trim
            (case content_encoding of Some e \<Rightarrow> e | None \<Rightarrow> lit ''identity''))
      in if coding = [] \<or> coding = lit ''identity''
           then if length body > MAX_DECODED_BYTES then Inl ResponseLimitExceeded else Inr body
         else if coding = lit ''gzip'' then bounded_read (gz_decoder Z body) (length body)
         else if coding = lit ''deflate'' then bounded_read (zlib_decoder Z body) (length body)
         else Inl UnsupportedContent)"

section \<open>Charsets\<close>

text \<open>
  \<^verbatim>\<open>decode_marked\<close> is \<^verbatim>\<open>decode_without_bom_handling\<close>, whose flag says that replacement
  characters were put in; \<^verbatim>\<open>decode_strict\<close> is the variant without replacement.
\<close>

record 'e encoding_lib =
  for_bom :: "bytes \<Rightarrow> ('e \<times> nat) option"
  for_label :: "bytes \<Rightarrow> 'e option"
  decode_marked :: "'e \<Rightarrow> bytes \<Rightarrow> str \<times> bool"
  decode_strict :: "'e \<Rightarrow> bytes \<Rightarrow> str option"

definition decode_charset :: "'e encoding_lib \<Rightarrow> bytes \<Rightarrow> media_type \<Rightarrow> error_code + str" where
  "decode_charset C bs m =
     (case for_bom C bs of
        Some (encoding, offset) \<Rightarrow>
          (case decode_marked C encoding (drop offset bs) of
             (text, malformed) \<Rightarrow> if malformed then Inl UnsupportedContent else Inr text)
      | None \<Rightarrow>
          and_then (ok_or UnsupportedContent
              (for_label C (utf8 (case charset m of Some c \<Rightarrow> c | None \<Rightarrow> lit ''utf-8''))))
            (\<lambda>encoding. ok_or UnsupportedContent (decode_strict C encoding bs)))"

section \<open>What decoding admits\<close>

lemma bounded_read_Ok_iff:
  "bounded_read r n = Inr bs \<longleftrightarrow> yields r = bs \<and> \<not> breaks r \<and> length bs \<le> decode_ceiling n"
  by (auto simp: bounded_read_def take_to_end_def Let_def result_iffs split: if_splits)

lemma bounded_read_Err_iff:
  "bounded_read r n = Inl e \<longleftrightarrow>
     (if decode_ceiling n < length (yields r) then e = ResponseLimitExceeded
      else breaks r \<and> e = UnsupportedContent)"
  by (auto simp: bounded_read_def take_to_end_def Let_def result_iffs split: if_splits)

text \<open>The saturating product never decides the ceiling.\<close>

lemma decode_ceiling_eq: "decode_ceiling n = min (1024 * 1024) (max (n * 64) 4096)"
  by (auto simp: decode_ceiling_def saturating_mul_def usize_max_def limit_defs min_def max_def)

text \<open>The whole decoded stream of a coding this build names.\<close>

definition coded_stream :: "inflate_lib \<Rightarrow> bytes \<Rightarrow> str option \<Rightarrow> reader option" where
  "coded_stream Z body content_encoding =
     map_of [([], \<lparr>yields = body, breaks = False\<rparr>), (lit ''identity'', \<lparr>yields = body, breaks = False\<rparr>),
         (lit ''gzip'', gz_decoder Z body), (lit ''deflate'', zlib_decoder Z body)]
       (to_ascii_lowercase (trim (case content_encoding of Some e \<Rightarrow> e | None \<Rightarrow> lit ''identity'')))"

lemma coded_stream_supported:
  "is_supported_content_encoding v \<longleftrightarrow> coded_stream Z body (Some v) \<noteq> None"
  by (auto simp: is_supported_content_encoding_def coded_stream_def lit_def)

text \<open>C0: undoing the content coding is exact or refused. For no coding, \<^verbatim>\<open>identity\<close>, \<^verbatim>\<open>gzip\<close> and
  \<^verbatim>\<open>deflate\<close>, in any case and with surrounding space, the result is the whole decoded stream:
  a stream longer than 1 MiB, or than 64 times the wire bytes (but never less than 4096), is a
  limit failure, a broken one is unsupported content, and no prefix is ever returned. Every
  other coding is unsupported, and these are the codings the fetcher lets through.\<close>

theorem decode_content_exact:
  "decode_content_encoding Z body content_encoding =
     (case coded_stream Z body content_encoding of
        None \<Rightarrow> Inl UnsupportedContent
      | Some r \<Rightarrow>
          if min (1024 * 1024) (max (length body * 64) 4096) < length (yields r)
            then Inl ResponseLimitExceeded
          else if breaks r then Inl UnsupportedContent else Inr (yields r))
   \<and> is_supported_content_encoding v = (coded_stream Z body (Some v) \<noteq> None)"
proof
  have read: "bounded_read r n =
      (if decode_ceiling n < length (yields r) then Inl ResponseLimitExceeded
       else if breaks r then Inl UnsupportedContent else Inr (yields r))" for r n
    by (cases "bounded_read r n") (auto simp: bounded_read_Ok_iff bounded_read_Err_iff split: if_splits)
  show "decode_content_encoding Z body content_encoding =
     (case coded_stream Z body content_encoding of
        None \<Rightarrow> Inl UnsupportedContent
      | Some r \<Rightarrow>
          if min (1024 * 1024) (max (length body * 64) 4096) < length (yields r)
            then Inl ResponseLimitExceeded
          else if breaks r then Inl UnsupportedContent else Inr (yields r))"
    by (auto simp: decode_content_encoding_def coded_stream_def read decode_ceiling_eq Let_def
        lit_def MAX_DECODED_BYTES_def)
qed (rule coded_stream_supported)

section \<open>UTF-8 bodies\<close>

text \<open>What \<^verbatim>\<open>encoding_rs\<close> documents for the label \<^verbatim>\<open>utf-8\<close>: the strict decoder accepts the
  well-formed byte sequences and nothing else.\<close>

definition utf8_lawful :: "'e encoding_lib \<Rightarrow> bool" where
  "utf8_lawful C \<longleftrightarrow>
     (\<exists>u. for_label C (utf8 (lit ''utf-8'')) = Some u \<and> decode_strict C u = from_utf8)"

lemma decode_charset_utf8:
  assumes "utf8_lawful C" "for_bom C bs = None" "charset m \<in> {None, Some (lit ''utf-8'')}"
  shows "decode_charset C bs m = ok_or UnsupportedContent (from_utf8 bs)"
proof -
  have "(case charset m of None \<Rightarrow> lit ''utf-8'' | Some c \<Rightarrow> c) = lit ''utf-8''"
    using assms(3) by auto
  with assms(1,2) show ?thesis by (auto simp: utf8_lawful_def decode_charset_def)
qed

text \<open>No replacement and no guessing: a body without byte-order mark whose media type
  declares no charset or UTF-8 decodes to the text whose UTF-8 form is exactly that body; when
  there is no such text it is refused.\<close>

theorem utf8_body_exact:
  assumes "utf8_lawful C" "for_bom C bs = None" "charset m \<in> {None, Some (lit ''utf-8'')}"
  shows "if (\<exists>s. valid_str s \<and> utf8 s = bs)
    then \<exists>s. decode_charset C bs m = Inr s \<and> valid_str s \<and> utf8 s = bs
    else decode_charset C bs m = Inl UnsupportedContent"
proof (cases "from_utf8 bs")
  case None
  then have "\<nexists>s. valid_str s \<and> utf8 s = bs" using from_utf8_utf8 by force
  with None show ?thesis by (simp add: decode_charset_utf8 [OF assms])
next
  case (Some s)
  then show ?thesis using from_utf8_SomeD [OF Some] by (auto simp: decode_charset_utf8 [OF assms])
qed

text \<open>A library of one encoding.\<close>

definition utf8_only :: "unit encoding_lib" where
  "utf8_only =
     \<lparr>for_bom = (\<lambda>_. None),
      for_label = (\<lambda>l. if l = utf8 (lit ''utf-8'') then Some () else None),
      decode_marked = (\<lambda>_ bs. case from_utf8 bs of Some s \<Rightarrow> (s, False) | None \<Rightarrow> ([], True)),
      decode_strict = (\<lambda>_. from_utf8)\<rparr>"

lemma utf8_only_lawful: "utf8_lawful utf8_only" "for_bom utf8_only bs = None"
  by (simp_all add: utf8_lawful_def utf8_only_def)

end
