(* ===== verification/Detect.thy ===== *)
theory Detect
  imports Artifact "HOL-Library.List_Lexorder"
begin

text \<open>
  \<^verbatim>\<open>inspector/src/detect.rs\<close>: rule bundles and the detector. The YARA engine is an argument:
  its compiler, and what it reports for the n-th input it is given, which may be an error or a
  timeout. \<open>det_history\<close> is a history variable: the inputs the engine has been given, in
  order.
\<close>

definition MAX_BUNDLE_BYTES :: nat where
  "MAX_BUNDLE_BYTES = 256 * 1024"

definition MAX_BUNDLE_FILES :: nat where
  "MAX_BUNDLE_FILES = 64"

definition COMPILE_BUDGET :: duration where
  "COMPILE_BUDGET = from_secs 10"

definition SCAN_TIMEOUT :: duration where
  "SCAN_TIMEOUT = from_secs 2"

datatype verdict = NoMatch | Match "str list"

datatype inspection_failure = InspectionFailure str

record bundle_manifest =
  manifest_version :: u32
  manifest_policy_id :: str
  manifest_description :: str
  manifest_maintenance :: str

record scanner_config =
  scanner_timeout :: duration
  max_matches_per_pattern :: nat

record ('c, 'k) yara_lib =
  compiler_new :: 'c
  enable_includes :: "'c \<Rightarrow> bool \<Rightarrow> 'c"
  add_source :: "'c \<Rightarrow> str \<Rightarrow> str + 'c"
  compiler_build :: "'c \<Rightarrow> 'k"
  yara_scan :: "'k \<Rightarrow> scanner_config \<Rightarrow> nat \<Rightarrow> bytes \<Rightarrow> unit + str list"

record 'k rule_bundle =
  bundle_policy_id :: str
  bundle_policy_digest :: str
  bundle_rule_count :: nat
  bundle_rules :: 'k

section \<open>Loading a bundle\<close>

text \<open>
  What the file system says of the bundle directory: the last component of its path, the
  manifest's text, the entries (names are byte strings, an entry may be unreadable), each
  file's text, and how long compiling took.
\<close>

record bundle_dir =
  dir_name :: "str option"
  dir_manifest :: "str + str"
  dir_entries :: "str + (str + bytes) list"
  dir_source :: "bytes \<Rightarrow> str + str"
  dir_elapsed :: duration

text \<open>\<^verbatim>\<open>Path::extension\<close> of a file name: what follows the last dot, unless that dot starts it.\<close>

definition dot :: u8 where "dot = 46"

definition extension :: "bytes \<Rightarrow> bytes option" where
  "extension name =
     (let before = dropWhile (\<lambda>b. b \<noteq> dot) (rev name) in
      if before = [] \<or> tl before = [] \<or> name = [dot, dot] then None
      else Some (rev (takeWhile (\<lambda>b. b \<noteq> dot) (rev name))))"

definition rule_files :: "(str + bytes) list \<Rightarrow> bytes list" where
  "rule_files entries =
     sort (filter (\<lambda>name. extension name = Some (utf8 (lit ''yar''))) (List.map_filter ok_value entries))"

fun read_sources :: "(bytes \<Rightarrow> str + str) \<Rightarrow> nat \<Rightarrow> bytes list \<Rightarrow> contract_error + str list" where
  "read_sources rd sofar [] = Inr []"
| "read_sources rd sofar (path # paths) =
     and_then (context_err ''rule file is unreadable: '' (rd path)) (\<lambda>source.
       if sofar + byte_len source > MAX_BUNDLE_BYTES
         then refuse ''rule bundle is too large to compile''
       else map_ok (\<lambda>rest. source # rest) (read_sources rd (sofar + byte_len source) paths))"

definition count_rules :: "str \<Rightarrow> nat" where
  "count_rules source =
     count_matches (10 # lit ''rule '') source + (if starts_with (lit ''rule '') source then 1 else 0)"

fun add_sources ::
    "('c, 'k) yara_lib \<Rightarrow> 'c \<Rightarrow> nat \<Rightarrow> str list \<Rightarrow> contract_error + ('c \<times> nat)" where
  "add_sources Y compiler n [] = Inr (compiler, n)"
| "add_sources Y compiler n (source # sources) =
     and_then (context_err ''rule bundle does not compile: '' (add_source Y compiler source))
       (\<lambda>compiler'. add_sources Y compiler' (n + count_rules source) sources)"

definition bundle_load ::
    "('c, 'k) yara_lib \<Rightarrow> (bytes \<Rightarrow> bytes) \<Rightarrow> (str \<Rightarrow> str + bundle_manifest) \<Rightarrow> bundle_dir
       \<Rightarrow> contract_error + 'k rule_bundle" where
  "bundle_load Y H manifest_json directory =
     (case dir_name directory of
        None \<Rightarrow> refuse ''rule bundle directory has no name''
      | Some policy_id \<Rightarrow>
          and_then (context_err ''rule bundle manifest is unreadable: '' (dir_manifest directory)) (\<lambda>raw.
          and_then (context_err ''rule bundle manifest is not valid: '' (manifest_json raw)) (\<lambda>manifest.
          if manifest_version manifest \<noteq> 1 then refuse ''unsupported rule bundle version''
          else if manifest_policy_id manifest \<noteq> policy_id
            then refuse ''rule bundle manifest names a different policy''
          else
            and_then (context_err ''rule bundle is unreadable: '' (dir_entries directory)) (\<lambda>listed.
            let entries = rule_files listed in
            if entries = [] then refuse ''rule bundle contains no rules''
            else if length entries > MAX_BUNDLE_FILES then refuse ''rule bundle has too many files''
            else
              and_then (read_sources (dir_source directory) 0 entries) (\<lambda>sources.
              and_then (add_sources Y (enable_includes Y (compiler_new Y) False) 0 sources)
                (\<lambda>(compiler, rule_count).
                  if dir_elapsed directory > COMPILE_BUDGET
                    then refuse ''rule bundle took too long to compile''
                  else Inr \<lparr>bundle_policy_id = policy_id,
                         bundle_policy_digest = sha256_hex H (utf8 (concat sources)),
                         bundle_rule_count = rule_count,
                         bundle_rules = compiler_build Y compiler\<rparr>))))))"

section \<open>Scanning\<close>

record 'k detector =
  det_rules :: 'k
  det_config :: scanner_config
  remaining_bytes :: nat
  scans :: nat
  det_history :: "bytes list"

definition bundle_detector :: "'k rule_bundle \<Rightarrow> 'k detector" where
  "bundle_detector B =
     \<lparr>det_rules = bundle_rules B,
      det_config = \<lparr>scanner_timeout = SCAN_TIMEOUT, max_matches_per_pattern = MAX_SCAN_MATCHES\<rparr>,
      remaining_bytes = MAX_SCAN_INPUT_BYTES, scans = 0, det_history = []\<rparr>"

definition detector_scan ::
    "('c, 'k) yara_lib \<Rightarrow> bytes \<Rightarrow> ('k detector, inspection_failure, verdict) step" where
  "detector_scan Y data D =
     (case checked_sub (remaining_bytes D) (length data) of
        None \<Rightarrow> (Inl (InspectionFailure (lit ''scan input budget exhausted'')), D)
      | Some left \<Rightarrow>
          (let D1 = D\<lparr>remaining_bytes := left, scans := scans D + 1,
                      det_history := det_history D @ [data]\<rparr>
           in case yara_scan Y (det_rules D) (det_config D) (length (det_history D)) data of
                Inl _ \<Rightarrow> (Inl (InspectionFailure (lit ''scanner error or timeout'')), D1)
              | Inr matching \<Rightarrow>
                  (let matched = take MAX_SCAN_MATCHES matching
                   in (Inr (if matched = [] then NoMatch else Match matched), D1))))"

section \<open>The contract of a scanner\<close>

text \<open>
  What the pipeline relies on: an input over the budget is refused without a trace; any other
  input is fed to the engine whole and paid for, and the answer says whether the engine
  failed, found nothing, or found something. \<open>report d n data\<close> is the engine's answer for
  \<open>data\<close> as the n-th input.
\<close>

locale scan_contract =
  fixes scan :: "bytes \<Rightarrow> ('d, inspection_failure, verdict) step"
    and history :: "'d \<Rightarrow> bytes list"
    and budget :: "'d \<Rightarrow> nat"
    and report :: "'d \<Rightarrow> nat \<Rightarrow> bytes \<Rightarrow> unit + str list"
  assumes law_over: "budget d < length data \<Longrightarrow> \<exists>e. scan data d = (Inl e, d)"
    and law_fed: "length data \<le> budget d \<Longrightarrow> scan data d = (r, d') \<Longrightarrow>
      history d' = history d @ [data] \<and> budget d' + length data = budget d \<and> report d' = report d"
    and law_answered: "length data \<le> budget d \<Longrightarrow> scan data d = (r, d') \<Longrightarrow>
      (case report d (length (history d)) data of
         Inl _ \<Rightarrow> \<exists>e. r = Inl e
       | Inr [] \<Rightarrow> r = Inr NoMatch
       | Inr rules \<Rightarrow> \<exists>ms. r = Inr (Match ms) \<and> ms \<noteq> [] \<and> set ms \<subseteq> set rules)"
begin

text \<open>Inputs the engine matched are where its report names a rule.\<close>

definition hits :: "'d \<Rightarrow> nat \<Rightarrow> bool" where
  "hits d n \<longleftrightarrow> (\<exists>rules. report d n (history d ! n) = Inr rules \<and> rules \<noteq> [])"

definition quiet :: "'d \<Rightarrow> bool" where
  "quiet d \<longleftrightarrow> (\<forall>n < length (history d). \<not> hits d n)"

definition loud :: "'d \<Rightarrow> bool" where
  "loud d \<longleftrightarrow> (\<forall>n < length (history d). hits d n \<longleftrightarrow> Suc n = length (history d)) \<and> history d \<noteq> []"

lemma scan_unchanged_or_fed:
  assumes "scan data d = (r, d')"
  obtains (refused) "d' = d" "\<exists>e. r = Inl e"
    | (fed) "length data \<le> budget d" "history d' = history d @ [data]"
        "budget d' + length data = budget d" "report d' = report d"
proof (cases "length data \<le> budget d")
  case True
  then show thesis using law_fed [OF True assms] that(2) by blast
next
  case False
  then show thesis using law_over [of d data] assms that(1) by auto
qed

lemma hits_old: "history d' = history d @ [data] \<Longrightarrow> report d' = report d \<Longrightarrow>
    n < length (history d) \<Longrightarrow> hits d' n = hits d n"
  by (simp add: hits_def nth_append)

lemma scan_NoMatch_iff:
  "(\<exists>d'. scan data d = (Inr NoMatch, d')) \<longleftrightarrow>
     length data \<le> budget d \<and> report d (length (history d)) data = Inr []"
proof (cases "length data \<le> budget d")
  case True
  obtain r d' where run: "scan data d = (r, d')" by (cases "scan data d")
  show ?thesis
    using law_answered [OF True run] True run by (auto split: sum.splits list.splits)
next
  case False
  then show ?thesis using law_over [of d data] by auto
qed

lemma scan_verdict:
  assumes "quiet d" "scan data d = (r, d')"
  shows "case r of Inr (Match ms) \<Rightarrow> loud d' \<and> ms \<noteq> [] | _ \<Rightarrow> quiet d'"
  using assms(2)
proof (cases rule: scan_unchanged_or_fed)
  case refused
  then show ?thesis using assms(1) by auto
next
  case fed
  let ?n = "length (history d)"
  have old: "hits d' n = hits d n" if "n < ?n" for n
    using hits_old [OF fed(2,4) that] .
  have new: "hits d' ?n \<longleftrightarrow> (\<exists>rules. report d ?n data = Inr rules \<and> rules \<noteq> [])"
    using fed by (simp add: hits_def)
  have "quiet d' \<longleftrightarrow> \<not> hits d' ?n" and "loud d' \<longleftrightarrow> hits d' ?n"
    using assms(1) fed(2) old by (auto simp: quiet_def loud_def less_Suc_eq)
  then show ?thesis
    using law_answered [OF fed(1) assms(2)] new by (auto split: sum.splits list.splits verdict.splits)
qed

lemma scan_budget:
  assumes "scan data d = (r, d')"
  shows "budget d' + sum_list (map length (history d')) = budget d + sum_list (map length (history d))"
    and "\<exists>later. history d' = history d @ later" and "report d' = report d"
  using assms by (cases rule: scan_unchanged_or_fed; simp)+

end

lemma detector_scan_over:
  "remaining_bytes D < length data \<Longrightarrow> \<exists>e. detector_scan Y data D = (Inl e, D)"
  by (simp add: detector_scan_def checked_sub_def)

lemma detector_scan_fed:
  "length data \<le> remaining_bytes D \<Longrightarrow> detector_scan Y data D = (r, D') \<Longrightarrow>
     D' = D\<lparr>remaining_bytes := remaining_bytes D - length data, scans := scans D + 1,
            det_history := det_history D @ [data]\<rparr>"
  by (auto simp: detector_scan_def checked_sub_def Let_def split: sum.splits)

lemma detector_scan_answered:
  assumes "length data \<le> remaining_bytes D" "detector_scan Y data D = (r, D')"
  shows "case yara_scan Y (det_rules D) (det_config D) (length (det_history D)) data of
         Inl _ \<Rightarrow> \<exists>e. r = Inl e
       | Inr [] \<Rightarrow> r = Inr NoMatch
       | Inr rules \<Rightarrow> \<exists>ms. r = Inr (Match ms) \<and> ms \<noteq> [] \<and> set ms \<subseteq> set rules"
  using assms
  by (auto simp: detector_scan_def checked_sub_def Let_def MAX_SCAN_MATCHES_def
      split: sum.splits list.splits dest: in_set_takeD)

interpretation detector: scan_contract "detector_scan Y" det_history remaining_bytes
    "\<lambda>D. yara_scan Y (det_rules D) (det_config D)" for Y :: "('c, 'k) yara_lib"
proof (unfold_locales, goal_cases)
  case 1
  then show ?case by (rule detector_scan_over)
next
  case 2
  then show ?case using detector_scan_fed [OF 2] by simp
next
  case 3
  then show ?case by (rule detector_scan_answered)
qed

section \<open>The budget of one response\<close>

text \<open>The scans of one response in a row, stopping at the first that is not clean.\<close>

fun scan_all :: "('c, 'k) yara_lib \<Rightarrow> bytes list \<Rightarrow> 'k detector \<Rightarrow> bool \<times> 'k detector" where
  "scan_all Y [] D = (True, D)"
| "scan_all Y (data # inputs) D =
     (case detector_scan Y data D of
        (Inr NoMatch, D') \<Rightarrow> scan_all Y inputs D'
      | (_, D') \<Rightarrow> (False, D'))"

lemma scan_all_clean_iff:
  "fst (scan_all Y inputs D) \<longleftrightarrow>
     sum_list (map length inputs) \<le> remaining_bytes D
     \<and> (\<forall>n < length inputs. yara_scan Y (det_rules D) (det_config D)
          (length (det_history D) + n) (inputs ! n) = Inr [])"
proof (induction inputs arbitrary: D)
  case (Cons data inputs)
  show ?case
  proof (cases "length data \<le> remaining_bytes D
      \<and> yara_scan Y (det_rules D) (det_config D) (length (det_history D)) data = Inr []")
    case True
    then obtain D' where run: "detector_scan Y data D = (Inr NoMatch, D')"
      using detector.scan_NoMatch_iff [of Y data D] by blast
    with True have D': "D' = D\<lparr>remaining_bytes := remaining_bytes D - length data, scans := scans D + 1,
            det_history := det_history D @ [data]\<rparr>"
      using detector_scan_fed [of data D Y "Inr NoMatch" D'] by simp
    show ?thesis
      using True by (auto simp: run Cons.IH D' All_less_Suc2)
  next
    case False
    then have "\<not> fst (scan_all Y (data # inputs) D)"
      using detector.scan_NoMatch_iff [of Y data D] by (auto split: sum.splits verdict.splits prod.splits)
    with False show ?thesis by (auto simp: All_less_Suc2)
  qed
qed simp

lemma scan_all_spends:
  "scan_all Y inputs D = (ok, D') \<Longrightarrow>
     remaining_bytes D' + sum_list (map length (det_history D')) =
     remaining_bytes D + sum_list (map length (det_history D))
     \<and> scans D' + length (det_history D) = scans D + length (det_history D')
     \<and> (\<exists>k. det_history D' = det_history D @ take k inputs \<and> (ok \<longrightarrow> k = length inputs))"
proof (induction inputs arbitrary: D)
  case (Cons data inputs)
  obtain r D1 where run: "detector_scan Y data D = (r, D1)" by (cases "detector_scan Y data D")
  then have D1: "(D1 = D \<and> r \<noteq> Inr NoMatch) \<or> length data \<le> remaining_bytes D
      \<and> D1 = D\<lparr>remaining_bytes := remaining_bytes D - length data, scans := scans D + 1,
            det_history := det_history D @ [data]\<rparr>"
    using detector_scan_fed [of data D Y r D1] detector_scan_over [of D data Y] by fastforce
  show ?case
  proof (cases "r = Inr NoMatch")
    case True
    with D1 have D1: "length data \<le> remaining_bytes D"
      "D1 = D\<lparr>remaining_bytes := remaining_bytes D - length data, scans := scans D + 1,
            det_history := det_history D @ [data]\<rparr>"
      by auto
    have "scan_all Y inputs D1 = (ok, D')" using Cons.prems True run by simp
    from Cons.IH [OF this] obtain k where k: "det_history D' = det_history D1 @ take k inputs"
        "ok \<longrightarrow> k = length inputs"
      "remaining_bytes D' + sum_list (map length (det_history D')) =
         remaining_bytes D1 + sum_list (map length (det_history D1))"
      "scans D' + length (det_history D1) = scans D1 + length (det_history D')"
      by blast
    then show ?thesis
      using D1 by (intro conjI exI [of _ "Suc k"]) simp_all
  next
    case False
    then have "D' = D1" "\<not> ok" using Cons.prems run by (auto split: sum.splits verdict.splits)
    then show ?thesis
      using D1 by (elim disjE conjE; intro conjI exI [of _ "length (det_history D1) - length (det_history D)"]) auto
  qed
qed auto

text \<open>C23: the scan budget is spent, never stretched. Over any sequence of scans of one response,
  what is left and what the engine was given add up to 8 MiB, and every scan is counted. The
  sequence comes out clean exactly when all inputs fit into the budget together and the engine
  reported nothing on each of them, whole and in order; the engine is never given part of an
  input.\<close>

theorem scan_budget_spent:
  "case scan_all Y inputs (bundle_detector B) of (clean, D) \<Rightarrow>
     remaining_bytes D + sum_list (map length (det_history D)) = 8 * 1024 * 1024
     \<and> scans D = length (det_history D)
     \<and> clean = (sum_list (map length inputs) \<le> 8 * 1024 * 1024
          \<and> list_all (\<lambda>n. yara_scan Y (bundle_rules B) (det_config (bundle_detector B)) n (inputs ! n)
               = Inr []) [0..<length inputs])
     \<and> (\<exists>k. det_history D = take k inputs) \<and> (if clean then det_history D = inputs else True)"
proof -
  obtain clean D where run: "scan_all Y inputs (bundle_detector B) = (clean, D)"
    by (cases "scan_all Y inputs (bundle_detector B)")
  have start: "remaining_bytes (bundle_detector B) = 8 * 1024 * 1024"
    "det_history (bundle_detector B) = []" "scans (bundle_detector B) = 0"
    "det_rules (bundle_detector B) = bundle_rules B"
    by (simp_all add: bundle_detector_def MAX_SCAN_INPUT_BYTES_def)
  have "remaining_bytes D + sum_list (map length (det_history D)) = 8 * 1024 * 1024"
    "scans D = length (det_history D)"
    "\<exists>k. det_history D = take k inputs \<and> (clean \<longrightarrow> k = length inputs)"
    using scan_all_spends [OF run] start by simp_all
  moreover have "clean = (sum_list (map length inputs) \<le> 8 * 1024 * 1024
          \<and> list_all (\<lambda>n. yara_scan Y (bundle_rules B) (det_config (bundle_detector B)) n (inputs ! n)
               = Inr []) [0..<length inputs])"
    using scan_all_clean_iff [of Y inputs "bundle_detector B"] run start
    by (simp add: list_all_iff) (auto simp: Ball_def)
  ultimately show ?thesis using run by auto
qed

section \<open>What loads\<close>

lemma read_sources_iff:
  "read_sources rd n paths = Inr sources \<longleftrightarrow>
     map rd paths = map Inr sources
     \<and> (sources = [] \<or> n + sum_list (map byte_len sources) \<le> MAX_BUNDLE_BYTES)"
proof (induction paths arbitrary: n sources)
  case (Cons path paths)
  show ?case
    by (cases sources; cases "rd path") (auto simp: result_iffs context_err_def Cons.IH)
qed auto

lemma add_sources_count:
  "add_sources Y c n sources = Inr (c', n') \<Longrightarrow> n' = n + sum_list (map count_rules sources)"
  by (induction Y c n sources rule: add_sources.induct) (fastforce simp: result_iffs add.assoc)+

lemma set_map_filter_ok: "set (List.map_filter ok_value xs) = {y. Inr y \<in> set xs}"
  by (induction xs) (auto simp: ok_value_Some_iff split: option.split sum.splits)

lemma rule_files_spec:
  "sorted (rule_files listed)"
  "set (rule_files listed) = {name. Inr name \<in> set listed \<and> extension name = Some (utf8 (lit ''yar''))}"
  by (auto simp: rule_files_def set_map_filter_ok)

lemma bundle_load_Ok:
  "bundle_load Y H manifest_json directory = Inr B \<longleftrightarrow>
     (\<exists>policy_id raw manifest listed sources compiler n.
        dir_name directory = Some policy_id
        \<and> dir_manifest directory = Inr raw \<and> manifest_json raw = Inr manifest
        \<and> manifest_version manifest = 1 \<and> manifest_policy_id manifest = policy_id
        \<and> dir_entries directory = Inr listed
        \<and> (rule_files listed \<noteq> [] \<and> length (rule_files listed) \<le> MAX_BUNDLE_FILES
           \<and> read_sources (dir_source directory) 0 (rule_files listed) = Inr sources)
        \<and> add_sources Y (enable_includes Y (compiler_new Y) False) 0 sources = Inr (compiler, n)
        \<and> dir_elapsed directory \<le> COMPILE_BUDGET
        \<and> B = \<lparr>bundle_policy_id = policy_id,
               bundle_policy_digest = sha256_hex H (utf8 (concat sources)),
               bundle_rule_count = sum_list (map count_rules sources),
               bundle_rules = compiler_build Y compiler\<rparr>)"
  (is "?load \<longleftrightarrow> ?raw")
proof
  assume ?load
  then show ?raw
    by (auto simp: bundle_load_def result_iffs Let_def split: option.splits if_splits)
       (use add_sources_count in fastforce)
next
  assume ?raw
  then show ?load
    by - (elim exE conjE, frule add_sources_count, simp add: bundle_load_def context_err_def Let_def)
qed

text \<open>The conditions on the sources, in the terms of the property.\<close>

lemma bundle_sources_iff:
  "rule_files listed \<noteq> [] \<and> length (rule_files listed) \<le> MAX_BUNDLE_FILES
     \<and> read_sources source 0 (rule_files listed) = Inr sources \<longleftrightarrow>
   map source (rule_files listed) = map Inr sources
     \<and> length sources \<in> {1..64} \<and> sum_list (map byte_len sources) \<le> 256 * 1024"
proof -
  have "length (rule_files listed) = length sources" if "map source (rule_files listed) = map Inr sources"
    using that by (metis length_map)
  then show ?thesis
    by (auto simp: read_sources_iff MAX_BUNDLE_BYTES_def MAX_BUNDLE_FILES_def Suc_le_eq)
qed

text \<open>C0: what a loaded bundle is. A bundle loads exactly when its directory has a name, its
  manifest parses, has version 1 and names that directory, between 1 and 64 \<^verbatim>\<open>.yar\<close> files are
  listed and readable with at most 256 KiB between them, all of them compile, and that took at
  most ten seconds. Its id is the directory's name, its digest is over all its sources in the
  order of their names, and its rules are compiled from exactly these, with includes off.\<close>

theorem bundle_load_iff:
  "bundle_load Y H manifest_json directory = Inr B \<longleftrightarrow>
     (\<exists>policy_id raw manifest listed sources compiler n.
        dir_name directory = Some policy_id
        \<and> dir_manifest directory = Inr raw \<and> manifest_json raw = Inr manifest
        \<and> manifest_version manifest = 1 \<and> manifest_policy_id manifest = policy_id
        \<and> dir_entries directory = Inr listed
        \<and> map (dir_source directory) (rule_files listed) = map Inr sources
        \<and> length sources \<in> {1..64} \<and> sum_list (map byte_len sources) \<le> 256 * 1024
        \<and> add_sources Y (enable_includes Y (compiler_new Y) False) 0 sources = Inr (compiler, n)
        \<and> dir_elapsed directory \<le> 10000000000
        \<and> B = \<lparr>bundle_policy_id = policy_id,
               bundle_policy_digest = sha256_hex H (utf8 (concat sources)),
               bundle_rule_count = sum_list (map count_rules sources),
               bundle_rules = compiler_build Y compiler\<rparr>)"
  unfolding bundle_load_Ok bundle_sources_iff COMPILE_BUDGET_def
  by (simp only: from_secs_def conj_assoc) simp

end
