(* ===== verification/Convert.thy ===== *)
theory Convert
  imports Web_Fetch
begin

text \<open>
  \<^verbatim>\<open>inspector/src/convert.rs\<close>: candidates, the converter chain and the rules that judge a
  candidate. The HTML converter, the article extractor and the Unicode table of alphanumeric
  characters are arguments.
\<close>

record candidate =
  cand_content :: str
  cand_method :: conversion_method

datatype quality_verdict = Usable | Poor str

record source_signals =
  has_headings :: bool
  has_tables :: bool
  has_code :: bool

definition signals_of :: "str \<Rightarrow> source_signals" where
  "signals_of html =
     (let lowered = to_ascii_lowercase html in
      \<lparr>has_headings = list_ex (\<lambda>tag. str_contains tag lowered)
         (map lit [''<h1'', ''<h2'', ''<h3'', ''<h4'']),
       has_tables = str_contains (lit ''<table'') lowered,
       has_code = str_contains (lit ''<pre'') lowered \<or> str_contains (lit ''<code'') lowered\<rparr>)"

section \<open>Libraries\<close>

datatype output_format = Output_Plain | Output_Markdown

datatype preset = Preset_Standard | Preset_Minimal

record conversion_options =
  output_format :: output_format
  preprocessing_enabled :: bool
  preprocessing_preset :: preset
  remove_navigation :: bool
  remove_forms :: bool
  extract_metadata :: bool

text \<open>
  \<^verbatim>\<open>convert\<close> gives a document whose content may be missing; \<^verbatim>\<open>Readability::new\<close> may fail, and
  so may the parse it sets up.
\<close>

record convert_lib =
  html_convert :: "str \<Rightarrow> conversion_options \<Rightarrow> unit + str option"
  readability :: "str \<Rightarrow> nat \<Rightarrow> unit + (unit + str)"
  is_alphanumeric :: "uchar \<Rightarrow> bool"

section \<open>Converters\<close>

text \<open>\<^verbatim>\<open>dyn Converter\<close>: a strategy is its two methods.\<close>

record converter =
  conv_method :: conversion_method
  conv_convert :: "str \<Rightarrow> format \<Rightarrow> candidate option"

definition to_markdown :: "convert_lib \<Rightarrow> str \<Rightarrow> format \<Rightarrow> preset \<Rightarrow> bool \<Rightarrow> str option" where
  "to_markdown V html fmt pre navigation =
     (let options =
        \<lparr>output_format = (case fmt of Text \<Rightarrow> Output_Plain
             | Markdown \<Rightarrow> Output_Markdown | Html \<Rightarrow> Output_Markdown),
         preprocessing_enabled = True, preprocessing_preset = pre,
         remove_navigation = navigation, remove_forms = navigation, extract_metadata = False\<rparr>
      in case html_convert V html options of Inl _ \<Rightarrow> None | Inr content \<Rightarrow> content)"

definition extract_main_content :: "convert_lib \<Rightarrow> str \<Rightarrow> str option" where
  "extract_main_content V html =
     (case readability V html 50000 of
        Inl _ \<Rightarrow> None
      | Inr (Inl _) \<Rightarrow> None
      | Inr (Inr content) \<Rightarrow> if trim content = [] then None else Some content)"

definition candidate_of :: "conversion_method \<Rightarrow> str \<Rightarrow> candidate option" where
  "candidate_of m content = Some \<lparr>cand_content = content, cand_method = m\<rparr>"

definition native_cleanup :: "convert_lib \<Rightarrow> converter" where
  "native_cleanup V =
     \<lparr>conv_method = Native,
      conv_convert = (\<lambda>source fmt.
        Option.bind (to_markdown V source fmt Preset_Standard True) (candidate_of Native))\<rparr>"

definition main_content_extraction :: "convert_lib \<Rightarrow> converter" where
  "main_content_extraction V =
     \<lparr>conv_method = Extracted,
      conv_convert = (\<lambda>source fmt.
        Option.bind (extract_main_content V source) (\<lambda>article.
        Option.bind (to_markdown V article fmt Preset_Minimal False) (candidate_of Extracted)))\<rparr>"

definition plain_conversion :: "convert_lib \<Rightarrow> converter" where
  "plain_conversion V =
     \<lparr>conv_method = Basic,
      conv_convert = (\<lambda>source fmt.
        Option.bind (to_markdown V source fmt Preset_Minimal False) (candidate_of Basic))\<rparr>"

definition CHAIN :: "convert_lib \<Rightarrow> converter list" where
  "CHAIN V = [native_cleanup V, main_content_extraction V, plain_conversion V]"

section \<open>Quality\<close>

definition is_link_item :: "str \<Rightarrow> bool" where
  "is_link_item line \<longleftrightarrow>
     (let bullet = starts_with (lit ''- '') line \<or> starts_with (lit ''* '') line
            \<or> starts_with (lit ''+ '') line
      in (bullet \<or> starts_with (lit ''['') line) \<and> str_contains (lit '']('') line)"

definition content_lines :: "str \<Rightarrow> str list" where
  "content_lines content = filter (\<lambda>line. line \<noteq> []) (map trim (str_lines content))"

definition quality :: "convert_lib \<Rightarrow> candidate \<Rightarrow> format \<Rightarrow> source_signals \<Rightarrow> quality_verdict" where
  "quality V c fmt signals =
     (let content = trim (cand_content c) in
      if content = [] then Poor (lit ''empty output'')
      else if \<not> list_ex (is_alphanumeric V) content then Poor (lit ''no readable text'')
      else
        let lines = content_lines content;
            link_lines = length (filter is_link_item lines);
            prose = sum_list (map byte_len (filter (\<lambda>line. \<not> is_link_item line) lines))
        in if length lines \<ge> 5 \<and> link_lines * 10 \<ge> length lines * 8 \<and> prose < 200
             then Poor (lit ''navigation only'')
           else if fmt = Markdown \<and> has_headings signals
                \<and> \<not> list_ex (starts_with (lit ''#'')) lines
             then Poor (lit ''headings lost'')
           else if fmt = Markdown \<and> has_tables signals
                \<and> \<not> list_ex (starts_with (lit ''|'')) lines
             then Poor (lit ''tables lost'')
           else Usable)"

section \<open>What every converter promises\<close>

text \<open>A candidate reports the converter it came from.\<close>

locale labelled_converter =
  fixes K :: converter
  assumes labelled: "conv_convert K source fmt = Some c \<Longrightarrow> cand_method c = conv_method K"
begin

lemma labelled_in_chain:
  "conv_convert K source fmt = Some c \<Longrightarrow> K \<in> set chain \<Longrightarrow> cand_method c \<in> conv_method ` set chain"
  using labelled by auto

end

interpretation native: labelled_converter "native_cleanup V" for V
  by unfold_locales (auto simp: native_cleanup_def candidate_of_def Option.bind_eq_Some_conv)

interpretation extracted: labelled_converter "main_content_extraction V" for V
  by unfold_locales (auto simp: main_content_extraction_def candidate_of_def Option.bind_eq_Some_conv)

interpretation plain: labelled_converter "plain_conversion V" for V
  by unfold_locales (auto simp: plain_conversion_def candidate_of_def Option.bind_eq_Some_conv)

lemma chain_methods:
  assumes "K \<in> set (CHAIN V)" "conv_convert K source fmt = Some c"
  shows "cand_method c \<in> {Native, Extracted, Basic}"
proof -
  consider "K = native_cleanup V" | "K = main_content_extraction V" | "K = plain_conversion V"
    using assms(1) by (auto simp: CHAIN_def)
  then have "cand_method c \<in> conv_method ` set (CHAIN V)"
  proof cases
    case 1 then show ?thesis using native.labelled_in_chain [of V source fmt c] assms by simp
  next
    case 2 then show ?thesis using extracted.labelled_in_chain [of V source fmt c] assms by simp
  next
    case 3 then show ?thesis using plain.labelled_in_chain [of V source fmt c] assms by simp
  qed
  moreover have "conv_method ` set (CHAIN V) = {Native, Extracted, Basic}"
    by (simp add: CHAIN_def native_cleanup_def main_content_extraction_def plain_conversion_def)
  ultimately show ?thesis by simp
qed

section \<open>Judging a candidate\<close>

lemma trim_whitespace_Cons: "is_whitespace c \<Longrightarrow> trim (c # s) = trim s"
  by (simp add: trim_def trim_matches_def trim_start_by_def)

lemma trim_whitespace_snoc: "is_whitespace c \<Longrightarrow> trim (s @ [c]) = trim s"
  by (induction s) (simp_all add: trim_def trim_matches_def trim_start_by_def trim_end_by_def)

lemma trim_whitespace:
  "list_all is_whitespace w \<Longrightarrow> trim (w @ s) = trim s"
  "list_all is_whitespace w \<Longrightarrow> trim (s @ w) = trim s"
proof -
  show "list_all is_whitespace w \<Longrightarrow> trim (w @ s) = trim s"
    by (induction w) (simp_all add: trim_whitespace_Cons)
  show "list_all is_whitespace w \<Longrightarrow> trim (s @ w) = trim s"
    by (induction w rule: rev_induct) (simp_all add: trim_whitespace_snoc flip: append_assoc)
qed

lemma trim_parts:
  obtains w v where "s = w @ trim s @ v" "list_all is_whitespace w" "list_all is_whitespace v"
proof -
  have "s = takeWhile is_whitespace s @ trim_start_by is_whitespace s"
    by (simp add: trim_start_by_def)
  moreover obtain v where "trim_start_by is_whitespace s = trim s @ v" "list_all is_whitespace v"
    using trim_end_by_append [of "trim_start_by is_whitespace s" is_whitespace]
    by (auto simp: trim_def trim_matches_def)
  moreover have "list_all is_whitespace (takeWhile is_whitespace s)"
    by (auto simp: list_all_iff dest: set_takeWhileD)
  ultimately show thesis using that by metis
qed

lemma split_on_snoc:
  "split_on c (s @ [d]) =
     (if d = c then split_on c s @ [[]]
      else butlast (split_on c s) @ [last (split_on c s) @ [d]])"
  by (induction s) (auto split: list.splits)

lemma trim_strip_cr: "trim (strip_cr l) = trim l"
  by (cases l rule: rev_cases) (auto simp: strip_cr_def is_whitespace_def trim_whitespace_snoc)

text \<open>The lines a candidate is judged by are its non-blank lines without their surrounding
  space.\<close>

lemma content_lines_alt: "content_lines s = filter (\<lambda>l. l \<noteq> []) (map trim (split_on 10 s))"
proof -
  have "filter (\<lambda>l. l \<noteq> []) (map trim parts) =
      filter (\<lambda>l. l \<noteq> []) (map trim (map strip_cr (butlast parts) @ (if last parts = [] then [] else [last parts])))"
    if "parts \<noteq> []" for parts
    using that by (cases parts rule: rev_cases) (simp_all add: trim_strip_cr comp_def)
  then show ?thesis
    by (simp add: content_lines_def str_lines_def Let_def)
qed

lemma content_lines_whitespace:
  "is_whitespace c \<Longrightarrow> content_lines (c # s) = content_lines s"
  "is_whitespace c \<Longrightarrow> content_lines (s @ [c]) = content_lines s"
proof -
  assume c: "is_whitespace c"
  obtain p ps where p: "split_on 10 s = p # ps" by (cases "split_on 10 s") auto
  with c show "content_lines (c # s) = content_lines s"
    by (simp add: content_lines_alt trim_whitespace_Cons)
  obtain q qs where q: "split_on 10 s = qs @ [q]" by (cases "split_on 10 s" rule: rev_cases) auto
  with c show "content_lines (s @ [c]) = content_lines s"
    by (simp add: content_lines_alt split_on_snoc trim_whitespace_snoc)
qed

lemma content_lines_trim: "content_lines (trim s) = content_lines s"
proof -
  have pre: "list_all is_whitespace w \<Longrightarrow> content_lines (w @ u) = content_lines u" for w u
    by (induction w) (simp_all add: content_lines_whitespace)
  have post: "list_all is_whitespace w \<Longrightarrow> content_lines (u @ w) = content_lines u" for w u
    by (induction w rule: rev_induct) (simp_all add: content_lines_whitespace flip: append_assoc)
  obtain w v where "s = w @ trim s @ v" "list_all is_whitespace w" "list_all is_whitespace v"
    by (rule trim_parts)
  then show ?thesis using pre [of w "trim s @ v"] post [of v "trim s"] by simp
qed

lemma split_on_chars: "c \<noteq> d \<Longrightarrow> c \<in> set s \<longleftrightarrow> (\<exists>p \<in> set (split_on d s). c \<in> set p)"
  by (induction s) (auto split: list.splits)

lemma content_lines_chars:
  assumes "\<not> is_whitespace c"
  shows "(\<exists>l \<in> set (content_lines s). c \<in> set l) \<longleftrightarrow> c \<in> set s"
proof -
  have trim: "c \<in> set (trim l) \<longleftrightarrow> c \<in> set l" for l
  proof -
    obtain w v where l: "l = w @ trim l @ v" and wv: "list_all is_whitespace w" "list_all is_whitespace v"
      by (rule trim_parts)
    from arg_cong [OF l, of set] have "set l = set w \<union> set (trim l) \<union> set v" by auto
    with assms wv show ?thesis by (auto simp: list_all_iff)
  qed
  have "c \<noteq> 10" using assms by (auto simp: is_whitespace_def)
  then have "c \<in> set s \<longleftrightarrow> (\<exists>p \<in> set (split_on 10 s). c \<in> set (trim p))"
    unfolding trim by (rule split_on_chars)
  also have "\<dots> \<longleftrightarrow> (\<exists>l \<in> set (content_lines s). c \<in> set l)"
    unfolding content_lines_alt by fastforce
  finally show ?thesis by blast
qed

text \<open>The verdict as a function of those lines alone.\<close>

definition judge_lines :: "convert_lib \<Rightarrow> format \<Rightarrow> source_signals \<Rightarrow> str list \<Rightarrow> quality_verdict" where
  "judge_lines V fmt signals lines =
     (if lines = [] then Poor (lit ''empty output'')
      else if \<not> list_ex (list_ex (is_alphanumeric V)) lines then Poor (lit ''no readable text'')
      else if 5 \<le> length lines \<and> 8 * length lines \<le> 10 * length (filter is_link_item lines)
           \<and> sum_list (map byte_len (filter (\<lambda>l. \<not> is_link_item l) lines)) < 200
        then Poor (lit ''navigation only'')
      else if fmt = Markdown \<and> has_headings signals \<and> \<not> list_ex (starts_with (lit ''#'')) lines
        then Poor (lit ''headings lost'')
      else if fmt = Markdown \<and> has_tables signals \<and> \<not> list_ex (starts_with (lit ''|'')) lines
        then Poor (lit ''tables lost'')
      else Usable)"

lemma quality_lines:
  assumes "\<And>c. is_alphanumeric V c \<Longrightarrow> \<not> is_whitespace c"
  shows "quality V c fmt signals = judge_lines V fmt signals (content_lines (cand_content c))"
proof -
  let ?s = "cand_content c"
  have "list_ex (is_alphanumeric V) (trim ?s) \<longleftrightarrow>
      list_ex (list_ex (is_alphanumeric V)) (content_lines ?s)"
    using assms content_lines_chars [of _ "trim ?s"]
    unfolding list_ex_iff content_lines_trim by blast
  moreover have "trim ?s = [] \<longleftrightarrow> content_lines ?s = []"
  proof
    assume "trim ?s = []"
    then show "content_lines ?s = []"
      using content_lines_trim [of ?s] by (simp add: content_lines_alt)
  next
    assume empty: "content_lines ?s = []"
    show "trim ?s = []"
    proof (rule ccontr)
      assume "trim ?s \<noteq> []"
      then have "\<not> is_whitespace (hd (trim ?s))" "hd (trim ?s) \<in> set (trim ?s)"
        using trim_matches_ends(1) [of is_whitespace ?s] by (simp_all add: trim_def)
      then show False using content_lines_chars [of "hd (trim ?s)" "trim ?s"] empty
        by (simp add: content_lines_trim)
    qed
  qed
  ultimately show ?thesis
    by (simp add: quality_def judge_lines_def content_lines_trim Let_def mult.commute)
qed

text \<open>A candidate is judged by its non-blank lines alone, never by its length or layout.
  Two candidates with the same trimmed non-blank lines get the same verdict; and a candidate
  with any readable character and at most four non-blank lines, however short, is usable
  unless Markdown output lost the headings or the tables the source has.\<close>

lemma quality_by_lines:
  assumes "\<And>c. is_alphanumeric V c \<Longrightarrow> \<not> is_whitespace c"
  shows "(content_lines (cand_content c) = content_lines (cand_content c') \<longrightarrow>
      quality V c fmt signals = quality V c' fmt signals)
    \<and> (length (content_lines (cand_content c)) \<le> 4 \<longrightarrow>
      list_ex (is_alphanumeric V) (cand_content c) \<longrightarrow>
      fmt \<noteq> Markdown \<or> \<not> has_headings signals \<and> \<not> has_tables signals \<longrightarrow>
      quality V c fmt signals = Usable)"
proof
  show "content_lines (cand_content c) = content_lines (cand_content c') \<longrightarrow>
      quality V c fmt signals = quality V c' fmt signals"
    by (simp add: quality_lines [OF assms])
  have readable: "list_ex (list_ex (is_alphanumeric V)) (content_lines (cand_content c))"
    if "list_ex (is_alphanumeric V) (cand_content c)"
    using that assms content_lines_chars [of _ "cand_content c"]
    unfolding list_ex_iff by blast
  then have "content_lines (cand_content c) \<noteq> []"
    if "list_ex (is_alphanumeric V) (cand_content c)"
    using that readable by fastforce
  with readable show "length (content_lines (cand_content c)) \<le> 4 \<longrightarrow>
      list_ex (is_alphanumeric V) (cand_content c) \<longrightarrow>
      fmt \<noteq> Markdown \<or> \<not> has_headings signals \<and> \<not> has_tables signals \<longrightarrow>
      quality V c fmt signals = Usable"
    by (auto simp: quality_lines [OF assms] judge_lines_def)
qed

text \<open>A library that converts nothing and knows the ASCII letters and digits.\<close>

definition ascii_lib :: convert_lib where
  "ascii_lib =
     \<lparr>html_convert = (\<lambda>html options. Inr (Some html)), readability = (\<lambda>_ _. Inl ()),
      is_alphanumeric = (\<lambda>c. is_ascii_digit c \<or> is_ascii_lowercase c \<or> is_ascii_uppercase c)\<rparr>"

lemma ascii_lib_alphanumeric: "is_alphanumeric ascii_lib c \<Longrightarrow> \<not> is_whitespace c"
  by (auto simp: ascii_lib_def is_whitespace_def is_ascii_digit_def is_ascii_lowercase_def
      is_ascii_uppercase_def)

end
