(* ===== verification/Session.thy ===== *)
theory Session
  imports Handoff Normalize Decode Detect Convert
begin

text \<open>
  \<^verbatim>\<open>inspector/src/session.rs\<close>: the lifecycle of one inspection. The states are records, and a
  transition is a step on the session's scanner, clock readings and telemetry that takes the
  previous state. The clock is an oracle: \<open>in_elapsed\<close> gives the n-th reading of the time
  since the start.
\<close>

section \<open>Why a run stops, and what it records\<close>

record stop =
  stop_code :: error_code
  stop_status :: inspection_status
  stop_matched :: "str list"

definition stop_not_run :: "error_code \<Rightarrow> stop" where
  "stop_not_run c = \<lparr>stop_code = c, stop_status = Insp_NotRun, stop_matched = []\<rparr>"

definition stop_failed :: "error_code \<Rightarrow> stop" where
  "stop_failed c = \<lparr>stop_code = c, stop_status = Insp_Failed, stop_matched = []\<rparr>"

definition stop_rejected :: "str list \<Rightarrow> stop" where
  "stop_rejected matched =
     \<lparr>stop_code = ContentRejected, stop_status = Insp_Match, stop_matched = matched\<rparr>"

definition stop_from :: "inspection_failure \<Rightarrow> stop" where
  "stop_from f = stop_failed InspectionFailed"

record telemetry =
  tel_http_status :: "u16 option"
  tel_redirects :: "u32 option"
  tel_requested_url_sha256 :: "str option"
  tel_wire_bytes :: "nat option"
  tel_decoded_bytes :: "nat option"
  tel_content_chars :: "nat option"
  tel_conversion_method :: "conversion_method option"

definition telemetry_default :: telemetry where
  "telemetry_default =
     \<lparr>tel_http_status = None, tel_redirects = None, tel_requested_url_sha256 = None,
      tel_wire_bytes = None, tel_decoded_bytes = None, tel_content_chars = None,
      tel_conversion_method = None\<rparr>"

section \<open>The session\<close>

record ('c, 'k, 'e, 't) inspect_env =
  in_yara :: "('c, 'k) yara_lib"
  in_elapsed :: "nat \<Rightarrow> duration"
  in_inflate :: inflate_lib
  in_charsets :: "'e encoding_lib"
  in_convert :: convert_lib
  in_time :: "'t time_lib"

record 'k inspection =
  insp_detector :: "'k detector"
  insp_deadline :: duration
  insp_reads :: nat
  insp_telemetry :: telemetry

definition session_new :: "'k detector \<Rightarrow> duration \<Rightarrow> 'k inspection" where
  "session_new D deadline =
     \<lparr>insp_detector = D, insp_deadline = deadline, insp_reads = 0,
      insp_telemetry = telemetry_default\<rparr>"

type_synonym ('k, 'a) session_step = "('k inspection, stop, 'a) step"

definition record_telemetry :: "(telemetry \<Rightarrow> telemetry) \<Rightarrow> ('k, unit) session_step" where
  "record_telemetry f = modify_step (\<lambda>s. s\<lparr>insp_telemetry := f (insp_telemetry s)\<rparr>)"

definition inspection_scan ::
    "('c, 'k, 'e, 't) inspect_env \<Rightarrow> bytes \<Rightarrow> ('k, unit) session_step" where
  "inspection_scan W data s =
     (case detector_scan (in_yara W) data (insp_detector s) of
        (Inl failure, D) \<Rightarrow> (Inl (stop_from failure), s\<lparr>insp_detector := D\<rparr>)
      | (Inr NoMatch, D) \<Rightarrow> (Inr (), s\<lparr>insp_detector := D\<rparr>)
      | (Inr (Match rules), D) \<Rightarrow> (Inl (stop_rejected rules), s\<lparr>insp_detector := D\<rparr>))"

definition check_deadline ::
    "('c, 'k, 'e, 't) inspect_env \<Rightarrow> inspection_status \<Rightarrow> ('k, unit) session_step" where
  "check_deadline W status s =
     (let late = in_elapsed W (insp_reads s) \<ge> insp_deadline s;
          s' = s\<lparr>insp_reads := insp_reads s + 1\<rparr>
      in if late
           then (Inl \<lparr>stop_code = DeadlineExceeded, stop_status = status, stop_matched = []\<rparr>, s')
         else (Inr (), s'))"

section \<open>States\<close>

record received =
  rcv_artifact :: fetch_artifact
  rcv_media :: media_type
  rcv_body :: bytes

record decoded =
  dec_artifact :: fetch_artifact
  dec_media :: media_type
  dec_text :: str

record normalized =
  nrm_artifact :: fetch_artifact
  nrm_media :: media_type
  nrm_text :: str

record inspected =
  ins_artifact :: fetch_artifact
  ins_media :: media_type
  ins_candidate :: candidate

section \<open>Transitions\<close>

definition received_open :: "handed \<Rightarrow> ('k, received) session_step" where
  "received_open handed =
     (case handed of
        Handed_Failed c \<Rightarrow> lift_step (Inl (stop_not_run c))
      | Handed_Fetched a body \<Rightarrow>
          bind_step (record_telemetry (\<lambda>t. t\<lparr>tel_http_status := Some (art_http_status a),
              tel_redirects := Some (art_redirects a),
              tel_requested_url_sha256 := Some (requested_url_sha256 a),
              tel_wire_bytes := Some (length body)\<rparr>)) (\<lambda>_.
          lift_step
            (and_then (ok_or (stop_not_run UnsupportedContent) (art_content_type a)) (\<lambda>declared.
             and_then (map_err (\<lambda>_. stop_not_run UnsupportedContent) (media_parse declared)) (\<lambda>media.
               if \<not> is_supported media then Inl (stop_not_run UnsupportedContent)
               else Inr \<lparr>rcv_artifact = a, rcv_media = media, rcv_body = body\<rparr>)))))"

definition scan_wire ::
    "('c, 'k, 'e, 't) inspect_env \<Rightarrow> received \<Rightarrow> ('k, decoded) session_step" where
  "scan_wire W r =
     (let a = rcv_artifact r; media = rcv_media r; body = rcv_body r in
      bind_step (check_deadline W Insp_NotRun) (\<lambda>_.
      bind_step (inspection_scan W body) (\<lambda>_.
      bind_step (inspection_scan W (utf8 (art_final_url a))) (\<lambda>_.
      bind_step (inspection_scan W (utf8 (header_value media))) (\<lambda>_.
      bind_step (lift_step (map_err stop_not_run
          (decode_content_encoding (in_inflate W) body (art_content_encoding a)))) (\<lambda>decoded_bytes.
      bind_step (lift_step (map_err stop_not_run
          (decode_charset (in_charsets W) decoded_bytes media))) (\<lambda>text.
      bind_step (record_telemetry (\<lambda>t. t\<lparr>tel_decoded_bytes := Some (length decoded_bytes)\<rparr>)) (\<lambda>_.
        pure_step \<lparr>dec_artifact = a, dec_media = media, dec_text = text\<rparr>))))))))"

definition scan_text ::
    "('c, 'k, 'e, 't) inspect_env \<Rightarrow> decoded \<Rightarrow> ('k, normalized) session_step" where
  "scan_text W d =
     (let text = dec_text d;
          entities = decode_entities text;
          folded = deobfuscate entities
      in bind_step (check_deadline W Insp_Failed) (\<lambda>_.
         bind_step (inspection_scan W (utf8 text)) (\<lambda>_.
         bind_step (inspection_scan W (utf8 entities)) (\<lambda>_.
         bind_step (inspection_scan W (utf8 folded)) (\<lambda>_.
           pure_step \<lparr>nrm_artifact = dec_artifact d, nrm_media = dec_media d, nrm_text = text\<rparr>)))))"

text \<open>The loop over the converters; \<open>fallback\<close> is the first non-empty output so far.\<close>

fun convert_loop ::
    "('c, 'k, 'e, 't) inspect_env \<Rightarrow> str \<Rightarrow> format \<Rightarrow> source_signals \<Rightarrow> converter list
       \<Rightarrow> candidate option \<Rightarrow> ('k, candidate) session_step" where
  "convert_loop W text fmt signals [] fallback =
     lift_step (ok_or (stop_failed UnsupportedContent) fallback)"
| "convert_loop W text fmt signals (K # chain) fallback =
     bind_step (check_deadline W Insp_Failed) (\<lambda>_.
       case conv_convert K text fmt of
         None \<Rightarrow> convert_loop W text fmt signals chain fallback
       | Some c \<Rightarrow>
           bind_step (inspection_scan W (utf8 (cand_content c))) (\<lambda>_.
             if quality (in_convert W) c fmt signals = Usable then pure_step c
             else convert_loop W text fmt signals chain
               (if fallback = None \<and> trim (cand_content c) \<noteq> [] then Some c else fallback)))"

definition normalized_inspected ::
    "('c, 'k, 'e, 't) inspect_env \<Rightarrow> normalized \<Rightarrow> conversion_method \<Rightarrow> ('k, inspected) session_step" where
  "normalized_inspected W n m =
     (let c = \<lparr>cand_content = nrm_text n, cand_method = m\<rparr> in
      bind_step (inspection_scan W (utf8 (cand_content c))) (\<lambda>_.
        pure_step \<lparr>ins_artifact = nrm_artifact n, ins_media = nrm_media n, ins_candidate = c\<rparr>))"

definition normalized_convert ::
    "('c, 'k, 'e, 't) inspect_env \<Rightarrow> converter list \<Rightarrow> normalized \<Rightarrow> ('k, inspected) session_step" where
  "normalized_convert W chain n =
     (if art_format (nrm_artifact n) = Html then normalized_inspected W n Source
      else if \<not> is_html (nrm_media n) then normalized_inspected W n Passthrough
      else
        bind_step (convert_loop W (nrm_text n) (art_format (nrm_artifact n))
            (signals_of (nrm_text n)) chain None) (\<lambda>c.
          pure_step \<lparr>ins_artifact = nrm_artifact n, ins_media = nrm_media n, ins_candidate = c\<rparr>))"

definition combined :: "web_fetch_data \<Rightarrow> str" where
  "combined d = final_url d @ [10] @ content_type d @ [10] @ data_content d"

definition release ::
    "('c, 'k, 'e, 't) inspect_env \<Rightarrow> inspected \<Rightarrow> ('k, web_fetch_data) session_step" where
  "release W i =
     (let a = ins_artifact i; c = ins_candidate i in
      if length (cand_content c) > MAX_CONTENT_CHARS
        then lift_step (Inl (stop_failed ResponseLimitExceeded))
      else
        bind_step (lift_step (ok_or (stop_failed InternalError)
            (rfc3339_parse (in_time W) (art_retrieved_at a)))) (\<lambda>at.
        bind_step (lift_step (ok_or (stop_failed InternalError)
            (rfc3339_format (in_time W) at))) (\<lambda>formatted.
        let d = \<lparr>source_id = art_source_id a, final_url = art_final_url a,
                 http_status = art_http_status a, content_type = header_value (ins_media i),
                 retrieved_at = formatted, data_format = art_format a,
                 data_method = cand_method c, data_content = cand_content c\<rparr>
        in bind_step (check_deadline W Insp_Failed) (\<lambda>_.
           bind_step (inspection_scan W (utf8 (combined d))) (\<lambda>_.
           bind_step (record_telemetry (\<lambda>t. t\<lparr>tel_content_chars := Some (length (data_content d)),
               tel_conversion_method := Some (data_method d)\<rparr>)) (\<lambda>_.
             pure_step d))))))"

text \<open>The transitions in the only order their types allow.\<close>

definition session_run ::
    "('c, 'k, 'e, 't) inspect_env \<Rightarrow> converter list \<Rightarrow> handed \<Rightarrow> ('k, web_fetch_data) session_step" where
  "session_run W chain handed =
     bind_step (received_open handed) (\<lambda>r.
     bind_step (scan_wire W r) (\<lambda>d.
     bind_step (scan_text W d) (\<lambda>n.
     bind_step (normalized_convert W chain n) (release W))))"

section \<open>One pass\<close>

text \<open>What the engine reports of the n-th input of a session.\<close>

definition session_report ::
    "('c, 'k, 'e, 't) inspect_env \<Rightarrow> 'k inspection \<Rightarrow> nat \<Rightarrow> bytes \<Rightarrow> unit + str list" where
  "session_report W s n data =
     yara_scan (in_yara W) (det_rules (insp_detector s)) (det_config (insp_detector s)) n data"

definition scanned :: "'k inspection \<Rightarrow> bytes list" where
  "scanned s = det_history (insp_detector s)"

text \<open>\<open>passed W inputs s s'\<close>: between \<open>s\<close> and \<open>s'\<close> the engine was given exactly these inputs, and
  reported nothing on any of them.\<close>

definition passed ::
    "('c, 'k, 'e, 't) inspect_env \<Rightarrow> bytes list \<Rightarrow> 'k inspection \<Rightarrow> 'k inspection \<Rightarrow> bool" where
  "passed W inputs s s' \<longleftrightarrow>
     scanned s' = scanned s @ inputs
     \<and> session_report W s' = session_report W s
     \<and> remaining_bytes (insp_detector s') + sum_list (map length inputs) =
         remaining_bytes (insp_detector s)
     \<and> scans (insp_detector s') = scans (insp_detector s) + length inputs
     \<and> list_all (\<lambda>n. session_report W s (length (scanned s) + n) (inputs ! n) = Inr [])
         [0..<length inputs]"

lemma passed_refl:
  "insp_detector s' = insp_detector s \<Longrightarrow> passed W [] s s'"
  by (simp add: passed_def scanned_def session_report_def fun_eq_iff)

lemma passed_trans:
  assumes "passed W xs s t" "passed W ys t u"
  shows "passed W (xs @ ys) s u"
proof -
  have "list_all (\<lambda>n. session_report W s (length (scanned s) + n) ((xs @ ys) ! n) = Inr [])
      [0..<length xs + length ys]"
    unfolding list_all_iff
  proof (intro ballI)
    fix n assume "n \<in> set [0..<length xs + length ys]"
    then show "session_report W s (length (scanned s) + n) ((xs @ ys) ! n) = Inr []"
    proof (cases "n < length xs")
      case False
      with \<open>n \<in> set _\<close> have "n - length xs < length ys" by auto
      with assms have "session_report W t (length (scanned t) + (n - length xs)) (ys ! (n - length xs)) = Inr []"
        by (auto simp: passed_def list_all_iff)
      with assms(1) False show ?thesis by (simp add: passed_def nth_append add.assoc)
    qed (use assms(1) in \<open>auto simp: passed_def list_all_iff nth_append\<close>)
  qed
  with assms show ?thesis by (auto simp: passed_def)
qed

lemma inspection_scan_Ok:
  assumes "inspection_scan W data s = (Inr u, s')"
  shows "passed W [data] s s'"
proof -
  obtain D where run: "detector_scan (in_yara W) data (insp_detector s) = (Inr NoMatch, D)"
    and s': "s' = s\<lparr>insp_detector := D\<rparr>"
    using assms by (auto simp: inspection_scan_def split: prod.splits sum.splits verdict.splits)
  then have "length data \<le> remaining_bytes (insp_detector s)"
      "session_report W s (length (scanned s)) data = Inr []"
    using detector.scan_NoMatch_iff [of "in_yara W" data "insp_detector s"]
    by (auto simp: session_report_def scanned_def)
  with detector_scan_fed [OF _ run] s' show ?thesis
    by (simp add: passed_def scanned_def session_report_def fun_eq_iff)
qed

lemma check_deadline_Ok: "check_deadline W st s = (Inr u, s') \<Longrightarrow> passed W [] s s'"
  by (rule passed_refl) (auto simp: check_deadline_def Let_def split: if_splits)

lemma record_telemetry_Ok: "record_telemetry f s = (r, s') \<Longrightarrow> passed W [] s s'"
  by (rule passed_refl) (auto simp: record_telemetry_def step_simps)

section \<open>What a completed transition has scanned\<close>

lemma received_open_Ok:
  assumes "received_open handed s = (Inr r, s')"
  shows "passed W [] s s'"
    and "handed = Handed_Fetched (rcv_artifact r) (rcv_body r)"
    and "\<exists>declared. art_content_type (rcv_artifact r) = Some declared
      \<and> media_parse declared = Inr (rcv_media r)"
    and "is_supported (rcv_media r)"
  using assms
  by (auto simp: received_open_def step_simps result_iffs record_telemetry_def
      intro: passed_refl split: handed.splits if_splits)

lemma scan_wire_Ok:
  assumes "scan_wire W r s = (Inr d, s')"
  shows "passed W [rcv_body r, utf8 (art_final_url (rcv_artifact r)), utf8 (header_value (rcv_media r))] s s'"
    and "\<exists>bs. decode_content_encoding (in_inflate W) (rcv_body r) (art_content_encoding (rcv_artifact r)) = Inr bs
      \<and> decode_charset (in_charsets W) bs (rcv_media r) = Inr (dec_text d)"
    and "dec_artifact d = rcv_artifact r" "dec_media d = rcv_media r"
proof -
  obtain s1 s2 s3 s4 bs where run: "check_deadline W Insp_NotRun s = (Inr (), s1)"
      "inspection_scan W (rcv_body r) s1 = (Inr (), s2)"
      "inspection_scan W (utf8 (art_final_url (rcv_artifact r))) s2 = (Inr (), s3)"
      "inspection_scan W (utf8 (header_value (rcv_media r))) s3 = (Inr (), s4)"
      "record_telemetry (\<lambda>t. t\<lparr>tel_decoded_bytes := Some (length bs)\<rparr>) s4 = (Inr (), s')"
    and rest: "decode_content_encoding (in_inflate W) (rcv_body r) (art_content_encoding (rcv_artifact r)) = Inr bs"
      "decode_charset (in_charsets W) bs (rcv_media r) = Inr (dec_text d)"
      "dec_artifact d = rcv_artifact r" "dec_media d = rcv_media r"
    using assms by (auto simp: scan_wire_def step_simps result_iffs Let_def)
  show "passed W [rcv_body r, utf8 (art_final_url (rcv_artifact r)), utf8 (header_value (rcv_media r))] s s'"
    using passed_trans [OF check_deadline_Ok [OF run(1)] passed_trans [OF inspection_scan_Ok [OF run(2)]
        passed_trans [OF inspection_scan_Ok [OF run(3)] passed_trans [OF inspection_scan_Ok [OF run(4)]
        record_telemetry_Ok [OF run(5)]]]]] by simp
  show "\<exists>bs. decode_content_encoding (in_inflate W) (rcv_body r) (art_content_encoding (rcv_artifact r)) = Inr bs
      \<and> decode_charset (in_charsets W) bs (rcv_media r) = Inr (dec_text d)"
    using rest by blast
qed (use assms in \<open>auto simp: scan_wire_def step_simps result_iffs Let_def\<close>)

lemma scan_text_Ok:
  assumes "scan_text W d s = (Inr n, s')"
  shows "passed W [utf8 (dec_text d), utf8 (decode_entities (dec_text d)),
      utf8 (deobfuscate (decode_entities (dec_text d)))] s s'"
    and "nrm_artifact n = dec_artifact d" "nrm_media n = dec_media d" "nrm_text n = dec_text d"
proof -
  obtain s1 s2 s3 where run: "check_deadline W Insp_Failed s = (Inr (), s1)"
      "inspection_scan W (utf8 (dec_text d)) s1 = (Inr (), s2)"
      "inspection_scan W (utf8 (decode_entities (dec_text d))) s2 = (Inr (), s3)"
      "inspection_scan W (utf8 (deobfuscate (decode_entities (dec_text d)))) s3 = (Inr (), s')"
    using assms by (auto simp: scan_text_def step_simps Let_def)
  show "passed W [utf8 (dec_text d), utf8 (decode_entities (dec_text d)),
      utf8 (deobfuscate (decode_entities (dec_text d)))] s s'"
    using passed_trans [OF check_deadline_Ok [OF run(1)] passed_trans [OF inspection_scan_Ok [OF run(2)]
        passed_trans [OF inspection_scan_Ok [OF run(3)] inspection_scan_Ok [OF run(4)]]]] by simp
qed (use assms in \<open>auto simp: scan_text_def step_simps Let_def\<close>)

section \<open>The choice of a candidate\<close>

text \<open>
  The candidates a chain can produce, the ones it looks at (up to the first usable one), and
  the one it settles on: the first usable candidate, and if there is none the first that is
  not blank.
\<close>

definition candidates :: "converter list \<Rightarrow> str \<Rightarrow> format \<Rightarrow> candidate list" where
  "candidates chain text fmt = List.map_filter (\<lambda>K. conv_convert K text fmt) chain"

fun tried :: "(candidate \<Rightarrow> bool) \<Rightarrow> candidate list \<Rightarrow> candidate list" where
  "tried usable [] = []"
| "tried usable (c # cs) = (if usable c then [c] else c # tried usable cs)"

definition chosen :: "(candidate \<Rightarrow> bool) \<Rightarrow> candidate list \<Rightarrow> candidate option" where
  "chosen usable cs =
     (case find usable cs of
        Some c \<Rightarrow> Some c
      | None \<Rightarrow> find (\<lambda>c. trim (cand_content c) \<noteq> []) cs)"

lemma tried_none: "find usable cs = None \<Longrightarrow> tried usable cs = cs"
  by (induction cs) (auto split: if_splits)

lemma find_Some_in_tried: "find usable cs = Some c \<Longrightarrow> c \<in> set (tried usable cs)"
  by (induction cs) (auto split: if_splits)

lemma tried_subset: "set (tried usable cs) \<subseteq> set cs"
  by (induction cs) auto

lemma find_in_set: "find P xs = Some x \<Longrightarrow> x \<in> set xs \<and> P x"
  by (induction xs) (auto split: if_splits)

lemma chosen_in_tried: "chosen usable cs = Some c \<Longrightarrow> c \<in> set (tried usable cs)"
  by (cases "find usable cs")
     (auto simp: chosen_def tried_none dest: find_in_set find_Some_in_tried)

lemma candidates_Cons:
  "candidates (K # chain) text fmt =
     (case conv_convert K text fmt of None \<Rightarrow> candidates chain text fmt
      | Some c \<Rightarrow> c # candidates chain text fmt)"
  by (simp add: candidates_def split: option.split)

lemma convert_loop_Ok:
  assumes "convert_loop W text fmt signals chain fallback s = (Inr c, s')"
  defines "usable \<equiv> \<lambda>c. quality (in_convert W) c fmt signals = Usable"
  defines "cs \<equiv> candidates chain text fmt"
  shows "passed W (map (\<lambda>c. utf8 (cand_content c)) (tried usable cs)) s s'
    \<and> Some c = (case find usable cs of Some c \<Rightarrow> Some c
      | None \<Rightarrow> if fallback = None then find (\<lambda>c. trim (cand_content c) \<noteq> []) cs else fallback)"
  using assms(1) unfolding cs_def
proof (induction chain arbitrary: fallback s)
  case Nil
  then show ?case by (auto simp: candidates_def step_simps result_iffs intro: passed_refl)
next
  case (Cons K chain)
  from Cons.prems obtain s1 where "check_deadline W Insp_Failed s = (Inr (), s1)"
    and rest: "(case conv_convert K text fmt of
         None \<Rightarrow> convert_loop W text fmt signals chain fallback
       | Some c \<Rightarrow>
           bind_step (inspection_scan W (utf8 (cand_content c))) (\<lambda>_.
             if quality (in_convert W) c fmt signals = Usable then pure_step c
             else convert_loop W text fmt signals chain
               (if fallback = None \<and> trim (cand_content c) \<noteq> [] then Some c else fallback))) s1
       = (Inr c, s')"
    by (auto simp: step_simps)
  then have pre: "passed W xs s s'" if "passed W xs s1 s'" for xs
    using passed_trans [OF check_deadline_Ok that] by simp
  show ?case
  proof (cases "conv_convert K text fmt")
    case None
    then have cs: "candidates (K # chain) text fmt = candidates chain text fmt"
      by (simp add: candidates_Cons)
    have "convert_loop W text fmt signals chain fallback s1 = (Inr c, s')" using rest None by simp
    from Cons.IH [OF this] pre show ?thesis unfolding cs by blast
  next
    case (Some d)
    then have cs: "candidates (K # chain) text fmt = d # candidates chain text fmt"
      by (simp add: candidates_Cons)
    from Some rest obtain s2 where scan: "inspection_scan W (utf8 (cand_content d)) s1 = (Inr (), s2)"
      and rest: "(if usable d then pure_step d else convert_loop W text fmt signals chain
               (if fallback = None \<and> trim (cand_content d) \<noteq> [] then Some d else fallback)) s2 = (Inr c, s')"
      by (auto simp: step_simps usable_def split: if_splits)
    show ?thesis
    proof (cases "usable d")
      case True
      then have "passed W [utf8 (cand_content d)] s s'"
        using pre inspection_scan_Ok [OF scan] rest by (simp add: step_simps)
      moreover have "c = d" using rest True by (simp add: step_simps)
      ultimately show ?thesis unfolding cs using True by simp
    next
      case False
      with rest have "convert_loop W text fmt signals chain
               (if fallback = None \<and> trim (cand_content d) \<noteq> [] then Some d else fallback) s2 = (Inr c, s')"
        by simp
      note IH = Cons.IH [OF this]
      then have "passed W (utf8 (cand_content d)
          # map (\<lambda>c. utf8 (cand_content c)) (tried usable (candidates chain text fmt))) s s'"
        using pre [OF passed_trans [OF inspection_scan_Ok [OF scan] IH [THEN conjunct1]]] by simp
      with IH False show ?thesis
        unfolding cs by (auto split: option.splits if_splits)
    qed
  qed
qed

text \<open>What \<^verbatim>\<open>convert\<close> scans and settles on, for each way through it.\<close>

definition conversion_candidates ::
    "('c, 'k, 'e, 't) inspect_env \<Rightarrow> converter list \<Rightarrow> fetch_artifact \<Rightarrow> media_type \<Rightarrow> str
       \<Rightarrow> candidate list" where
  "conversion_candidates W chain a media text =
     (if art_format a = Html then [\<lparr>cand_content = text, cand_method = Source\<rparr>]
      else if \<not> is_html media then [\<lparr>cand_content = text, cand_method = Passthrough\<rparr>]
      else tried (\<lambda>c. quality (in_convert W) c (art_format a) (signals_of text) = Usable)
             (candidates chain text (art_format a)))"

definition conversion_result ::
    "('c, 'k, 'e, 't) inspect_env \<Rightarrow> converter list \<Rightarrow> fetch_artifact \<Rightarrow> media_type \<Rightarrow> str
       \<Rightarrow> candidate option" where
  "conversion_result W chain a media text =
     (if art_format a = Html then Some \<lparr>cand_content = text, cand_method = Source\<rparr>
      else if \<not> is_html media then Some \<lparr>cand_content = text, cand_method = Passthrough\<rparr>
      else chosen (\<lambda>c. quality (in_convert W) c (art_format a) (signals_of text) = Usable)
             (candidates chain text (art_format a)))"

lemma conversion_result_tried:
  "conversion_result W chain a media text = Some c \<Longrightarrow>
     c \<in> set (conversion_candidates W chain a media text)"
  by (auto simp: conversion_result_def conversion_candidates_def chosen_in_tried split: if_splits)

lemma normalized_convert_Ok:
  assumes "normalized_convert W chain n s = (Inr i, s')"
  shows "passed W (map (\<lambda>c. utf8 (cand_content c))
      (conversion_candidates W chain (nrm_artifact n) (nrm_media n) (nrm_text n))) s s'"
    and "conversion_result W chain (nrm_artifact n) (nrm_media n) (nrm_text n) = Some (ins_candidate i)"
    and "ins_artifact i = nrm_artifact n" "ins_media i = nrm_media n"
proof -
  let ?a = "nrm_artifact n" and ?media = "nrm_media n" and ?text = "nrm_text n"
  have direct: "passed W [utf8 ?text] s s'
      \<and> i = \<lparr>ins_artifact = ?a, ins_media = ?media, ins_candidate = \<lparr>cand_content = ?text, cand_method = m\<rparr>\<rparr>"
    if "normalized_inspected W n m s = (Inr i, s')" for m
    using that inspection_scan_Ok [of W "utf8 ?text" s _ s']
    by (auto simp: normalized_inspected_def step_simps Let_def)
  have both: "passed W (map (\<lambda>c. utf8 (cand_content c)) (conversion_candidates W chain ?a ?media ?text)) s s'
      \<and> conversion_result W chain ?a ?media ?text = Some (ins_candidate i)
      \<and> ins_artifact i = ?a \<and> ins_media i = ?media"
  proof (cases "art_format ?a = Html \<or> \<not> is_html ?media")
    case True
    then show ?thesis
      using assms direct [of Source] direct [of Passthrough]
      by (auto simp: normalized_convert_def conversion_candidates_def conversion_result_def)
  next
    case False
    with assms obtain c where run: "convert_loop W ?text (art_format ?a) (signals_of ?text) chain None s = (Inr c, s')"
      and i: "i = \<lparr>ins_artifact = ?a, ins_media = ?media, ins_candidate = c\<rparr>"
      by (auto simp: normalized_convert_def step_simps)
    from convert_loop_Ok [OF run] False i show ?thesis
      by (simp add: conversion_candidates_def conversion_result_def chosen_def)
  qed
  then show "passed W (map (\<lambda>c. utf8 (cand_content c)) (conversion_candidates W chain ?a ?media ?text)) s s'"
    and "conversion_result W chain ?a ?media ?text = Some (ins_candidate i)"
    and "ins_artifact i = ?a" "ins_media i = ?media"
    by blast+
qed

definition released ::
    "('c, 'k, 'e, 't) inspect_env \<Rightarrow> fetch_artifact \<Rightarrow> media_type \<Rightarrow> candidate \<Rightarrow> web_fetch_data \<Rightarrow> bool" where
  "released W a media c d \<longleftrightarrow>
     length (cand_content c) \<le> MAX_CONTENT_CHARS
     \<and> (\<exists>at. rfc3339_parse (in_time W) (art_retrieved_at a) = Some at
          \<and> rfc3339_format (in_time W) at = Some (retrieved_at d))
     \<and> source_id d = art_source_id a \<and> final_url d = art_final_url a
     \<and> http_status d = art_http_status a \<and> content_type d = header_value media
     \<and> data_format d = art_format a \<and> data_method d = cand_method c
     \<and> data_content d = cand_content c"

lemma release_Ok:
  assumes "release W i s = (Inr d, s')"
  shows "passed W [utf8 (combined d)] s s'"
    and "released W (ins_artifact i) (ins_media i) (ins_candidate i) d"
proof -
  obtain s1 s2 f where run: "check_deadline W Insp_Failed s = (Inr (), s1)"
      "inspection_scan W (utf8 (combined d)) s1 = (Inr (), s2)" "record_telemetry f s2 = (Inr (), s')"
    using assms
    by (auto simp: release_def step_simps result_iffs Let_def split: if_splits)
  show "passed W [utf8 (combined d)] s s'"
    using passed_trans [OF check_deadline_Ok [OF run(1)]
        passed_trans [OF inspection_scan_Ok [OF run(2)] record_telemetry_Ok [OF run(3)]]] by simp
  show "released W (ins_artifact i) (ins_media i) (ins_candidate i) d"
    using assms
    by (auto simp: release_def released_def step_simps result_iffs Let_def split: if_splits)
qed

end
