(* ===== verification/Session_Facts.thy ===== *)
theory Session_Facts
  imports Session
begin

text \<open>
  What the session guarantees: data is released only after every required pass, a match
  anywhere rejects, the budget is conserved, and a clean response that fits is released.
\<close>

section \<open>The required passes\<close>

definition required_inputs ::
    "('c, 'k, 'e, 't) inspect_env \<Rightarrow> converter list \<Rightarrow> fetch_artifact \<Rightarrow> media_type \<Rightarrow> bytes \<Rightarrow> str
       \<Rightarrow> web_fetch_data \<Rightarrow> bytes list" where
  "required_inputs W chain a media body seen d =
     [body, utf8 (art_final_url a), utf8 (header_value media), utf8 seen,
      utf8 (decode_entities seen), utf8 (deobfuscate (decode_entities seen))]
     @ map (\<lambda>c. utf8 (cand_content c)) (conversion_candidates W chain a media seen)
     @ [utf8 (combined d)]"

lemma session_run_Ok:
  assumes "session_run W chain handed s = (Inr d, s')"
  obtains a body declared media decoded_bytes seen c where
    "handed = Handed_Fetched a body" "art_content_type a = Some declared"
    "media_parse declared = Inr media" "is_supported media"
    "decode_content_encoding (in_inflate W) body (art_content_encoding a) = Inr decoded_bytes"
    "decode_charset (in_charsets W) decoded_bytes media = Inr seen"
    "conversion_result W chain a media seen = Some c" "released W a media c d"
    "passed W (required_inputs W chain a media body seen d) s s'"
proof -
  from assms obtain r s1 e s2 n s3 i s4 where run:
    "received_open handed s = (Inr r, s1)" "scan_wire W r s1 = (Inr e, s2)"
    "scan_text W e s2 = (Inr n, s3)" "normalized_convert W chain n s3 = (Inr i, s4)"
    "release W i s4 = (Inr d, s')"
    by (auto simp: session_run_def step_simps)
  note [simp] = scan_wire_Ok(3,4) [OF run(2)] scan_text_Ok(2,3,4) [OF run(3)]
    normalized_convert_Ok(3,4) [OF run(4)]
  from scan_wire_Ok(2) [OF run(2)] obtain bs where
    "decode_content_encoding (in_inflate W) (rcv_body r) (art_content_encoding (rcv_artifact r)) = Inr bs"
    "decode_charset (in_charsets W) bs (rcv_media r) = Inr (dec_text e)"
    by blast
  moreover from received_open_Ok(3) [OF run(1)] obtain declared where
    "art_content_type (rcv_artifact r) = Some declared" "media_parse declared = Inr (rcv_media r)"
    by blast
  moreover have "passed W (required_inputs W chain (rcv_artifact r) (rcv_media r) (rcv_body r) (dec_text e) d) s s'"
    using passed_trans [OF received_open_Ok(1) [OF run(1)] passed_trans [OF scan_wire_Ok(1) [OF run(2)]
        passed_trans [OF scan_text_Ok(1) [OF run(3)] passed_trans [OF normalized_convert_Ok(1) [OF run(4)]
        release_Ok(1) [OF run(5)]]]]]
    by (simp add: required_inputs_def)
  ultimately show thesis
    using that received_open_Ok(2,4) [OF run(1)] normalized_convert_Ok(2) [OF run(4)]
      release_Ok(2) [OF run(5)] by simp
qed

text \<open>C3: nothing is released that was not scanned. When a session yields data, the handoff held
  a response of a supported media type that decoded to a text, and the engine was given, in
  this order and with no report on any of them: the body as it arrived, the final URL, the media
  type, the decoded text, its entity-decoded and folded views, every candidate the conversion
  looked at, and the returned fields together. The returned content is one of those candidates,
  and the other fields are the artifact's.\<close>

theorem released_after_every_pass:
  assumes "session_run W chain handed s = (Inr d, s')"
  shows "\<exists>a body declared media decoded_bytes seen c.
    handed = Handed_Fetched a body
    \<and> art_content_type a = Some declared \<and> media_parse declared = Inr media \<and> is_supported media
    \<and> decode_content_encoding (in_inflate W) body (art_content_encoding a) = Inr decoded_bytes
    \<and> decode_charset (in_charsets W) decoded_bytes media = Inr seen
    \<and> released W a media c d
    \<and> c \<in> set (conversion_candidates W chain a media seen)
    \<and> passed W ([body, utf8 (final_url d), utf8 (content_type d), utf8 seen,
         utf8 (decode_entities seen), utf8 (deobfuscate (decode_entities seen))]
         @ map (\<lambda>c. utf8 (cand_content c)) (conversion_candidates W chain a media seen)
         @ [utf8 (final_url d @ [10] @ content_type d @ [10] @ data_content d)]) s s'"
  using assms
proof (rule session_run_Ok)
  fix a body declared media decoded_bytes seen c
  assume run: "handed = Handed_Fetched a body" "art_content_type a = Some declared"
    "media_parse declared = Inr media" "is_supported media"
    "decode_content_encoding (in_inflate W) body (art_content_encoding a) = Inr decoded_bytes"
    "decode_charset (in_charsets W) decoded_bytes media = Inr seen"
    "conversion_result W chain a media seen = Some c" "released W a media c d"
    "passed W (required_inputs W chain a media body seen d) s s'"
  have "final_url d = art_final_url a" "content_type d = header_value media"
    using run(8) by (simp_all add: released_def)
  with run(9) have "passed W ([body, utf8 (final_url d), utf8 (content_type d), utf8 seen,
         utf8 (decode_entities seen), utf8 (deobfuscate (decode_entities seen))]
         @ map (\<lambda>c. utf8 (cand_content c)) (conversion_candidates W chain a media seen)
         @ [utf8 (final_url d @ [10] @ content_type d @ [10] @ data_content d)]) s s'"
    by (simp add: required_inputs_def combined_def)
  with run(1-8) conversion_result_tried [OF run(7)] show ?thesis by blast
qed

section \<open>A match anywhere rejects\<close>

definition quiet_session :: "('c, 'k, 'e, 't) inspect_env \<Rightarrow> 'k inspection \<Rightarrow> bool" where
  "quiet_session W s \<longleftrightarrow>
     (\<forall>n < length (scanned s). \<nexists>rules. session_report W s n (scanned s ! n) = Inr rules \<and> rules \<noteq> [])"

definition loud_session :: "('c, 'k, 'e, 't) inspect_env \<Rightarrow> 'k inspection \<Rightarrow> bool" where
  "loud_session W s \<longleftrightarrow> scanned s \<noteq> [] \<and>
     (\<forall>n < length (scanned s).
        (\<exists>rules. session_report W s n (scanned s ! n) = Inr rules \<and> rules \<noteq> [])
          \<longleftrightarrow> Suc n = length (scanned s))"

lemma quiet_detector:
  "quiet_session (W :: ('c, 'k, 'e, 't) inspect_env) s \<longleftrightarrow>
     detector.quiet TYPE('c) (in_yara W) (insp_detector s)"
  by (simp add: quiet_session_def detector.quiet_def detector.hits_def scanned_def session_report_def)

lemma loud_detector:
  "loud_session (W :: ('c, 'k, 'e, 't) inspect_env) s \<longleftrightarrow>
     detector.loud TYPE('c) (in_yara W) (insp_detector s)"
  by (auto simp: loud_session_def detector.loud_def detector.hits_def scanned_def session_report_def)

text \<open>How a stop must agree with the history.\<close>

definition stop_agrees :: "('c, 'k, 'e, 't) inspect_env \<Rightarrow> 'k inspection \<Rightarrow> stop \<Rightarrow> bool" where
  "stop_agrees W s e \<longleftrightarrow>
     (if stop_status e = Insp_Match
      then loud_session W s \<and> stop_code e = ContentRejected \<and> stop_matched e \<noteq> []
      else quiet_session W s \<and> stop_matched e = [])"

definition disciplined :: "('c, 'k, 'e, 't) inspect_env \<Rightarrow> ('k, 'a) session_step \<Rightarrow> bool" where
  "disciplined W m \<longleftrightarrow>
     (\<forall>s r s'. quiet_session W s \<longrightarrow> m s = (r, s') \<longrightarrow>
        (case r of Inr _ \<Rightarrow> quiet_session W s' | Inl e \<Rightarrow> stop_agrees W s' e))"

named_theorems disciplined_intros

lemma disciplined_pure [disciplined_intros]: "disciplined W (pure_step a)"
  by (simp add: disciplined_def step_simps)

lemma disciplined_lift [disciplined_intros]:
  "(\<And>e. m = Inl e \<Longrightarrow> stop_status e \<noteq> Insp_Match \<and> stop_matched e = []) \<Longrightarrow> disciplined W (lift_step m)"
  by (auto simp: disciplined_def step_simps stop_agrees_def split: sum.splits)

lemma disciplined_bind [disciplined_intros]:
  "disciplined W m \<Longrightarrow> (\<And>a. disciplined W (f a)) \<Longrightarrow> disciplined W (bind_step m f)"
  unfolding disciplined_def
proof (intro allI impI)
  fix s r s'
  assume m: "\<forall>s r s'. quiet_session W s \<longrightarrow> m s = (r, s') \<longrightarrow>
        (case r of Inr _ \<Rightarrow> quiet_session W s' | Inl e \<Rightarrow> stop_agrees W s' e)"
    and f: "\<And>a. \<forall>s r s'. quiet_session W s \<longrightarrow> f a s = (r, s') \<longrightarrow>
        (case r of Inr _ \<Rightarrow> quiet_session W s' | Inl e \<Rightarrow> stop_agrees W s' e)"
    and q: "quiet_session W s" and run: "bind_step m f s = (r, s')"
  obtain r1 s1 where first: "m s = (r1, s1)" by (cases "m s")
  with m q have "case r1 of Inr _ \<Rightarrow> quiet_session W s1 | Inl e \<Rightarrow> stop_agrees W s1 e" by blast
  then show "case r of Inr _ \<Rightarrow> quiet_session W s' | Inl e \<Rightarrow> stop_agrees W s' e"
    using f run first by (cases r1) (auto simp: bind_step_def)
qed

lemma disciplined_if [disciplined_intros]:
  "disciplined W m \<Longrightarrow> disciplined W m' \<Longrightarrow> disciplined W (if b then m else m')"
  by simp

lemma disciplined_telemetry [disciplined_intros]: "disciplined W (record_telemetry f)"
  by (auto simp: disciplined_def record_telemetry_def step_simps quiet_session_def scanned_def
      session_report_def)

lemma disciplined_deadline [disciplined_intros]:
  "st \<noteq> Insp_Match \<Longrightarrow> disciplined W (check_deadline W st)"
  by (auto simp: disciplined_def check_deadline_def Let_def stop_agrees_def quiet_session_def
      scanned_def session_report_def split: if_splits)

lemma disciplined_scan [disciplined_intros]: "disciplined W (inspection_scan W data)"
  unfolding disciplined_def
proof (intro allI impI)
  fix s r s'
  assume q: "quiet_session W s" and run: "inspection_scan W data s = (r, s')"
  obtain v D where scan: "detector_scan (in_yara W) data (insp_detector s) = (v, D)"
    by (cases "detector_scan (in_yara W) data (insp_detector s)")
  from detector.scan_verdict [OF q [unfolded quiet_detector] scan]
  show "case r of Inr _ \<Rightarrow> quiet_session W s' | Inl e \<Rightarrow> stop_agrees W s' e"
    using run scan
    by (auto simp: inspection_scan_def stop_agrees_def quiet_detector loud_detector stop_from_def
        stop_failed_def stop_rejected_def split: sum.splits verdict.splits)
qed

lemma stop_not_run_fields [simp]:
  "stop_status (stop_not_run c) = Insp_NotRun" "stop_matched (stop_not_run c) = []"
  "stop_status (stop_failed c) = Insp_Failed" "stop_matched (stop_failed c) = []"
  by (simp_all add: stop_not_run_def stop_failed_def)

lemma disciplined_open: "disciplined W (received_open handed)"
  unfolding received_open_def
  by (auto simp: result_iffs split: handed.split if_splits intro!: disciplined_intros)

lemma disciplined_wire: "disciplined W (scan_wire W r)"
  unfolding scan_wire_def Let_def by (intro disciplined_intros) (auto simp: result_iffs)

lemma disciplined_text: "disciplined W (scan_text W d)"
  unfolding scan_text_def Let_def by (intro disciplined_intros) auto

lemma disciplined_loop: "disciplined W (convert_loop W seen fmt signals chain fallback)"
proof (induction chain arbitrary: fallback)
  case Nil
  show ?case by (auto simp: result_iffs intro!: disciplined_intros)
next
  case (Cons K chain)
  then show ?case
    by (auto intro!: disciplined_intros split: option.split)
qed

lemma disciplined_convert: "disciplined W (normalized_convert W chain n)"
  unfolding normalized_convert_def normalized_inspected_def Let_def
  by (intro disciplined_intros disciplined_loop)

lemma disciplined_release: "disciplined W (release W i)"
  unfolding release_def Let_def by (intro disciplined_intros) (auto simp: result_iffs)

lemma disciplined_run: "disciplined W (session_run W chain handed)"
  unfolding session_run_def
  by (intro disciplined_intros disciplined_open disciplined_wire disciplined_text
      disciplined_convert disciplined_release)

text \<open>C0: a match in any pass rejects the response, and nothing else does. In a session that has
  scanned nothing yet, if the run releases data, or stops for any reason but a match, the engine
  reported a rule for none of the inputs it was given; if the run stops with a match, the engine
  reported a rule for the last of its inputs and for no earlier one, the code is
  \<^verbatim>\<open>content_rejected\<close> and the rules are named. So no match is ever passed over, whatever a later
  converter would have dropped.\<close>

theorem match_always_rejects:
  assumes "scanned s = []" "session_run W chain handed s = (r, s')"
  shows "case r of
      Inr d \<Rightarrow> quiet_session W s'
    | Inl e \<Rightarrow>
        if stop_status e = Insp_Match
        then loud_session W s' \<and> stop_code e = ContentRejected \<and> stop_matched e \<noteq> []
        else quiet_session W s' \<and> stop_matched e = []"
proof -
  have "quiet_session W s" using assms(1) by (simp add: quiet_session_def)
  with disciplined_run [of W chain handed] assms(2)
  have "case r of Inr _ \<Rightarrow> quiet_session W s' | Inl e \<Rightarrow> stop_agrees W s' e"
    unfolding disciplined_def by blast
  then show ?thesis by (simp only: stop_agrees_def)
qed

section \<open>The budget and the history of a session\<close>

text \<open>What any part of a session does to the scanner: it only adds inputs, pays for each and
  counts it.\<close>

definition spends :: "'k inspection \<Rightarrow> 'k inspection \<Rightarrow> bool" where
  "spends s t \<longleftrightarrow>
     (\<exists>later. scanned t = scanned s @ later
        \<and> remaining_bytes (insp_detector t) + sum_list (map length later) = remaining_bytes (insp_detector s)
        \<and> scans (insp_detector t) = scans (insp_detector s) + length later)
     \<and> insp_deadline t = insp_deadline s"

interpretation spending: step_relation spends
proof
  show "spends s s" for s :: "'k inspection" by (simp add: spends_def)
  show "spends s u" if st: "spends s t" and tu: "spends t u" for s t u :: "'k inspection"
  proof -
    from st obtain xs where "scanned t = scanned s @ xs"
      "remaining_bytes (insp_detector t) + sum_list (map length xs) = remaining_bytes (insp_detector s)"
      "scans (insp_detector t) = scans (insp_detector s) + length xs" "insp_deadline t = insp_deadline s"
      by (auto simp: spends_def)
    moreover from tu obtain ys where "scanned u = scanned t @ ys"
      "remaining_bytes (insp_detector u) + sum_list (map length ys) = remaining_bytes (insp_detector t)"
      "scans (insp_detector u) = scans (insp_detector t) + length ys" "insp_deadline u = insp_deadline t"
      by (auto simp: spends_def)
    ultimately show ?thesis
      unfolding spends_def by (intro conjI exI [of _ "xs @ ys"]) simp_all
  qed
qed

lemma spends_scan [intro]: "spending.keeps (inspection_scan W data)"
proof (rule spending.keepsI)
  fix s r t
  assume run: "inspection_scan W data s = (r, t)"
  obtain v D where scan: "detector_scan (in_yara W) data (insp_detector s) = (v, D)"
    by (cases "detector_scan (in_yara W) data (insp_detector s)")
  with run have t: "t = s\<lparr>insp_detector := D\<rparr>"
    by (auto simp: inspection_scan_def split: sum.splits verdict.splits)
  show "spends s t"
  proof (cases "length data \<le> remaining_bytes (insp_detector s)")
    case True
    from detector_scan_fed [OF this scan] True show ?thesis
      by (auto simp: t spends_def scanned_def)
  next
    case False
    then have "D = insp_detector s" using detector_scan_over [of "insp_detector s" data "in_yara W"] scan by auto
    then show ?thesis by (auto simp: t spends_def scanned_def)
  qed
qed

lemma spends_deadline [intro]: "spending.keeps (check_deadline W st)"
  by (rule spending.keepsI) (auto simp: check_deadline_def Let_def spends_def scanned_def split: if_splits)

lemma spends_telemetry [intro]: "spending.keeps (record_telemetry f)"
  by (rule spending.keepsI) (auto simp: record_telemetry_def step_simps spends_def scanned_def)

lemmas spends_rules = spending.keeps_bind spending.keeps_pure spending.keeps_lift
  spends_scan spends_deadline spends_telemetry

lemma spends_loop: "spending.keeps (convert_loop W seen fmt signals chain fallback)"
  by (induction chain arbitrary: fallback) (auto split: option.split intro!: spends_rules)

lemma spends_transitions:
  "spending.keeps (received_open handed)" "spending.keeps (scan_wire W r)"
  "spending.keeps (scan_text W d)" "spending.keeps (normalized_inspected W n m)"
  "spending.keeps (release W i)"
  by (auto simp: received_open_def scan_wire_def scan_text_def normalized_inspected_def
      release_def Let_def split: handed.split intro!: spends_rules)

lemma spends_convert: "spending.keeps (normalized_convert W chain n)"
  by (auto simp: normalized_convert_def intro!: spends_rules spends_loop spends_transitions)

lemma spends_run: "spending.keeps (session_run W chain handed)"
  unfolding session_run_def by (intro spends_rules spends_transitions spends_convert)

section \<open>A clean response that fits is released\<close>

text \<open>The clock never reaches the deadline, the engine has nothing to report, and \<open>n\<close> bytes of
  budget are left.\<close>

definition ready :: "('c, 'k, 'e, 't) inspect_env \<Rightarrow> nat \<Rightarrow> 'k inspection \<Rightarrow> bool" where
  "ready W n s \<longleftrightarrow>
     (\<forall>k. in_elapsed W k < insp_deadline s)
     \<and> (\<forall>k data. session_report W s k data = Inr [])
     \<and> n \<le> remaining_bytes (insp_detector s)"

text \<open>\<open>succeeds W m n x\<close>: with \<open>n\<close> bytes to spend, and any \<open>k\<close> left over for later, \<open>m\<close> returns
  \<open>x\<close>.\<close>

definition succeeds :: "('c, 'k, 'e, 't) inspect_env \<Rightarrow> ('k, 'a) session_step \<Rightarrow> nat \<Rightarrow> 'a \<Rightarrow> bool" where
  "succeeds W m n x \<longleftrightarrow>
     (\<forall>s k. ready W (n + k) s \<longrightarrow> (\<exists>s'. m s = (Inr x, s') \<and> ready W k s'))"

lemma succeeds_pure: "succeeds W (pure_step x) 0 x"
  by (auto simp: succeeds_def step_simps)

lemma succeeds_lift: "m = Inr x \<Longrightarrow> succeeds W (lift_step m) 0 x"
  by (auto simp: succeeds_def step_simps)

lemma succeeds_bind:
  assumes "succeeds W m n x" "succeeds W (f x) n' y"
  shows "succeeds W (bind_step m f) (n + n') y"
  unfolding succeeds_def
proof (intro allI impI)
  fix s k assume "ready W (n + n' + k) s"
  then obtain s1 where "m s = (Inr x, s1)" "ready W (n' + k) s1"
    using assms(1) by (auto simp: succeeds_def add.assoc)
  moreover from this obtain s2 where "f x s1 = (Inr y, s2)" "ready W k s2"
    using assms(2) by (auto simp: succeeds_def)
  ultimately show "\<exists>s'. bind_step m f s = (Inr y, s') \<and> ready W k s'"
    by (auto simp: bind_step_def)
qed

lemma succeeds_telemetry: "succeeds W (record_telemetry f) 0 ()"
  by (auto simp: succeeds_def record_telemetry_def step_simps ready_def session_report_def)

lemma succeeds_deadline: "succeeds W (check_deadline W st) 0 ()"
  by (simp add: succeeds_def check_deadline_def ready_def session_report_def Let_def not_le [symmetric])

lemma succeeds_scan: "succeeds W (inspection_scan W data) (length data) ()"
  unfolding succeeds_def
proof (intro allI impI)
  fix s k assume r: "ready W (length data + k) s"
  then obtain D where D: "detector_scan (in_yara W) data (insp_detector s) = (Inr NoMatch, D)"
    using detector.scan_NoMatch_iff [of "in_yara W" data "insp_detector s"]
    by (auto simp: ready_def session_report_def)
  have "length data \<le> remaining_bytes (insp_detector s)" using r by (simp add: ready_def)
  from detector_scan_fed [OF this D] r D
  show "\<exists>s'. inspection_scan W data s = (Inr (), s') \<and> ready W k s'"
    by (auto simp: inspection_scan_def ready_def session_report_def)
qed

lemma succeeds_loop:
  assumes "(case find (\<lambda>c. quality (in_convert W) c fmt signals = Usable) (candidates chain seen fmt) of
        Some c \<Rightarrow> Some c
      | None \<Rightarrow> if fallback = None then find (\<lambda>c. trim (cand_content c) \<noteq> []) (candidates chain seen fmt)
               else fallback) = Some c"
  shows "succeeds W (convert_loop W seen fmt signals chain fallback)
     (sum_list (map (\<lambda>c. byte_len (cand_content c))
        (tried (\<lambda>c. quality (in_convert W) c fmt signals = Usable) (candidates chain seen fmt)))) c"
  using assms
proof (induction chain arbitrary: fallback)
  case Nil
  then have "fallback = Some c" by (simp add: candidates_def split: if_splits)
  then show ?case by (auto simp: candidates_def intro: succeeds_lift)
next
  case (Cons K chain)
  let ?usable = "\<lambda>c. quality (in_convert W) c fmt signals = Usable"
  show ?case
  proof (cases "conv_convert K seen fmt")
    case None
    then have cs: "candidates (K # chain) seen fmt = candidates chain seen fmt"
      by (simp add: candidates_Cons)
    show ?thesis
      using succeeds_bind [OF succeeds_deadline, of W _ _ c Insp_Failed] Cons None
      unfolding cs by simp
  next
    case (Some d)
    then have cs: "candidates (K # chain) seen fmt = d # candidates chain seen fmt"
      by (simp add: candidates_Cons)
    show ?thesis
    proof (cases "?usable d")
      case True
      then have "c = d" using Cons.prems unfolding cs by simp
      have "succeeds W (bind_step (inspection_scan W (utf8 (cand_content d)))
          (\<lambda>_. if ?usable d then pure_step d else m)) (length (utf8 (cand_content d)) + 0) d" for m
        by (rule succeeds_bind [OF succeeds_scan]) (simp add: True succeeds_pure)
      from succeeds_bind [OF succeeds_deadline this] Some True \<open>c = d\<close> show ?thesis
        unfolding cs by simp
    next
      case False
      let ?fallback = "if fallback = None \<and> trim (cand_content d) \<noteq> [] then Some d else fallback"
      have "succeeds W (convert_loop W seen fmt signals chain ?fallback)
        (sum_list (map (\<lambda>c. byte_len (cand_content c)) (tried ?usable (candidates chain seen fmt)))) c"
        using Cons.prems False unfolding cs by (intro Cons.IH) (auto split: option.splits if_splits)
      then have "succeeds W (bind_step (check_deadline W Insp_Failed) (\<lambda>_.
          bind_step (inspection_scan W (utf8 (cand_content d)))
            (\<lambda>_. convert_loop W seen fmt signals chain ?fallback)))
          (0 + (length (utf8 (cand_content d)) + sum_list (map (\<lambda>c. byte_len (cand_content c))
             (tried ?usable (candidates chain seen fmt))))) c"
        by (rule succeeds_bind [OF succeeds_deadline succeeds_bind [OF succeeds_scan]])
      then show ?thesis using Some False unfolding cs by simp
    qed
  qed
qed

lemmas succeeds_rules = succeeds_bind succeeds_deadline succeeds_scan succeeds_telemetry
  succeeds_pure

lemma succeeds_eq: "succeeds W m n x \<Longrightarrow> n = n' \<Longrightarrow> succeeds W m n' x"
  by simp

lemma succeeds_convert:
  assumes "conversion_result W chain (nrm_artifact n) (nrm_media n) (nrm_text n) = Some c"
  shows "succeeds W (normalized_convert W chain n)
     (sum_list (map (\<lambda>c. byte_len (cand_content c))
        (conversion_candidates W chain (nrm_artifact n) (nrm_media n) (nrm_text n))))
     \<lparr>ins_artifact = nrm_artifact n, ins_media = nrm_media n, ins_candidate = c\<rparr>"
proof -
  have direct: "succeeds W (normalized_inspected W n m) (byte_len (nrm_text n))
      \<lparr>ins_artifact = nrm_artifact n, ins_media = nrm_media n,
       ins_candidate = \<lparr>cand_content = nrm_text n, cand_method = m\<rparr>\<rparr>" for m
    unfolding normalized_inspected_def Let_def
    by (rule succeeds_eq, (rule succeeds_rules)+) simp
  show ?thesis
  proof (cases "art_format (nrm_artifact n) = Html \<or> \<not> is_html (nrm_media n)")
    case True
    then show ?thesis
      using assms direct [of Source] direct [of Passthrough]
      by (auto simp: normalized_convert_def conversion_candidates_def conversion_result_def)
  next
    case False
    from assms False have "succeeds W (convert_loop W (nrm_text n) (art_format (nrm_artifact n))
        (signals_of (nrm_text n)) chain None)
        (sum_list (map (\<lambda>c. byte_len (cand_content c))
          (conversion_candidates W chain (nrm_artifact n) (nrm_media n) (nrm_text n)))) c"
      using succeeds_loop [where W = W and chain = chain and fallback = None and c = c
          and fmt = "art_format (nrm_artifact n)" and signals = "signals_of (nrm_text n)" and seen = "nrm_text n"]
      by (simp add: conversion_candidates_def conversion_result_def chosen_def)
    from succeeds_bind [OF this succeeds_pure] False show ?thesis
      by (simp add: normalized_convert_def)
  qed
qed

lemma clean_run:
  assumes "ready W (sum_list (map length (required_inputs W chain a media body seen d))) s"
    and "art_content_type a = Some declared" "media_parse declared = Inr media" "is_supported media"
    and "decode_content_encoding (in_inflate W) body (art_content_encoding a) = Inr decoded_bytes"
    and "decode_charset (in_charsets W) decoded_bytes media = Inr seen"
    and "conversion_result W chain a media seen = Some c" and "released W a media c d"
  shows "\<exists>s'. session_run W chain (Handed_Fetched a body) s = (Inr d, s')"
proof -
  let ?r = "\<lparr>rcv_artifact = a, rcv_media = media, rcv_body = body\<rparr>"
  let ?d = "\<lparr>dec_artifact = a, dec_media = media, dec_text = seen\<rparr>"
  let ?n = "\<lparr>nrm_artifact = a, nrm_media = media, nrm_text = seen\<rparr>"
  let ?i = "\<lparr>ins_artifact = a, ins_media = media, ins_candidate = c\<rparr>"
  let ?out = "\<lparr>source_id = art_source_id a, final_url = art_final_url a,
      http_status = art_http_status a, content_type = header_value media,
      retrieved_at = retrieved_at d, data_format = art_format a,
      data_method = cand_method c, data_content = cand_content c\<rparr>"
  have 1: "succeeds W (received_open (Handed_Fetched a body)) 0 ?r"
    using assms(2,3,4) by (simp add: received_open_def) (rule succeeds_eq, (rule succeeds_rules | (rule succeeds_lift, simp))+, simp)
  have 2: "succeeds W (scan_wire W ?r)
      (length body + (byte_len (art_final_url a) + byte_len (header_value media))) ?d"
    using assms(5,6) by (simp add: scan_wire_def Let_def) (rule succeeds_eq, (rule succeeds_rules | (rule succeeds_lift, simp))+, simp)
  have 3: "succeeds W (scan_text W ?d)
      (byte_len seen + (byte_len (decode_entities seen) + byte_len (deobfuscate (decode_entities seen)))) ?n"
    by (simp add: scan_text_def Let_def) (rule succeeds_eq, (rule succeeds_rules | (rule succeeds_lift, simp))+, simp)
  have 4: "succeeds W (normalized_convert W chain ?n)
     (sum_list (map (\<lambda>c. byte_len (cand_content c)) (conversion_candidates W chain a media seen))) ?i"
    using succeeds_convert [of W chain ?n c] assms(7) by simp
  from assms(8) obtain at where "rfc3339_parse (in_time W) (art_retrieved_at a) = Some at"
    "rfc3339_format (in_time W) at = Some (retrieved_at d)" "\<not> length (cand_content c) > MAX_CONTENT_CHARS"
    by (auto simp: released_def)
  then have "succeeds W (release W ?i) (byte_len (combined ?out)) ?out"
    by (simp add: release_def Let_def) (rule succeeds_eq, (rule succeeds_rules | (rule succeeds_lift, simp))+, simp)
  moreover have "?out = d"
    using assms(8) by (simp add: released_def)
  ultimately have 5: "succeeds W (release W ?i) (byte_len (combined d)) d" by simp
  have "succeeds W (session_run W chain (Handed_Fetched a body))
      (sum_list (map length (required_inputs W chain a media body seen d))) d"
    unfolding session_run_def
    by (rule succeeds_eq, (rule succeeds_bind 1 2 3 4 5)+) (simp add: required_inputs_def comp_def)
  then show ?thesis using assms(1) unfolding succeeds_def by (metis add.right_neutral)
qed

section \<open>An example session\<close>

text \<open>An engine with one rule, which matches the inputs \<open>bad\<close> picks.\<close>

definition example_yara :: "(bytes \<Rightarrow> bool) \<Rightarrow> (unit, unit) yara_lib" where
  "example_yara bad =
     \<lparr>compiler_new = (), enable_includes = (\<lambda>c _. c), add_source = (\<lambda>c _. Inr c),
      compiler_build = (\<lambda>c. c),
      yara_scan = (\<lambda>_ _ _ data. if bad data then Inr [lit ''injection''] else Inr [])\<rparr>"

definition example_bundle :: "unit rule_bundle" where
  "example_bundle =
     \<lparr>bundle_policy_id = lit ''rules'', bundle_policy_digest = lit ''00'', bundle_rule_count = 1,
      bundle_rules = ()\<rparr>"

definition example_inspect :: "(bytes \<Rightarrow> bool) \<Rightarrow> (unit, unit, unit, str) inspect_env" where
  "example_inspect bad =
     \<lparr>in_yara = example_yara bad, in_elapsed = (\<lambda>_. 0),
      in_inflate = \<lparr>gz_decoder = (\<lambda>_. \<lparr>yields = [], breaks = True\<rparr>),
                    zlib_decoder = (\<lambda>_. \<lparr>yields = [], breaks = True\<rparr>)\<rparr>,
      in_charsets = utf8_only, in_convert = ascii_lib, in_time = example_time_lib\<rparr>"

definition example_session :: "unit inspection" where
  "example_session = session_new (bundle_detector example_bundle) (from_secs 5)"

definition page_artifact :: "str \<Rightarrow> fetch_artifact" where
  "page_artifact seen =
     \<lparr>artifact_version = ARTIFACT_VERSION, art_run_id = lit ''run'', art_source_id = lit ''source-1'',
      requested_url_sha256 = lit ''00'', art_final_url = lit ''https://a/'', art_http_status = 200,
      art_content_type = Some (lit ''text/plain''), art_content_encoding = None, art_redirects = 0,
      art_retrieved_at = lit ''now'', art_format = Text, body_bytes = byte_len seen,
      body_sha256 = to_hex (take 1 (utf8 seen)), policy_profile = lit ''test''\<rparr>"

definition plain_media :: media_type where
  "plain_media = \<lparr>essence = lit ''text/plain'', charset = None\<rparr>"

definition page_data :: "str \<Rightarrow> web_fetch_data" where
  "page_data seen =
     \<lparr>source_id = lit ''source-1'', final_url = lit ''https://a/'', http_status = 200,
      content_type = lit ''text/plain'', retrieved_at = lit ''now'', data_format = Text,
      data_method = Passthrough, data_content = seen\<rparr>"

lemma plain_media_parsed:
  "media_parse (lit ''text/plain'') = Inr plain_media" "is_supported plain_media"
  "\<not> is_html plain_media" "header_value plain_media = lit ''text/plain''"
  by (simp_all add: media_parse_def plain_media_def is_supported_def SUPPORTED_MEDIA_TYPES_def
      is_html_def header_value_def Let_def text_eval)

lemma example_page_released:
  assumes "valid_str seen" "length seen \<le> MAX_CONTENT_CHARS"
  shows "released (example_inspect bad) (page_artifact seen) plain_media
      \<lparr>cand_content = seen, cand_method = Passthrough\<rparr> (page_data seen)"
    and "conversion_result (example_inspect bad) chain (page_artifact seen) plain_media seen =
      Some \<lparr>cand_content = seen, cand_method = Passthrough\<rparr>"
    and "conversion_candidates (example_inspect bad) chain (page_artifact seen) plain_media seen =
      [\<lparr>cand_content = seen, cand_method = Passthrough\<rparr>]"
    and "decode_charset (in_charsets (example_inspect bad)) (utf8 seen) plain_media = Inr seen"
  using assms decode_charset_utf8 [OF utf8_only_lawful, of plain_media "utf8 seen"]
  by (simp_all add: released_def page_artifact_def page_data_def plain_media_parsed
      example_inspect_def example_time_lib_def conversion_result_def conversion_candidates_def)
     (simp add: plain_media_def)

lemma example_page_decoded:
  "byte_len seen \<le> MAX_DECODED_BYTES \<Longrightarrow>
     decode_content_encoding (in_inflate (example_inspect bad)) (utf8 seen)
       (art_content_encoding (page_artifact seen)) = Inr (utf8 seen)"
proof -
  have "to_ascii_lowercase (trim (lit ''identity'')) = lit ''identity''" by (simp add: text_eval)
  then show "byte_len seen \<le> MAX_DECODED_BYTES \<Longrightarrow> ?thesis"
    by (simp add: decode_content_encoding_def page_artifact_def)
qed

lemma example_page_inputs:
  "sum_list (map length (required_inputs (example_inspect bad) chain (page_artifact seen) plain_media
     (utf8 seen) seen (page_data seen))) \<le> 6 * byte_len seen + 100"
  using decode_entities_shrinks [of seen] deobfuscate_shrinks [of "decode_entities seen"]
  by (simp add: required_inputs_def combined_def page_artifact_def page_data_def plain_media_parsed
      conversion_candidates_def lit_def len_utf8_def)

lemma example_ready:
  "n \<le> 8 * 1024 * 1024 \<Longrightarrow> ready (example_inspect (\<lambda>_. False)) n example_session"
  by (simp add: ready_def example_inspect_def example_session_def session_new_def from_secs_def
      session_report_def example_yara_def bundle_detector_def MAX_SCAN_INPUT_BYTES_def)

lemma example_session_runs:
  assumes "valid_str seen" "byte_len seen \<le> 1000"
  shows "\<exists>s'. session_run (example_inspect (\<lambda>_. False)) chain
    (Handed_Fetched (page_artifact seen) (utf8 seen)) example_session = (Inr (page_data seen), s')"
proof (rule clean_run)
  have "length seen \<le> MAX_CONTENT_CHARS"
    using assms(2) length_le_byte_len [of seen] by (simp add: MAX_CONTENT_CHARS_def)
  note page = example_page_released [OF assms(1) this, of "\<lambda>_. False"]
  show "ready (example_inspect (\<lambda>_. False)) (sum_list (map length (required_inputs
      (example_inspect (\<lambda>_. False)) chain (page_artifact seen) plain_media (utf8 seen) seen
      (page_data seen)))) example_session"
    using example_page_inputs [of "\<lambda>_. False" chain seen] assms(2) by (intro example_ready) simp
  show "art_content_type (page_artifact seen) = Some (lit ''text/plain'')"
    by (simp add: page_artifact_def)
  show "decode_content_encoding (in_inflate (example_inspect (\<lambda>_. False))) (utf8 seen)
       (art_content_encoding (page_artifact seen)) = Inr (utf8 seen)"
    using assms(2) by (intro example_page_decoded) (simp add: MAX_DECODED_BYTES_def)
  show "decode_charset (in_charsets (example_inspect (\<lambda>_. False))) (utf8 seen) plain_media = Inr seen"
    by (rule page(4))
qed (use plain_media_parsed example_page_released assms length_le_byte_len [of seen] in
    \<open>auto simp: MAX_CONTENT_CHARS_def\<close>)

lemma ok_str: "valid_str (lit ''ok'')" "byte_len (lit ''ok'') \<le> 1000"
  by (simp_all add: lit_def valid_str_def is_scalar_def len_utf8_def)

lemma released_after_every_pass_witness:
  "\<exists>s' a media c inputs. released (example_inspect (\<lambda>_. False)) a media c (page_data (lit ''ok''))
     \<and> passed (example_inspect (\<lambda>_. False)) (utf8 (lit ''ok'') # inputs) example_session s'"
proof -
  obtain s' where "session_run (example_inspect (\<lambda>_. False)) []
    (Handed_Fetched (page_artifact (lit ''ok'')) (utf8 (lit ''ok''))) example_session =
      (Inr (page_data (lit ''ok'')), s')"
    using example_session_runs [OF ok_str] by blast
  from released_after_every_pass [OF this] show ?thesis by fastforce
qed

lemma match_always_rejects_witness:
  "\<exists>e s'. session_run (example_inspect (\<lambda>_. True)) []
      (Handed_Fetched (page_artifact (lit ''ok'')) (utf8 (lit ''ok''))) example_session = (Inl e, s')
    \<and> loud_session (example_inspect (\<lambda>_. True)) s' \<and> stop_code e = ContentRejected"
proof -
  let ?W = "example_inspect (\<lambda>_. True)"
  let ?h = "Handed_Fetched (page_artifact (lit ''ok'')) (utf8 (lit ''ok''))"
  have fits: "byte_len (lit ''ok'') \<le> 8388608" using ok_str(2) by simp
  have "\<exists>s'. session_run ?W [] ?h example_session = (Inl (stop_rejected [lit ''injection'']), s')"
    by (simp add: session_run_def received_open_def page_artifact_def plain_media_parsed scan_wire_def
        record_telemetry_def modify_step_def lift_step_def pure_step_def bind_step_def
        check_deadline_def inspection_scan_def detector_scan_def example_inspect_def example_yara_def
        example_session_def session_new_def bundle_detector_def from_secs_def limit_defs checked_sub_def
        fits Let_def)
  then obtain s' where run: "session_run ?W [] ?h example_session = (Inl (stop_rejected [lit ''injection'']), s')"
    by blast
  have "scanned example_session = []"
    by (simp add: scanned_def example_session_def session_new_def bundle_detector_def)
  from match_always_rejects [OF this run] run show ?thesis by (auto simp: stop_rejected_def)
qed

section \<open>The budget is enough\<close>



section \<open>Which candidate is returned\<close>

lemma tried_takeWhile:
  "tried usable cs = takeWhile (\<lambda>c. \<not> usable c) cs
     @ (case find usable cs of Some c \<Rightarrow> [c] | None \<Rightarrow> [])"
  by (induction cs) auto

lemma candidates_methods:
  "c \<in> set (candidates (CHAIN V) seen fmt) \<Longrightarrow> cand_method c \<in> {Native, Extracted, Basic}"
  using chain_methods [of _ V seen fmt c]
  by (auto simp: candidates_def List.map_filter_def)

text \<open>C22: the fallback order. When the conversion of HTML settles on a candidate, it is the first
  usable one the chain produces, and only if the chain produces no usable one is it the first
  that is not blank; the converters behind a usable candidate are not run, and everything in
  front of it was scanned clean first. The method reported is that of a converter of the
  chain.\<close>

theorem conversion_choice:
  assumes "normalized_convert W (CHAIN (in_convert W)) n s = (Inr i, s')"
    and "is_html (nrm_media n)" "art_format (nrm_artifact n) \<noteq> Html"
  shows "let fmt = art_format (nrm_artifact n);
      usable = (\<lambda>c. quality (in_convert W) c fmt (signals_of (nrm_text n)) = Usable);
      cs = candidates (CHAIN (in_convert W)) (nrm_text n) fmt
    in Some (ins_candidate i) =
         (case find usable cs of Some c \<Rightarrow> Some c
          | None \<Rightarrow> find (\<lambda>c. trim (cand_content c) \<noteq> []) cs)
       \<and> passed W (map (\<lambda>c. utf8 (cand_content c)) (takeWhile (\<lambda>c. \<not> usable c) cs
           @ (case find usable cs of Some c \<Rightarrow> [c] | None \<Rightarrow> []))) s s'
       \<and> cand_method (ins_candidate i) \<in> {Native, Extracted, Basic}"
proof -
  let ?fmt = "art_format (nrm_artifact n)"
  let ?usable = "\<lambda>c. quality (in_convert W) c ?fmt (signals_of (nrm_text n)) = Usable"
  let ?cs = "candidates (CHAIN (in_convert W)) (nrm_text n) ?fmt"
  have chosen: "chosen ?usable ?cs = Some (ins_candidate i)"
    using normalized_convert_Ok(2) [OF assms(1)] assms(2,3) by (simp add: conversion_result_def)
  moreover have "passed W (map (\<lambda>c. utf8 (cand_content c)) (tried ?usable ?cs)) s s'"
    using normalized_convert_Ok(1) [OF assms(1)] assms(2,3) by (simp add: conversion_candidates_def)
  moreover have "cand_method (ins_candidate i) \<in> {Native, Extracted, Basic}"
    using chosen_in_tried [OF chosen] tried_subset [of ?usable ?cs] candidates_methods by blast
  ultimately show ?thesis
    unfolding Let_def tried_takeWhile chosen_def by simp
qed

text \<open>A page that the first converter leaves as it is.\<close>

definition html_page :: normalized where
  "html_page =
     \<lparr>nrm_artifact = page_artifact (lit ''ok''),
      nrm_media = \<lparr>essence = lit ''text/html'', charset = None\<rparr>, nrm_text = lit ''ok''\<rparr>"

lemma conversion_choice_witness:
  "\<exists>i s' c. normalized_convert (example_inspect (\<lambda>_. False)) (CHAIN ascii_lib) html_page example_session
       = (Inr i, s')
     \<and> Some (ins_candidate i) = Some c \<and> cand_method c \<in> {Native, Extracted, Basic}"
proof -
  let ?W = "example_inspect (\<lambda>_. False)"
  have V: "in_convert ?W = ascii_lib" by (simp add: example_inspect_def)
  have "quality ascii_lib \<lparr>cand_content = lit ''ok'', cand_method = Native\<rparr> Text (signals_of (lit ''ok'')) = Usable"
    by (subst quality_lines [OF ascii_lib_alphanumeric])
       (simp_all add: judge_lines_def content_lines_alt text_eval ascii_lib_def)
  moreover have "html_convert ascii_lib h opts = Inr (Some h)" for h opts by (simp add: ascii_lib_def)
  ultimately have
    c: "conversion_result ?W (CHAIN ascii_lib) (nrm_artifact html_page) (nrm_media html_page)
      (nrm_text html_page) = Some \<lparr>cand_content = lit ''ok'', cand_method = Native\<rparr>"
    and cs: "conversion_candidates ?W (CHAIN ascii_lib) (nrm_artifact html_page) (nrm_media html_page)
      (nrm_text html_page) = [\<lparr>cand_content = lit ''ok'', cand_method = Native\<rparr>]"
    by (simp_all add: conversion_result_def conversion_candidates_def html_page_def page_artifact_def
        is_html_def chosen_def V candidates_def CHAIN_def native_cleanup_def to_markdown_def
        candidate_of_def)
  have "succeeds ?W (normalized_convert ?W (CHAIN ascii_lib) html_page) (byte_len (lit ''ok''))
      \<lparr>ins_artifact = nrm_artifact html_page, ins_media = nrm_media html_page,
       ins_candidate = \<lparr>cand_content = lit ''ok'', cand_method = Native\<rparr>\<rparr>"
    using succeeds_convert [OF c] unfolding cs by simp
  moreover have "ready ?W (byte_len (lit ''ok'') + 0) example_session"
    using ok_str(2) by (intro example_ready) simp
  ultimately obtain i s' where run: "normalized_convert ?W (CHAIN ascii_lib) html_page example_session = (Inr i, s')"
    unfolding succeeds_def by blast
  from conversion_choice [of ?W html_page example_session i s', unfolded V, OF run] show ?thesis
    using run by (auto simp: html_page_def is_html_def page_artifact_def Let_def)
qed

end
