(* ===== verification/Pipeline.thy ===== *)
theory Pipeline
  imports Session_Facts Handoff_Facts
begin

text \<open>
  \<^verbatim>\<open>inspector/src/pipeline.rs\<close>: one inspection from the handoff to one envelope and one audit
  record.
\<close>

section \<open>The record and the outcome\<close>

record audit_record =
  aud_run_id :: str
  aud_outcome :: str
  aud_code :: "error_code option"
  aud_policy_id :: str
  aud_policy_digest :: str
  aud_matched_rules :: "str list"
  aud_http_status :: "u16 option"
  aud_redirects :: "u32 option"
  aud_requested_url_sha256 :: "str option"
  aud_wire_bytes :: "nat option"
  aud_decoded_bytes :: "nat option"
  aud_content_chars :: "nat option"
  aud_conversion_method :: "conversion_method option"
  aud_scans :: nat
  aud_elapsed_ms :: nat

record inspect_outcome =
  out_envelope :: "web_fetch_data envelope"
  out_audit :: audit_record

record 'k inspector =
  insr_bundle :: "'k rule_bundle"
  insr_deadline :: duration

definition inspector_new :: "'k rule_bundle \<Rightarrow> 'k inspector" where
  "inspector_new B = \<lparr>insr_bundle = B, insr_deadline = from_secs INSPECTION_DEADLINE_SECONDS\<rparr>"

definition inspector_with_deadline :: "'k inspector \<Rightarrow> duration \<Rightarrow> 'k inspector" where
  "inspector_with_deadline I d = I\<lparr>insr_deadline := d\<rparr>"

definition inspector_audit ::
    "('c, 'k, 'e, 't) inspect_env \<Rightarrow> 'k inspector \<Rightarrow> str \<Rightarrow> 'k inspection \<Rightarrow> audit_record" where
  "inspector_audit W I run_id s =
     (let t = insp_telemetry s in
      \<lparr>aud_run_id = run_id, aud_outcome = lit ''error'', aud_code = None,
       aud_policy_id = bundle_policy_id (insr_bundle I),
       aud_policy_digest = bundle_policy_digest (insr_bundle I), aud_matched_rules = [],
       aud_http_status = tel_http_status t, aud_redirects = tel_redirects t,
       aud_requested_url_sha256 = tel_requested_url_sha256 t, aud_wire_bytes = tel_wire_bytes t,
       aud_decoded_bytes = tel_decoded_bytes t, aud_content_chars = tel_content_chars t,
       aud_conversion_method = tel_conversion_method t,
       aud_scans = scans (insp_detector s),
       aud_elapsed_ms = in_elapsed W (insp_reads s) div 1000000\<rparr>)"

text \<open>\<^verbatim>\<open>unwrap_or_else\<close> with a fallback whose own \<^verbatim>\<open>expect\<close> would panic; that it never does is
  \<open>fallback_ok\<close>.\<close>

definition inspector_failure ::
    "web_fetch_data payload \<Rightarrow> error_code \<Rightarrow> inspection_field \<Rightarrow> audit_record
       \<Rightarrow> web_fetch_data envelope \<times> audit_record" where
  "inspector_failure P c field audit =
     (let audit' = audit\<lparr>aud_outcome := (if c = ContentRejected then lit ''rejected'' else lit ''error''),
            aud_code := Some c, aud_content_chars := None, aud_conversion_method := None\<rparr>
      in (case envelope_failure P c field of
            Inr e \<Rightarrow> e
          | Inl _ \<Rightarrow> the (ok_value (envelope_failure P InternalError inspection_not_run)),
          audit'))"

definition inspect_report ::
    "('c, 'k, 'e, 't) inspect_env \<Rightarrow> 'u url_lib \<Rightarrow> 'k inspector \<Rightarrow> stop + web_fetch_data
       \<Rightarrow> audit_record \<Rightarrow> inspect_outcome" where
  "inspect_report W U I result audit =
     (let P = web_fetch_payload U (in_time W); id = bundle_policy_id (insr_bundle I);
          (e, a) = (case result of
             Inr d \<Rightarrow>
               (case envelope_ok P d id of
                  Inr e \<Rightarrow> (e, audit\<lparr>aud_outcome := lit ''ok''\<rparr>)
                | Inl _ \<Rightarrow> inspector_failure P InternalError inspection_not_run audit)
           | Inl s \<Rightarrow>
               inspector_failure P (stop_code s)
                 (Envelope.inspection_new (stop_status s)
                    (if stop_status s = Insp_NotRun then None else Some id))
                 (audit\<lparr>aud_matched_rules := stop_matched s\<rparr>))
      in \<lparr>out_envelope = e, out_audit = a\<rparr>)"

definition inspect ::
    "('c, 'k, 'e, 't) inspect_env \<Rightarrow> 'u url_lib \<Rightarrow> handoff_lib \<Rightarrow> fs_env \<Rightarrow> 'k inspector \<Rightarrow> handoff
       \<Rightarrow> disk \<Rightarrow> inspect_outcome \<times> disk" where
  "inspect W U L E I h d =
     (let (read, d') = handoff_read L E h d;
          s0 = session_new (bundle_detector (insr_bundle I)) (insr_deadline I);
          (result, s) = (case read of
             Inl _ \<Rightarrow> (Inl (stop_not_run InternalError), s0)
           | Inr handed \<Rightarrow> session_run W (CHAIN (in_convert W)) handed s0)
      in (inspect_report W U I result (inspector_audit W I (handoff_run_id h) s), d'))"

section \<open>Every failure is reported\<close>

lemma fallback_ok:
  "envelope_failure P InternalError inspection_not_run =
     Inr (failure_envelope P InternalError inspection_not_run)"
  by (simp add: envelope_failure_not_run)

lemma inspector_failure_envelope:
  "fst (inspector_failure P c field audit) =
     (if failure_admitted c field then failure_envelope P c field
      else failure_envelope P InternalError inspection_not_run)"
proof (cases "envelope_failure P c field")
  case (Inl e)
  then have "\<not> failure_admitted c field" using envelope_failure_iff [of P c field] by force
  then show ?thesis using Inl by (simp add: inspector_failure_def fallback_ok)
next
  case (Inr e)
  then have "e = failure_envelope P c field" "failure_admitted c field"
    using envelope_failure_iff [of P c field e] by auto
  with Inr show ?thesis by (simp add: inspector_failure_def)
qed

lemma internal_not_run_admitted: "failure_admitted InternalError inspection_not_run"
  by (simp add: failure_admitted_def inspection_not_run_def Envelope.inspection_new_def permits_status_def)

text \<open>Which pairs of code and status a session can stop with.\<close>

definition stops_in :: "stop set \<Rightarrow> ('k, 'a) session_step \<Rightarrow> bool" where
  "stops_in S m \<longleftrightarrow> (\<forall>s e s'. m s = (Inl e, s') \<longrightarrow> e \<in> S)"

definition paired_stops :: "stop set" where
  "paired_stops = {e. permits_status (stop_code e) (stop_status e)}"

lemma stops_in_bind: "stops_in S m \<Longrightarrow> (\<And>a. stops_in S (f a)) \<Longrightarrow> stops_in S (bind_step m f)"
  unfolding stops_in_def by (auto simp: step_simps; blast)

lemma stops_in_pure: "stops_in S (pure_step a)"
  by (simp add: stops_in_def step_simps)

lemma stops_in_lift: "(\<And>e. m = Inl e \<Longrightarrow> e \<in> S) \<Longrightarrow> stops_in S (lift_step m)"
  by (auto simp: stops_in_def step_simps)

lemma stops_in_telemetry: "stops_in S (record_telemetry f)"
  by (simp add: stops_in_def record_telemetry_def step_simps)

lemma stops_in_deadline:
  "st = Insp_NotRun \<or> st = Insp_Failed \<Longrightarrow> stops_in paired_stops (check_deadline W st)"
  by (auto simp: stops_in_def check_deadline_def Let_def paired_stops_def permits_status_def
      split: if_splits)

lemma stops_in_scan: "stops_in paired_stops (inspection_scan W data)"
  by (auto simp: stops_in_def inspection_scan_def paired_stops_def stop_from_def stop_failed_def
      stop_rejected_def permits_status_def split: prod.splits sum.splits verdict.splits)

lemmas stops_rules = stops_in_bind stops_in_pure stops_in_telemetry stops_in_deadline stops_in_scan

lemma paired_stop_values:
  "c \<notin> {ContentRejected, InspectionFailed} \<Longrightarrow> stop_not_run c \<in> paired_stops"
  "c \<noteq> ContentRejected \<Longrightarrow> stop_failed c \<in> paired_stops"
  by (cases c; simp add: paired_stops_def stop_not_run_def stop_failed_def permits_status_def)+

lemma decode_errors:
  "decode_content_encoding Z body ce = Inl e \<Longrightarrow> e \<in> {UnsupportedContent, ResponseLimitExceeded}"
  "decode_charset C bs m = Inl e \<Longrightarrow> e = UnsupportedContent"
  by (auto simp: decode_content_encoding_def Let_def bounded_read_Err_iff split: if_splits)
     (auto simp: decode_charset_def result_iffs split: option.splits prod.splits if_splits)

lemma stops_open: "stops_in (paired_stops \<union> {stop_not_run c |c. handed = Handed_Failed c}) (received_open handed)"
  unfolding received_open_def
  by (auto simp: result_iffs paired_stop_values stops_in_telemetry
      intro!: stops_in_bind stops_in_lift split: handed.split if_splits)

lemma stops_wire: "stops_in paired_stops (scan_wire W r)"
  unfolding scan_wire_def Let_def
  by (intro stops_rules stops_in_lift)
     (auto simp: result_iffs intro!: paired_stop_values dest: decode_errors)

lemma stops_text: "stops_in paired_stops (scan_text W d)"
  unfolding scan_text_def Let_def by (intro stops_rules) auto

lemma stops_loop: "stops_in paired_stops (convert_loop W seen fmt signals chain fallback)"
  by (induction chain arbitrary: fallback)
     (auto simp: result_iffs intro!: stops_rules stops_in_lift paired_stop_values split: option.split)

lemma stops_convert: "stops_in paired_stops (normalized_convert W chain n)"
  unfolding normalized_convert_def normalized_inspected_def Let_def
  by (auto intro!: stops_rules stops_loop)

lemma stops_release: "stops_in paired_stops (release W i)"
  unfolding release_def Let_def
  by (auto simp: result_iffs intro!: stops_rules stops_in_lift paired_stop_values)

lemma stops_mono: "stops_in S m \<Longrightarrow> S \<subseteq> T \<Longrightarrow> stops_in T m"
  unfolding stops_in_def by blast

lemma stops_run:
  "stops_in (paired_stops \<union> {stop_not_run c |c. handed = Handed_Failed c}) (session_run W chain handed)"
  unfolding session_run_def
  by (intro stops_in_bind stops_open stops_mono [OF stops_wire] stops_mono [OF stops_text]
      stops_mono [OF stops_convert] stops_mono [OF stops_release] Un_upper1)

text \<open>The envelope of a report: released data if it satisfies the contract, and otherwise a
  failure that carries none.\<close>

definition stop_field :: "'k inspector \<Rightarrow> stop \<Rightarrow> inspection_field" where
  "stop_field I s = Envelope.inspection_new (stop_status s)
     (if stop_status s = Insp_NotRun then None else Some (bundle_policy_id (insr_bundle I)))"

lemma inspect_report_ok:
  assumes "payload_validate (web_fetch_payload U (in_time W)) d = Inr ()"
    and "policy_id_shaped (bundle_policy_id (insr_bundle I))"
  shows "inspect_report W U I (Inr d) audit =
    \<lparr>out_envelope = ok_envelope (web_fetch_payload U (in_time W)) d (bundle_policy_id (insr_bundle I)),
     out_audit = audit\<lparr>aud_outcome := lit ''ok''\<rparr>\<rparr>"
proof -
  have "envelope_ok (web_fetch_payload U (in_time W)) d (bundle_policy_id (insr_bundle I)) =
      Inr (ok_envelope (web_fetch_payload U (in_time W)) d (bundle_policy_id (insr_bundle I)))"
    using assms by (simp add: envelope_ok_iff)
  then show ?thesis by (simp add: inspect_report_def Let_def)
qed

lemma inspect_report_withheld:
  assumes "payload_validate (web_fetch_payload U (in_time W)) d \<noteq> Inr ()
    \<or> \<not> policy_id_shaped (bundle_policy_id (insr_bundle I))"
  shows "inspect_report W U I (Inr d) audit =
    \<lparr>out_envelope = failure_envelope (web_fetch_payload U (in_time W)) InternalError inspection_not_run,
     out_audit = audit\<lparr>aud_outcome := lit ''error'', aud_code := Some InternalError,
       aud_content_chars := None, aud_conversion_method := None\<rparr>\<rparr>"
proof -
  obtain e where "envelope_ok (web_fetch_payload U (in_time W)) d (bundle_policy_id (insr_bundle I)) = Inl e"
    using assms envelope_ok_iff [of "web_fetch_payload U (in_time W)" d "bundle_policy_id (insr_bundle I)"]
    by (cases "envelope_ok (web_fetch_payload U (in_time W)) d (bundle_policy_id (insr_bundle I))") auto
  then show ?thesis
    by (simp add: inspect_report_def Let_def inspector_failure_def fallback_ok)
qed

lemma inspect_report_stop:
  "inspect_report W U I (Inl s) audit =
    \<lparr>out_envelope = (if failure_admitted (stop_code s) (stop_field I s)
        then failure_envelope (web_fetch_payload U (in_time W)) (stop_code s) (stop_field I s)
        else failure_envelope (web_fetch_payload U (in_time W)) InternalError inspection_not_run),
     out_audit = audit\<lparr>aud_matched_rules := stop_matched s,
       aud_outcome := (if stop_code s = ContentRejected then lit ''rejected'' else lit ''error''),
       aud_code := Some (stop_code s), aud_content_chars := None, aud_conversion_method := None\<rparr>\<rparr>"
  using inspector_failure_envelope [of "web_fetch_payload U (in_time W)" "stop_code s" "stop_field I s"]
  by (simp add: inspect_report_def Let_def inspector_failure_def stop_field_def split_def)

section \<open>One envelope per run\<close>

definition fresh_session :: "'k inspector \<Rightarrow> 'k inspection" where
  "fresh_session I = session_new (bundle_detector (insr_bundle I)) (insr_deadline I)"

lemma fresh_session_facts:
  "scanned (fresh_session I) = []" "scans (insp_detector (fresh_session I)) = 0"
  "remaining_bytes (insp_detector (fresh_session I)) = MAX_SCAN_INPUT_BYTES"
  by (simp_all add: fresh_session_def session_new_def scanned_def bundle_detector_def)

lemma session_scan_count:
  assumes "session_run W chain handed (fresh_session I) = (r, s)"
  shows "scans (insp_detector s) = length (scanned s)"
    and "sum_list (map length (scanned s)) \<le> MAX_SCAN_INPUT_BYTES"
  using spending.keepsD [OF spends_run assms] fresh_session_facts [of I]
  by (auto simp: spends_def)

lemma session_run_chars:
  assumes "session_run W chain handed s = (Inr d, s')"
  shows "tel_content_chars (insp_telemetry s') = Some (length (data_content d))"
    and "tel_conversion_method (insp_telemetry s') = Some (data_method d)"
proof -
  from assms obtain i s1 where "release W i s1 = (Inr d, s')"
    by (auto simp: session_run_def step_simps)
  then show "tel_content_chars (insp_telemetry s') = Some (length (data_content d))"
    and "tel_conversion_method (insp_telemetry s') = Some (data_method d)"
    by (auto simp: release_def step_simps Let_def record_telemetry_def split: if_splits)
qed

text \<open>The result an inspection reports, and the session it ended in.\<close>

definition inspect_result ::
    "('c, 'k, 'e, 't) inspect_env \<Rightarrow> handoff_lib \<Rightarrow> fs_env \<Rightarrow> 'k inspector \<Rightarrow> handoff \<Rightarrow> disk
       \<Rightarrow> (stop + web_fetch_data) \<times> 'k inspection" where
  "inspect_result W L E I h d =
     (case fst (handoff_read L E h d) of
        Inl _ \<Rightarrow> (Inl (stop_not_run InternalError), fresh_session I)
      | Inr handed \<Rightarrow> session_run W (CHAIN (in_convert W)) handed (fresh_session I))"

lemma inspect_eq:
  "inspect W U L E I h d =
     (case inspect_result W L E I h d of
        (r, s) \<Rightarrow> (inspect_report W U I r (inspector_audit W I (handoff_run_id h) s),
                   snd (handoff_read L E h d)))"
  by (simp add: inspect_def inspect_result_def fresh_session_def split_def Let_def split: sum.split)

lemma inspect_result_session:
  assumes "inspect_result W L E I h d = (r, s)"
  shows "scans (insp_detector s) = length (scanned s)"
    and "sum_list (map length (scanned s)) \<le> MAX_SCAN_INPUT_BYTES"
    and "r = Inr x \<Longrightarrow> tel_content_chars (insp_telemetry s) = Some (length (data_content x))"
  using assms session_scan_count [of W "CHAIN (in_convert W)" _ I r s]
    session_run_chars [of W "CHAIN (in_convert W)" _ "fresh_session I" x s] fresh_session_facts [of I]
  by (auto simp: inspect_result_def split: sum.splits)

text \<open>C9: one run, one valid envelope. Whatever the handoff directory holds and whichever file
  system calls fail, the inspection ends with an envelope that validates and leaves the
  directory's entries alone. The envelope carries data only if the session released exactly that
  data to it, and then says the inspection completed without a match under the bundle's policy;
  in every other case it carries no data and the audit record no description of content. The
  audit counts every input the engine was given, at most 8 MiB of them.\<close>

theorem inspect_single_result:
  assumes "inspect W U L E I h d = (outc, d')" "inspect_result W L E I h d = (r, s)"
  shows "envelope_validate (web_fetch_payload U (in_time W)) (out_envelope outc) = Inr ()
    \<and> nodes d' = nodes d
    \<and> aud_scans (out_audit outc) = length (scanned s)
    \<and> sum_list (map length (scanned s)) \<le> 8 * 1024 * 1024
    \<and> (case env_data (out_envelope outc) of
         Some x \<Rightarrow> r = Inr x \<and> env_status (out_envelope outc) = Status_Ok
           \<and> inspection (out_envelope outc) =
               \<lparr>insp_status = Insp_NoMatch, insp_policy_id = Some (bundle_policy_id (insr_bundle I))\<rparr>
           \<and> aud_outcome (out_audit outc) = lit ''ok''
           \<and> aud_content_chars (out_audit outc) = Some (length (data_content x))
       | None \<Rightarrow> env_status (out_envelope outc) \<noteq> Status_Ok
           \<and> aud_outcome (out_audit outc) \<noteq> lit ''ok'' \<and> aud_code (out_audit outc) \<noteq> None
           \<and> aud_content_chars (out_audit outc) = None
           \<and> aud_conversion_method (out_audit outc) = None)"
proof -
  let ?P = "web_fetch_payload U (in_time W)" and ?id = "bundle_policy_id (insr_bundle I)"
  have outc: "outc = inspect_report W U I r (inspector_audit W I (handoff_run_id h) s)"
    and d': "d' = snd (handoff_read L E h d)"
    using assms by (simp_all add: inspect_eq)
  have nodes: "nodes d' = nodes d"
    using handoff_read_frame [of L E h] unfolding d'
    by (simp add: disk_frame.keeps_def frame_def fun_eq_iff)
  have texts: "lit ''error'' \<noteq> lit ''ok''" "lit ''rejected'' \<noteq> lit ''ok''"
    by (simp_all add: lit_def)
  note session = inspect_result_session [OF assms(2)]
  show ?thesis
  proof (cases r)
    case (Inl e)
    show ?thesis
      using nodes session(1,2) texts internal_not_run_admitted
      by (simp add: outc Inl inspect_report_stop envelope_validate_contract failure_envelope_contract
          MAX_SCAN_INPUT_BYTES_def inspector_audit_def Let_def)
         (simp add: outc Inl inspect_report_stop failure_envelope_def)
  next
    case (Inr x)
    show ?thesis
    proof (cases "payload_validate ?P x = Inr () \<and> policy_id_shaped ?id")
      case True
      then show ?thesis
        using nodes session(1,2) session(3) [OF Inr]
        by (simp add: outc Inr inspect_report_ok envelope_validate_contract ok_envelope_contract
            MAX_SCAN_INPUT_BYTES_def inspector_audit_def Let_def)
           (simp add: outc Inr inspect_report_ok ok_envelope_def Envelope.inspection_new_def
              inspector_audit_def Let_def)
    next
      case False
      then have "payload_validate ?P x \<noteq> Inr () \<or> \<not> policy_id_shaped ?id" by blast
      from inspect_report_withheld [OF this] show ?thesis
        using nodes session(1,2) texts internal_not_run_admitted
        by (simp add: outc Inr envelope_validate_contract failure_envelope_contract
            MAX_SCAN_INPUT_BYTES_def inspector_audit_def Let_def)
           (simp add: outc Inr failure_envelope_def)
    qed
  qed
qed

section \<open>How a stop is reported\<close>

lemma stop_field_admitted:
  assumes "permits_status (stop_code e) (stop_status e)"
    and "policy_id_shaped (bundle_policy_id (insr_bundle I))"
  shows "failure_admitted (stop_code e) (stop_field I e)"
  using assms
  by (auto simp: failure_admitted_def stop_field_def Envelope.inspection_new_def permits_status_def
      split: error_code.splits)

text \<open>C0: a stop is reported as what it was, when the bundle's id is well-formed and the fetch
  stage did not itself claim an inspection's outcome: the envelope is the fixed failure for the
  session's code and status, the same for every content and every matching rule, the audit has
  that code and the rules, and it says \<^verbatim>\<open>rejected\<close> exactly for a match. Under a bundle whose
  directory name is no well-formed policy id, a match is still withheld, but the envelope says
  \<^verbatim>\<open>internal_error\<close> without an inspection while the audit says \<^verbatim>\<open>rejected\<close>.\<close>

theorem inspect_reports_stop:
  assumes "fst (handoff_read L E h d) = Inr handed"
    and "\<And>c. handed = Handed_Failed c \<Longrightarrow> c \<notin> {ContentRejected, InspectionFailed}"
    and "session_run W (CHAIN (in_convert W)) handed (fresh_session I) = (Inl e, s)"
  shows "let (outc, d') = inspect W U L E I h d; P = web_fetch_payload U (in_time W);
      id = bundle_policy_id (insr_bundle I)
    in aud_code (out_audit outc) = Some (stop_code e)
       \<and> aud_matched_rules (out_audit outc) = stop_matched e
       \<and> aud_outcome (out_audit outc) =
           (if stop_status e = Insp_Match then lit ''rejected'' else lit ''error'')
       \<and> (policy_id_shaped id \<longrightarrow> out_envelope outc =
            failure_envelope P (stop_code e) \<lparr>insp_status = stop_status e,
              insp_policy_id = (if stop_status e = Insp_NotRun then None else Some id)\<rparr>)
       \<and> (\<not> policy_id_shaped id \<longrightarrow> stop_status e = Insp_Match \<longrightarrow>
            out_envelope outc = failure_envelope P InternalError
              \<lparr>insp_status = Insp_NotRun, insp_policy_id = None\<rparr>)"
proof -
  have paired: "permits_status (stop_code e) (stop_status e)"
    using stops_run [of handed W "CHAIN (in_convert W)"] assms(2,3) paired_stop_values(1)
    by (fastforce simp: stops_in_def paired_stops_def)
  then have rejected: "stop_code e = ContentRejected \<longleftrightarrow> stop_status e = Insp_Match"
    by (cases "stop_code e") (auto simp: permits_status_def)
  have eq: "inspect W U L E I h d =
      (inspect_report W U I (Inl e) (inspector_audit W I (handoff_run_id h) s), snd (handoff_read L E h d))"
    using assms(1,3) by (simp add: inspect_eq inspect_result_def)
  have field: "stop_field I e = \<lparr>insp_status = stop_status e, insp_policy_id =
      (if stop_status e = Insp_NotRun then None else Some (bundle_policy_id (insr_bundle I)))\<rparr>"
    by (simp add: stop_field_def Envelope.inspection_new_def)
  have unshaped: "\<not> failure_admitted (stop_code e) (stop_field I e)"
    if "\<not> policy_id_shaped (bundle_policy_id (insr_bundle I))" "stop_status e = Insp_Match"
    using that by (simp add: field failure_admitted_def)
  have not_run: "inspection_not_run = \<lparr>insp_status = Insp_NotRun, insp_policy_id = None\<rparr>"
    by (simp add: inspection_not_run_def Envelope.inspection_new_def)
  show ?thesis
    using stop_field_admitted [OF paired, of I] unshaped rejected
    by (auto simp: eq inspect_report_stop Let_def field [symmetric] not_run [symmetric])
qed

section \<open>Examples\<close>

lemma inspect_single_result_witness:
  "envelope_validate (web_fetch_payload example_url_lib example_time_lib)
     (out_envelope (fst (inspect (example_inspect (\<lambda>_. False)) example_url_lib example_handoff_lib
       healthy_env (inspector_new example_bundle) example_handoff example_disk))) = Inr ()"
proof -
  let ?W = "example_inspect (\<lambda>_. False)" and ?I = "inspector_new example_bundle"
  obtain outc d' where run: "inspect ?W example_url_lib example_handoff_lib healthy_env ?I
      example_handoff example_disk = (outc, d')"
    by (cases "inspect ?W example_url_lib example_handoff_lib healthy_env ?I example_handoff example_disk")
  obtain r s where "inspect_result ?W example_handoff_lib healthy_env ?I example_handoff example_disk = (r, s)"
    by (cases "inspect_result ?W example_handoff_lib healthy_env ?I example_handoff example_disk")
  from inspect_single_result [OF run this] show ?thesis
    by (simp add: run) (simp add: example_inspect_def)
qed

lemma inspect_reports_stop_witness:
  "\<exists>d. out_envelope (fst (inspect (example_inspect (\<lambda>_. False)) example_url_lib example_handoff_lib
       healthy_env (inspector_new example_bundle) example_handoff d)) =
     failure_envelope (web_fetch_payload example_url_lib example_time_lib) UnsupportedContent
       \<lparr>insp_status = Insp_NotRun, insp_policy_id = None\<rparr>"
proof -
  let ?W = "example_inspect (\<lambda>_. False)" and ?I = "inspector_new example_bundle"
  obtain d where w: "handoff_write example_handoff_lib healthy_env example_handoff example_message
      example_disk = (Inr (), d)"
    using write_healthy [OF example_good(3,4,1)] by blast
  from handoff_read_holds [OF write_holds [OF w example_good(3,4)] example_good(2,3)]
  obtain x where "handoff_read example_handoff_lib healthy_env example_handoff d = (Inr example_message, x)"
    by blast
  then have read: "fst (handoff_read example_handoff_lib healthy_env example_handoff d) =
      Inr (Handed_Fetched example_artifact [7])"
    by (simp add: example_message_def)
  have no_type: "art_content_type example_artifact = None" by (simp add: example_artifact_def)
  obtain s where stop: "session_run ?W (CHAIN (in_convert ?W)) (Handed_Fetched example_artifact [7])
      (fresh_session ?I) = (Inl (stop_not_run UnsupportedContent), s)"
    by (simp add: session_run_def received_open_def no_type record_telemetry_def modify_step_def
        lift_step_def bind_step_def)
  have "policy_id_shaped (bundle_policy_id (insr_bundle ?I))"
    by (simp add: inspector_new_def example_bundle_def policy_id_shaped_def text_eval)
  with inspect_reports_stop [OF read _ stop, of example_url_lib] show ?thesis
    by (intro exI [of _ d])
       (simp add: split_def Let_def, simp add: stop_not_run_def example_inspect_def)
qed

end
