(* ===== verification/Inspect_Main.thy ===== *)
theory Inspect_Main
  imports Pipeline Handoff_Key
begin

text \<open>
  \<^verbatim>\<open>inspector/src/main.rs\<close>: the offline stage as a process. Its arguments and the files it
  reads are inputs of the model; the lines it prints on stderr are left out. What it returns is
  the exit code, the envelope text it emitted if it emitted one, and the handoff directory.
\<close>

definition INSPECT_UNAVAILABLE :: u8 where
  "INSPECT_UNAVAILABLE = 2"

record ('c, 'k, 'e, 't, 'u) inspect_process =
  iproc_run_id :: str
  iproc_artifact_dir :: path
  iproc_rules :: bundle_dir
  iproc_handoff_key :: path
  iproc_out :: "path option"
  iproc_keep_artifact :: bool
  iproc_keys :: key_env
  iproc_lib :: handoff_lib
  iproc_fs :: fs_env
  iproc_env :: "('c, 'k, 'e, 't) inspect_env"
  iproc_url :: "'u url_lib"
  iproc_manifest_json :: "str \<Rightarrow> str + bundle_manifest"
  iproc_ser :: "web_fetch_data envelope \<Rightarrow> str + str"
  iproc_write :: "path \<Rightarrow> str \<Rightarrow> str + unit"

abbreviation iproc_payload :: "('c, 'k, 'e, 't, 'u) inspect_process \<Rightarrow> web_fetch_data payload" where
  "iproc_payload N \<equiv> web_fetch_payload (iproc_url N) (in_time (iproc_env N))"

text \<open>The text that was emitted, or why none was.\<close>

definition emit ::
    "('c, 'k, 'e, 't, 'u) inspect_process \<Rightarrow> web_fetch_data envelope \<Rightarrow> str + str" where
  "emit N e =
     and_then (map_err message (envelope_to_json (iproc_ser N) (iproc_payload N) e)) (\<lambda>encoded.
       case iproc_out N of
         Some path \<Rightarrow> and_then (iproc_write N path encoded) (\<lambda>_. Inr encoded)
       | None \<Rightarrow> Inr encoded)"

text \<open>The \<^verbatim>\<open>expect\<close> on the fixed code and status never fails (\<open>fixed_failures\<close>).\<close>

definition emit_and_exit ::
    "('c, 'k, 'e, 't, 'u) inspect_process \<Rightarrow> error_code \<Rightarrow> inspection_field \<Rightarrow> u8 \<times> str option" where
  "emit_and_exit N c field =
     (let e = the (ok_value (envelope_failure (iproc_payload N) c field))
      in (INSPECT_UNAVAILABLE, ok_value (emit N e)))"

definition inspect_main ::
    "('c, 'k, 'e, 't, 'u) inspect_process \<Rightarrow> disk \<Rightarrow> u8 \<times> str option \<times> disk" where
  "inspect_main N d =
     (case key_load_for (iproc_keys N) (iproc_handoff_key N) (iproc_artifact_dir N) of
        Inl _ \<Rightarrow>
          (let (code, emitted) = emit_and_exit N InternalError inspection_not_run in (code, emitted, d))
      | Inr key \<Rightarrow>
          (case bundle_load (in_yara (iproc_env N)) (sha256 (iproc_lib N)) (iproc_manifest_json N)
              (iproc_rules N) of
             Inl _ \<Rightarrow>
               (let (code, emitted) = emit_and_exit N InspectionFailed (inspection_failed None)
                in (code, emitted, d))
           | Inr bundle \<Rightarrow>
               (let h = handoff_new (iproc_run_id N) key;
                    (outcome, d1) = inspect (iproc_env N) (iproc_url N) (iproc_lib N) (iproc_fs N)
                      (inspector_new bundle) h d;
                    d2 = (if iproc_keep_artifact N then d1 else snd (remove_body (iproc_fs N) d1))
                in case emit N (out_envelope outcome) of
                     Inl _ \<Rightarrow> (INSPECT_UNAVAILABLE, None, d2)
                   | Inr encoded \<Rightarrow>
                       ((if env_status (out_envelope outcome) = Status_Ok then 0 else 1),
                        Some encoded, d2))))"

lemma fixed_failures_admitted:
  "failure_admitted InternalError inspection_not_run"
  "failure_admitted InspectionFailed (inspection_failed None)"
  by (simp_all add: failure_admitted_def inspection_not_run_def
      inspection_failed_def Envelope.inspection_new_def permits_status_def)

lemma fixed_failures:
  "envelope_failure P InternalError inspection_not_run =
     Inr (failure_envelope P InternalError inspection_not_run)"
  "envelope_failure P InspectionFailed (inspection_failed None) =
     Inr (failure_envelope P InspectionFailed (inspection_failed None))"
  by (simp_all add: envelope_failure_iff fixed_failures_admitted)

lemma emit_Ok_iff:
  "emit N e = Inr t \<longleftrightarrow>
     iproc_ser N e = Inr t \<and> envelope_contract (iproc_payload N) e
     \<and> (case iproc_out N of Some path \<Rightarrow> iproc_write N path t = Inr () | None \<Rightarrow> True)"
  by (auto simp: emit_def result_iffs envelope_to_json_iff split: option.split)

text \<open>The run a process sets up, when its key and its bundle are usable.\<close>

definition inspect_configured ::
    "('c, 'k, 'e, 't, 'u) inspect_process \<Rightarrow> handoff \<Rightarrow> 'k inspector \<Rightarrow> bool" where
  "inspect_configured N h I \<longleftrightarrow>
     (\<exists>key B. key_load_for (iproc_keys N) (iproc_handoff_key N) (iproc_artifact_dir N) = Inr key
        \<and> bundle_load (in_yara (iproc_env N)) (sha256 (iproc_lib N)) (iproc_manifest_json N)
            (iproc_rules N) = Inr B
        \<and> h = handoff_new (iproc_run_id N) key \<and> I = inspector_new B)"

lemma inspect_main_configured:
  assumes "inspect_configured N h I"
    and "inspect (iproc_env N) (iproc_url N) (iproc_lib N) (iproc_fs N) I h d = (outc, d1)"
  shows "inspect_main N d =
    (let d2 = (if iproc_keep_artifact N then d1 else snd (remove_body (iproc_fs N) d1))
     in case emit N (out_envelope outc) of
          Inl _ \<Rightarrow> (2, None, d2)
        | Inr t \<Rightarrow> ((if env_status (out_envelope outc) = Status_Ok then 0 else 1), Some t, d2))"
  using assms
  by (auto simp: inspect_configured_def inspect_main_def INSPECT_UNAVAILABLE_def Let_def
      split: sum.split)

lemma inspect_main_unconfigured:
  assumes "\<nexists>h I. inspect_configured N h I"
  shows "\<exists>c field. inspect_main N d =
      (2, ok_value (emit N (failure_envelope (iproc_payload N) c field)), d)
    \<and> failure_admitted c field"
proof (cases "key_load_for (iproc_keys N) (iproc_handoff_key N) (iproc_artifact_dir N)")
  case (Inl e)
  then show ?thesis
    by (intro exI [of _ InternalError] exI [of _ inspection_not_run])
       (simp add: inspect_main_def emit_and_exit_def fixed_failures fixed_failures_admitted
          INSPECT_UNAVAILABLE_def)
next
  case (Inr key)
  with assms obtain e where "bundle_load (in_yara (iproc_env N)) (sha256 (iproc_lib N))
      (iproc_manifest_json N) (iproc_rules N) = Inl e"
    by (cases "bundle_load (in_yara (iproc_env N)) (sha256 (iproc_lib N)) (iproc_manifest_json N)
          (iproc_rules N)") (auto simp: inspect_configured_def)
  with Inr show ?thesis
    by (intro exI [of _ InspectionFailed] exI [of _ "inspection_failed None"])
       (simp add: inspect_main_def emit_and_exit_def fixed_failures fixed_failures_admitted
          INSPECT_UNAVAILABLE_def)
qed

lemma remove_body_frame: "frame {BODY_FILE} d (snd (remove_body E d))"
proof -
  have "disk_frame.keeps {BODY_FILE} (remove_body E)"
    unfolding remove_body_def by (intro frame_ignore frame_remove) simp
  then show ?thesis by (simp add: disk_frame.keeps_def)
qed

lemma remove_body_gone:
  assumes "healthy E" "usable d"
  shows "entry (snd (remove_body E d)) BODY_FILE = None"
proof (cases "dir_exists d")
  case True
  then have "nodes (snd (fs_remove E BODY_FILE d)) BODY_FILE = None"
    using assms by (intro fs_remove_healthy) (auto simp: healthy_def usable_def handoff_files_def)
  then show ?thesis by (simp add: remove_body_def ignore_step_def entry_def)
next
  case False
  then show ?thesis
    using assms by (simp add: remove_body_def ignore_step_def entry_def fs_remove_def healthy_def tick_def)
qed

text \<open>The envelope of a report is valid, and carries data only as the session released it.\<close>

lemma inspect_report_cases:
  obtains (ok) x where "r = Inr x"
      "out_envelope (inspect_report W U I r audit) =
        ok_envelope (web_fetch_payload U (in_time W)) x (bundle_policy_id (insr_bundle I))"
      "payload_validate (web_fetch_payload U (in_time W)) x = Inr ()"
      "policy_id_shaped (bundle_policy_id (insr_bundle I))"
    | (failed) c field where
      "out_envelope (inspect_report W U I r audit) = failure_envelope (web_fetch_payload U (in_time W)) c field"
      "failure_admitted c field"
proof (cases r)
  case (Inl e)
  show thesis
  proof (cases "failure_admitted (stop_code e) (stop_field I e)")
    case True
    then show thesis using failed [of "stop_code e" "stop_field I e"] Inl by (simp add: inspect_report_stop)
  next
    case False
    then show thesis
      using failed [OF _ internal_not_run_admitted] Inl by (simp add: inspect_report_stop)
  qed
next
  case (Inr x)
  show thesis
  proof (cases "payload_validate (web_fetch_payload U (in_time W)) x = Inr ()
      \<and> policy_id_shaped (bundle_policy_id (insr_bundle I))")
    case True
    then show thesis using ok [of x] Inr by (simp add: inspect_report_ok)
  next
    case False
    then have "payload_validate (web_fetch_payload U (in_time W)) x \<noteq> Inr ()
      \<or> \<not> policy_id_shaped (bundle_policy_id (insr_bundle I))" by blast
    from inspect_report_withheld [OF this] show thesis
      using failed [OF _ internal_not_run_admitted] Inr by simp
  qed
qed

lemma inspect_envelope:
  assumes "inspect W U L E I h d = (outc, d')" "inspect_result W L E I h d = (r, s)"
  shows "envelope_contract (web_fetch_payload U (in_time W)) (out_envelope outc)"
    and "env_data (out_envelope outc) = Some x \<Longrightarrow> r = Inr x"
    and "nodes d' = nodes d"
proof -
  have outc: "outc = inspect_report W U I r (inspector_audit W I (handoff_run_id h) s)"
    and d': "d' = snd (handoff_read L E h d)"
    using assms by (simp_all add: inspect_eq)
  show "nodes d' = nodes d"
    using handoff_read_frame [of L E h] unfolding d'
    by (simp add: disk_frame.keeps_def frame_def fun_eq_iff)
  have "envelope_contract (web_fetch_payload U (in_time W)) (out_envelope outc)
      \<and> (env_data (out_envelope outc) = Some x \<longrightarrow> r = Inr x)"
    unfolding outc
    by (cases rule: inspect_report_cases [of r W U I "inspector_audit W I (handoff_run_id h) s"])
       (auto simp: ok_envelope_contract failure_envelope_contract,
        simp_all add: ok_envelope_def failure_envelope_def)
  then show "envelope_contract (web_fetch_payload U (in_time W)) (out_envelope outc)"
    and "env_data (out_envelope outc) = Some x \<Longrightarrow> r = Inr x"
    by blast+
qed

lemma unconfigured_exit:
  assumes "\<nexists>h I. inspect_configured N h I" and "inspect_main N d = (code, emitted, d')"
  obtains e where "envelope_validate (iproc_payload N) e = Inr ()" "env_data e = None"
    "env_status e \<noteq> Status_Ok" "case emitted of None \<Rightarrow> True | Some t \<Rightarrow> iproc_ser N e = Inr t"
    "code = 2" "d' = d"
proof -
  obtain c field where run: "inspect_main N d =
      (2, ok_value (emit N (failure_envelope (iproc_payload N) c field)), d)"
    and adm: "failure_admitted c field"
    using inspect_main_unconfigured [of N d] assms(1) by blast
  let ?e = "failure_envelope (iproc_payload N) c field"
  have "env_data ?e = None" "env_status ?e \<noteq> Status_Ok"
    by (simp_all add: failure_envelope_def)
  moreover have "envelope_validate (iproc_payload N) ?e = Inr ()"
    using adm by (simp add: envelope_validate_contract failure_envelope_contract)
  moreover have "case ok_value (emit N ?e) of None \<Rightarrow> True | Some t \<Rightarrow> iproc_ser N ?e = Inr t"
    by (simp add: ok_value_Some_iff emit_Ok_iff split: option.split)
  ultimately show thesis using that [of ?e] run assms(2) by simp
qed

text \<open>C20: the exit code tells the truth. The process exits with 0, 1 or 2 and emits at most one
  envelope, which validates. It exits with 0 exactly when it emitted a success; it exits with 2
  when it could emit nothing, and when its key or its rule bundle was unusable, in which case the
  handoff is untouched and what it emitted carries no data. Data in the emitted envelope is what
  the session released for the configured run. Of the handoff it removes at most the body, and
  on a file system that works it does remove it unless told to keep it.\<close>

theorem inspect_main_exit:
  assumes "inspect_main N d = (code, emitted, d')"
  shows "code \<in> {0, 1, 2} \<and> frame {BODY_FILE} d d'
    \<and> (\<exists>e. envelope_validate (iproc_payload N) e = Inr ()
         \<and> (case emitted of None \<Rightarrow> code = 2 | Some t \<Rightarrow> iproc_ser N e = Inr t)
         \<and> (code = 0 \<longleftrightarrow> emitted \<noteq> None \<and> env_status e = Status_Ok)
         \<and> (if \<exists>h I. inspect_configured N h I
            then \<exists>h I r s. inspect_configured N h I
              \<and> inspect_result (iproc_env N) (iproc_lib N) (iproc_fs N) I h d = (r, s)
              \<and> (case env_data e of None \<Rightarrow> True | Some x \<Rightarrow> r = Inr x)
              \<and> (iproc_keep_artifact N \<or> \<not> healthy (iproc_fs N) \<or> \<not> usable d \<or> entry d' BODY_FILE = None)
            else code = 2 \<and> d' = d \<and> env_data e = None))"
proof (cases "\<exists>h I. inspect_configured N h I")
  case False
  then obtain e where "envelope_validate (iproc_payload N) e = Inr ()" "env_data e = None"
    "env_status e \<noteq> Status_Ok" "case emitted of None \<Rightarrow> True | Some t \<Rightarrow> iproc_ser N e = Inr t"
    "code = 2" "d' = d"
    using assms by (rule unconfigured_exit)
  with False show ?thesis
    by (intro conjI exI [of _ e]) (auto simp: frame_def split: option.splits)
next
  case True
  then obtain h I where conf: "inspect_configured N h I" by blast
  obtain outc d1 where run: "inspect (iproc_env N) (iproc_url N) (iproc_lib N) (iproc_fs N) I h d = (outc, d1)"
    by (cases "inspect (iproc_env N) (iproc_url N) (iproc_lib N) (iproc_fs N) I h d")
  obtain r s where res: "inspect_result (iproc_env N) (iproc_lib N) (iproc_fs N) I h d = (r, s)"
    by (cases "inspect_result (iproc_env N) (iproc_lib N) (iproc_fs N) I h d")
  note env = inspect_envelope [OF run res]
  let ?d2 = "if iproc_keep_artifact N then d1 else snd (remove_body (iproc_fs N) d1)"
  let ?e = "out_envelope outc"
  have d': "d' = ?d2"
    and codes: "case emit N ?e of Inl _ \<Rightarrow> code = 2 \<and> emitted = None
      | Inr t \<Rightarrow> code = (if env_status ?e = Status_Ok then 0 else 1) \<and> emitted = Some t"
    using inspect_main_configured [OF conf run] assms by (auto simp: Let_def split: sum.splits)
  have usable_d1: "usable d1 = usable d" using env(3) by (simp add: usable_def)
  have "frame {BODY_FILE} d d'"
    using remove_body_frame [of d1 "iproc_fs N"] env(3) by (auto simp: d' frame_def)
  moreover have "iproc_keep_artifact N \<or> \<not> healthy (iproc_fs N) \<or> \<not> usable d \<or> entry d' BODY_FILE = None"
    using remove_body_gone [of "iproc_fs N" d1] usable_d1 by (auto simp: d')
  moreover have "envelope_validate (iproc_payload N) ?e = Inr ()"
    using env(1) by (simp add: envelope_validate_contract)
  moreover have "code \<in> {0, 1, 2}" "case emitted of None \<Rightarrow> code = 2 | Some t \<Rightarrow> iproc_ser N ?e = Inr t"
    "code = 0 \<longleftrightarrow> emitted \<noteq> None \<and> env_status ?e = Status_Ok"
    using codes by (auto simp: emit_Ok_iff split: sum.splits if_splits)
  moreover have "case env_data ?e of None \<Rightarrow> True | Some x \<Rightarrow> r = Inr x"
    using env(2) by (auto split: option.split)
  ultimately show ?thesis unfolding if_P [OF True] using conf res by blast
qed

section \<open>An example process\<close>

definition example_bundle_dir :: bundle_dir where
  "example_bundle_dir =
     \<lparr>dir_name = Some (lit ''rules''), dir_manifest = Inr [],
      dir_entries = Inr [Inr (utf8 (lit ''a.yar'')), Inr (utf8 (lit ''README''))],
      dir_source = (\<lambda>_. Inr (lit ''rule a'')), dir_elapsed = 0\<rparr>"

lemma example_rule_files:
  "rule_files [Inr (utf8 (lit ''a.yar'')), Inr (utf8 (lit ''README''))] = [utf8 (lit ''a.yar'')]"
  by (simp add: rule_files_def extension_def dot_def lit_def utf8_char_def Let_def)

definition example_main :: "(unit, unit, unit, str, str) inspect_process" where
  "example_main =
     \<lparr>iproc_run_id = lit ''run'', iproc_artifact_dir = rooted [lit ''h''],
      iproc_rules = example_bundle_dir, iproc_handoff_key = rooted [lit ''k''], iproc_out = None,
      iproc_keep_artifact = False, iproc_keys = example_key_env, iproc_lib = example_handoff_lib,
      iproc_fs = healthy_env, iproc_env = example_inspect (\<lambda>_. False),
      iproc_url = example_url_lib,
      iproc_manifest_json = (\<lambda>_. Inr \<lparr>manifest_version = 1, manifest_policy_id = lit ''rules'',
        manifest_description = [], manifest_maintenance = []\<rparr>),
      iproc_ser = (\<lambda>_. Inr (lit ''{}'')), iproc_write = (\<lambda>_ _. Inr ())\<rparr>"

lemma example_bundle_loads:
  "\<exists>B. bundle_load (in_yara (iproc_env example_main)) H (iproc_manifest_json example_main)
     (iproc_rules example_main) = Inr B \<and> bundle_policy_id B = lit ''rules''"
proof -
  have rules: "iproc_rules example_main = example_bundle_dir" by (simp add: example_main_def)
  show ?thesis
    unfolding rules bundle_load_def example_bundle_dir_def bundle_dir.simps
    by (simp add: example_rule_files Let_def context_err_def example_main_def MAX_BUNDLE_FILES_def
        MAX_BUNDLE_BYTES_def example_inspect_def example_yara_def COMPILE_BUDGET_def)
       (simp add: lit_def len_utf8_def)
qed

lemma example_main_configured: "\<exists>h I. inspect_configured example_main h I"
proof -
  have "resolved example_key_env (rooted [lit ''h'']) = rooted [lit ''h'']"
    using resolved_ancestor [of example_key_env "rooted []" "rooted []" "[lit ''h'']"]
    by (simp add: example_key_env_def rooted_def push_names_def)
  then have "key_load_for example_key_env (rooted [lit ''k'']) (rooted [lit ''h'']) =
      Inr (HandoffKey (replicate 32 0))"
    by (simp add: key_load_for_Ok_iff path_starts_with_def)
       (simp add: example_key_env_def rooted_def text_eval)
  then have "key_load_for (iproc_keys example_main) (iproc_handoff_key example_main)
      (iproc_artifact_dir example_main) = Inr (HandoffKey (replicate 32 0))"
    by (simp add: example_main_def)
  then show ?thesis
    unfolding inspect_configured_def
    using example_bundle_loads [of "sha256 (iproc_lib example_main)"] by blast
qed

lemma inspect_main_exit_witness:
  "\<exists>code emitted d' e. inspect_main example_main example_disk = (code, emitted, d')
     \<and> envelope_validate (iproc_payload example_main) e = Inr () \<and> entry d' BODY_FILE = None"
proof -
  obtain code emitted d' where run: "inspect_main example_main example_disk = (code, emitted, d')"
    by (cases "inspect_main example_main example_disk")
  have "\<not> iproc_keep_artifact example_main" "healthy (iproc_fs example_main)" "usable example_disk"
    by (simp_all add: example_main_def)
  then show ?thesis
    using inspect_main_exit [OF run] example_main_configured run by auto
qed

end
