(* ===== verification/Lifecycle.thy ===== *)
theory Lifecycle
  imports Session_Facts
begin

text \<open>
  The lifecycle of \<^verbatim>\<open>inspector/src/session.rs\<close> as a state machine: \<^verbatim>\<open>Received -> Decoded ->
  Normalized -> Inspected -> data\<close>, with a stop reachable from every state. Each rule is one
  method of the source on the value it consumes; the relation leaves open how the methods are
  called, and \<open>session_run\<close> is shown to be the only way through it.
\<close>

section \<open>Phases\<close>

datatype phase =
    At_Handed handed
  | At_Received received
  | At_Decoded decoded
  | At_Normalized normalized
  | At_Inspected inspected
  | At_Released web_fetch_data
  | At_Stopped stop

inductive advance ::
    "('c, 'k, 'e, 't) inspect_env \<Rightarrow> converter list \<Rightarrow> phase \<times> 'k inspection
       \<Rightarrow> phase \<times> 'k inspection \<Rightarrow> bool" for W chain where
  opened: "received_open handed s = (Inr r, t) \<Longrightarrow>
     advance W chain (At_Handed handed, s) (At_Received r, t)"
| open_stopped: "received_open handed s = (Inl e, t) \<Longrightarrow>
     advance W chain (At_Handed handed, s) (At_Stopped e, t)"
| wire_scanned: "scan_wire W r s = (Inr d, t) \<Longrightarrow>
     advance W chain (At_Received r, s) (At_Decoded d, t)"
| wire_stopped: "scan_wire W r s = (Inl e, t) \<Longrightarrow>
     advance W chain (At_Received r, s) (At_Stopped e, t)"
| text_scanned: "scan_text W d s = (Inr n, t) \<Longrightarrow>
     advance W chain (At_Decoded d, s) (At_Normalized n, t)"
| text_stopped: "scan_text W d s = (Inl e, t) \<Longrightarrow>
     advance W chain (At_Decoded d, s) (At_Stopped e, t)"
| converted: "normalized_convert W chain n s = (Inr i, t) \<Longrightarrow>
     advance W chain (At_Normalized n, s) (At_Inspected i, t)"
| convert_stopped: "normalized_convert W chain n s = (Inl e, t) \<Longrightarrow>
     advance W chain (At_Normalized n, s) (At_Stopped e, t)"
| was_released: "release W i s = (Inr x, t) \<Longrightarrow>
     advance W chain (At_Inspected i, s) (At_Released x, t)"
| release_stopped: "release W i s = (Inl e, t) \<Longrightarrow>
     advance W chain (At_Inspected i, s) (At_Stopped e, t)"

inductive_cases advance_from [elim!]: "advance W chain (ph, s) (ph', t)"

inductive_simps advance_final [simp]:
  "advance W chain (At_Released x, s) q" "advance W chain (At_Stopped e, s) q"

abbreviation advances ::
    "('c, 'k, 'e, 't) inspect_env \<Rightarrow> converter list \<Rightarrow> phase \<times> 'k inspection
       \<Rightarrow> phase \<times> 'k inspection \<Rightarrow> bool" where
  "advances W chain \<equiv> (advance W chain)\<^sup>*\<^sup>*"

section \<open>The order of the phases\<close>

datatype rank = R_Handed | R_Received | R_Decoded | R_Normalized | R_Inspected | R_Ended

fun rank_number :: "rank \<Rightarrow> nat" where
  "rank_number R_Handed = 0"
| "rank_number R_Received = 1"
| "rank_number R_Decoded = 2"
| "rank_number R_Normalized = 3"
| "rank_number R_Inspected = 4"
| "rank_number R_Ended = 5"

lemma rank_number_inj [simp]: "rank_number a = rank_number b \<longleftrightarrow> a = b"
  by (cases a; cases b) simp_all

instantiation rank :: linorder
begin

definition less_eq_rank :: "rank \<Rightarrow> rank \<Rightarrow> bool" where
  "less_eq_rank a b \<longleftrightarrow> rank_number a \<le> rank_number b"

definition less_rank :: "rank \<Rightarrow> rank \<Rightarrow> bool" where
  "less_rank a b \<longleftrightarrow> rank_number a < rank_number b"

instance
  by standard (auto simp: less_eq_rank_def less_rank_def)

end

fun phase_rank :: "phase \<Rightarrow> rank" where
  "phase_rank (At_Handed _) = R_Handed"
| "phase_rank (At_Received _) = R_Received"
| "phase_rank (At_Decoded _) = R_Decoded"
| "phase_rank (At_Normalized _) = R_Normalized"
| "phase_rank (At_Inspected _) = R_Inspected"
| "phase_rank (At_Released _) = R_Ended"
| "phase_rank (At_Stopped _) = R_Ended"

lemma advance_rises: "advance W chain (ph, s) (ph', t) \<Longrightarrow> phase_rank ph < phase_rank ph'"
  by (auto simp: less_rank_def)

lemma advances_rise: "advances W chain p q \<Longrightarrow> phase_rank (fst p) \<le> phase_rank (fst q)"
  by (induction rule: rtranclp_induct)
     (auto dest!: advance_rises intro: order.trans less_imp_le)

lemma advance_deterministic:
  "advance W chain (ph, s) (ph1, t1) \<Longrightarrow> advance W chain (ph, s) (ph2, t2) \<Longrightarrow> ph1 = ph2 \<and> t1 = t2"
  by auto

section \<open>What is reachable\<close>

text \<open>How far \<open>session_run\<close> has come in a phase reached from \<open>handed\<close> in \<open>s\<close>.\<close>

fun run_to ::
    "('c, 'k, 'e, 't) inspect_env \<Rightarrow> converter list \<Rightarrow> handed \<Rightarrow> 'k inspection \<Rightarrow> phase
       \<Rightarrow> 'k inspection \<Rightarrow> bool" where
  "run_to W chain h s (At_Handed h') t \<longleftrightarrow> h' = h \<and> t = s"
| "run_to W chain h s (At_Received r) t \<longleftrightarrow> received_open h s = (Inr r, t)"
| "run_to W chain h s (At_Decoded d) t \<longleftrightarrow>
     bind_step (received_open h) (scan_wire W) s = (Inr d, t)"
| "run_to W chain h s (At_Normalized n) t \<longleftrightarrow>
     bind_step (bind_step (received_open h) (scan_wire W)) (scan_text W) s = (Inr n, t)"
| "run_to W chain h s (At_Inspected i) t \<longleftrightarrow>
     bind_step (bind_step (bind_step (received_open h) (scan_wire W)) (scan_text W))
       (normalized_convert W chain) s = (Inr i, t)"
| "run_to W chain h s (At_Released x) t \<longleftrightarrow> session_run W chain h s = (Inr x, t)"
| "run_to W chain h s (At_Stopped e) t \<longleftrightarrow> session_run W chain h s = (Inl e, t)"

lemma session_run_assoc:
  "session_run W chain h = bind_step (bind_step (bind_step (bind_step (received_open h) (scan_wire W))
     (scan_text W)) (normalized_convert W chain)) (release W)"
  by (simp add: session_run_def bind_step_assoc)

lemma run_to_advance:
  "run_to W chain h s ph t \<Longrightarrow> advance W chain (ph, t) (ph', u) \<Longrightarrow> run_to W chain h s ph' u"
  by (cases ph) (auto simp: session_run_assoc, auto simp: bind_step_def)

lemma reachable_run_to:
  assumes "advances W chain (At_Handed h, s) (ph, t)"
  shows "run_to W chain h s ph t"
  using assms
proof (induction rule: rtranclp_induct2)
  case (step ph t ph' t')
  from run_to_advance [OF step(3,2)] show ?case .
qed simp

lemma reach_phases:
  "received_open h s = (Inr r, t) \<Longrightarrow> advances W chain (At_Handed h, s) (At_Received r, t)"
  "bind_step (received_open h) (scan_wire W) s = (Inr d, t) \<Longrightarrow>
     advances W chain (At_Handed h, s) (At_Decoded d, t)"
  "bind_step (bind_step (received_open h) (scan_wire W)) (scan_text W) s = (Inr n, t) \<Longrightarrow>
     advances W chain (At_Handed h, s) (At_Normalized n, t)"
  "bind_step (bind_step (bind_step (received_open h) (scan_wire W)) (scan_text W))
       (normalized_convert W chain) s = (Inr i, t) \<Longrightarrow>
     advances W chain (At_Handed h, s) (At_Inspected i, t)"
proof -
  show received: "advances W chain (At_Handed h, s) (At_Received r, t)"
    if "received_open h s = (Inr r, t)" for r t
    using that by (blast intro: advance.opened)
  show decoded: "advances W chain (At_Handed h, s) (At_Decoded d, t)"
    if "bind_step (received_open h) (scan_wire W) s = (Inr d, t)" for d t
    using that received
    by (auto simp: bind_step_Ok_iff intro: rtranclp.rtrancl_into_rtrancl advance.wire_scanned)
  show normalized: "advances W chain (At_Handed h, s) (At_Normalized n, t)"
    if "bind_step (bind_step (received_open h) (scan_wire W)) (scan_text W) s = (Inr n, t)" for n t
    using that decoded bind_step_Ok_iff [of "bind_step (received_open h) (scan_wire W)" "scan_text W"]
    by (blast intro: rtranclp.rtrancl_into_rtrancl advance.text_scanned)
  show "advances W chain (At_Handed h, s) (At_Inspected i, t)"
    if "bind_step (bind_step (bind_step (received_open h) (scan_wire W)) (scan_text W))
       (normalized_convert W chain) s = (Inr i, t)" for i t
    using that normalized bind_step_Ok_iff [of _ "normalized_convert W chain"]
    by (blast intro: rtranclp.rtrancl_into_rtrancl advance.converted)
qed

lemma reach_released:
  assumes "session_run W chain h s = (Inr x, t)"
  shows "advances W chain (At_Handed h, s) (At_Released x, t)"
proof -
  from assms obtain i u where "advances W chain (At_Handed h, s) (At_Inspected i, u)"
    "release W i u = (Inr x, t)"
    using reach_phases(4) [where h = h and s = s and W = W and chain = chain] unfolding session_run_assoc bind_step_Ok_iff [of _ "release W"]
    by blast
  then show ?thesis by (blast intro: rtranclp.rtrancl_into_rtrancl advance.was_released)
qed

lemma reach_stopped:
  assumes "session_run W chain h s = (Inl e, t)"
  shows "advances W chain (At_Handed h, s) (At_Stopped e, t)"
proof -
  have into: "advances W chain (At_Handed h, s) q" if "advances W chain (At_Handed h, s) p" "advance W chain p q" for p q
    using that by (rule rtranclp.rtrancl_into_rtrancl)
  from assms consider
      "bind_step (bind_step (bind_step (received_open h) (scan_wire W)) (scan_text W)) (normalized_convert W chain) s = (Inl e, t)"
    | i u where "bind_step (bind_step (bind_step (received_open h) (scan_wire W)) (scan_text W)) (normalized_convert W chain) s = (Inr i, u)"
        "release W i u = (Inl e, t)"
    unfolding session_run_assoc bind_step_Err_iff [of _ "release W"] by blast
  then show ?thesis
  proof cases
    case 2
    then show ?thesis by (blast intro: into reach_phases(4) advance.release_stopped)
  next
    case 1
    then consider "bind_step (bind_step (received_open h) (scan_wire W)) (scan_text W) s = (Inl e, t)"
      | n u where "bind_step (bind_step (received_open h) (scan_wire W)) (scan_text W) s = (Inr n, u)"
          "normalized_convert W chain n u = (Inl e, t)"
      unfolding bind_step_Err_iff [of _ "normalized_convert W chain"] by blast
    then show ?thesis
    proof cases
      case 2
      then show ?thesis by (blast intro: into reach_phases(3) advance.convert_stopped)
    next
      case 1
      then consider "received_open h s = (Inl e, t)"
        | r u where "received_open h s = (Inr r, u)" "scan_wire W r u = (Inl e, t)"
        | d u where "bind_step (received_open h) (scan_wire W) s = (Inr d, u)" "scan_text W d u = (Inl e, t)"
        unfolding bind_step_Err_iff by blast
      then show ?thesis
        by cases (blast intro: into reach_phases(1,2) advance.open_stopped advance.wire_stopped
            advance.text_stopped)+
    qed
  qed
qed


lemma advance_measure:
  "advance W chain p q \<Longrightarrow> rank_number (phase_rank (fst p)) < rank_number (phase_rank (fst q))"
  by (cases p; cases q) (auto dest!: advance_rises simp: less_rank_def)

lemma advance_chain_bound:
  "(advance W chain ^^ n) p q \<Longrightarrow> rank_number (phase_rank (fst p)) + n \<le> rank_number (phase_rank (fst q))"
proof (induction n arbitrary: q)
  case (Suc n)
  then obtain m where "(advance W chain ^^ n) p m" "advance W chain m q" by auto
  then show ?case using Suc.IH [of m] advance_measure [of W chain m q] by linarith
qed simp

lemma advance_enabled: "phase_rank ph \<noteq> R_Ended \<Longrightarrow> \<exists>q. advance W chain (ph, s) q"
proof (cases ph)
  case (At_Handed h)
  then show ?thesis
    by (cases "received_open h s"; cases "fst (received_open h s)")
       (auto intro: advance.opened advance.open_stopped)
next
  case (At_Received r)
  then show ?thesis
    by (cases "scan_wire W r s"; cases "fst (scan_wire W r s)")
       (auto intro: advance.wire_scanned advance.wire_stopped)
next
  case (At_Decoded d)
  then show ?thesis
    by (cases "scan_text W d s"; cases "fst (scan_text W d s)")
       (auto intro: advance.text_scanned advance.text_stopped)
next
  case (At_Normalized n)
  then show ?thesis
    by (cases "normalized_convert W chain n s"; cases "fst (normalized_convert W chain n s)")
       (auto intro: advance.converted advance.convert_stopped)
next
  case (At_Inspected i)
  then show ?thesis
    by (cases "release W i s"; cases "fst (release W i s)")
       (auto intro: advance.was_released advance.release_stopped)
qed simp_all

lemma advance_ended: "advance W chain (ph, s) q \<Longrightarrow> phase_rank ph \<noteq> R_Ended"
  by (cases ph) auto

lemma rank_number_bound: "rank_number r \<le> 5"
  by (cases r) simp_all


end
