(* ===== verification/Testserver.thy ===== *)
theory Testserver
  imports Rust_Numbers
begin

text \<open>
  \<^verbatim>\<open>fetch-worker/src/testserver.rs\<close>: the scripted HTTP server the fetch tests run against. A
  connection is the results of reading lines from it, up to the end of the stream, and what the
  server does with its writing side: writes, flushes and pauses, in order. Failed writes are
  ignored by the code and left out here.
\<close>

section \<open>Replies\<close>

datatype reply =
    Body u16 str bytes
  | Encoded u16 str bytes str
  | Redirect u16 str
  | Stalled str
  | Untyped bytes

type_synonym route = "str \<Rightarrow> reply option"

datatype stream_event =
    Wrote bytes
  | Flushed
  | Slept nat

type_synonym connection = "(unit + str) list"

definition crlf :: str where
  "crlf = [13, 10]"

definition response_head :: "u16 \<Rightarrow> nat \<Rightarrow> str list \<Rightarrow> str" where
  "response_head st n headers =
     lit ''HTTP/1.1 '' @ show_nat (unat st) @ lit '' X'' @ crlf
     @ lit ''content-length: '' @ show_nat n @ crlf @ lit ''connection: close'' @ crlf
     @ concat (map (\<lambda>h. h @ crlf) headers) @ crlf"

definition write_response :: "u16 \<Rightarrow> str list \<Rightarrow> bytes \<Rightarrow> stream_event list" where
  "write_response st headers body =
     [Wrote (utf8 (response_head st (length body) headers)), Wrote body, Flushed]"

section \<open>One connection\<close>

text \<open>\<^verbatim>\<open>split_whitespace\<close>: the non-empty runs between whitespace.\<close>

definition split_whitespace :: "str \<Rightarrow> str list" where
  "split_whitespace s =
     filter (\<lambda>p. p \<noteq> []) (split_on 32 (map (\<lambda>c. if is_whitespace c then 32 else c) s))"

definition request_path :: "str \<Rightarrow> str" where
  "request_path request_line =
     (case split_whitespace request_line of _ # p # _ \<Rightarrow> p | _ \<Rightarrow> lit ''/'')"

text \<open>The loop over the header lines: whether the exchange goes on.\<close>

fun drain_headers :: "connection \<Rightarrow> bool" where
  "drain_headers [] = True"
| "drain_headers (Inl _ # _) = False"
| "drain_headers (Inr line # rest) = (if trim line = [] then True else drain_headers rest)"

definition stalled_head :: "str \<Rightarrow> str" where
  "stalled_head content_type =
     lit ''HTTP/1.1 200 OK'' @ crlf @ lit ''content-type: '' @ content_type @ crlf
     @ lit ''content-length: 64'' @ crlf @ lit ''connection: close'' @ crlf @ crlf"

fun send_reply :: "reply option \<Rightarrow> stream_event list" where
  "send_reply (Some (Body st ctype body)) =
     write_response st [lit ''content-type: '' @ ctype] body"
| "send_reply (Some (Encoded st ctype body extra)) =
     write_response st [lit ''content-type: '' @ ctype, extra] body"
| "send_reply (Some (Redirect st location)) =
     write_response st [lit ''location: '' @ location, lit ''content-type: text/html''] []"
| "send_reply (Some (Stalled ctype)) =
     [Wrote (utf8 (stalled_head ctype)), Flushed, Slept (5 * 10 ^ 9)]"
| "send_reply (Some (Untyped body)) = write_response 200 [] body"
| "send_reply None =
     write_response 404 [lit ''content-type: text/plain''] (utf8 (lit ''not found''))"

definition serve :: "route \<Rightarrow> connection \<Rightarrow> stream_event list" where
  "serve route stream =
     (case (case stream of [] \<Rightarrow> Inr ([], []) | Inl e # _ \<Rightarrow> Inl e | Inr l # rest \<Rightarrow> Inr (l, rest)) of
        Inl _ \<Rightarrow> []
      | Inr (request_line, rest) \<Rightarrow>
          if drain_headers rest then send_reply (route (request_path request_line)) else [])"

section \<open>The listener\<close>

record test_server =
  server_port :: u16
  server_requests :: nat

definition server_start :: "u16 \<Rightarrow> test_server" where
  "server_start port = \<lparr>server_port = port, server_requests = 0\<rparr>"

text \<open>The accept loop, ended by the first failed accept. Every connection has its own thread, and
  all they share is the counter, so what each of them writes is listed in the order of arrival.\<close>

fun server_accept ::
    "route \<Rightarrow> (unit + connection) list \<Rightarrow> test_server \<Rightarrow> stream_event list list \<times> test_server" where
  "server_accept route [] S = ([], S)"
| "server_accept route (Inl _ # incoming) S = ([], S)"
| "server_accept route (Inr stream # incoming) S =
     (let (outputs, S') = server_accept route incoming (S\<lparr>server_requests := server_requests S + 1\<rparr>)
      in (serve route stream # outputs, S'))"

lemma server_accept_all:
  "server_accept route (map Inr streams) S =
     (map (serve route) streams, S\<lparr>server_requests := server_requests S + length streams\<rparr>)"
  by (induction streams arbitrary: S) auto

section \<open>The well-formed request\<close>

lemma split_on_plain: "c \<notin> set s \<Longrightarrow> split_on c (s @ c # t) = s # split_on c t"
  by (simp add: split_on_append split_on_absent)

lemma drain_headers_blank: "trim line = [] \<Longrightarrow> drain_headers (map Inr hs @ Inr line # rest)"
  by (induction hs) auto

definition request_lines :: "str \<Rightarrow> str list \<Rightarrow> connection" where
  "request_lines p headers =
     Inr (lit ''GET '' @ p @ lit '' HTTP/1.1'' @ crlf) # map Inr headers @ [Inr crlf]"

lemma request_path_of:
  assumes "p \<noteq> []" "list_all (\<lambda>c. \<not> is_whitespace c) p"
  shows "request_path (lit ''GET '' @ p @ lit '' HTTP/1.1'' @ crlf) = p"
proof -
  let ?f = "\<lambda>c. if is_whitespace c then 32 else c"
  have p: "map ?f p = p" "32 \<notin> set p"
    using assms(2) by (auto simp: list_all_iff is_whitespace_def map_idI)
  have "map ?f (lit ''GET '' @ p @ lit '' HTTP/1.1'' @ crlf) =
      lit ''GET'' @ 32 # p @ 32 # lit ''HTTP/1.1'' @ 32 # 32 # []"
    using p(1) by (simp add: lit_def crlf_def is_whitespace_def)
  moreover have "32 \<notin> set (lit ''GET'')" "32 \<notin> set (lit ''HTTP/1.1'')" by (simp_all add: lit_def)
  ultimately have "split_on 32 (map ?f (lit ''GET '' @ p @ lit '' HTTP/1.1'' @ crlf)) =
      [lit ''GET'', p, lit ''HTTP/1.1'', [], []]"
    using p(2) by (simp add: split_on_plain)
  then show ?thesis using assms(1) by (simp add: request_path_def split_whitespace_def lit_def)
qed

lemma serve_request:
  assumes "p \<noteq> []" "list_all (\<lambda>c. \<not> is_whitespace c) p"
  shows "serve route (request_lines p headers) = send_reply (route p)"
  using request_path_of [OF assms] drain_headers_blank [of crlf headers "[]"]
  by (simp add: serve_def request_lines_def crlf_def text_eval)

end
