(* ===== verification/Served_Fetch.thy ===== *)
theory Served_Fetch
  imports Fetch_Facts Testserver
begin

text \<open>
  The fetcher against the scripted server: what a fetch returns is what a walk over the server's
  replies gives. The HTTP client between the two is an argument: what it sends is read by the
  server as the model of \<open>Testserver\<close> reads it, and what it makes of the bytes it receives is
  constrained by what HTTP says of a response with a content length.
\<close>

section \<open>The client in between\<close>

record 'r http_client =
  http_send :: "http_request \<Rightarrow> connection"
  http_receive :: "duration option \<Rightarrow> stream_event list \<Rightarrow> 'r"
  uri_path :: "str \<Rightarrow> str"

text \<open>A header line as the pair of its name, in lower case, and its value.\<close>

definition header_field :: "str \<Rightarrow> str \<times> str" where
  "header_field line =
     (case split_once (uc CHR '':'') line of
        Some (name, val) \<Rightarrow> (to_ascii_lowercase name, trim val)
      | None \<Rightarrow> (line, []))"

text \<open>A header line of printable ASCII whose name is a plain word and says nothing of how the
  message is framed.\<close>

definition plain_header :: "str \<Rightarrow> bool" where
  "plain_header line \<longleftrightarrow>
     list_all (\<lambda>c. 32 \<le> c \<and> c < 127) line \<and> length line \<le> 1000
     \<and> (case split_once (uc CHR '':'') line of
          None \<Rightarrow> False
        | Some (name, _) \<Rightarrow>
            name \<noteq> [] \<and> list_all (\<lambda>c. is_ascii_lowercase c \<or> c = uc CHR ''-'') name
            \<and> name \<notin> {lit ''content-length'', lit ''transfer-encoding'', lit ''connection''})"

definition reads ::
    "'r http_lib \<Rightarrow> 'r \<Rightarrow> u16 \<Rightarrow> (str \<times> str) list \<Rightarrow> (nat \<Rightarrow> ureq_error + bytes) \<Rightarrow> bool" where
  "reads H r st hfs content \<longleftrightarrow>
     resp_status H r = st
     \<and> resp_headers H r = map (\<lambda>(name, val). (name, utf8 val)) hfs
     \<and> (\<forall>name. Option.bind (resp_get H r name) (header_to_str H) = map_of hfs name)
     \<and> read_body H r = content"

definition whole_body :: "bytes \<Rightarrow> nat \<Rightarrow> ureq_error + bytes" where
  "whole_body body limit = (if length body \<le> limit then Inr body else Inl Ureq_BodyExceedsLimit)"

definition body_status :: "u16 \<Rightarrow> bool" where
  "body_status st \<longleftrightarrow> 200 \<le> st \<and> st \<le> 599 \<and> st \<noteq> 204 \<and> st \<noteq> 304"

definition framing :: "nat \<Rightarrow> (str \<times> str) list" where
  "framing n = [(lit ''content-length'', show_nat n), (lit ''connection'', lit ''close'')]"

text \<open>What HTTP/1.1 says of a complete response with these headers, whose bytes are all there to
  be read, and what the client documents of one whose body does not come before its timeout.\<close>

definition client_lawful :: "'r http_client \<Rightarrow> 'r http_lib \<Rightarrow> bool" where
  "client_lawful C H \<longleftrightarrow>
     (\<forall>req. let p = uri_path C (request_url req) in
        p \<noteq> [] \<and> list_all (\<lambda>c. \<not> is_whitespace c) p
        \<and> (\<exists>headers. http_send C req = request_lines p headers))
     \<and> (\<forall>timeout st headers body.
          body_status st \<and> list_all plain_header headers \<and> length headers \<le> 2 \<and> length body < 2 ^ 64 \<longrightarrow>
          reads H (http_receive C timeout (write_response st headers body)) st
            (framing (length body) @ map header_field headers) (whole_body body))
     \<and> (\<forall>left ctype. plain_header (lit ''content-type: '' @ ctype) \<and> left < 5 * 10 ^ 9 \<longrightarrow>
          reads H (http_receive C (Some left) (send_reply (Some (Stalled ctype)))) 200
            ((lit ''content-type'', trim ctype) # framing 64) (\<lambda>limit. Inl Ureq_Timeout))"

definition server_exchange ::
    "'r http_client \<Rightarrow> route \<Rightarrow> socket_addr \<Rightarrow> nat \<Rightarrow> agent \<Rightarrow> http_request \<Rightarrow> ureq_error + 'r" where
  "server_exchange C route sa n ag req =
     and_then (pinned_resolve (agent_resolver ag) (request_url req)) (\<lambda>addresses.
       if sa \<in> set addresses
       then Inr (http_receive C (agent_timeout ag) (serve route (http_send C req)))
       else Inl (Ureq_Other (lit ''connection refused'')))"

section \<open>The walk\<close>

text \<open>A reply as status, headers and body; a stalled one has no body.\<close>

type_synonym answer = "u16 \<times> (str \<times> str) list \<times> bytes option"

fun reply_answer :: "reply option \<Rightarrow> answer" where
  "reply_answer (Some (Body st ctype body)) = (st, [(lit ''content-type'', trim ctype)], Some body)"
| "reply_answer (Some (Encoded st ctype body extra)) =
     (st, [(lit ''content-type'', trim ctype), header_field extra], Some body)"
| "reply_answer (Some (Redirect st location)) =
     (st, [(lit ''location'', trim location), (lit ''content-type'', lit ''text/html'')], Some [])"
| "reply_answer (Some (Stalled ctype)) = (200, [(lit ''content-type'', trim ctype)], None)"
| "reply_answer (Some (Untyped body)) = (200, [], Some body)"
| "reply_answer None =
     (404, [(lit ''content-type'', lit ''text/plain'')], Some (utf8 (lit ''not found'')))"

text \<open>The replies that go over the wire as they are.\<close>

fun sendable :: "reply option \<Rightarrow> bool" where
  "sendable (Some (Body st ctype body)) \<longleftrightarrow>
     body_status st \<and> plain_header (lit ''content-type: '' @ ctype) \<and> length body < 2 ^ 64"
| "sendable (Some (Encoded st ctype body extra)) \<longleftrightarrow>
     body_status st \<and> plain_header (lit ''content-type: '' @ ctype) \<and> plain_header extra
     \<and> length body < 2 ^ 64"
| "sendable (Some (Redirect st location)) \<longleftrightarrow>
     body_status st \<and> plain_header (lit ''location: '' @ location)"
| "sendable (Some (Stalled ctype)) \<longleftrightarrow> plain_header (lit ''content-type: '' @ ctype)"
| "sendable (Some (Untyped body)) \<longleftrightarrow> length body < 2 ^ 64"
| "sendable None \<longleftrightarrow> True"

definition answer_location :: "answer \<Rightarrow> str option" where
  "answer_location r =
     (case r of (st, hfs, _) \<Rightarrow>
        if st \<in> {301, 302, 303, 307, 308} then map_of hfs (lit ''location'') else None)"

definition accept_answer :: "answer \<Rightarrow> error_code + media_type \<times> bytes" where
  "accept_answer r =
     (case r of (st, hfs, content) \<Rightarrow>
        case map_of hfs (lit ''content-type'') of
          None \<Rightarrow> Inl UnsupportedContent
        | Some ctype \<Rightarrow>
            (case media_parse ctype of
               Inl _ \<Rightarrow> Inl UnsupportedContent
             | Inr m \<Rightarrow>
                 if \<not> is_supported m
                    \<or> (case map_of hfs (lit ''content-encoding'') of None \<Rightarrow> False
                        | Some e \<Rightarrow> \<not> is_supported_content_encoding e)
                   then Inl UnsupportedContent
                 else (case content of
                         None \<Rightarrow> Inl DeadlineExceeded
                       | Some b \<Rightarrow> if length b > MAX_WIRE_BYTES then Inl ResponseLimitExceeded
                           else Inr (m, b))))"

record 'u site =
  site_url :: "'u url_lib"
  site_lookup :: host_resolver
  site_policy :: destination_policy
  site_server :: socket_addr
  site_route :: route
  site_path :: "str \<Rightarrow> str"

definition visit :: "'u site \<Rightarrow> 'u \<Rightarrow> error_code + answer" where
  "visit X u =
     and_then (resolve (site_url X) (site_lookup X) (site_policy X) u) (\<lambda>d.
       if site_server X \<in> set (take 16 (dest_addresses d))
       then Inr (reply_answer (site_route X (site_path X (url_as_str (site_url X) u))))
       else Inl FetchFailed)"

text \<open>The walk with so many redirects left: how many it did not use, where it ended and on what.\<close>

primrec walk :: "'u site \<Rightarrow> nat \<Rightarrow> 'u \<Rightarrow> error_code + nat \<times> 'u \<times> answer" where
  "walk X 0 u =
     and_then (visit X u) (\<lambda>r.
       if answer_location r = None then Inr (0, u, r) else Inl ResponseLimitExceeded)"
| "walk X (Suc left) u =
     and_then (visit X u) (\<lambda>r.
       case answer_location r of
         None \<Rightarrow> Inr (Suc left, u, r)
       | Some location \<Rightarrow>
           and_then (map_err (\<lambda>_. UnsafeSource) (url_join (site_url X) u location)) (walk X left))"


section \<open>What the fetcher sees of a reply\<close>

definition field_size :: "str \<times> str \<Rightarrow> nat" where
  "field_size f = byte_len (fst f) + length (utf8 (snd f)) + 4"

definition as_sent :: "answer \<Rightarrow> (str \<times> str) list \<Rightarrow> bool" where
  "as_sent r hfs \<longleftrightarrow>
     sum_list (map field_size hfs) \<le> 8000
     \<and> (\<forall>name. name \<notin> {lit ''content-length'', lit ''connection''} \<longrightarrow>
          map_of hfs name = map_of (fst (snd r)) name)"

lemma field_size_plain: "plain_header h \<Longrightarrow> field_size (header_field h) \<le> 1004"
proof -
  assume h: "plain_header h"
  then obtain n v where split: "split_once (uc CHR '':'') h = Some (n, v)"
    by (auto simp: plain_header_def split: option.splits)
  then have hd: "h = n @ uc CHR '':'' # v" by (auto dest: split_once_SomeD)
  have "list_all is_ascii h" using h by (auto simp: plain_header_def list_all_iff is_ascii_def)
  then have ascii: "list_all is_ascii n" "list_all is_ascii (trim v)"
    using trim_matches_set [of is_whitespace v] by (auto simp: hd list_all_iff trim_def)
  have "length (trim v) \<le> length v"
    using length_dropWhile_le [of is_whitespace v]
      length_dropWhile_le [of is_whitespace "rev (dropWhile is_whitespace v)"]
    by (simp add: trim_def trim_matches_def trim_end_by_def trim_start_by_def)
  moreover have "list_all is_ascii (to_ascii_lowercase n)"
    using ascii(1) by (auto simp: list_all_iff to_ascii_lowercase_def to_ascii_lower_def is_ascii_def
        is_ascii_uppercase_def)
  ultimately have "field_size (header_field h) \<le> length h + 3"
    using split ascii by (simp add: field_size_def header_field_def length_utf8 byte_len_ascii hd)
  then show ?thesis using h by (simp add: plain_header_def)
qed

lemma framing_size: "n < 2 ^ 64 \<Longrightarrow> sum_list (map field_size (framing n)) \<le> 60"
proof -
  assume "n < 2 ^ 64"
  then have "length (show_nat n) \<le> 20" by (intro length_show_nat [of _ 19, simplified]) simp
  moreover have "list_all is_ascii (show_nat n)"
    using show_nat_digits [of _ n] by (fastforce simp: list_all_iff is_ascii_digit_def is_ascii_def)
  ultimately have "length (utf8 (show_nat n)) \<le> 20" by (simp add: length_utf8 byte_len_ascii)
  then show ?thesis by (simp add: framing_def field_size_def) (simp add: length_utf8 lit_def len_utf8_def)
qed

lemma fields_size:
  assumes "list_all plain_header headers" "length headers \<le> 2" "n < 2 ^ 64"
  shows "sum_list (map field_size (framing n @ map header_field headers)) \<le> 8000"
proof -
  have "sum_list (map field_size (map header_field headers)) \<le> length headers * 1004"
    using assms(1) by (induction headers) (auto dest: field_size_plain simp: add_mono)
  then show ?thesis using framing_size [OF assms(3)] assms(2) by simp
qed

lemma header_field_lit:
  "uc CHR '':'' \<notin> set (lit n) \<Longrightarrow> to_ascii_lowercase (lit n) = lit n \<Longrightarrow>
     header_field (lit n @ [58, 32] @ v) = (lit n, trim v)"
proof -
  assume "uc CHR '':'' \<notin> set (lit n)" "to_ascii_lowercase (lit n) = lit n"
  moreover have "trim (32 # v) = trim v"
    by (simp add: trim_def trim_matches_def trim_start_by_def is_whitespace_def)
  ultimately show ?thesis
    using split_once_append [of "uc CHR '':''" "lit n" "32 # v"] by (simp add: header_field_def)
qed

lemma header_fields [simp]:
  "header_field (lit ''content-type: '' @ v) = (lit ''content-type'', trim v)"
  "header_field (lit ''location: '' @ v) = (lit ''location'', trim v)"
proof -
  have "lit ''content-type: '' @ v = lit ''content-type'' @ [58, 32] @ v"
    "lit ''location: '' @ v = lit ''location'' @ [58, 32] @ v"
    by (simp_all add: lit_def)
  then show "header_field (lit ''content-type: '' @ v) = (lit ''content-type'', trim v)"
    "header_field (lit ''location: '' @ v) = (lit ''location'', trim v)"
    using header_field_lit [of "''content-type''" v] header_field_lit [of "''location''" v]
    by (simp_all only:) (simp_all add: text_eval to_ascii_lowercase_def)
qed

lemma header_field_fixed [simp]:
  "header_field (lit ''content-type: text/html'') = (lit ''content-type'', lit ''text/html'')"
  "header_field (lit ''content-type: text/plain'') = (lit ''content-type'', lit ''text/plain'')"
  by (simp_all add: header_field_def text_eval to_ascii_lowercase_def)

lemma plain_header_fixed [simp]:
  "plain_header (lit ''content-type: text/html'')" "plain_header (lit ''content-type: text/plain'')"
  by (simp_all add: plain_header_def text_eval)

lemma framing_names:
  "name \<notin> {lit ''content-length'', lit ''connection''} \<Longrightarrow> map_of (framing n @ hfs) name = map_of hfs name"
  "name \<notin> {lit ''content-length'', lit ''connection''} \<Longrightarrow> map_of (framing n) name = None"
  by (auto simp: framing_def)

definition answer_body :: "answer \<Rightarrow> nat \<Rightarrow> ureq_error + bytes" where
  "answer_body r = (case snd (snd r) of None \<Rightarrow> (\<lambda>_. Inl Ureq_Timeout) | Some b \<Rightarrow> whole_body b)"

lemma reply_parts:
  assumes "\<And>ctype. rep \<noteq> Some (Stalled ctype)"
  obtains st headers body where "send_reply rep = write_response st headers body"
    "reply_answer rep = (st, map header_field headers, Some body)" "length headers \<le> 2"
    "sendable rep \<Longrightarrow> body_status st \<and> list_all plain_header headers \<and> length body < 2 ^ 64"
proof (cases rep)
  case None
  have "length (utf8 (lit ''not found'')) < 2 ^ 64" by (simp add: length_utf8 lit_def len_utf8_def)
  with None show thesis
    using that [of 404 "[lit ''content-type: text/plain'']" "utf8 (lit ''not found'')"]
    by (simp add: body_status_def)
next
  case (Some r)
  then show thesis
  proof (cases r)
    case (Body st ctype body)
    with Some show thesis using that [of st "[lit ''content-type: '' @ ctype]" body] by simp
  next
    case (Encoded st ctype body extra)
    with Some show thesis using that [of st "[lit ''content-type: '' @ ctype, extra]" body] by simp
  next
    case (Redirect st location)
    with Some show thesis
      using that [of st "[lit ''location: '' @ location, lit ''content-type: text/html'']" "[]"] by simp
  next
    case (Stalled ctype)
    with Some assms show thesis by blast
  next
    case (Untyped body)
    with Some show thesis using that [of 200 "[]" body] by (simp add: body_status_def)
  qed
qed

text \<open>What the client reads of every sendable reply.\<close>

lemma client_reads:
  assumes C: "client_lawful C H" and "sendable rep"
    and "\<And>ctype. rep = Some (Stalled ctype) \<Longrightarrow> left < 5 * 10 ^ 9"
  shows "\<exists>hfs. reads H (http_receive C (Some left) (send_reply rep)) (fst (reply_answer rep)) hfs
      (answer_body (reply_answer rep)) \<and> as_sent (reply_answer rep) hfs"
proof (cases "\<exists>ctype. rep = Some (Stalled ctype)")
  case True
  then obtain ctype where rep: "rep = Some (Stalled ctype)" by blast
  let ?hfs = "(lit ''content-type'', trim ctype) # framing 64"
  have plain: "plain_header (lit ''content-type: '' @ ctype)" using assms(2) rep by simp
  have "field_size (lit ''content-type'', trim ctype) \<le> 1004" using field_size_plain [OF plain] by simp
  then have "as_sent (reply_answer rep) ?hfs"
    using framing_size [of 64] by (auto simp: rep as_sent_def framing_names(2))
  moreover have "reads H (http_receive C (Some left) (send_reply rep)) 200 ?hfs (\<lambda>limit. Inl Ureq_Timeout)"
    using C plain assms(3) rep by (simp add: client_lawful_def del: send_reply.simps)
  ultimately show ?thesis by (auto simp: rep answer_body_def simp del: send_reply.simps)
next
  case False
  then obtain st headers body where parts: "send_reply rep = write_response st headers body"
    "reply_answer rep = (st, map header_field headers, Some body)" "length headers \<le> 2"
    "body_status st" "list_all plain_header headers" "length body < 2 ^ 64"
    using reply_parts [of rep] assms(2) by metis
  have "reads H (http_receive C (Some left) (write_response st headers body)) st
      (framing (length body) @ map header_field headers) (whole_body body)"
    using C parts(3-6) by (simp add: client_lawful_def)
  moreover have "as_sent (reply_answer rep) (framing (length body) @ map header_field headers)"
    using fields_size [OF parts(5,3,6)]
    by (auto simp: as_sent_def parts(2) framing_names(1) simp del: map_of_append map_append)
  ultimately show ?thesis unfolding parts(1,2) by (auto simp: answer_body_def)
qed

section \<open>The fetch is the walk\<close>

text \<open>The environment of a fetch in which the one server is reachable at its address, the names
  resolve the same way on every hop, and no hop begins after the deadline.\<close>

definition on_site :: "('u, 'r, 't) fetch_env \<Rightarrow> fetcher \<Rightarrow> 'r http_client \<Rightarrow> 'u site \<Rightarrow> bool" where
  "on_site E F C X \<longleftrightarrow>
     url E = site_url X \<and> (\<forall>n. answers E n = site_lookup X) \<and> fetcher_policy F = site_policy X
     \<and> exchange E = server_exchange C (site_route X) (site_server X) \<and> uri_path C = site_path X
     \<and> client_lawful C (http E) \<and> (\<forall>n. elapsed E n < fetcher_deadline F)
     \<and> (\<exists>at. rfc3339_format (time E) (now_utc E) = Some at)
     \<and> (\<forall>p. sendable (site_route X p))
     \<and> ((\<exists>p ctype. site_route X p = Some (Stalled ctype)) \<longrightarrow> fetcher_deadline F < 5 * 10 ^ 9)"

text \<open>What a fetch says of the page it fetched.\<close>

definition page_of :: "fetched \<Rightarrow> str \<times> u32 \<times> u16 \<times> str option \<times> str option \<times> bytes" where
  "page_of f =
     (let a = fetched_artifact f in
      (art_final_url a, art_redirects a, art_http_status a, art_content_type a,
       art_content_encoding a, fetched_body f))"

definition walked_page :: "'u site \<Rightarrow> nat \<times> 'u \<times> answer
    \<Rightarrow> error_code + str \<times> u32 \<times> u16 \<times> str option \<times> str option \<times> bytes" where
  "walked_page X w =
     (case w of (left, u, r) \<Rightarrow>
        map_ok (\<lambda>(m, b). (url_as_str (site_url X) u, word_of_nat (3 - left), fst r,
            Some (header_value m), map_of (fst (snd r)) (lit ''content-encoding''), b))
          (accept_answer r))"

lemma read_names:
  "lit ''content-type'' \<notin> {lit ''content-length'', lit ''connection''}"
  "lit ''content-encoding'' \<notin> {lit ''content-length'', lit ''connection''}"
  "lit ''location'' \<notin> {lit ''content-length'', lit ''connection''}"
  by (simp_all add: lit_def)

lemma read_headers:
  assumes "reads H r (fst a) hfs (answer_body a)" "as_sent a hfs"
  shows "header_str H r ''content-type'' = map_of (fst (snd a)) (lit ''content-type'')"
    and "header_str H r ''content-encoding'' = map_of (fst (snd a)) (lit ''content-encoding'')"
    and "redirect_target H r = answer_location a"
    and "measure_headers H r \<le> 8000"
proof -
  have names: "header_str H r n = map_of (fst (snd a)) (lit n)"
    if "lit n \<notin> {lit ''content-length'', lit ''connection''}" for n
    using assms that by (simp add: reads_def as_sent_def header_str_def)
  show "header_str H r ''content-type'' = map_of (fst (snd a)) (lit ''content-type'')"
    "header_str H r ''content-encoding'' = map_of (fst (snd a)) (lit ''content-encoding'')"
    using names read_names by blast+
  show "redirect_target H r = answer_location a"
    using names [OF read_names(3)] assms(1)
    by (simp add: redirect_target_def answer_location_def reads_def split: prod.split)
  have "measure_headers H r = sum_list (map (\<lambda>x. byte_len (fst x) + byte_len (snd x) + 4) hfs)"
    using assms(1) by (simp add: measure_headers_def reads_def comp_def split_def)
  also have "\<dots> = sum_list (map field_size hfs)"
    by (rule arg_cong [where f = sum_list]) (simp add: field_size_def)
  finally show "measure_headers H r \<le> 8000" using assms(2) by (simp add: as_sent_def)
qed

lemma complete_answer:
  assumes r: "reads (http E) r (fst a) hfs (answer_body a)" "as_sent a hfs"
    and "url E = site_url X" "rfc3339_format (time E) (now_utc E) = Some at" "left \<le> 3"
  shows "map_ok page_of (fetch_complete E F run_id request requested u (word_of_nat (3 - left)) r) =
    walked_page X (left, u, a)"
proof -
  obtain st hs b where a: "a = (st, hs, b)" by (cases a)
  have body: "read_body (http E) r = answer_body a" "resp_status (http E) r = st"
    using r(1) by (simp_all add: reads_def a)
  show ?thesis
    using read_headers(1,2) [OF r] assms(3-5)
    by (simp add: fetch_complete_def walked_page_def accept_answer_def a body answer_body_def
        whole_body_def page_of_def Let_def is_ok_iff
        split: option.splits sum.splits)
qed

text \<open>One hop of the loop is one visit.\<close>

lemma hop_visit:
  assumes "on_site E F C X"
  shows "case visit X u of
      Inl e \<Rightarrow> \<exists>calls'. fetch_hop E F u calls = (Inl e, calls')
    | Inr a \<Rightarrow> \<exists>r hfs call. fetch_hop E F u calls = (Inr r, calls @ [call])
        \<and> reads (http E) r (fst a) hfs (answer_body a) \<and> as_sent a hfs"
proof -
  define left where "left = fetcher_deadline F - elapsed E (length calls)"
  have site: "url E = site_url X" "answers E (length calls) = site_lookup X"
    "fetcher_policy F = site_policy X" "exchange E = server_exchange C (site_route X) (site_server X)"
    "client_lawful C (http E)" "uri_path C = site_path X"
    using assms by (auto simp: on_site_def)
  have rem: "remaining E F (length calls) = Inr left"
    using assms by (auto simp: on_site_def remaining_Ok_iff left_def)
  show ?thesis
  proof (cases "resolve (site_url X) (site_lookup X) (site_policy X) u")
    case (Inl e)
    then show ?thesis by (simp add: visit_def fetch_hop_def rem site)
  next
    case (Inr d)
    then have d: "dest_url d = u" "dest_addresses d \<noteq> []" by (auto simp: resolve_Ok_iff)
    let ?p = "site_path X (url_as_str (site_url X) u)"
    let ?req = "\<lparr>request_url = url_as_str (site_url X) u,
        request_headers = [(lit ''user-agent'', USER_AGENT), (lit ''accept'', ACCEPT),
          (lit ''accept-encoding'', ACCEPT_ENCODING)]\<rparr>"
    show ?thesis
    proof (cases "site_server X \<in> set (take 16 (dest_addresses d))")
      case False
      then show ?thesis using Inr d
        by (simp add: visit_def fetch_hop_def rem site server_exchange_def build_agent_def
            pinned_resolver_def pinned_resolve_def Let_def)
    next
      case True
      have "\<forall>req. let p = uri_path C (request_url req) in
          p \<noteq> [] \<and> list_all (\<lambda>c. \<not> is_whitespace c) p
          \<and> (\<exists>headers. http_send C req = request_lines p headers)"
        using site(5) unfolding client_lawful_def by blast
      from spec [OF this, of ?req]
      have p: "?p \<noteq> []" "list_all (\<lambda>c. \<not> is_whitespace c) ?p"
        and "\<exists>headers. http_send C ?req = request_lines ?p headers"
        by (simp_all add: Let_def site(6))
      then have served: "serve (site_route X) (http_send C ?req) = send_reply (site_route X ?p)"
        using serve_request [OF p] by auto
      have "left < 5 * 10 ^ 9" if "site_route X ?p = Some (Stalled ctype)" for ctype
      proof -
        have "fetcher_deadline F < 5 * 10 ^ 9" using assms that by (auto simp: on_site_def)
        then show ?thesis by (simp add: left_def)
      qed
      then obtain hfs where read: "reads (http E) (http_receive C (Some left) (send_reply (site_route X ?p)))
          (fst (reply_answer (site_route X ?p))) hfs (answer_body (reply_answer (site_route X ?p)))"
          "as_sent (reply_answer (site_route X ?p)) hfs"
        using client_reads [OF site(5), of "site_route X ?p" left] assms by (auto simp: on_site_def)
      from True Inr d have "visit X u = Inr (reply_answer (site_route X ?p))"
        by (simp add: visit_def)
      moreover have "\<exists>call. fetch_hop E F u calls =
          (Inr (http_receive C (Some left) (send_reply (site_route X ?p))), calls @ [call])"
        using Inr d True
        by (simp add: fetch_hop_def rem site server_exchange_def build_agent_def
            pinned_resolver_def pinned_resolve_def Let_def served)
      ultimately show ?thesis using read by auto
    qed
  qed
qed

lemma redirects_word: "left \<le> 3 \<Longrightarrow> (word_of_nat (3 - left) :: u32) + 1 > MAX_REDIRECTS \<longleftrightarrow> left = 0"
  by (cases "left = 0"; cases "left = 1"; cases "left = 2"; cases "left = 3")
     (auto simp: MAX_REDIRECTS_def)

lemma redirects_next: "left < 3 \<Longrightarrow> (word_of_nat (3 - Suc left) :: u32) + 1 = word_of_nat (3 - left)"
  by (cases "left = 0"; cases "left = 1"; cases "left = 2") auto

lemma loop_walk:
  assumes "on_site E F C X" "left \<le> 3" "hb \<le> (3 - left) * 8000"
  shows "map_ok page_of (fst (fetch_loop E F run_id request requested u hb (word_of_nat (3 - left)) calls)) =
    and_then (walk X left u) (walked_page X)"
  using assms(2,3)
proof (induction left arbitrary: u hb calls)
  case 0
  note loop = fetch_loop.simps [of E F run_id request requested u]
  show ?case
  proof (cases "visit X u")
    case (Inl e)
    with hop_visit [OF assms(1), of u calls] show ?thesis by (auto simp: loop)
  next
    case (Inr a)
    with hop_visit [OF assms(1), of u calls] obtain r hfs call where hop:
      "fetch_hop E F u calls = (Inr r, calls @ [call])"
      and r: "reads (http E) r (fst a) hfs (answer_body a)" "as_sent a hfs" by auto
    obtain at where "url E = site_url X" "rfc3339_format (time E) (now_utc E) = Some at"
      using assms(1) by (auto simp: on_site_def)
    note fin = complete_answer [OF r this, of 0 F run_id request requested u]
    have "\<not> hb + measure_headers (http E) r > MAX_HEADER_BYTES"
      using read_headers(4) [OF r] 0 by (simp add: MAX_HEADER_BYTES_def)
    then show ?thesis
      using read_headers(3) [OF r] redirects_word [of 0] fin
      by (simp add: loop hop Inr Let_def split: option.split)
  qed
next
  case (Suc left)
  note loop = fetch_loop.simps [of E F run_id request requested u]
  show ?case
  proof (cases "visit X u")
    case (Inl e)
    with hop_visit [OF assms(1), of u calls] show ?thesis by (auto simp: loop)
  next
    case (Inr a)
    with hop_visit [OF assms(1), of u calls] obtain r hfs call where hop:
      "fetch_hop E F u calls = (Inr r, calls @ [call])"
      and r: "reads (http E) r (fst a) hfs (answer_body a)" "as_sent a hfs" by auto
    obtain at where site: "url E = site_url X" "rfc3339_format (time E) (now_utc E) = Some at"
      using assms(1) by (auto simp: on_site_def)
    note fin = complete_answer [OF r site, of "Suc left" F run_id request requested u]
    let ?hb = "hb + measure_headers (http E) r"
    have hb: "?hb \<le> (3 - left) * 8000" "\<not> ?hb > MAX_HEADER_BYTES"
      using read_headers(4) [OF r] Suc.prems by (auto simp: MAX_HEADER_BYTES_def)
    have no: "\<not> (word_of_nat (3 - Suc left) :: u32) + 1 > MAX_REDIRECTS"
      using redirects_word [of "Suc left"] Suc.prems(1) by simp
    have next': "(word_of_nat (3 - Suc left) :: u32) + 1 = word_of_nat (3 - left)"
      using redirects_next [of left] Suc.prems(1) by simp
    show ?thesis
    proof (cases "answer_location a")
      case None
      then show ?thesis
        using read_headers(3) [OF r] fin hb(2) Suc.prems(1) by (simp add: loop hop Inr Let_def)
    next
      case (Some location)
      then show ?thesis
        using read_headers(3) [OF r] hb(2) no Suc.IH [OF _ hb(1)] Suc.prems(1)
        by (cases "url_join (site_url X) u location") (simp_all add: loop hop Inr Let_def next' site)
    qed
  qed
qed


end
