(* ===== verification/Reference_Client.thy ===== *)
theory Reference_Client
  imports Served_Fetch
begin

text \<open>
  Concrete libraries for the properties that speak of an HTTP client and a URL library: a reader
  of HTTP/1.1 responses that reads back whatever the scripted server writes, and a library of
  plain web URLs.
\<close>

section \<open>Reading a response\<close>

function read_head :: "str \<Rightarrow> str list \<times> str" where
  "read_head s =
     (case split_once 10 s of
        None \<Rightarrow> ([], [])
      | Some (line, rest) \<Rightarrow>
          if strip_cr line = [] then ([], rest)
          else (case read_head rest of (ls, body) \<Rightarrow> (strip_cr line # ls, body)))"
  by pat_completeness auto
termination
proof (relation "measure length")
  fix s p line rest
  assume "split_once 10 s = Some p" "(line, rest) = p"
  then have "s = line @ 10 # rest" by (auto dest: split_once_SomeD)
  then show "(rest, s) \<in> measure length" by simp
qed simp

declare read_head.simps [simp del]

record http_message =
  msg_status :: u16
  msg_fields :: "(str \<times> str) list"
  msg_body :: "ureq_error + bytes"

fun written :: "stream_event list \<Rightarrow> bytes" where
  "written [] = []"
| "written (Wrote bs # evs) = bs @ written evs"
| "written (_ # evs) = written evs"

definition status_of_line :: "str \<Rightarrow> u16" where
  "status_of_line line =
     (case split_on 32 line of
        _ # code # _ \<Rightarrow> (case parse_uint 10 (2 ^ 16) code of Some n \<Rightarrow> word_of_nat n | None \<Rightarrow> 0)
      | _ \<Rightarrow> 0)"

definition pauses :: "stream_event list \<Rightarrow> nat" where
  "pauses evs = sum_list (map (\<lambda>e. case e of Slept d \<Rightarrow> d | _ \<Rightarrow> 0) evs)"

definition receive_message :: "duration option \<Rightarrow> stream_event list \<Rightarrow> http_message" where
  "receive_message timeout evs =
     (case read_head (map unat (written evs)) of (ls, rest) \<Rightarrow>
        \<lparr>msg_status = (case ls of [] \<Rightarrow> 0 | l # _ \<Rightarrow> status_of_line l),
         msg_fields = map header_field (tl ls),
         msg_body =
           (if (case timeout of None \<Rightarrow> False | Some left \<Rightarrow> left < pauses evs) then Inl Ureq_Timeout
            else Inr (map word_of_nat rest))\<rparr>)"

definition message_http :: "http_message http_lib" where
  "message_http =
     \<lparr>resp_status = msg_status,
      resp_headers = (\<lambda>r. map (\<lambda>(name, val). (name, utf8 val)) (msg_fields r)),
      resp_get = (\<lambda>r name. map_option utf8 (map_of (msg_fields r) name)),
      header_to_str = from_utf8,
      read_body = (\<lambda>r limit. and_then (msg_body r) (\<lambda>body. whole_body body limit))\<rparr>"

lemma read_head_lines:
  assumes "list_all (\<lambda>l. l \<noteq> [] \<and> 10 \<notin> set l \<and> 13 \<notin> set l) ls"
  shows "read_head (concat (map (\<lambda>l. l @ crlf) ls) @ crlf @ body) = (ls, body)"
  using assms
proof (induction ls)
  case Nil
  have "split_once 10 ([13] @ 10 # body) = Some ([13], body)" by (rule split_once_append) simp
  then show ?case by (subst read_head.simps) (simp add: crlf_def strip_cr_def)
next
  case (Cons l ls)
  let ?rest = "concat (map (\<lambda>l. l @ crlf) ls) @ crlf @ body"
  have "split_once 10 ((l @ [13]) @ 10 # ?rest) = Some (l @ [13], ?rest)"
    using Cons.prems by (intro split_once_append) auto
  moreover have "strip_cr (l @ [13]) = l" by (simp add: strip_cr_def)
  ultimately show ?case
    using Cons by (subst read_head.simps) (simp add: crlf_def)
qed

definition is_line :: "str \<Rightarrow> bool" where
  "is_line l \<longleftrightarrow> l \<noteq> [] \<and> list_all (\<lambda>c. 32 \<le> c \<and> c < 127) l"

lemma is_line_simps:
  "is_line l \<Longrightarrow> l \<noteq> [] \<and> 10 \<notin> set l \<and> 13 \<notin> set l"
  "plain_header h \<Longrightarrow> is_line h"
  by (auto simp: is_line_def plain_header_def list_all_iff split_once_def split: option.splits if_splits)

lemma show_nat_chars: "list_all (\<lambda>c. 32 \<le> c \<and> c < 127) (show_nat n)"
  using show_nat_digits [of _ n] by (fastforce simp: list_all_iff is_ascii_digit_def)

lemma unat_utf8: "list_all (\<lambda>c. c < 128) s \<Longrightarrow> map unat (utf8 s) = s"
  by (induction s) (simp_all add: utf8_char_def unat_byte_of_nat)

lemma read_written:
  assumes "written evs = utf8 (concat (map (\<lambda>l. l @ crlf) ls) @ crlf) @ body" "list_all is_line ls"
  shows "read_head (map unat (written evs)) = (ls, map unat body)"
proof -
  have "list_all (\<lambda>c. c < 128) (concat (map (\<lambda>l. l @ crlf) ls) @ crlf)"
    using assms(2) by (induction ls) (fastforce simp: crlf_def is_line_def list_all_iff)+
  then have "map unat (written evs) = concat (map (\<lambda>l. l @ crlf) ls) @ crlf @ map unat body"
    unfolding assms(1) by (simp add: unat_utf8 del: utf8_simps)
  then show ?thesis
    using assms(2) by (simp add: read_head_lines list_all_iff is_line_simps)
qed

lemma map_word_unat [simp]: "map (word_of_nat \<circ> unat) (bs :: bytes) = bs"
  by (induction bs) simp_all

lemma status_lines:
  "is_line (lit ''HTTP/1.1 '' @ show_nat n @ lit '' X'')"
  "n < 2 ^ 16 \<Longrightarrow> status_of_line (lit ''HTTP/1.1 '' @ show_nat n @ lit '' X'') = word_of_nat n"
  "is_line (lit ''HTTP/1.1 200 OK'')" "status_of_line (lit ''HTTP/1.1 200 OK'') = 200"
  "is_line (lit ''content-length: '' @ show_nat n)" "is_line (lit ''connection: close'')"
  "is_line (lit ''content-length: 64'')"
proof -
  show "is_line (lit ''HTTP/1.1 '' @ show_nat n @ lit '' X'')"
    "is_line (lit ''content-length: '' @ show_nat n)"
    using show_nat_chars [of n] by (simp_all add: is_line_def lit_def)
  show "is_line (lit ''HTTP/1.1 200 OK'')" "is_line (lit ''connection: close'')"
    "is_line (lit ''content-length: 64'')"
    by (simp_all add: is_line_def lit_def)
  have "32 \<notin> set (show_nat n)" "32 \<notin> set (lit ''HTTP/1.1'')"
    using show_nat_digits [of 32 n] by (auto simp: is_ascii_digit_def lit_def)
  then have "split_on 32 (lit ''HTTP/1.1'' @ 32 # show_nat n @ 32 # [88]) =
      [lit ''HTTP/1.1'', show_nat n, [88]]"
    by (simp add: split_on_plain)
  moreover have "lit ''HTTP/1.1 '' @ show_nat n @ lit '' X'' = lit ''HTTP/1.1'' @ 32 # show_nat n @ 32 # [88]"
    by (simp add: lit_def)
  ultimately show "n < 2 ^ 16 \<Longrightarrow> status_of_line (lit ''HTTP/1.1 '' @ show_nat n @ lit '' X'') = word_of_nat n"
    using parse_uint_show [of n "2 ^ 16"] by (simp add: status_of_line_def)
  show "status_of_line (lit ''HTTP/1.1 200 OK'') = 200"
    by (simp add: status_of_line_def lit_def parse_uint_def to_digit_def is_ascii_digit_def)
qed


lemma bytes_status: "status_of_line (lit ''HTTP/1.1 '' @ show_nat (unat (st :: u16)) @ lit '' X'') = st"
proof -
  have "unat st < 2 ^ 16" using unsigned_less [of st, where 'a = nat] by simp
  then show ?thesis by (simp add: status_lines(2))
qed

lemma framing_fields:
  "header_field (lit ''content-length: '' @ show_nat n) = (lit ''content-length'', show_nat n)"
  "header_field (lit ''connection: close'') = (lit ''connection'', lit ''close'')"
  "header_field (lit ''content-length: 64'') = (lit ''content-length'', show_nat 64)"
proof -
  have digit: "\<not> is_whitespace c" if "c \<in> set (show_nat n)" for c
    using show_nat_digits [of c n] that by (auto simp: is_whitespace_def is_ascii_digit_def)
  have "trim (show_nat n) = show_nat n"
    unfolding trim_def
    by (rule trim_matches_stable) (use digit show_nat_nonempty [of n] in simp_all)
  moreover have "lit ''content-length: '' @ show_nat n = lit ''content-length'' @ [58, 32] @ show_nat n"
    by (simp add: lit_def)
  ultimately show "header_field (lit ''content-length: '' @ show_nat n) = (lit ''content-length'', show_nat n)"
    using header_field_lit [of "''content-length''" "show_nat n"]
    by (simp only:) (simp add: text_eval to_ascii_lowercase_def)
  show "header_field (lit ''connection: close'') = (lit ''connection'', lit ''close'')"
    by (simp add: header_field_def text_eval to_ascii_lowercase_def)
  have "show_nat 64 = [54, 52]" by (simp add: show_nat.simps)
  then show "header_field (lit ''content-length: 64'') = (lit ''content-length'', show_nat 64)"
    by (simp add: header_field_def text_eval to_ascii_lowercase_def)
qed

definition ascii_values :: "(str \<times> str) list \<Rightarrow> bool" where
  "ascii_values hfs \<longleftrightarrow> list_all (\<lambda>(name, val). list_all (\<lambda>c. c < 128) val) hfs"

lemma header_field_ascii: "list_all (\<lambda>c. c < 128) h \<Longrightarrow> list_all (\<lambda>c. c < 128) (snd (header_field h))"
  using trim_matches_set [of is_whitespace]
  by (auto simp: header_field_def list_all_iff trim_def split: option.split dest!: split_once_SomeD) blast

lemma reads_message:
  assumes "ascii_values hfs"
  shows "reads message_http \<lparr>msg_status = st, msg_fields = hfs, msg_body = b\<rparr> st hfs
    (\<lambda>limit. and_then b (\<lambda>body. whole_body body limit))"
proof -
  have "from_utf8 (utf8 v) = Some v" if "map_of hfs name = Some v" for name v
  proof (rule from_utf8_utf8)
    have "(name, v) \<in> set hfs" using that by (rule map_of_SomeD)
    then show "valid_str v"
      using assms by (fastforce simp: ascii_values_def valid_str_def list_all_iff is_scalar_def)
  qed
  then have "Option.bind (map_option utf8 (map_of hfs name)) from_utf8 = map_of hfs name" for name
    by (cases "map_of hfs name") simp_all
  then show ?thesis by (simp add: reads_def message_http_def)
qed

lemma receive_complete:
  assumes "list_all is_line headers"
  shows "receive_message timeout (write_response st headers body) =
    \<lparr>msg_status = st, msg_fields = framing (length body) @ map header_field headers, msg_body = Inr body\<rparr>"
proof -
  let ?ls = "(lit ''HTTP/1.1 '' @ show_nat (unat st) @ lit '' X'')
      # (lit ''content-length: '' @ show_nat (length body)) # lit ''connection: close'' # headers"
  have "written (write_response st headers body) = utf8 (concat (map (\<lambda>l. l @ crlf) ?ls) @ crlf) @ body"
    by (simp add: write_response_def response_head_def)
  moreover have "list_all is_line ?ls" using assms status_lines(1,5,6) by simp
  ultimately have "read_head (map unat (written (write_response st headers body))) = (?ls, map unat body)"
    by (rule read_written)
  moreover have "pauses (write_response st headers body) = 0"
    by (simp add: pauses_def write_response_def)
  ultimately show ?thesis
    by (simp add: receive_message_def bytes_status framing_def framing_fields split: option.split)
qed

lemma receive_stalled:
  assumes "is_line (lit ''content-type: '' @ ctype)" "left < 5 * 10 ^ 9"
  shows "receive_message (Some left) (send_reply (Some (Stalled ctype))) =
    \<lparr>msg_status = 200, msg_fields = (lit ''content-type'', trim ctype) # framing 64,
     msg_body = Inl Ureq_Timeout\<rparr>"
proof -
  let ?ls = "[lit ''HTTP/1.1 200 OK'', lit ''content-type: '' @ ctype, lit ''content-length: 64'',
      lit ''connection: close'']"
  have "written (send_reply (Some (Stalled ctype))) = utf8 (concat (map (\<lambda>l. l @ crlf) ?ls) @ crlf) @ []"
    by (simp add: stalled_head_def)
  from read_written [OF this]
  have "read_head (map unat (written (send_reply (Some (Stalled ctype))))) = (?ls, map unat [])"
    using assms status_lines(3,6,7) by simp
  then show ?thesis
    using assms(2) status_lines(4)
    by (simp add: receive_message_def pauses_def framing_def framing_fields del: One_nat_def)
qed

text \<open>The path of a printed URL, with a slash for what is not one.\<close>

definition printed_path :: "str \<Rightarrow> str" where
  "printed_path s =
     (let p = dropWhile (\<lambda>c. c \<noteq> 47) (dropWhile (\<lambda>c. c = 47) (dropWhile (\<lambda>c. c \<noteq> 47) s))
      in if p = [] \<or> list_ex is_whitespace p then [47] else p)"

definition reference_client :: "http_message http_client" where
  "reference_client =
     \<lparr>http_send = (\<lambda>req. request_lines (printed_path (request_url req)) []),
      http_receive = receive_message, uri_path = printed_path\<rparr>"

lemma framing_ascii: "ascii_values (framing n)"
  using show_nat_chars [of n] by (auto simp: ascii_values_def framing_def list_all_iff lit_def)

lemma reference_client_lawful: "client_lawful reference_client message_http"
  unfolding client_lawful_def
proof (intro conjI allI impI)
  fix req
  show "let p = uri_path reference_client (request_url req) in
      p \<noteq> [] \<and> list_all (\<lambda>c. \<not> is_whitespace c) p
      \<and> (\<exists>headers. http_send reference_client req = request_lines p headers)"
    by (auto simp: reference_client_def printed_path_def Let_def list_ex_iff list_all_iff is_whitespace_def)
next
  fix timeout and st :: u16 and headers and body :: bytes
  assume "body_status st \<and> list_all plain_header headers \<and> length headers \<le> 2 \<and> length body < 2 ^ 64"
  then have lines': "list_all is_line headers" "list_all (\<lambda>h. list_all (\<lambda>c. c < 128) h) headers"
    by (auto simp: list_all_iff is_line_simps plain_header_def) fastforce
  have "ascii_values (map header_field headers)"
    unfolding ascii_values_def list.pred_map comp_def split_def
    by (rule list.pred_mono_strong [OF lines'(2)]) (rule header_field_ascii)
  then have "ascii_values (framing (length body) @ map header_field headers)"
    using framing_ascii [of "length body"] by (simp add: ascii_values_def)
  from reads_message [OF this, of st "Inr body"]
  show "reads message_http (http_receive reference_client timeout (write_response st headers body)) st
      (framing (length body) @ map header_field headers) (whole_body body)"
    by (simp add: reference_client_def receive_complete [OF lines'(1)])
next
  fix left :: nat and ctype
  assume asm: "plain_header (lit ''content-type: '' @ ctype) \<and> left < 5 * 10 ^ 9"
  then have "is_line (lit ''content-type: '' @ ctype)" by (simp add: is_line_simps)
  moreover have "list_all (\<lambda>c. c < 128) (lit ''content-type: '' @ ctype)"
    using asm unfolding plain_header_def by (auto elim!: list.pred_mono_strong simp del: list_all_append)
  then have "ascii_values ((lit ''content-type'', trim ctype) # framing 64)"
    using framing_ascii header_field_ascii [of "lit ''content-type: '' @ ctype"]
    by (simp add: ascii_values_def)
  from reads_message [OF this, of 200 "Inl Ureq_Timeout"]
  show "reads message_http (http_receive reference_client (Some left) (send_reply (Some (Stalled ctype)))) 200
      ((lit ''content-type'', trim ctype) # framing 64) (\<lambda>limit. Inl Ureq_Timeout)"
    using asm calculation by (simp add: reference_client_def receive_stalled del: send_reply.simps)
qed

end
