(* ===== verification/Web_Urls.thy ===== *)
theory Web_Urls
  imports Web_Fetch Rust_Numbers
begin

text \<open>
  Plain web URLs: a scheme, a host of lower-case letters and dots, a port when it is not the
  scheme's own, and a path of letters, digits, hyphens and slashes. What the URL standard says of
  parsing and joining these is a law on the URL library, for the properties that follow a URL
  through it, with a small library that has it.
\<close>

section \<open>The law\<close>

definition web_text :: "str \<Rightarrow> str \<Rightarrow> u16 option \<Rightarrow> str \<Rightarrow> str" where
  "web_text scheme host port p =
     scheme @ lit ''://'' @ host
     @ (case port of None \<Rightarrow> [] | Some n \<Rightarrow> uc CHR '':'' # show_nat (unat n)) @ p"

definition plain_host :: "str \<Rightarrow> bool" where
  "plain_host h \<longleftrightarrow> h \<noteq> [] \<and> list_all (\<lambda>c. is_ascii_lowercase c \<or> c = uc CHR ''.'') h"

definition plain_path :: "str \<Rightarrow> bool" where
  "plain_path p \<longleftrightarrow>
     (case p of
        [] \<Rightarrow> False
      | c # q \<Rightarrow> c = uc CHR ''/'' \<and> (q = [] \<or> hd q \<noteq> uc CHR ''/''))
     \<and> list_all (\<lambda>c. is_ascii_lowercase c \<or> is_ascii_digit c \<or> c = uc CHR ''-'' \<or> c = uc CHR ''/'') p"

definition plain_web :: "str \<Rightarrow> str \<Rightarrow> u16 option \<Rightarrow> str \<Rightarrow> bool" where
  "plain_web scheme host port p \<longleftrightarrow>
     (scheme = lit ''http'' \<or> scheme = lit ''https'') \<and> plain_host host
     \<and> port \<noteq> Some 80 \<and> port \<noteq> Some 443 \<and> plain_path p"

definition default_port :: "str \<Rightarrow> u16 option" where
  "default_port scheme =
     (if scheme = lit ''http'' then Some 80 else if scheme = lit ''https'' then Some 443 else None)"

lemma default_ports [simp]:
  "default_port (lit ''http'') = Some 80" "default_port (lit ''https'') = Some 443"
  by (simp_all add: default_port_def lit_def)

definition web_url :: "'u url_lib \<Rightarrow> 'u \<Rightarrow> str \<Rightarrow> str \<Rightarrow> u16 option \<Rightarrow> str \<Rightarrow> bool" where
  "web_url L u scheme host port p \<longleftrightarrow>
     url_scheme L u = scheme \<and> url_username L u = [] \<and> url_password L u = None
     \<and> url_host_str L u = Some host \<and> url_port L u = port
     \<and> url_port_or_known_default L u = (case port of None \<Rightarrow> default_port scheme | Some n \<Rightarrow> Some n)
     \<and> url_as_str L u = web_text scheme host port p"

definition web_urls :: "'u url_lib \<Rightarrow> bool" where
  "web_urls L \<longleftrightarrow>
     (\<forall>scheme host port p. plain_web scheme host port p \<longrightarrow>
        (\<exists>u. url_parse L (web_text scheme host port p) = Inr u \<and> web_url L u scheme host port p))
     \<and> (\<forall>u scheme host port p. plain_web scheme host port p \<and> web_url L u scheme host port p \<longrightarrow>
          web_url L (url_clear_fragment L u) scheme host port p
          \<and> (\<forall>q. plain_path q \<longrightarrow> (\<exists>v. url_join L u q = Inr v \<and> web_url L v scheme host port q))
          \<and> (\<forall>scheme' host' port' q. plain_web scheme' host' port' q \<longrightarrow>
               (\<exists>v. url_join L u (web_text scheme' host' port' q) = Inr v
                  \<and> web_url L v scheme' host' port' q))
          \<and> (\<forall>q. plain_path q \<longrightarrow>
               (\<exists>v. url_join L u (lit ''file://'' @ q) = Inr v \<and> url_scheme L v = lit ''file'')))"

lemma web_urls_parse:
  assumes "web_urls L" "plain_web scheme host port p"
  obtains u where "url_parse L (web_text scheme host port p) = Inr u" "web_url L u scheme host port p"
  using assms unfolding web_urls_def by blast

lemma web_urls_clear:
  "web_urls L \<Longrightarrow> plain_web scheme host port p \<Longrightarrow> web_url L u scheme host port p
    \<Longrightarrow> web_url L (url_clear_fragment L u) scheme host port p"
  unfolding web_urls_def by blast

lemma web_urls_path:
  assumes "web_urls L" "plain_web scheme host port p" "web_url L u scheme host port p" "plain_path q"
  obtains v where "url_join L u q = Inr v" "web_url L v scheme host port q"
  using assms unfolding web_urls_def by blast

lemma web_urls_join:
  assumes "web_urls L" "plain_web scheme host port p" "web_url L u scheme host port p"
    and "plain_web scheme' host' port' q"
  obtains v where "url_join L u (web_text scheme' host' port' q) = Inr v"
    "web_url L v scheme' host' port' q"
  using assms unfolding web_urls_def by blast

lemma web_urls_file:
  assumes "web_urls L" "plain_web scheme host port p" "web_url L u scheme host port p" "plain_path q"
  obtains v where "url_join L u (lit ''file://'' @ q) = Inr v" "url_scheme L v = lit ''file''"
  using assms unfolding web_urls_def by blast

lemma web_url_destination:
  assumes "plain_web scheme host port p" "web_url L u scheme host port p"
  shows "check_destination L u = Inr ()"
  using assms by (auto simp: check_destination_iff plain_http_def web_url_def plain_web_def plain_host_def)

section \<open>A library that has it\<close>

datatype plain_url =
  Plain_Url (plain_scheme: str) (plain_hostname: str) (plain_port: "u16 option") (plain_rest: str)

definition plain_parse :: "str \<Rightarrow> str + plain_url" where
  "plain_parse s =
     (case split_once (uc CHR '':'') s of
        None \<Rightarrow> Inl (lit ''relative URL without a base'')
      | Some (scheme, rest) \<Rightarrow>
          if take 2 rest \<noteq> lit ''//'' then Inl (lit ''no authority'')
          else
            let authority = takeWhile (\<lambda>c. c \<noteq> 47) (drop 2 rest);
                p = dropWhile (\<lambda>c. c \<noteq> 47) (drop 2 rest)
            in (case split_once (uc CHR '':'') authority of
                  None \<Rightarrow> Inr (Plain_Url scheme authority None p)
                | Some (host, n) \<Rightarrow>
                    (case parse_uint 10 (2 ^ 16) n of
                       None \<Rightarrow> Inl (lit ''invalid port number'')
                     | Some k \<Rightarrow> Inr (Plain_Url scheme host (Some (word_of_nat k)) p))))"

definition plain_url_lib :: "plain_url url_lib" where
  "plain_url_lib =
     \<lparr>url_parse = plain_parse,
      url_join = (\<lambda>u s. if take 1 s = lit ''/''
        then Inr (Plain_Url (plain_scheme u) (plain_hostname u) (plain_port u) s) else plain_parse s),
      url_scheme = plain_scheme, url_username = (\<lambda>_. []), url_password = (\<lambda>_. None),
      url_host_str = (\<lambda>u. if plain_hostname u = [] then None else Some (plain_hostname u)),
      url_port = plain_port,
      url_port_or_known_default =
        (\<lambda>u. case plain_port u of None \<Rightarrow> default_port (plain_scheme u) | Some n \<Rightarrow> Some n),
      url_clear_fragment = (\<lambda>u. u),
      url_as_str =
        (\<lambda>u. web_text (plain_scheme u) (plain_hostname u) (plain_port u) (plain_rest u))\<rparr>"

lemma plain_lib_url:
  assumes "plain_web scheme host port p" "web_url plain_url_lib u scheme host port p"
  shows "u = Plain_Url scheme host port p"
  using assms by (cases u) (auto simp: web_url_def plain_url_lib_def web_text_def split: if_splits)

lemma plain_lib_is_url:
  "plain_web scheme host port p \<Longrightarrow> web_url plain_url_lib (Plain_Url scheme host port p) scheme host port p"
  by (simp add: web_url_def plain_url_lib_def plain_web_def plain_host_def split: option.split)

lemma take_drop_until:
  "c \<notin> set a \<Longrightarrow> takeWhile (\<lambda>x. x \<noteq> c) (a @ c # q) = a"
  "c \<notin> set a \<Longrightarrow> dropWhile (\<lambda>x. x \<noteq> c) (a @ c # q) = c # q"
  by (induction a) auto

lemma plain_parse_text:
  assumes "scheme \<in> {lit ''http'', lit ''https'', lit ''file''}"
    and "list_all (\<lambda>c. is_ascii_lowercase c \<or> c = uc CHR ''.'') host" "plain_path p"
  shows "plain_parse (web_text scheme host port p) = Inr (Plain_Url scheme host port p)"
proof -
  let ?auth = "host @ (case port of None \<Rightarrow> [] | Some n \<Rightarrow> uc CHR '':'' # show_nat (unat n))"
  have host: "47 \<notin> set host" "58 \<notin> set host"
    using assms(2) by (auto simp: list_all_iff is_ascii_lowercase_def)
  have auth: "47 \<notin> set ?auth"
    using host show_nat_digits [of 47] by (auto simp: is_ascii_digit_def split: option.split)
  have "58 \<notin> set scheme" using assms(1) by (auto simp: lit_def)
  then have "split_once 58 (scheme @ 58 # 47 # 47 # ?auth @ p) = Some (scheme, 47 # 47 # ?auth @ p)"
    by (rule split_once_append)
  moreover have "web_text scheme host port p = scheme @ 58 # 47 # 47 # ?auth @ p"
    by (simp add: web_text_def lit_def)
  moreover obtain q where p: "p = 47 # q" using assms(3) by (auto simp: plain_path_def split: list.splits)
  then have "takeWhile (\<lambda>c. c \<noteq> 47) (?auth @ p) = ?auth" "dropWhile (\<lambda>c. c \<noteq> 47) (?auth @ p) = p"
    using take_drop_until [OF auth] by blast+
  moreover have "(case split_once 58 ?auth of
        None \<Rightarrow> Inr (Plain_Url scheme ?auth None p)
      | Some (h, n) \<Rightarrow> (case parse_uint 10 (2 ^ 16) n of
           None \<Rightarrow> Inl (lit ''invalid port number'')
         | Some k \<Rightarrow> Inr (Plain_Url scheme h (Some (word_of_nat k)) p))) =
      Inr (Plain_Url scheme host port p)"
  proof (cases port)
    case None
    then show ?thesis using host by (simp add: split_once_def)
  next
    case (Some n)
    have "unat n < 2 ^ 16" using unsigned_less [of n, where 'a = nat] by simp
    then show ?thesis
      using host parse_uint_show [of "unat n" "2 ^ 16"] by (simp add: Some split_once_append)
  qed
  ultimately show ?thesis by (simp add: plain_parse_def lit_def Let_def)
qed

lemma plain_web_parse:
  "plain_web scheme host port p \<Longrightarrow>
    plain_parse (web_text scheme host port p) = Inr (Plain_Url scheme host port p)"
  by (rule plain_parse_text) (auto simp: plain_web_def plain_host_def)

lemma plain_url_lib_web: "web_urls plain_url_lib"
  unfolding web_urls_def
proof (intro conjI allI impI)
  fix scheme host port p
  assume "plain_web scheme host port p"
  then show "\<exists>u. url_parse plain_url_lib (web_text scheme host port p) = Inr u
      \<and> web_url plain_url_lib u scheme host port p"
    using plain_web_parse plain_lib_is_url by (simp add: plain_url_lib_def)
next
  fix u scheme host port p
  assume u: "plain_web scheme host port p \<and> web_url plain_url_lib u scheme host port p"
  then show "web_url plain_url_lib (url_clear_fragment plain_url_lib u) scheme host port p"
    by (simp add: plain_url_lib_def)
  have eq: "u = Plain_Url scheme host port p" using u plain_lib_url by blast
  fix q
  assume q: "plain_path q"
  then have "take 1 q = lit ''/''" by (auto simp: plain_path_def lit_def split: list.splits)
  then have "url_join plain_url_lib u q = Inr (Plain_Url scheme host port q)"
    by (simp add: plain_url_lib_def eq)
  moreover have "plain_web scheme host port q" using u q by (simp add: plain_web_def)
  ultimately show "\<exists>v. url_join plain_url_lib u q = Inr v \<and> web_url plain_url_lib v scheme host port q"
    using plain_lib_is_url by blast
next
  fix u scheme host port p scheme' host' port' q
  assume q: "plain_web scheme' host' port' q"
  then have "take 1 (web_text scheme' host' port' q) \<noteq> lit ''/''"
    by (auto simp: web_text_def plain_web_def lit_def)
  then have "url_join plain_url_lib u (web_text scheme' host' port' q) =
      Inr (Plain_Url scheme' host' port' q)"
    using plain_web_parse [OF q] by (simp add: plain_url_lib_def)
  then show "\<exists>v. url_join plain_url_lib u (web_text scheme' host' port' q) = Inr v
      \<and> web_url plain_url_lib v scheme' host' port' q"
    using plain_lib_is_url [OF q] by blast
next
  fix u scheme host port p q
  assume "plain_path q"
  then have "plain_parse (web_text (lit ''file'') [] None q) = Inr (Plain_Url (lit ''file'') [] None q)"
    by (intro plain_parse_text) simp_all
  then have "url_join plain_url_lib u (lit ''file://'' @ q) = Inr (Plain_Url (lit ''file'') [] None q)"
    by (simp add: plain_url_lib_def web_text_def lit_def)
  then show "\<exists>v. url_join plain_url_lib u (lit ''file://'' @ q) = Inr v
      \<and> url_scheme plain_url_lib v = lit ''file''"
    by (simp add: plain_url_lib_def)
qed

end
