(* ===== verification/Policy_Tests.thy ===== *)
theory Policy_Tests
  imports Resolve Web_Urls
begin

text \<open>
  The tests of \<^verbatim>\<open>fetch-worker/src/policy.rs\<close> and \<^verbatim>\<open>resolve.rs\<close>, one definition per test function: what it
  asserts of the model, a failed \<^verbatim>\<open>expect\<close> being a failed test.
\<close>

section \<open>The test policy\<close>

definition test_address :: "string \<Rightarrow> unit + ip_addr" where
  "test_address v = ok_or () (parse_ip (lit v))"

definition for_tests :: "profile \<Rightarrow> contract_error + destination_policy" where
  "for_tests p =
     and_then (cidr_parse (lit ''10.42.0.0/16'')) (\<lambda>range. Inr \<lparr>profile = p, denied = [range]\<rparr>)"

definition permitted :: "contract_error + destination_policy \<Rightarrow> string \<Rightarrow> bool" where
  "permitted policy v = expect policy (\<lambda>P. expect (test_address v) (permits P))"

definition refused :: "contract_error + destination_policy \<Rightarrow> string \<Rightarrow> bool" where
  "refused policy v = expect policy (\<lambda>P. expect (test_address v) (\<lambda>a. \<not> permits P a))"

section \<open>The tests of the policy\<close>

definition public_addresses_are_permitted :: bool where
  "public_addresses_are_permitted \<longleftrightarrow>
     permitted (for_tests Production) ''93.184.216.34''
     \<and> permitted (for_tests Production) ''2606:2800:220:1:248:1893:25c8:1946''"

definition non_public_v4_space_is_refused :: bool where
  "non_public_v4_space_is_refused \<longleftrightarrow>
     list_all (refused (for_tests Production))
       [''127.0.0.1'', ''10.0.0.5'', ''172.16.4.4'', ''192.168.1.1'', ''169.254.169.254'', ''100.64.0.1'',
        ''0.0.0.0'', ''224.0.0.1'', ''255.255.255.255'', ''198.18.0.1'', ''192.0.2.5'']"

definition ipv6_spellings_of_refused_v4_space_are_refused_too :: bool where
  "ipv6_spellings_of_refused_v4_space_are_refused_too \<longleftrightarrow>
     list_all (refused (for_tests Production))
       [''::1'', ''::ffff:169.254.169.254'', ''::ffff:10.0.0.1'', ''::169.254.169.254'',
        ''2002:a9fe:a9fe::'', ''64:ff9b::a00:1'', ''fd00::1'', ''fe80::1'', ''2001:db8::1'']"

definition configured_cluster_ranges_are_refused_even_though_private_space_already_is :: bool where
  "configured_cluster_ranges_are_refused_even_though_private_space_already_is \<longleftrightarrow>
     refused (for_tests Production) ''10.42.0.7'' \<and> refused (for_tests Production) ''::ffff:10.42.0.7''"

definition only_the_default_web_ports_are_fetchable :: bool where
  "only_the_default_web_ports_are_fetchable \<longleftrightarrow>
     expect (for_tests Production) (\<lambda>P.
       permits_port P 80 \<and> permits_port P 443 \<and> \<not> permits_port P 8443 \<and> \<not> permits_port P 22)"

definition a_test_profile_permits_loopback_and_nothing_else_extra :: bool where
  "a_test_profile_permits_loopback_and_nothing_else_extra \<longleftrightarrow>
     permitted (for_tests Test) ''127.0.0.1'' \<and> permitted (for_tests Test) ''::1''
     \<and> refused (for_tests Test) ''169.254.169.254'' \<and> refused (for_tests Test) ''10.42.0.7''"

text \<open>The policy is read from a file that was written and from one that is not there; \<open>json\<close>
  is the reader of JSON.\<close>

definition a_policy_without_cluster_ranges_does_not_load :: "(str \<Rightarrow> str + policy_file) \<Rightarrow> bool" where
  "a_policy_without_cluster_ranges_does_not_load json \<longleftrightarrow>
     \<not> is_ok (policy_load json
         (Inr (lit ''{\"policy_version\":1,\"profile\":\"production\",\"denied_cidrs\":[]}'')))
     \<and> \<not> is_ok (policy_load json
         (Inr (lit ''{\"policy_version\":1,\"profile\":\"production\",\"denied_cidrs\":[\"10.42.0.0\"]}'')))
     \<and> \<not> is_ok (policy_load json (Inl (lit ''No such file or directory (os error 2)'')))"

text \<open>What the JSON reader gives for the two files.\<close>

definition reads_policies :: "(str \<Rightarrow> str + policy_file) \<Rightarrow> bool" where
  "reads_policies json \<longleftrightarrow>
     json (lit ''{\"policy_version\":1,\"profile\":\"production\",\"denied_cidrs\":[]}'') =
       Inr \<lparr>policy_version = 1, file_profile = Production, denied_cidrs = []\<rparr>
     \<and> json (lit ''{\"policy_version\":1,\"profile\":\"production\",\"denied_cidrs\":[\"10.42.0.0\"]}'') =
       Inr \<lparr>policy_version = 1, file_profile = Production, denied_cidrs = [lit ''10.42.0.0'']\<rparr>"

section \<open>The tests of resolution\<close>

definition resolved_from ::
    "'u url_lib \<Rightarrow> static_resolver \<Rightarrow> string \<Rightarrow> (error_code + 'u validated_destination \<Rightarrow> bool) \<Rightarrow> bool" where
  "resolved_from L resolver v test =
     expect (for_tests Production) (\<lambda>P.
     expect (url_parse L (lit v)) (\<lambda>u. test (resolve L (static_lookup resolver) P u)))"

definition a_public_answer_is_accepted :: "'u url_lib \<Rightarrow> bool" where
  "a_public_answer_is_accepted L \<longleftrightarrow>
     expect (test_address ''93.184.216.34'') (\<lambda>a.
       resolved_from L (static_with Map.empty (lit ''example.com'') [a]) ''https://example.com/page''
         (\<lambda>r. expect r (\<lambda>destination. dest_addresses destination = [\<lparr>sa_ip = a, sa_port = 443\<rparr>])))"

definition a_name_pointing_at_the_metadata_endpoint_is_refused :: "'u url_lib \<Rightarrow> bool" where
  "a_name_pointing_at_the_metadata_endpoint_is_refused L \<longleftrightarrow>
     expect (test_address ''169.254.169.254'') (\<lambda>a.
       resolved_from L (static_with Map.empty (lit ''rebind.test'') [a])
         ''http://rebind.test/latest/meta-data/'' (\<lambda>r. r = Inl UnsafeSource))"

definition a_mixed_public_and_private_answer_is_refused_entirely :: "'u url_lib \<Rightarrow> bool" where
  "a_mixed_public_and_private_answer_is_refused_entirely L \<longleftrightarrow>
     expect (test_address ''93.184.216.34'') (\<lambda>a. expect (test_address ''10.42.0.7'') (\<lambda>b.
       resolved_from L (static_with Map.empty (lit ''mixed.test'') [a, b]) ''https://mixed.test/''
         (\<lambda>r. r = Inl UnsafeSource)))"

text \<open>The resolver of the next test counts its lookups: \<open>resolve\<close> with a resolver that has a
  state.\<close>

type_synonym 's stateful_resolver = "str \<Rightarrow> u16 \<Rightarrow> 's \<Rightarrow> (str + ip_addr list) \<times> 's"

definition resolve_stateful ::
    "'u url_lib \<Rightarrow> 's stateful_resolver \<Rightarrow> destination_policy \<Rightarrow> 'u \<Rightarrow> 's
       \<Rightarrow> (error_code + 'u validated_destination) \<times> 's" where
  "resolve_stateful L resolver P u s =
     (case and_then (map_err (\<lambda>_. UnsafeSource) (check_destination L u)) (\<lambda>_.
           and_then (ok_or UnsafeSource (url_host_str L u)) (\<lambda>host.
           and_then (ok_or UnsafeSource (url_port_or_known_default L u)) (\<lambda>port.
           if \<not> permits_port P port then Inl UnsafeSource else Inr (host, port)))) of
        Inl e \<Rightarrow> (Inl e, s)
      | Inr (host, port) \<Rightarrow>
          (case resolver host port s of (answer, s') \<Rightarrow>
             (and_then (map_err (\<lambda>_. FetchFailed) answer) (\<lambda>addresses.
                if addresses = [] then Inl FetchFailed
                else if \<not> list_all (permits P) addresses then Inl UnsafeSource
                else Inr \<lparr>dest_url = u,
                       dest_addresses = map (\<lambda>a. \<lparr>sa_ip = a, sa_port = port\<rparr>) addresses\<rparr>), s')))"

definition counting :: "ip_addr list \<Rightarrow> nat stateful_resolver" where
  "counting addresses host port n = (Inr addresses, n + 1)"

definition a_scheme_or_port_the_policy_refuses_never_reaches_a_lookup :: "'u url_lib \<Rightarrow> bool" where
  "a_scheme_or_port_the_policy_refuses_never_reaches_a_lookup L \<longleftrightarrow>
     expect (test_address ''93.184.216.34'') (\<lambda>a. expect (for_tests Production) (\<lambda>P.
     expect (url_parse L (lit ''https://example.com:8443/'')) (\<lambda>u.
       case resolve_stateful L (counting [a]) P u 0 of (r, lookups) \<Rightarrow>
         r = Inl UnsafeSource \<and> lookups = 0)))"

definition an_empty_or_failed_lookup_is_a_fetch_failure_not_a_policy_decision :: "'u url_lib \<Rightarrow> bool" where
  "an_empty_or_failed_lookup_is_a_fetch_failure_not_a_policy_decision L \<longleftrightarrow>
     resolved_from L Map.empty ''https://absent.test/'' (\<lambda>r. r = Inl FetchFailed)
     \<and> resolved_from L (static_with Map.empty (lit ''empty.test'') []) ''https://empty.test/''
         (\<lambda>r. r = Inl FetchFailed)"

section \<open>They pass\<close>

lemma digit_table:
  "to_digit 10 48 = Some 0"
  "to_digit 10 49 = Some 1"
  "to_digit 10 50 = Some 2"
  "to_digit 10 51 = Some 3"
  "to_digit 10 52 = Some 4"
  "to_digit 10 53 = Some 5"
  "to_digit 10 54 = Some 6"
  "to_digit 10 55 = Some 7"
  "to_digit 10 56 = Some 8"
  "to_digit 10 57 = Some 9"
  "to_digit 10 46 = None"
  "to_digit 10 58 = None"
  "to_digit 10 97 = None"
  "to_digit 10 98 = None"
  "to_digit 10 99 = None"
  "to_digit 10 100 = None"
  "to_digit 10 101 = None"
  "to_digit 10 102 = None"
  "to_digit 16 48 = Some 0"
  "to_digit 16 49 = Some 1"
  "to_digit 16 50 = Some 2"
  "to_digit 16 51 = Some 3"
  "to_digit 16 52 = Some 4"
  "to_digit 16 53 = Some 5"
  "to_digit 16 54 = Some 6"
  "to_digit 16 55 = Some 7"
  "to_digit 16 56 = Some 8"
  "to_digit 16 57 = Some 9"
  "to_digit 16 46 = None"
  "to_digit 16 58 = None"
  "to_digit 16 97 = Some 10"
  "to_digit 16 98 = Some 11"
  "to_digit 16 99 = Some 12"
  "to_digit 16 100 = Some 13"
  "to_digit 16 101 = Some 14"
  "to_digit 16 102 = Some 15"
  by code_simp+

lemmas address_eval =
  parse_ip_def read_ipv4_def read_ipv6_def read_then_def read_octet_def read_separator_def
  read_number_def read_given_char_def ipv6_of_def nth_append digit_table test_address_def lit_def

lemma test_addresses:
  "test_address ''127.0.0.1'' = Inr (V4 (Ipv4 127 0 0 1))"
  "test_address ''10.0.0.5'' = Inr (V4 (Ipv4 10 0 0 5))"
  "test_address ''172.16.4.4'' = Inr (V4 (Ipv4 172 16 4 4))"
  "test_address ''192.168.1.1'' = Inr (V4 (Ipv4 192 168 1 1))"
  "test_address ''169.254.169.254'' = Inr (V4 (Ipv4 169 254 169 254))"
  "test_address ''100.64.0.1'' = Inr (V4 (Ipv4 100 64 0 1))"
  "test_address ''0.0.0.0'' = Inr (V4 (Ipv4 0 0 0 0))"
  "test_address ''224.0.0.1'' = Inr (V4 (Ipv4 224 0 0 1))"
  "test_address ''255.255.255.255'' = Inr (V4 (Ipv4 255 255 255 255))"
  "test_address ''198.18.0.1'' = Inr (V4 (Ipv4 198 18 0 1))"
  "test_address ''192.0.2.5'' = Inr (V4 (Ipv4 192 0 2 5))"
  "test_address ''93.184.216.34'' = Inr (V4 (Ipv4 93 184 216 34))"
  "test_address ''10.42.0.7'' = Inr (V4 (Ipv4 10 42 0 7))"
  "test_address ''::1'' = Inr (V6 (Ipv6 0 0 0 0 0 0 0 1))"
  "test_address ''::ffff:169.254.169.254'' = Inr (V6 (Ipv6 0 0 0 0 0 0xffff 0xa9fe 0xa9fe))"
  "test_address ''::ffff:10.0.0.1'' = Inr (V6 (Ipv6 0 0 0 0 0 0xffff 0xa00 1))"
  "test_address ''::169.254.169.254'' = Inr (V6 (Ipv6 0 0 0 0 0 0 0xa9fe 0xa9fe))"
  "test_address ''2002:a9fe:a9fe::'' = Inr (V6 (Ipv6 0x2002 0xa9fe 0xa9fe 0 0 0 0 0))"
  "test_address ''64:ff9b::a00:1'' = Inr (V6 (Ipv6 0x64 0xff9b 0 0 0 0 0xa00 1))"
  "test_address ''fd00::1'' = Inr (V6 (Ipv6 0xfd00 0 0 0 0 0 0 1))"
  "test_address ''fe80::1'' = Inr (V6 (Ipv6 0xfe80 0 0 0 0 0 0 1))"
  "test_address ''2001:db8::1'' = Inr (V6 (Ipv6 0x2001 0xdb8 0 0 0 0 0 1))"
  "test_address ''::ffff:10.42.0.7'' = Inr (V6 (Ipv6 0 0 0 0 0 0xffff 0xa2a 7))"
  "test_address ''2606:2800:220:1:248:1893:25c8:1946'' = Inr (V6 (Ipv6 0x2606 0x2800 0x220 1 0x248 0x1893 0x25c8 0x1946))"
  by (simp_all add: address_eval u16_of_def)

lemma for_tests_eval: "for_tests p = Inr \<lparr>profile = p, denied = [range4 10 42 0 0 16]\<rparr>"
  by code_simp

lemmas policy_test_eval =
  permitted_def refused_def expect_def for_tests_eval test_addresses permits_def is_public_def
  cidr_contains_def range4_def matches_prefix_iff canonical_eval is_public_v6_def is_multicast6_def
  is_unspecified4_def is_loopback4_def is_broadcast4_def

lemmas policy_test_defs =
  public_addresses_are_permitted_def non_public_v4_space_is_refused_def
  ipv6_spellings_of_refused_v4_space_are_refused_too_def
  configured_cluster_ranges_are_refused_even_though_private_space_already_is_def
  only_the_default_web_ports_are_fetchable_def
  a_test_profile_permits_loopback_and_nothing_else_extra_def
  a_policy_without_cluster_ranges_does_not_load_def

lemma address_tests:
  "public_addresses_are_permitted" "non_public_v4_space_is_refused"
  "ipv6_spellings_of_refused_v4_space_are_refused_too"
  "configured_cluster_ranges_are_refused_even_though_private_space_already_is"
  "only_the_default_web_ports_are_fetchable"
  "a_test_profile_permits_loopback_and_nothing_else_extra"
  by (simp_all add: policy_test_defs policy_test_eval permits_port_def)

lemma load_tests: "reads_policies json \<Longrightarrow> a_policy_without_cluster_ranges_does_not_load json"
  by (simp add: policy_test_defs reads_policies_def policy_load_def context_err_def
      cidr_parse_def split_once_def lit_def)

text \<open>A resolver with a state is asked at most once, and what it answers is judged as in \<open>resolve\<close>.\<close>

lemma resolve_stateful_resolve:
  "fst (resolve_stateful L resolver P u s) = resolve L (\<lambda>h p. fst (resolver h p s)) P u"
  by (cases "check_destination L u"; cases "url_host_str L u"; cases "url_port_or_known_default L u")
    (simp_all add: resolve_stateful_def resolve_def split: prod.split)

lemma resolve_stateful_refused:
  assumes "url_port_or_known_default L u = Some port" "\<not> permits_port P port"
  shows "resolve_stateful L resolver P u s = (Inl UnsafeSource, s)"
  using assms
  by (cases "check_destination L u"; cases "url_host_str L u") (simp_all add: resolve_stateful_def)

text \<open>A parsed plain URL resolves by its host and port.\<close>

lemma resolve_web:
  assumes "plain_web scheme host port p" "web_url L u scheme host port p"
    and "(case port of None \<Rightarrow> default_port scheme | Some n \<Rightarrow> Some n) = Some n"
  shows "resolve L lookup P u =
    (if \<not> permits_port P n then Inl UnsafeSource
     else and_then (map_err (\<lambda>_. FetchFailed) (lookup host n)) (\<lambda>addresses.
       if addresses = [] then Inl FetchFailed
       else if \<not> list_all (permits P) addresses then Inl UnsafeSource
       else Inr \<lparr>dest_url = u, dest_addresses = map (\<lambda>a. \<lparr>sa_ip = a, sa_port = n\<rparr>) addresses\<rparr>))"
  using web_url_destination [OF assms(1,2)] assms(2,3)
  by (simp add: resolve_def web_url_def)

lemmas plain_eval =
  plain_web_def plain_host_def plain_path_def text_eval is_ascii_lowercase_def is_ascii_digit_def

lemma test_urls:
  "lit ''https://example.com/page'' = web_text (lit ''https'') (lit ''example.com'') None (lit ''/page'')"
  "lit ''https://example.com:8443/'' = web_text (lit ''https'') (lit ''example.com'') (Some 8443) (lit ''/'')"
  "lit ''http://rebind.test/latest/meta-data/'' =
     web_text (lit ''http'') (lit ''rebind.test'') None (lit ''/latest/meta-data/'')"
  "lit ''https://mixed.test/'' = web_text (lit ''https'') (lit ''mixed.test'') None (lit ''/'')"
  "lit ''https://absent.test/'' = web_text (lit ''https'') (lit ''absent.test'') None (lit ''/'')"
  "lit ''https://empty.test/'' = web_text (lit ''https'') (lit ''empty.test'') None (lit ''/'')"
  by (simp_all add: web_text_def lit_def show_nat.simps)

lemma test_urls_plain:
  "plain_web (lit ''https'') (lit ''example.com'') None (lit ''/page'')"
  "plain_web (lit ''https'') (lit ''example.com'') (Some 8443) (lit ''/'')"
  "plain_web (lit ''http'') (lit ''rebind.test'') None (lit ''/latest/meta-data/'')"
  "plain_web (lit ''https'') (lit ''mixed.test'') None (lit ''/'')"
  "plain_web (lit ''https'') (lit ''absent.test'') None (lit ''/'')"
  "plain_web (lit ''https'') (lit ''empty.test'') None (lit ''/'')"
  by (simp_all add: plain_eval)

lemma resolved_from_web:
  assumes "web_urls L" "lit v = web_text scheme host None p" "plain_web scheme host None p"
    and "default_port scheme = Some n" "n = 80 \<or> n = 443"
    and "\<And>u. test (and_then (map_err (\<lambda>_. FetchFailed) (static_lookup resolver host n)) (\<lambda>addresses.
       if addresses = [] then Inl FetchFailed
       else if \<not> list_all (permits \<lparr>profile = Production, denied = [range4 10 42 0 0 16]\<rparr>) addresses
         then Inl UnsafeSource
       else Inr \<lparr>dest_url = u, dest_addresses = map (\<lambda>a. \<lparr>sa_ip = a, sa_port = n\<rparr>) addresses\<rparr>))"
  shows "resolved_from L resolver v test"
proof -
  obtain u where u: "url_parse L (lit v) = Inr u" "web_url L u scheme host None p"
    using web_urls_parse [OF assms(1,3)] assms(2) by metis
  show ?thesis
    using assms(4-6) resolve_web [OF assms(3) u(2), of n]
    by (simp add: resolved_from_def expect_def for_tests_eval u(1) permits_port_def)
qed

lemma test_permits:
  "permits \<lparr>profile = Production, denied = [range4 10 42 0 0 16]\<rparr> (V4 (Ipv4 93 184 216 34))"
  "\<not> permits \<lparr>profile = Production, denied = [range4 10 42 0 0 16]\<rparr> (V4 (Ipv4 10 42 0 7))"
  "\<not> permits \<lparr>profile = Production, denied = [range4 10 42 0 0 16]\<rparr> (V4 (Ipv4 169 254 169 254))"
  by (simp_all add: policy_test_eval)

lemma static_lookup_own: "static_lookup (static_with t h addresses) h port = Inr addresses"
  by (simp add: static_lookup_with eq_ignore_ascii_case_def)

lemma resolution_tests:
  assumes "web_urls L"
  shows "a_public_answer_is_accepted L"
    "a_name_pointing_at_the_metadata_endpoint_is_refused L"
    "a_mixed_public_and_private_answer_is_refused_entirely L"
    "a_scheme_or_port_the_policy_refuses_never_reaches_a_lookup L"
    "an_empty_or_failed_lookup_is_a_fetch_failure_not_a_policy_decision L"
proof -
  note web = resolved_from_web [OF assms]
  note run = expect_def static_lookup_own default_ports test_addresses test_permits
  show "a_public_answer_is_accepted L"
    unfolding a_public_answer_is_accepted_def
    by (simp add: run) (rule web [OF test_urls(1) test_urls_plain(1), where n = 443]; simp add: run)
  show "a_name_pointing_at_the_metadata_endpoint_is_refused L"
    unfolding a_name_pointing_at_the_metadata_endpoint_is_refused_def
    by (simp add: run) (rule web [OF test_urls(3) test_urls_plain(3), where n = 80]; simp add: run)
  show "a_mixed_public_and_private_answer_is_refused_entirely L"
    unfolding a_mixed_public_and_private_answer_is_refused_entirely_def
    by (simp add: run) (rule web [OF test_urls(4) test_urls_plain(4), where n = 443]; simp add: run)
  show "an_empty_or_failed_lookup_is_a_fetch_failure_not_a_policy_decision L"
    unfolding an_empty_or_failed_lookup_is_a_fetch_failure_not_a_policy_decision_def
    by (rule conjI, rule web [OF test_urls(5) test_urls_plain(5), where n = 443],
        simp_all add: run static_lookup_def)
      (rule web [OF test_urls(6) test_urls_plain(6), where n = 443]; simp add: run)
  obtain u where "url_parse L (lit ''https://example.com:8443/'') = Inr u"
      "web_url L u (lit ''https'') (lit ''example.com'') (Some 8443) (lit ''/'')"
    using web_urls_parse [OF assms test_urls_plain(2)] unfolding test_urls(2) by blast
  then show "a_scheme_or_port_the_policy_refuses_never_reaches_a_lookup L"
    by (simp add: a_scheme_or_port_the_policy_refuses_never_reaches_a_lookup_def run for_tests_eval
        resolve_stateful_refused [of _ _ 8443] web_url_def permits_port_def)
qed

section \<open>All of them\<close>

definition policy_tests :: "(str \<Rightarrow> str + policy_file) \<Rightarrow> bool" where
  "policy_tests json \<longleftrightarrow>
     public_addresses_are_permitted
     \<and> non_public_v4_space_is_refused
     \<and> ipv6_spellings_of_refused_v4_space_are_refused_too
     \<and> configured_cluster_ranges_are_refused_even_though_private_space_already_is
     \<and> only_the_default_web_ports_are_fetchable
     \<and> a_test_profile_permits_loopback_and_nothing_else_extra
     \<and> a_policy_without_cluster_ranges_does_not_load json"

definition resolve_tests :: "'u url_lib \<Rightarrow> bool" where
  "resolve_tests L \<longleftrightarrow>
     a_public_answer_is_accepted L
     \<and> a_name_pointing_at_the_metadata_endpoint_is_refused L
     \<and> a_mixed_public_and_private_answer_is_refused_entirely L
     \<and> a_scheme_or_port_the_policy_refuses_never_reaches_a_lookup L
     \<and> an_empty_or_failed_lookup_is_a_fetch_failure_not_a_policy_decision L"

lemma policy_tests_hold: "reads_policies json \<Longrightarrow> policy_tests json"
  unfolding policy_tests_def by (intro conjI address_tests load_tests)

lemma resolve_tests_hold: "web_urls L \<Longrightarrow> resolve_tests L"
  unfolding resolve_tests_def by (intro conjI resolution_tests)

text \<open>A reader that reads the two files.\<close>

definition two_policies :: "str \<Rightarrow> str + policy_file" where
  "two_policies s =
     (if s = lit ''{\"policy_version\":1,\"profile\":\"production\",\"denied_cidrs\":[]}''
      then Inr \<lparr>policy_version = 1, file_profile = Production, denied_cidrs = []\<rparr>
      else Inr \<lparr>policy_version = 1, file_profile = Production, denied_cidrs = [lit ''10.42.0.0'']\<rparr>)"

lemma two_policies_read: "reads_policies two_policies"
  by (simp add: reads_policies_def two_policies_def) (simp add: lit_def)

end
