(* ===== verification/Fetch_Tests.thy ===== *)
theory Fetch_Tests
  imports Reference_Client Policy_Tests
begin

text \<open>
  The tests of \<^verbatim>\<open>fetch-worker/src/fetch.rs\<close>: each starts the scripted server, fetches from it and asserts
  what comes back. They run over any URL library, HTTP client, clock and digest; \<open>fixture_lawful\<close> says
  what is documented of these. That the tests pass follows from the walk of \<open>Served_Fetch\<close>.
\<close>

section \<open>The fixture\<close>

record ('u, 'r, 't) fixture =
  fx_url :: "'u url_lib"
  fx_client :: "'r http_client"
  fx_http :: "'r http_lib"
  fx_time :: "'t time_lib"
  fx_digest :: "bytes \<Rightarrow> bytes"
  fx_elapsed :: "nat \<Rightarrow> duration"
  fx_now :: 't
  fx_port :: u16

definition HOST :: str where
  "HOST = lit ''fixture.test''"

definition PAGE :: bytes where
  "PAGE =
     utf8 (lit ''<html><head><title>Fixture</title></head><body><h1>Fixture</h1></body></html>'')"

definition loopback_host :: "(string \<times> string) list" where
  "loopback_host = [(''fixture.test'', ''127.0.0.1'')]"

definition test_resolver :: "(string \<times> string) list \<Rightarrow> unit + static_resolver" where
  "test_resolver hosts =
     and_then (collect_ok (\<lambda>(h, v). map_ok (Pair h) (test_address v)) hosts) (\<lambda>answers.
       Inr (fold (\<lambda>(h, a) t. static_with t (lit h) [a]) answers Map.empty))"

definition test_fetcher :: "profile \<Rightarrow> contract_error + fetcher" where
  "test_fetcher p = map_ok fetcher_new (for_tests p)"

definition test_request :: "u16 \<Rightarrow> string \<Rightarrow> web_fetch_request" where
  "test_request port p =
     request_new (lit ''http://'' @ HOST @ lit '':'' @ show_nat (unat port) @ lit p) Markdown"

definition server_address :: "test_server \<Rightarrow> socket_addr" where
  "server_address server = \<lparr>sa_ip = V4 (Ipv4 127 0 0 1), sa_port = server_port server\<rparr>"

definition test_env ::
    "('u, 'r, 't) fixture \<Rightarrow> route \<Rightarrow> static_resolver \<Rightarrow> ('u, 'r, 't) fetch_env" where
  "test_env Fx route resolver =
     \<lparr>url = fx_url Fx, http = fx_http Fx, time = fx_time Fx, digest = fx_digest Fx,
      elapsed = fx_elapsed Fx, answers = (\<lambda>_. static_lookup resolver),
      exchange = server_exchange (fx_client Fx) route (server_address (server_start (fx_port Fx))),
      now_utc = fx_now Fx\<rparr>"

text \<open>One fetch from a server with these routes, by a fetcher that resolves these hosts.\<close>

definition test_fetch ::
    "('u, 'r, 't) fixture \<Rightarrow> contract_error + fetcher \<Rightarrow> (string \<times> string) list \<Rightarrow> route \<Rightarrow> string
       \<Rightarrow> ((error_code + fetched) \<times> ('u, 'r) call list \<Rightarrow> bool) \<Rightarrow> bool" where
  "test_fetch Fx fetcher hosts route p test =
     expect fetcher (\<lambda>F. expect (test_resolver hosts) (\<lambda>resolver.
       test (fetch (test_env Fx route resolver) F (lit ''run-1'') (test_request (fx_port Fx) p))))"

definition fetches ::
    "('u, 'r, 't) fixture \<Rightarrow> route \<Rightarrow> string \<Rightarrow> (fetched \<Rightarrow> bool) \<Rightarrow> bool" where
  "fetches Fx route p test =
     test_fetch Fx (test_fetcher Test) loopback_host route p (\<lambda>r. expect (fst r) test)"

definition fails ::
    "('u, 'r, 't) fixture \<Rightarrow> contract_error + fetcher \<Rightarrow> (string \<times> string) list \<Rightarrow> route \<Rightarrow> string
       \<Rightarrow> error_code \<Rightarrow> bool" where
  "fails Fx fetcher hosts route p e = test_fetch Fx fetcher hosts route p (\<lambda>r. fst r = Inl e)"

section \<open>The tests\<close>

definition page_route :: route where
  "page_route p =
     (if p = lit ''/page'' then Some (Body 200 (lit ''text/html; charset=utf-8'') PAGE) else None)"

definition a_successful_fetch_binds_the_body_to_its_description ::
    "('u, 'r, 't) fixture \<Rightarrow> bool" where
  "a_successful_fetch_binds_the_body_to_its_description Fx \<longleftrightarrow>
     fetches Fx page_route ''/page'' (\<lambda>f.
       let a = fetched_artifact f in
         art_http_status a = 200
         \<and> art_content_type a = Some (lit ''text/html; charset=utf-8'')
         \<and> body_bytes a = length PAGE
         \<and> body_sha256 a = sha256_hex (fx_digest Fx) PAGE
         \<and> art_redirects a = 0
         \<and> art_source_id a = lit ''source-1''
         \<and> byte_len (requested_url_sha256 a) = 64)"

definition an_error_status_with_a_text_body_is_still_a_fetch :: "('u, 'r, 't) fixture \<Rightarrow> bool" where
  "an_error_status_with_a_text_body_is_still_a_fetch Fx \<longleftrightarrow>
     fetches Fx (\<lambda>_. Some (Body 503 (lit ''text/plain'') (utf8 (lit ''maintenance'')))) ''/down'' (\<lambda>f.
       art_http_status (fetched_artifact f) = 503 \<and> fetched_body f = utf8 (lit ''maintenance''))"

definition redirect_route :: route where
  "redirect_route p =
     (if p = lit ''/one'' then Some (Redirect 302 (lit ''/two''))
      else if p = lit ''/two'' then Some (Redirect 302 (lit ''/three''))
      else if p = lit ''/three'' then Some (Body 200 (lit ''text/html'') PAGE)
      else if p = lit ''/loop'' then Some (Redirect 302 (lit ''/loop''))
      else None)"

definition ends_with :: "str \<Rightarrow> str \<Rightarrow> bool" where
  "ends_with s t \<longleftrightarrow> starts_with (rev s) (rev t)"

definition redirects_are_followed_up_to_the_limit_and_then_refused ::
    "('u, 'r, 't) fixture \<Rightarrow> bool" where
  "redirects_are_followed_up_to_the_limit_and_then_refused Fx \<longleftrightarrow>
     fetches Fx redirect_route ''/one'' (\<lambda>f.
       art_redirects (fetched_artifact f) = 2
       \<and> ends_with (lit ''/three'') (art_final_url (fetched_artifact f)))
     \<and> fails Fx (test_fetcher Test) loopback_host redirect_route ''/loop'' ResponseLimitExceeded"

definition away_route :: route where
  "away_route p =
     (if p = lit ''/away'' then Some (Redirect 302 (lit ''http://metadata.test/latest/meta-data/''))
      else None)"

definition a_redirect_into_private_space_is_refused :: "('u, 'r, 't) fixture \<Rightarrow> bool" where
  "a_redirect_into_private_space_is_refused Fx \<longleftrightarrow>
     fails Fx (test_fetcher Test) (loopback_host @ [(''metadata.test'', ''169.254.169.254'')])
       away_route ''/away'' UnsafeSource"

definition elsewhere_route :: route where
  "elsewhere_route p =
     (if p = lit ''/file'' then Some (Redirect 302 (lit ''file:///etc/passwd''))
      else if p = lit ''/port'' then Some (Redirect 302 (lit ''http://fixture.test:8443/page''))
      else None)"

definition a_redirect_to_another_scheme_or_port_is_refused :: "('u, 'r, 't) fixture \<Rightarrow> bool" where
  "a_redirect_to_another_scheme_or_port_is_refused Fx \<longleftrightarrow>
     fails Fx (test_fetcher Test) loopback_host elsewhere_route ''/file'' UnsafeSource
     \<and> fails Fx (test_fetcher Production) loopback_host elsewhere_route ''/port'' UnsafeSource"

definition rebind_route :: route where
  "rebind_route p =
     (if p = lit ''/rebind'' then Some (Redirect 302 (lit ''http://rebound.test/secrets'')) else None)"

definition a_name_that_answers_differently_on_the_next_hop_is_caught_on_that_hop ::
    "('u, 'r, 't) fixture \<Rightarrow> bool" where
  "a_name_that_answers_differently_on_the_next_hop_is_caught_on_that_hop Fx \<longleftrightarrow>
     fails Fx (test_fetcher Test) (loopback_host @ [(''rebound.test'', ''10.42.0.7'')])
       rebind_route ''/rebind'' UnsafeSource"

definition an_oversized_body_is_refused_rather_than_truncated :: "('u, 'r, 't) fixture \<Rightarrow> bool" where
  "an_oversized_body_is_refused_rather_than_truncated Fx \<longleftrightarrow>
     fails Fx (test_fetcher Test) loopback_host
       (\<lambda>_. Some (Body 200 (lit ''text/plain'') (replicate (MAX_WIRE_BYTES + 4096) 97)))
       ''/big'' ResponseLimitExceeded"

definition media_route :: route where
  "media_route p =
     (if p = lit ''/image'' then Some (Body 200 (lit ''image/png'') [0x89, 80, 78, 71])
      else if p = lit ''/none'' then Some (Untyped (utf8 (lit ''anonymous bytes'')))
      else if p = lit ''/charset''
        then Some (Body 200 (lit ''text/html; charset=definitely-not-a-charset'') PAGE)
      else None)"

definition unsupported_or_missing_media_types_are_refused_before_the_body_is_stored ::
    "('u, 'r, 't) fixture \<Rightarrow> bool" where
  "unsupported_or_missing_media_types_are_refused_before_the_body_is_stored Fx \<longleftrightarrow>
     list_all (\<lambda>p. fails Fx (test_fetcher Test) loopback_host media_route p UnsupportedContent)
       [''/image'', ''/none'', ''/charset'']"

definition a_stalled_response_ends_at_the_deadline :: "('u, 'r, 't) fixture \<Rightarrow> bool" where
  "a_stalled_response_ends_at_the_deadline Fx \<longleftrightarrow>
     fails Fx (map_ok (\<lambda>F. with_deadline F (400 * 10 ^ 6)) (test_fetcher Test)) loopback_host
       (\<lambda>_. Some (Stalled (lit ''text/plain''))) ''/slow'' DeadlineExceeded"

definition a_compressed_body_is_stored_as_received :: "('u, 'r, 't) fixture \<Rightarrow> bool" where
  "a_compressed_body_is_stored_as_received Fx \<longleftrightarrow>
     (let payload = [0x1f, 0x8b, 8, 0, 0, 0, 0, 0, 0, 3] in
      fetches Fx
        (\<lambda>_. Some (Encoded 200 (lit ''text/html'') payload (lit ''content-encoding: gzip''))) ''/gz'' (\<lambda>f.
          fetched_body f = payload \<and> art_content_encoding (fetched_artifact f) = Some (lit ''gzip'')))"

text \<open>The connections a run makes to the server are those of its calls whose agent can reach the
  server's address.\<close>

definition connections :: "('u, 'r, 't) fixture \<Rightarrow> ('u, 'r) call list \<Rightarrow> connection list" where
  "connections Fx cs =
     map (\<lambda>c. http_send (fx_client Fx) (call_request c))
       (filter (\<lambda>c. server_address (server_start (fx_port Fx)) \<in> set (take 16 (agent_resolver (call_agent c)))) cs)"

definition a_refused_destination_is_never_contacted :: "('u, 'r, 't) fixture \<Rightarrow> bool" where
  "a_refused_destination_is_never_contacted Fx \<longleftrightarrow>
     (let route = (\<lambda>_. Some (Body 200 (lit ''text/html'') PAGE)) in
      test_fetch Fx (test_fetcher Production) loopback_host route ''/page'' (\<lambda>(r, cs).
        r = Inl UnsafeSource
        \<and> server_requests (snd (server_accept route (map Inr (connections Fx cs))
            (server_start (fx_port Fx)))) = 0))"

end
