(* ===== verification/Fetch_Tests_Pass.thy ===== *)
theory Fetch_Tests_Pass
  imports Fetch_Tests
begin

text \<open>
  The tests of the fetch pass on the model, over every lawful fixture: each fetch is a walk over the
  scripted replies, and the walk of each test is followed here.
\<close>

section \<open>Lawful fixtures\<close>

definition fixture_lawful :: "('u, 'r, 't) fixture \<Rightarrow> bool" where
  "fixture_lawful Fx \<longleftrightarrow>
     web_urls (fx_url Fx) \<and> client_lawful (fx_client Fx) (fx_http Fx)
     \<and> (\<forall>scheme host port p. plain_web scheme host port p \<longrightarrow>
          uri_path (fx_client Fx) (web_text scheme host port p) = p)
     \<and> fx_port Fx \<noteq> 80 \<and> fx_port Fx \<noteq> 443
     \<and> (\<forall>n. fx_elapsed Fx n < 400 * 10 ^ 6)
     \<and> (\<exists>at. rfc3339_format (fx_time Fx) (fx_now Fx) = Some at)
     \<and> (\<forall>bs. length (fx_digest Fx bs) = 32)"

definition test_site ::
    "('u, 'r, 't) fixture \<Rightarrow> destination_policy \<Rightarrow> static_resolver \<Rightarrow> route \<Rightarrow> 'u site" where
  "test_site Fx P resolver route =
     \<lparr>site_url = fx_url Fx, site_lookup = static_lookup resolver, site_policy = P,
      site_server = server_address (server_start (fx_port Fx)), site_route = route,
      site_path = uri_path (fx_client Fx)\<rparr>"

lemma test_site_url: "site_url (test_site Fx P resolver route) = fx_url Fx"
  by (simp add: test_site_def)

definition test_policy :: "profile \<Rightarrow> destination_policy" where
  "test_policy p = \<lparr>profile = p, denied = [range4 10 42 0 0 16]\<rparr>"

definition at_path :: "('u, 'r, 't) fixture \<Rightarrow> 'u \<Rightarrow> str \<Rightarrow> bool" where
  "at_path Fx u p \<longleftrightarrow> web_url (fx_url Fx) u (lit ''http'') HOST (Some (fx_port Fx)) p"

definition routable :: "route \<Rightarrow> duration \<Rightarrow> bool" where
  "routable route deadline \<longleftrightarrow>
     (\<forall>p. sendable (route p)) \<and> 400 * 10 ^ 6 \<le> deadline
     \<and> ((\<exists>p ctype. route p = Some (Stalled ctype)) \<longrightarrow> deadline < 5 * 10 ^ 9)"

lemma fixture_plain:
  "fixture_lawful Fx \<Longrightarrow> plain_path p \<Longrightarrow> plain_web (lit ''http'') HOST (Some (fx_port Fx)) p"
  by (simp add: fixture_lawful_def plain_web_def HOST_def plain_host_def text_eval)

lemma on_test_site:
  assumes "fixture_lawful Fx" "routable route (fetcher_deadline F)"
  shows "on_site (test_env Fx route resolver) F (fx_client Fx)
    (test_site Fx (fetcher_policy F) resolver route)"
  using assms order_less_le_trans [of "fx_elapsed Fx _" "400 * 10 ^ 6"]
  by (simp add: on_site_def test_env_def test_site_def fixture_lawful_def routable_def)

lemma test_request_url:
  assumes fx: "fixture_lawful Fx" and p: "plain_path (lit p)" "length p \<le> 100"
  obtains u where "destination_url (fx_url Fx) (test_request (fx_port Fx) p) = Inr u"
    "at_path Fx u (lit p)"
proof -
  let ?port = "fx_port Fx"
  let ?s = "web_text (lit ''http'') HOST (Some ?port) (lit p)"
  have s: "req_url (test_request ?port p) = ?s"
    by (simp add: test_request_def request_new_def web_text_def lit_def)
  have chars: "is_ascii c \<and> \<not> is_whitespace c" if "c \<in> set ?s" for c
  proof -
    consider "c \<in> set (lit ''http://fixture.test:'')" | "c \<in> set (show_nat (unat ?port))" | "c \<in> set (lit p)"
      using \<open>c \<in> set ?s\<close> by (auto simp: web_text_def HOST_def lit_def)
    then show ?thesis
    proof cases
      case 1
      then show ?thesis by (auto simp: text_eval)
    next
      case 2
      then show ?thesis using show_nat_digits
        by (fastforce simp: is_ascii_def is_whitespace_def is_ascii_digit_def)
    next
      case 3
      then show ?thesis using p(1)
        by (auto simp: plain_path_def list_all_iff is_ascii_def is_whitespace_def
            is_ascii_lowercase_def is_ascii_digit_def split: list.splits)
    qed
  qed
  have "?s \<noteq> []" by (simp add: web_text_def lit_def)
  then have trim: "trim ?s = ?s"
    unfolding trim_def using chars by (intro trim_matches_stable) (simp_all add: hd_in_set last_in_set)
  have "unat ?port < 10 ^ 5" using unsigned_less [of ?port, where 'a = nat] by simp
  then have "length (show_nat (unat ?port)) \<le> 5" by (intro length_show_nat [of _ 4, simplified]) simp
  then have "length ?s \<le> 200" using p(2) by (simp add: web_text_def HOST_def lit_def)
  moreover have "byte_len ?s = length ?s" using chars by (simp add: byte_len_ascii list_all_iff)
  ultimately have short: "byte_len ?s \<le> MAX_URL_CHARS" by (simp add: limit_defs)
  have web: "web_urls (fx_url Fx)" using fx by (simp add: fixture_lawful_def)
  note plain = fixture_plain [OF fx p(1)]
  obtain v where v: "url_parse (fx_url Fx) ?s = Inr v"
      "web_url (fx_url Fx) v (lit ''http'') HOST (Some ?port) (lit p)"
    using web_urls_parse [OF web plain] .
  have "destination_url (fx_url Fx) (test_request ?port p) = Inr (url_clear_fragment (fx_url Fx) v)"
    using short trim v(1) web_url_destination [OF plain v(2)]
    by (simp add: destination_url_def s context_err_def)
  then show thesis
    using that web_urls_clear [OF web plain v(2)] by (simp add: at_path_def)
qed

text \<open>What a test's fetch comes to: the walk from the URL it asks for.\<close>

lemma test_fetch_walk:
  assumes "fixture_lawful Fx" "routable route (fetcher_deadline F)" "plain_path (lit p)" "length p \<le> 100"
  obtains u where "at_path Fx u (lit p)"
    "map_ok page_of (fst (fetch (test_env Fx route resolver) F run (test_request (fx_port Fx) p))) =
     and_then (walk (test_site Fx (fetcher_policy F) resolver route) 3 u)
       (walked_page (test_site Fx (fetcher_policy F) resolver route))"
proof -
  obtain u where u: "destination_url (fx_url Fx) (test_request (fx_port Fx) p) = Inr u"
      "at_path Fx u (lit p)"
    using test_request_url [OF assms(1,3,4)] .
  note site = on_test_site [OF assms(1,2), of resolver]
  have "map_ok page_of (fst (fetch (test_env Fx route resolver) F run (test_request (fx_port Fx) p))) =
      and_then (walk (test_site Fx (fetcher_policy F) resolver route) 3 u)
       (walked_page (test_site Fx (fetcher_policy F) resolver route))"
    using loop_walk [OF site, of 3 0] u(1) by (simp add: fetch_def test_env_def)
  with u(2) show thesis by (rule that)
qed

section \<open>Steps of a walk\<close>

lemma walk_stop: "visit X u = Inr r \<Longrightarrow> answer_location r = None \<Longrightarrow> walk X left u = Inr (left, u, r)"
  by (cases left) simp_all

lemma walk_refused: "visit X u = Inl e \<Longrightarrow> walk X left u = Inl e"
  by (cases left) simp_all

lemma walk_on:
  "visit X u = Inr r \<Longrightarrow> answer_location r = Some location \<Longrightarrow> url_join (site_url X) u location = Inr v \<Longrightarrow>
     walk X (Suc left) u = walk X left v"
  by simp

lemma walk_spent:
  "visit X u = Inr r \<Longrightarrow> answer_location r = Some location \<Longrightarrow> walk X 0 u = Inl ResponseLimitExceeded"
  by simp

lemma loopback_permitted: "permits (test_policy Test) (V4 (Ipv4 127 0 0 1))"
  by (simp add: test_policy_def policy_test_eval)

text \<open>The server answers on its own port under the test policy, and is not reached under the
  production one.\<close>

lemma visit_fixture:
  assumes fx: "fixture_lawful Fx" and u: "at_path Fx u p" and p: "plain_path p"
    and host: "\<And>port. static_lookup resolver HOST port = Inr [V4 (Ipv4 127 0 0 1)]"
  shows "visit (test_site Fx (test_policy Test) resolver route) u = Inr (reply_answer (route p))"
proof -
  note plain = fixture_plain [OF fx p]
  have url: "web_url (fx_url Fx) u (lit ''http'') HOST (Some (fx_port Fx)) p"
    using u by (simp add: at_path_def)
  then have "uri_path (fx_client Fx) (url_as_str (fx_url Fx) u) = p"
    using fx plain by (simp add: web_url_def fixture_lawful_def)
  then show ?thesis
    using resolve_web [OF plain url, of "fx_port Fx" "static_lookup resolver" "test_policy Test"] host
      loopback_permitted
    by (simp add: visit_def test_site_def server_address_def server_start_def permits_port_def)
      (simp add: test_policy_def)
qed

lemma resolve_production:
  assumes "fixture_lawful Fx" "at_path Fx u p" "plain_path p"
  shows "resolve (fx_url Fx) lookup (test_policy Production) u = Inl UnsafeSource"
  using resolve_web [OF fixture_plain [OF assms(1,3)], of "fx_url Fx" u] assms
  by (simp add: at_path_def permits_port_def test_policy_def fixture_lawful_def)

lemma visit_refused_host:
  assumes "plain_web (lit ''http'') host None p" "web_url (fx_url Fx) u (lit ''http'') host None p"
    and "static_lookup resolver host 80 = Inr [a]" "\<not> permits (test_policy q) a"
  shows "visit (test_site Fx (test_policy q) resolver route) u = Inl UnsafeSource"
  using resolve_web [OF assms(1,2), of 80 "static_lookup resolver" "test_policy q"] assms(3,4)
  by (simp add: visit_def test_site_def permits_port_def)

section \<open>From the walk to the test\<close>

lemma test_fetcher_eval: "test_fetcher p = Inr (fetcher_new (test_policy p))"
  by (simp add: test_fetcher_def for_tests_eval test_policy_def)

lemma test_resolvers:
  "test_resolver loopback_host = Inr (static_with Map.empty HOST [V4 (Ipv4 127 0 0 1)])"
  "test_resolver (loopback_host @ [(''metadata.test'', ''169.254.169.254'')]) =
     Inr (static_with (static_with Map.empty HOST [V4 (Ipv4 127 0 0 1)]) (lit ''metadata.test'')
       [V4 (Ipv4 169 254 169 254)])"
  "test_resolver (loopback_host @ [(''rebound.test'', ''10.42.0.7'')]) =
     Inr (static_with (static_with Map.empty HOST [V4 (Ipv4 127 0 0 1)]) (lit ''rebound.test'')
       [V4 (Ipv4 10 42 0 7)])"
  by (simp_all add: test_resolver_def loopback_host_def test_addresses HOST_def)

lemma host_lookup:
  "static_lookup (static_with Map.empty HOST [a]) HOST port = Inr [a]"
  "static_lookup (static_with (static_with Map.empty HOST [a]) (lit ''metadata.test'') [b]) HOST port = Inr [a]"
  "static_lookup (static_with (static_with Map.empty HOST [a]) (lit ''rebound.test'') [b]) HOST port = Inr [a]"
  by (simp_all add: static_lookup_with HOST_def text_eval)

lemma default_deadline:
  "fetcher_deadline (fetcher_new P) = 15 * 10 ^ 9" "fetcher_policy (fetcher_new P) = P"
  by (simp_all add: fetcher_new_def from_secs_def limit_defs)

text \<open>The page a test's walk ends on, or the error it ends in.\<close>

definition walk_result ::
    "('u, 'r, 't) fixture \<Rightarrow> destination_policy \<Rightarrow> static_resolver \<Rightarrow> route \<Rightarrow> 'u
       \<Rightarrow> error_code + str \<times> u32 \<times> u16 \<times> str option \<times> str option \<times> bytes" where
  "walk_result Fx P resolver route u =
     and_then (walk (test_site Fx P resolver route) 3 u) (walked_page (test_site Fx P resolver route))"

lemma fails_rule:
  assumes fx: "fixture_lawful Fx" and p: "plain_path (lit p)" "length p \<le> 100"
    and F: "fetcher = Inr F" "routable route (fetcher_deadline F)"
    and hosts: "test_resolver hosts = Inr resolver"
    and walk: "\<And>u. at_path Fx u (lit p) \<Longrightarrow> walk_result Fx (fetcher_policy F) resolver route u = Inl e"
  shows "fails Fx fetcher hosts route p e"
proof -
  let ?r = "fst (fetch (test_env Fx route resolver) F (lit ''run-1'') (test_request (fx_port Fx) p))"
  obtain u where "at_path Fx u (lit p)" "map_ok page_of ?r = walk_result Fx (fetcher_policy F) resolver route u"
    using test_fetch_walk [OF fx F(2) p] unfolding walk_result_def by metis
  then have "map_ok page_of ?r = Inl e" using walk by simp
  then have "?r = Inl e" by (cases ?r) simp_all
  then show ?thesis by (simp add: fails_def test_fetch_def expect_def F hosts)
qed

text \<open>What every artifact of a test's fetch says beside the page.\<close>

definition bound_to_body :: "('u, 'r, 't) fixture \<Rightarrow> fetched \<Rightarrow> bool" where
  "bound_to_body Fx f \<longleftrightarrow>
     (let a = fetched_artifact f in
      body_bytes a = length (fetched_body f) \<and> body_sha256 a = sha256_hex (fx_digest Fx) (fetched_body f)
      \<and> art_source_id a = lit ''source-1'' \<and> (\<exists>bs. requested_url_sha256 a = sha256_hex (fx_digest Fx) bs))"

definition own_host :: static_resolver where
  "own_host = static_with Map.empty HOST [V4 (Ipv4 127 0 0 1)]"

lemma fetches_rule:
  assumes fx: "fixture_lawful Fx" and p: "plain_path (lit p)" "length p \<le> 100"
    and route: "routable route (15 * 10 ^ 9)"
    and walk: "\<And>u. at_path Fx u (lit p) \<Longrightarrow>
      \<exists>page. walk_result Fx (test_policy Test) own_host route u = Inr page
        \<and> (\<forall>f. page_of f = page \<longrightarrow> bound_to_body Fx f \<longrightarrow> test f)"
  shows "fetches Fx route p test"
proof -
  let ?F = "fetcher_new (test_policy Test)"
  let ?run = "fetch (test_env Fx route own_host) ?F (lit ''run-1'') (test_request (fx_port Fx) p)"
  have F: "routable route (fetcher_deadline ?F)" using route by (simp only: default_deadline)
  obtain u where u: "at_path Fx u (lit p)"
      "map_ok page_of (fst ?run) = walk_result Fx (test_policy Test) own_host route u"
    using test_fetch_walk [OF fx F p, of own_host] unfolding walk_result_def default_deadline by metis
  obtain page where page: "map_ok page_of (fst ?run) = Inr page"
    and test: "\<And>f. page_of f = page \<Longrightarrow> bound_to_body Fx f \<Longrightarrow> test f"
    using walk [OF u(1)] u(2) by auto
  obtain f cs where f: "?run = (Inr f, cs)" "page_of f = page"
    using page by (cases ?run; cases "fst ?run") auto
  have "bound_to_body Fx f"
    using fetch_run [OF f(1)] by (auto simp: describes_def Let_def bound_to_body_def test_env_def)
  then show ?thesis
    using test f
    by (simp add: fetches_def test_fetch_def expect_def test_fetcher_eval test_resolvers own_host_def)
qed

lemma fetches_page:
  assumes "fixture_lawful Fx" "plain_path (lit p)" "length p \<le> 100" "routable route (15 * 10 ^ 9)"
    and r: "reply_answer (route (lit p)) = (st, hfs, content)" "answer_location (st, hfs, content) = None"
      "accept_answer (st, hfs, content) = Inr (m, b)"
    and test: "\<And>f. art_redirects (fetched_artifact f) = 0 \<Longrightarrow> art_http_status (fetched_artifact f) = st
      \<Longrightarrow> art_content_type (fetched_artifact f) = Some (header_value m)
      \<Longrightarrow> art_content_encoding (fetched_artifact f) = map_of hfs (lit ''content-encoding'')
      \<Longrightarrow> fetched_body f = b \<Longrightarrow> bound_to_body Fx f \<Longrightarrow> test f"
  shows "fetches Fx route p test"
proof (rule fetches_rule [OF assms(1-4)])
  fix u assume "at_path Fx u (lit p)"
  then have "visit (test_site Fx (test_policy Test) own_host route) u = Inr (st, hfs, content)"
    using visit_fixture [OF assms(1) _ assms(2) host_lookup(1)] r(1) by (simp add: own_host_def)
  then show "\<exists>page. walk_result Fx (test_policy Test) own_host route u = Inr page
      \<and> (\<forall>f. page_of f = page \<longrightarrow> bound_to_body Fx f \<longrightarrow> test f)"
    using walk_stop [of _ u, OF _ r(2)] test
    by (auto simp: walk_result_def walked_page_def r(3) page_of_def Let_def)
qed

lemma fails_page:
  assumes "fixture_lawful Fx" "plain_path (lit p)" "length p \<le> 100"
    and F: "fetcher = Inr F" "routable route (fetcher_deadline F)" "fetcher_policy F = test_policy Test"
    and r: "answer_location (reply_answer (route (lit p))) = None"
      "accept_answer (reply_answer (route (lit p))) = Inl e"
  shows "fails Fx fetcher loopback_host route p e"
proof (rule fails_rule [OF assms(1-3) F(1,2) test_resolvers(1)])
  fix u assume "at_path Fx u (lit p)"
  then have "visit (test_site Fx (test_policy Test) own_host route) u = Inr (reply_answer (route (lit p)))"
    using visit_fixture [OF assms(1) _ assms(2) host_lookup(1)] by (simp add: own_host_def)
  then show "walk_result Fx (fetcher_policy F) (static_with Map.empty HOST [V4 (Ipv4 127 0 0 1)]) route u = Inl e"
    using walk_stop [of _ u, OF _ r(1)]
    by (simp add: F(3) walk_result_def walked_page_def split_def r(2) flip: own_host_def)
qed

section \<open>The tests pass\<close>

lemma test_media:
  "media_parse (lit ''text/plain'') = Inr \<lparr>essence = lit ''text/plain'', charset = None\<rparr>"
  "media_parse (lit ''text/html'') = Inr \<lparr>essence = lit ''text/html'', charset = None\<rparr>"
  "media_parse (lit ''text/html; charset=utf-8'') =
     Inr \<lparr>essence = lit ''text/html'', charset = Some (lit ''utf-8'')\<rparr>"
  "media_parse (lit ''image/png'') = Inr \<lparr>essence = lit ''image/png'', charset = None\<rparr>"
  "media_parse (lit ''text/html; charset=definitely-not-a-charset'') =
     Inr \<lparr>essence = lit ''text/html'', charset = Some (lit ''definitely-not-a-charset'')\<rparr>"
  by (simp_all add: media_parse_def clean_charset_def is_quote_def text_eval)

lemma test_supported:
  "is_supported \<lparr>essence = lit ''text/plain'', charset = None\<rparr>"
  "is_supported \<lparr>essence = lit ''text/html'', charset = None\<rparr>"
  "is_supported \<lparr>essence = lit ''text/html'', charset = Some (lit ''utf-8'')\<rparr>"
  "\<not> is_supported \<lparr>essence = lit ''image/png'', charset = None\<rparr>"
  "\<not> is_supported \<lparr>essence = lit ''text/html'', charset = Some (lit ''definitely-not-a-charset'')\<rparr>"
  "is_supported_content_encoding (lit ''gzip'')"
  by (simp_all add: is_supported_def SUPPORTED_MEDIA_TYPES_def SUPPORTED_CHARSETS_def
      is_supported_content_encoding_def text_eval)

lemma test_values:
  "trim (lit ''text/plain'') = lit ''text/plain''" "trim (lit ''text/html'') = lit ''text/html''"
  "trim (lit ''text/html; charset=utf-8'') = lit ''text/html; charset=utf-8''"
  "trim (lit ''image/png'') = lit ''image/png''"
  "trim (lit ''text/html; charset=definitely-not-a-charset'') =
     lit ''text/html; charset=definitely-not-a-charset''"
  "header_field (lit ''content-encoding: gzip'') = (lit ''content-encoding'', lit ''gzip'')"
  "(lit ''content-encoding'' = lit ''content-type'') = False"
  "lit ''text/html'' @ lit ''; charset='' @ lit ''utf-8'' = lit ''text/html; charset=utf-8''"
  by (simp_all add: header_field_def text_eval)

lemma lit_eq_iff: "lit a = lit b \<longleftrightarrow> a = b"
  unfolding lit_def by (rule inj_map_eq_map) (auto intro: injI)

lemma test_paths:
  "plain_path (lit ''/down'')" "plain_path (lit ''/page'')" "plain_path (lit ''/gz'')"
  "plain_path (lit ''/one'')" "plain_path (lit ''/two'')" "plain_path (lit ''/three'')"
  "plain_path (lit ''/loop'')" "plain_path (lit ''/away'')" "plain_path (lit ''/file'')"
  "plain_path (lit ''/port'')" "plain_path (lit ''/rebind'')" "plain_path (lit ''/big'')"
  "plain_path (lit ''/image'')" "plain_path (lit ''/none'')" "plain_path (lit ''/charset'')"
  "plain_path (lit ''/slow'')" "plain_path (lit ''/secrets'')" "plain_path (lit ''/latest/meta-data/'')"
  by code_simp+

lemma plain_values:
  "plain_header (lit ''content-type: '' @ lit ''text/plain'')"
  "plain_header (lit ''content-type: '' @ lit ''text/html'')"
  "plain_header (lit ''content-type: '' @ lit ''text/html; charset=utf-8'')"
  "plain_header (lit ''content-type: '' @ lit ''image/png'')"
  "plain_header (lit ''content-type: '' @ lit ''text/html; charset=definitely-not-a-charset'')"
  "plain_header (lit ''content-encoding: gzip'')"
  by code_simp+

lemma body_statuses: "body_status 200" "body_status 503" "body_status 302"
  by (simp_all add: body_status_def)

lemma page_sizes:
  "length PAGE = 77" "byte_len (lit ''maintenance'') = 11" "byte_len (lit ''anonymous bytes'') = 15"
  by (simp_all add: PAGE_def length_utf8 lit_def len_utf8_def)

lemmas accept_eval = accept_answer_def test_media test_supported test_values limit_defs page_sizes

lemmas send_eval =
  routable_def plain_values body_statuses test_values answer_location_def page_sizes

lemma fetch_tests_pages:
  assumes "fixture_lawful Fx"
  shows "a_successful_fetch_binds_the_body_to_its_description Fx"
    and "an_error_status_with_a_text_body_is_still_a_fetch Fx"
    and "a_compressed_body_is_stored_as_received Fx"
proof -
  have digest: "length (fx_digest Fx bs) = 32" for bs using assms by (simp add: fixture_lawful_def)
  show "a_successful_fetch_binds_the_body_to_its_description Fx"
    unfolding a_successful_fetch_binds_the_body_to_its_description_def
  proof (rule fetches_page [OF assms test_paths(2)])
    show "accept_answer (200, [(lit ''content-type'', lit ''text/html; charset=utf-8'')], Some PAGE) =
        Inr (\<lparr>essence = lit ''text/html'', charset = Some (lit ''utf-8'')\<rparr>, PAGE)"
      by (simp add: accept_eval)
  qed (auto simp: send_eval page_route_def header_value_def bound_to_body_def Let_def sha256_hex_def
        digest byte_len_ascii [OF to_hex_ascii])
  show "an_error_status_with_a_text_body_is_still_a_fetch Fx"
    unfolding an_error_status_with_a_text_body_is_still_a_fetch_def
  proof (rule fetches_page [OF assms test_paths(1)])
    show "accept_answer (503, [(lit ''content-type'', lit ''text/plain'')], Some (utf8 (lit ''maintenance''))) =
        Inr (\<lparr>essence = lit ''text/plain'', charset = None\<rparr>, utf8 (lit ''maintenance''))"
      by (simp add: accept_eval)
  qed (simp_all add: send_eval)
  show "a_compressed_body_is_stored_as_received Fx"
    unfolding a_compressed_body_is_stored_as_received_def Let_def
  proof (rule fetches_page [OF assms test_paths(3)])
    show "accept_answer (200, [(lit ''content-type'', lit ''text/html''), (lit ''content-encoding'', lit ''gzip'')],
          Some [0x1f, 0x8b, 8, 0, 0, 0, 0, 0, 0, 3]) =
        Inr (\<lparr>essence = lit ''text/html'', charset = None\<rparr>, [0x1f, 0x8b, 8, 0, 0, 0, 0, 0, 0, 3])"
      by (simp add: accept_eval)
  qed (simp_all add: send_eval)
qed

lemma fetch_tests_media:
  assumes "fixture_lawful Fx"
  shows "unsupported_or_missing_media_types_are_refused_before_the_body_is_stored Fx"
proof -
  have media: "routable media_route (fetcher_deadline (fetcher_new (test_policy Test)))"
    by (simp add: send_eval media_route_def default_deadline)
  note fails = fails_page [OF assms _ _ test_fetcher_eval media default_deadline(2)]
  have "fails Fx (test_fetcher Test) loopback_host media_route ''/image'' UnsupportedContent"
    by (rule fails [OF test_paths(13)])
      (simp_all add: media_route_def answer_location_def accept_eval lit_eq_iff)
  moreover have "fails Fx (test_fetcher Test) loopback_host media_route ''/none'' UnsupportedContent"
    by (rule fails [OF test_paths(14)])
      (simp_all add: media_route_def answer_location_def accept_eval lit_eq_iff)
  moreover have "fails Fx (test_fetcher Test) loopback_host media_route ''/charset'' UnsupportedContent"
    by (rule fails [OF test_paths(15)])
      (simp_all add: media_route_def answer_location_def accept_eval lit_eq_iff)
  ultimately show ?thesis
    by (simp add: unsupported_or_missing_media_types_are_refused_before_the_body_is_stored_def)
qed

lemma fetch_tests_limits:
  assumes "fixture_lawful Fx"
  shows "an_oversized_body_is_refused_rather_than_truncated Fx"
    and "a_stalled_response_ends_at_the_deadline Fx"
proof -
  show "an_oversized_body_is_refused_rather_than_truncated Fx"
    unfolding an_oversized_body_is_refused_rather_than_truncated_def
    by (rule fails_page [OF assms test_paths(12) _ test_fetcher_eval _ default_deadline(2)])
      (simp_all add: send_eval default_deadline accept_eval)
  show "a_stalled_response_ends_at_the_deadline Fx"
    unfolding a_stalled_response_ends_at_the_deadline_def
    by (rule fails_page [OF assms test_paths(16),
          where F = "with_deadline (fetcher_new (test_policy Test)) (400 * 10 ^ 6)"])
      (simp_all add: send_eval default_deadline accept_eval test_fetcher_eval with_deadline_def)
qed

section \<open>Redirects\<close>

lemma redirect_path:
  assumes fx: "fixture_lawful Fx" and u: "at_path Fx u p" "plain_path p"
    and host: "\<And>port. static_lookup resolver HOST port = Inr [V4 (Ipv4 127 0 0 1)]"
    and r: "route p = Some (Redirect 302 location)" "trim location = location" "plain_path location"
  obtains v where "at_path Fx v location"
    "\<And>left. walk (test_site Fx (test_policy Test) resolver route) (Suc left) u =
       walk (test_site Fx (test_policy Test) resolver route) left v"
    "walk (test_site Fx (test_policy Test) resolver route) 0 u = Inl ResponseLimitExceeded"
proof -
  have "web_urls (fx_url Fx)" using fx by (simp add: fixture_lawful_def)
  from web_urls_path [OF this fixture_plain [OF fx u(2)] u(1) [unfolded at_path_def] r(3)]
  obtain v where v: "url_join (fx_url Fx) u location = Inr v" "at_path Fx v location"
    unfolding at_path_def .
  note visit = visit_fixture [OF fx u host, of route, unfolded r(1)]
  have "answer_location (reply_answer (Some (Redirect 302 location))) = Some location"
    using r(2) by (simp add: answer_location_def)
  note steps = walk_on [OF visit this] walk_spent [OF visit this]
  show thesis
  proof (rule that [OF v(2)])
    show "walk (test_site Fx (test_policy Test) resolver route) (Suc left) u =
        walk (test_site Fx (test_policy Test) resolver route) left v" for left
      by (rule steps(1)) (simp add: test_site_def v(1))
  qed (rule steps(2))
qed

lemma redirect_away:
  assumes fx: "fixture_lawful Fx" and u: "at_path Fx u p" "plain_path p"
    and host: "\<And>port. static_lookup resolver HOST port = Inr [V4 (Ipv4 127 0 0 1)]"
    and r: "route p = Some (Redirect 302 location)" "trim location = location"
    and join: "url_join (fx_url Fx) u location = Inr v"
      "visit (test_site Fx (test_policy Test) resolver route) v = Inl e"
  shows "walk_result Fx (test_policy Test) resolver route u = Inl e"
proof -
  note visit = visit_fixture [OF fx u host, of route, unfolded r(1)]
  have "answer_location (reply_answer (Some (Redirect 302 location))) = Some location"
    using r(2) by (simp add: answer_location_def)
  note step = walk_on [OF visit this, of v 2, unfolded Suc_numeral, simplified]
  show ?thesis
    using step walk_refused [OF join(2)] join(1) by (simp add: walk_result_def test_site_def)
qed

lemma redirect_locations:
  "trim (lit ''/two'') = lit ''/two''" "trim (lit ''/three'') = lit ''/three''"
  "trim (lit ''/loop'') = lit ''/loop''"
  "trim (lit ''http://metadata.test/latest/meta-data/'') = lit ''http://metadata.test/latest/meta-data/''"
  "trim (lit ''file:///etc/passwd'') = lit ''file:///etc/passwd''"
  "trim (lit ''http://fixture.test:8443/page'') = lit ''http://fixture.test:8443/page''"
  "trim (lit ''http://rebound.test/secrets'') = lit ''http://rebound.test/secrets''"
  by (simp_all add: text_eval)

lemma plain_locations:
  "plain_header (lit ''location: '' @ lit ''/two'')" "plain_header (lit ''location: '' @ lit ''/three'')"
  "plain_header (lit ''location: '' @ lit ''/loop'')"
  "plain_header (lit ''location: '' @ lit ''http://metadata.test/latest/meta-data/'')"
  "plain_header (lit ''location: '' @ lit ''file:///etc/passwd'')"
  "plain_header (lit ''location: '' @ lit ''http://fixture.test:8443/page'')"
  "plain_header (lit ''location: '' @ lit ''http://rebound.test/secrets'')"
  by (simp_all add: plain_header_def text_eval)

abbreviation redirect_site :: "('u, 'r, 't) fixture \<Rightarrow> 'u site" where
  "redirect_site Fx \<equiv> test_site Fx (test_policy Test) own_host redirect_route"

lemma redirect_replies:
  "redirect_route (lit ''/one'') = Some (Redirect 302 (lit ''/two''))"
  "redirect_route (lit ''/two'') = Some (Redirect 302 (lit ''/three''))"
  "redirect_route (lit ''/three'') = Some (Body 200 (lit ''text/html'') PAGE)"
  "redirect_route (lit ''/loop'') = Some (Redirect 302 (lit ''/loop''))"
  by (simp_all add: redirect_route_def lit_eq_iff)

lemmas redirect_step = redirect_path [OF _ _ _ host_lookup(1), of _ _ _ redirect_route, folded own_host_def]

lemma redirect_route_routable: "routable redirect_route (15 * 10 ^ 9)"
  by (simp add: send_eval redirect_route_def plain_locations)

lemma two_redirects:
  assumes fx: "fixture_lawful Fx" and u: "at_path Fx u (lit ''/one'')"
  shows "walk_result Fx (test_policy Test) own_host redirect_route u =
    Inr (web_text (lit ''http'') HOST (Some (fx_port Fx)) (lit ''/three''), 2, 200,
      Some (lit ''text/html''), None, PAGE)"
proof -
  from redirect_step [OF fx u test_paths(4) redirect_replies(1) redirect_locations(1) test_paths(5)]
  obtain v where v: "at_path Fx v (lit ''/two'')"
    "\<And>left. walk (redirect_site Fx) (Suc left) u = walk (redirect_site Fx) left v" by blast
  from redirect_step [OF fx v(1) test_paths(5) redirect_replies(2) redirect_locations(2) test_paths(6)]
  obtain w where w: "at_path Fx w (lit ''/three'')"
    "\<And>left. walk (redirect_site Fx) (Suc left) v = walk (redirect_site Fx) left w" by blast
  note visit = visit_fixture [OF fx w(1) test_paths(6) host_lookup(1), of redirect_route,
      unfolded redirect_replies(3), folded own_host_def]
  have "walk (redirect_site Fx) 3 u = walk (redirect_site Fx) 1 w"
    by (simp only: numeral_3_eq_3 One_nat_def v w)
  then have "walk (redirect_site Fx) 3 u =
      Inr (1, w, reply_answer (Some (Body 200 (lit ''text/html'') PAGE)))"
    using walk_stop [OF visit, of 1] by (simp add: answer_location_def del: walk.simps)
  moreover have "url_as_str (fx_url Fx) w = web_text (lit ''http'') HOST (Some (fx_port Fx)) (lit ''/three'')"
    using w by (simp add: at_path_def web_url_def)
  ultimately show ?thesis
    by (simp add: walk_result_def walked_page_def accept_eval header_value_def) (simp add: test_site_def)
qed

lemma redirect_loop:
  assumes fx: "fixture_lawful Fx" and u: "at_path Fx u (lit ''/loop'')"
  shows "walk (redirect_site Fx) left u = Inl ResponseLimitExceeded"
  using u
proof (induction left arbitrary: u)
  case 0
  show ?case
    by (rule redirect_step [OF fx 0 test_paths(7) redirect_replies(4) redirect_locations(3) test_paths(7)])
next
  case (Suc left)
  from redirect_step [OF fx Suc.prems test_paths(7) redirect_replies(4) redirect_locations(3) test_paths(7)]
  obtain v where "at_path Fx v (lit ''/loop'')"
    "\<And>left. walk (redirect_site Fx) (Suc left) u = walk (redirect_site Fx) left v" by blast
  with Suc.IH show ?case by (simp del: walk.simps)
qed

lemma fetch_tests_redirects:
  assumes fx: "fixture_lawful Fx"
  shows "redirects_are_followed_up_to_the_limit_and_then_refused Fx"
  unfolding redirects_are_followed_up_to_the_limit_and_then_refused_def
proof
  show "fetches Fx redirect_route ''/one'' (\<lambda>f. art_redirects (fetched_artifact f) = 2
      \<and> ends_with (lit ''/three'') (art_final_url (fetched_artifact f)))"
    by (rule fetches_rule [OF fx test_paths(4) _ redirect_route_routable])
      (use two_redirects [OF fx] in \<open>auto simp: page_of_def Let_def web_text_def ends_with_def
        starts_with_def strip_prefix_Some_iff\<close>)
  show "fails Fx (test_fetcher Test) loopback_host redirect_route ''/loop'' ResponseLimitExceeded"
    by (rule fails_rule [OF fx test_paths(7) _ test_fetcher_eval _ test_resolvers(1)])
      (use redirect_route_routable redirect_loop [OF fx] in
        \<open>simp_all add: default_deadline walk_result_def flip: own_host_def\<close>)
qed

text \<open>A redirect to a name whose only address the policy refuses.\<close>

lemma redirect_refused_host:
  assumes fx: "fixture_lawful Fx" and u: "at_path Fx u p" "plain_path p"
    and host: "\<And>port. static_lookup resolver HOST port = Inr [V4 (Ipv4 127 0 0 1)]"
    and r: "route p = Some (Redirect 302 location)" "trim location = location"
    and target: "location = web_text (lit ''http'') other None q" "plain_web (lit ''http'') other None q"
      "static_lookup resolver other 80 = Inr [a]" "\<not> permits (test_policy Test) a"
  shows "walk_result Fx (test_policy Test) resolver route u = Inl UnsafeSource"
proof -
  have "web_urls (fx_url Fx)" using fx by (simp add: fixture_lawful_def)
  from web_urls_join [OF this fixture_plain [OF fx u(2)] u(1) [unfolded at_path_def] target(2)]
  obtain v where v: "url_join (fx_url Fx) u location = Inr v"
      "web_url (fx_url Fx) v (lit ''http'') other None q"
    unfolding target(1) .
  show ?thesis
    by (rule redirect_away [where route = route, OF fx u host r v(1) visit_refused_host [OF target(2) v(2) target(3,4)]])
qed

lemma refused_hosts:
  "\<not> permits (test_policy Test) (V4 (Ipv4 169 254 169 254))"
  "\<not> permits (test_policy Test) (V4 (Ipv4 10 42 0 7))"
  by (simp_all add: test_policy_def policy_test_eval)

lemma redirect_targets:
  "lit ''http://metadata.test/latest/meta-data/'' =
     web_text (lit ''http'') (lit ''metadata.test'') None (lit ''/latest/meta-data/'')"
  "lit ''http://rebound.test/secrets'' =
     web_text (lit ''http'') (lit ''rebound.test'') None (lit ''/secrets'')"
  "lit ''file:///etc/passwd'' = lit ''file://'' @ lit ''/etc/passwd''"
  by (simp_all add: web_text_def lit_def)

lemma redirect_targets_plain:
  "plain_web (lit ''http'') (lit ''metadata.test'') None (lit ''/latest/meta-data/'')"
  "plain_web (lit ''http'') (lit ''rebound.test'') None (lit ''/secrets'')"
  "plain_path (lit ''/etc/passwd'')"
  by (simp_all add: plain_eval)

lemma fetch_tests_refusals:
  assumes fx: "fixture_lawful Fx"
  shows "a_redirect_into_private_space_is_refused Fx"
    and "a_name_that_answers_differently_on_the_next_hop_is_caught_on_that_hop Fx"
    and "a_redirect_to_another_scheme_or_port_is_refused Fx"
proof -
  note send = send_eval plain_locations default_deadline
  show "a_redirect_into_private_space_is_refused Fx"
    unfolding a_redirect_into_private_space_is_refused_def
  proof (rule fails_rule [OF fx test_paths(8) _ test_fetcher_eval _ test_resolvers(2)])
    fix u assume u: "at_path Fx u (lit ''/away'')"
    show "walk_result Fx (fetcher_policy (fetcher_new (test_policy Test)))
        (static_with (static_with Map.empty HOST [V4 (Ipv4 127 0 0 1)]) (lit ''metadata.test'')
          [V4 (Ipv4 169 254 169 254)]) away_route u = Inl UnsafeSource"
      unfolding default_deadline
      by (rule redirect_refused_host [OF fx u test_paths(8) host_lookup(2) _ redirect_locations(4)
            redirect_targets(1) redirect_targets_plain(1) static_lookup_own refused_hosts(1)])
        (simp add: away_route_def)
  qed (simp_all add: send away_route_def)
  show "a_name_that_answers_differently_on_the_next_hop_is_caught_on_that_hop Fx"
    unfolding a_name_that_answers_differently_on_the_next_hop_is_caught_on_that_hop_def
  proof (rule fails_rule [OF fx test_paths(11) _ test_fetcher_eval _ test_resolvers(3)])
    fix u assume u: "at_path Fx u (lit ''/rebind'')"
    show "walk_result Fx (fetcher_policy (fetcher_new (test_policy Test)))
        (static_with (static_with Map.empty HOST [V4 (Ipv4 127 0 0 1)]) (lit ''rebound.test'')
          [V4 (Ipv4 10 42 0 7)]) rebind_route u = Inl UnsafeSource"
      unfolding default_deadline
      by (rule redirect_refused_host [OF fx u test_paths(11) host_lookup(3) _ redirect_locations(7)
            redirect_targets(2) redirect_targets_plain(2) static_lookup_own refused_hosts(2)])
        (simp add: rebind_route_def)
  qed (simp_all add: send rebind_route_def)
  have "fails Fx (test_fetcher Test) loopback_host elsewhere_route ''/file'' UnsafeSource"
  proof (rule fails_rule [OF fx test_paths(9) _ test_fetcher_eval _ test_resolvers(1)])
    fix u assume u: "at_path Fx u (lit ''/file'')"
    have "web_urls (fx_url Fx)" using fx by (simp add: fixture_lawful_def)
    from web_urls_file [OF this fixture_plain [OF fx test_paths(9)] u [unfolded at_path_def]
        redirect_targets_plain(3)]
    obtain v where v: "url_join (fx_url Fx) u (lit ''file:///etc/passwd'') = Inr v"
        "url_scheme (fx_url Fx) v = lit ''file''"
      unfolding redirect_targets(3) .
    have "visit (test_site Fx (test_policy Test) own_host elsewhere_route) v = Inl UnsafeSource"
      by (simp add: visit_def test_site_def resolve_def check_destination_def refuse_with_def v(2) lit_eq_iff)
    from redirect_away [OF fx u test_paths(9) host_lookup(1) _ redirect_locations(5) v(1) this [unfolded own_host_def]]
    show "walk_result Fx (fetcher_policy (fetcher_new (test_policy Test)))
        (static_with Map.empty HOST [V4 (Ipv4 127 0 0 1)]) elsewhere_route u = Inl UnsafeSource"
      by (simp add: default_deadline elsewhere_route_def)
  qed (simp_all add: send elsewhere_route_def)
  moreover have "fails Fx (test_fetcher Production) loopback_host elsewhere_route ''/port'' UnsafeSource"
  proof (rule fails_rule [OF fx test_paths(10) _ test_fetcher_eval _ test_resolvers(1)])
    fix u assume u: "at_path Fx u (lit ''/port'')"
    show "walk_result Fx (fetcher_policy (fetcher_new (test_policy Production)))
        (static_with Map.empty HOST [V4 (Ipv4 127 0 0 1)]) elsewhere_route u = Inl UnsafeSource"
      using walk_refused [of _ u] resolve_production [OF fx u test_paths(10)]
      by (simp add: walk_result_def default_deadline visit_def test_site_def)
  qed (simp_all add: send elsewhere_route_def)
  ultimately show "a_redirect_to_another_scheme_or_port_is_refused Fx"
    by (simp add: a_redirect_to_another_scheme_or_port_is_refused_def)
qed

text \<open>Under the production policy the fixture's own port is refused before anything is sent.\<close>

lemma production_untouched:
  assumes fx: "fixture_lawful Fx" and p: "plain_path (lit p)" "length p \<le> 100"
  shows "fetch (test_env Fx route resolver) (fetcher_new (test_policy Production)) run
    (test_request (fx_port Fx) p) = (Inl UnsafeSource, [])"
proof -
  obtain u where u: "destination_url (fx_url Fx) (test_request (fx_port Fx) p) = Inr u" "at_path Fx u (lit p)"
    using test_request_url [OF assms] .
  have "fx_elapsed Fx 0 < 400 * 10 ^ 6" using fx by (simp add: fixture_lawful_def)
  then have left: "fx_elapsed Fx 0 < 15 * 10 ^ 9" by simp
  then show ?thesis
    using u(1) resolve_production [OF fx u(2) p(1)]
    by (simp add: fetch_def test_env_def fetch_loop.simps fetch_hop_def remaining_def default_deadline
        checked_sub_def)
qed

lemma fetch_tests_untouched:
  assumes "fixture_lawful Fx"
  shows "a_refused_destination_is_never_contacted Fx"
  using production_untouched [OF assms test_paths(2)]
  by (simp add: a_refused_destination_is_never_contacted_def test_fetch_def expect_def
      test_fetcher_eval test_resolvers connections_def server_start_def)

definition fetch_tests :: "('u, 'r, 't) fixture \<Rightarrow> bool" where
  "fetch_tests Fx \<longleftrightarrow>
     a_successful_fetch_binds_the_body_to_its_description Fx
     \<and> an_error_status_with_a_text_body_is_still_a_fetch Fx
     \<and> redirects_are_followed_up_to_the_limit_and_then_refused Fx
     \<and> a_redirect_into_private_space_is_refused Fx
     \<and> a_redirect_to_another_scheme_or_port_is_refused Fx
     \<and> a_name_that_answers_differently_on_the_next_hop_is_caught_on_that_hop Fx
     \<and> an_oversized_body_is_refused_rather_than_truncated Fx
     \<and> unsupported_or_missing_media_types_are_refused_before_the_body_is_stored Fx
     \<and> a_stalled_response_ends_at_the_deadline Fx
     \<and> a_compressed_body_is_stored_as_received Fx
     \<and> a_refused_destination_is_never_contacted Fx"

lemma fetch_tests_hold: "fixture_lawful Fx \<Longrightarrow> fetch_tests Fx"
  unfolding fetch_tests_def
  by (intro conjI fetch_tests_pages fetch_tests_redirects fetch_tests_refusals fetch_tests_limits
      fetch_tests_media fetch_tests_untouched)

section \<open>A lawful fixture\<close>

definition reference_fixture :: "(plain_url, http_message, str) fixture" where
  "reference_fixture =
     \<lparr>fx_url = plain_url_lib, fx_client = reference_client, fx_http = message_http,
      fx_time = example_time_lib, fx_digest = (\<lambda>_. replicate 32 0), fx_elapsed = (\<lambda>_. 0),
      fx_now = lit ''2024-01-01T00:00:00Z'', fx_port = 49152\<rparr>"

lemma printed_path_text:
  assumes "plain_web scheme host port p"
  shows "printed_path (web_text scheme host port p) = p"
proof -
  let ?auth = "host @ (case port of None \<Rightarrow> [] | Some n \<Rightarrow> uc CHR '':'' # show_nat (unat n))"
  have host: "47 \<notin> set host" "host \<noteq> []"
    using assms by (auto simp: plain_web_def plain_host_def list_all_iff is_ascii_lowercase_def)
  have auth: "47 \<notin> set ?auth"
    using host show_nat_digits [of 47] by (auto simp: is_ascii_digit_def split: option.split)
  obtain q where p: "p = 47 # q"
    using assms by (auto simp: plain_web_def plain_path_def split: list.splits)
  have "\<not> is_whitespace c" if "c \<in> set p" for c
  proof -
    have "is_ascii_lowercase c \<or> is_ascii_digit c \<or> c = 45 \<or> c = 47"
      using assms that by (auto simp: plain_web_def plain_path_def list_all_iff)
    then show ?thesis by (auto simp: is_whitespace_def is_ascii_lowercase_def is_ascii_digit_def)
  qed
  then have visible: "\<not> list_ex is_whitespace p" by (auto simp: list_ex_iff)
  have "web_text scheme host port p = (scheme @ [58]) @ 47 # 47 # ?auth @ p"
    by (simp add: web_text_def lit_def)
  moreover have "47 \<notin> set (scheme @ [58])" using assms by (auto simp: plain_web_def lit_def)
  ultimately have "dropWhile (\<lambda>c. c \<noteq> 47) (web_text scheme host port p) = 47 # 47 # ?auth @ p"
    using take_drop_until(2) [of 47 "scheme @ [58]" "47 # ?auth @ p"] by simp
  moreover have "dropWhile (\<lambda>c. c = 47) (47 # 47 # ?auth @ p) = ?auth @ p"
    using host by (cases host) auto
  moreover have "dropWhile (\<lambda>c. c \<noteq> 47) (?auth @ p) = p"
    using take_drop_until(2) [OF auth, of q] by (simp add: p)
  ultimately show ?thesis using p visible by (simp add: printed_path_def)
qed

lemma reference_fixture_lawful: "fixture_lawful reference_fixture"
  using plain_url_lib_web reference_client_lawful printed_path_text
  by (simp add: fixture_lawful_def reference_fixture_def reference_client_def example_time_lib_def)

section \<open>Properties\<close>

text \<open>C34: the worker's own unit tests hold of the model, over any URL library, HTTP client, JSON
  reader and clock that do what is documented of them. Policy: every address the tests list as
  public is permitted and every special or configured one refused, in each of its IPv6 spellings,
  and the ports, the test profile and the loading of a policy are as asserted. Resolution: each
  destination is validated, refused or failed as asserted, and a refused port is never looked up.
  Fetch, against the scripted server: pages and error pages come back bound to their description,
  two redirects are followed and a loop of them ends in a refusal, redirects into refused space or
  to another scheme are refused, bodies that are too large, stalled or of another type are refused
  by their own codes, a compressed body comes back as it was sent, and a refused destination
  receives no connection. The last part is about the test of redirects to another port: it runs
  under the production policy, which refuses the server's own port, so whatever the server would
  reply nothing is ever sent to it, and the redirect that the test scripts is not served.\<close>

theorem worker_tests_pass:
  assumes "fixture_lawful Fx" "reads_policies json"
  shows "policy_tests json \<and> resolve_tests (fx_url Fx) \<and> fetch_tests Fx
    \<and> test_fetch Fx (test_fetcher Production) loopback_host route ''/port''
         (\<lambda>(r, cs). r = Inl UnsafeSource \<and> connections Fx cs = [])"
  using fetch_tests_hold [OF assms(1)] policy_tests_hold [OF assms(2)] resolve_tests_hold [of "fx_url Fx"]
    production_untouched [OF assms(1) test_paths(10)] assms(1)
  by (simp add: fixture_lawful_def test_fetch_def expect_def test_fetcher_eval test_resolvers
      connections_def)

lemma worker_tests_pass_witness:
  "policy_tests two_policies \<and> resolve_tests plain_url_lib \<and> fetch_tests reference_fixture"
  using worker_tests_pass [OF reference_fixture_lawful two_policies_read]
  by (simp add: reference_fixture_def)


end
