(* ===== verification/Handoff_Tests_Pass.thy ===== *)
theory Handoff_Tests_Pass
  imports Handoff_Tests
begin

text \<open>The tests of the handoff pass on the model, over every lawful library and healthy file system.\<close>

section \<open>What the tests write\<close>

definition handoff_1 :: handoff where
  "handoff_1 = handoff_new run_1 (HandoffKey (replicate 32 1))"

lemma test_key_eval: "test_key byte = Inr (HandoffKey (replicate 32 byte))"
  by (simp add: test_key_def key_from_bytes_def MIN_KEY_BYTES_def)

lemma with_handoff_eval: "with_handoff test = test handoff_1"
  by (simp add: with_handoff_def test_key_eval expect_def handoff_1_def)

lemma handoff_1_run: "handoff_run_id handoff_1 = run_1"
  by (simp add: handoff_1_def handoff_new_def)

lemma test_directory_usable: "usable test_directory" "dir_exists test_directory"
  by (simp_all add: usable_def test_directory_def)

lemma lawful_faithful: "handoff_lawful L \<Longrightarrow> json_faithful L h"
  by (simp add: handoff_lawful_def)

lemma lawful_outcome:
  assumes "handoff_lawful L"
  obtains bs where "ser_outcome L o' = Inr bs" "de_outcome L bs = Inr o'"
    "o' \<in> set test_outcomes \<Longrightarrow> length bs < 2 ^ 64"
  using assms unfolding handoff_lawful_def json_faithful_def by blast

lemma lawful_artifact:
  assumes "handoff_lawful L"
  obtains bs where "ser_artifact L a = Inr bs" "bs \<noteq> []" "de_artifact L bs = Inr a"
    "a \<in> set (test_artifacts L) \<Longrightarrow> length bs < 2 ^ 64"
  using assms unfolding handoff_lawful_def json_faithful_def by blast

lemma in_tests:
  "outcome_ok Stage_Fetch run_1 \<in> set test_outcomes"
  "outcome_failed Stage_Fetch run_1 UnsafeSource \<in> set test_outcomes"
  "test_artifact L run_1 real_html \<in> set (test_artifacts L)"
  "test_artifact L run_1 forged_html \<in> set (test_artifacts L)"
  "test_artifact L run_1 smuggled_html \<in> set (test_artifacts L)"
  "test_artifact L run_1 short_body \<in> set (test_artifacts L)"
  by (simp_all add: test_outcomes_def test_artifacts_def)

lemma artifact_describes:
  "art_run_id (test_artifact L run body) = run" "body_bytes (test_artifact L run body) = length body"
  "body_sha256 (test_artifact L run body) = sha256_hex (sha256 L) body"
  "artifact_version (test_artifact L run body) = ARTIFACT_VERSION"
  by (simp_all add: test_artifact_def)

text \<open>A fetched response, written: the bytes of the four files.\<close>

lemma test_write_fetched:
  assumes "handoff_lawful L" "healthy E" "usable d"
    and "ser_outcome L (outcome_ok Stage_Fetch run_1) = Inr sb"
    and "ser_artifact L (test_artifact L run_1 body) = Inr ab"
  obtains d' where "write_fetched L E handoff_1 (test_artifact L run_1 body) body d = (Inr (), d')"
    "dir_exists d'" "usable d'"
    "nodes d' STAGE_FILE = Some (File sb)" "nodes d' ARTIFACT_FILE = Some (File ab)"
    "nodes d' BODY_FILE = Some (File body)"
    "nodes d' SEAL_FILE = Some (File (utf8 (seal L handoff_1 sb ab (Some (sha256_hex (sha256 L) body)))))"
    "holds_message L handoff_1 (Handed_Fetched (test_artifact L run_1 body) body) d'"
proof -
  let ?m = "Handed_Fetched (test_artifact L run_1 body) body"
  have "writable L handoff_1 ?m"
    using lawful_faithful [OF assms(1)]
    by (rule json_faithful_writable) (simp add: artifact_describes handoff_1_run)
  then obtain d' where run: "handoff_write L E handoff_1 ?m d = (Inr (), d')"
    using write_healthy [OF assms(2,3)] by blast
  have usable: "usable d'"
    using usable_attempt [OF assms(3), of L E handoff_1 ?m] run by (simp add: handoff_attempt_def)
  have wrote: "write_fetched L E handoff_1 (test_artifact L run_1 body) body d = (Inr (), d')"
    using run by (simp add: handoff_write_def)
  from write_fetched_Ok [OF wrote, unfolded artifact_describes]
  obtain sb' ab' where parts: "sealed_parts L handoff_1 ?m sb' ab' (Some (sha256_hex (sha256 L) body))"
    and files: "dir_exists d'" "nodes d' = (nodes d)(BODY_FILE \<mapsto> File body, ARTIFACT_FILE \<mapsto> File ab',
      STAGE_FILE \<mapsto> File sb', SEAL_FILE \<mapsto> File (utf8 (seal L handoff_1 sb' ab' (Some (sha256_hex (sha256 L) body)))))"
    by blast
  have "sb' = sb" "ab' = ab"
    using parts assms(4,5) by (auto simp: sealed_parts_def outcome_of_def handoff_1_run)
  with that [OF wrote files(1) usable] files(2) write_holds [OF run assms(2,3)] show thesis by simp
qed

lemma test_write_failure:
  assumes "handoff_lawful L" "healthy E" "usable d"
    and "ser_outcome L (outcome_failed Stage_Fetch run_1 c) = Inr sb"
  obtains d' where "write_failure L E handoff_1 c d = (Inr (), d')" "dir_exists d'" "usable d'"
    "nodes d' STAGE_FILE = Some (File sb)" "nodes d' ARTIFACT_FILE = None" "nodes d' BODY_FILE = None"
    "nodes d' SEAL_FILE = Some (File (utf8 (seal L handoff_1 sb [] None)))"
    "holds_message L handoff_1 (Handed_Failed c) d'"
proof -
  have "writable L handoff_1 (Handed_Failed c)"
    using lawful_faithful [OF assms(1)] by (rule json_faithful_writable) simp
  then obtain d' where run: "handoff_write L E handoff_1 (Handed_Failed c) d = (Inr (), d')"
    using write_healthy [OF assms(2,3)] by blast
  have usable: "usable d'"
    using usable_attempt [OF assms(3), of L E handoff_1 "Handed_Failed c"] run
    by (simp add: handoff_attempt_def)
  note holds = write_holds [OF run assms(2,3)]
  then have "dir_exists d'" "nodes d' STAGE_FILE = Some (File sb)" "nodes d' ARTIFACT_FILE = None"
    "nodes d' BODY_FILE = None"
    "nodes d' SEAL_FILE = Some (File (utf8 (seal L handoff_1 sb [] None)))"
    using assms(4) by (auto simp: holds_message_def sealed_parts_def outcome_of_def handoff_1_run)
  moreover have "write_failure L E handoff_1 c d = (Inr (), d')" using run by (simp add: handoff_write_def)
  ultimately show thesis using that usable holds by blast
qed

section \<open>What the tests read\<close>

lemma test_read:
  assumes "handoff_lawful L" "healthy E" "holds_message L handoff_1 m d"
    and "\<And>a body. m = Handed_Fetched a body \<Longrightarrow> artifact_version a = ARTIFACT_VERSION"
  shows "fst (handoff_read L E handoff_1 d) = Inr m"
proof -
  have "carries L handoff_1 m" using lawful_faithful [OF assms(1)] assms(4) by (rule json_faithful_carries)
  from handoff_read_holds [OF assms(3) this assms(2)] show ?thesis by auto
qed

lemma handoff_read_files:
  assumes "healthy E" "dir_exists d" "nodes d STAGE_FILE = Some (File sb)"
    and "nodes d ARTIFACT_FILE = Some (File ab)" "ab \<noteq> []" "nodes d BODY_FILE = Some (File body)"
    and "nodes d SEAL_FILE = Some (File (utf8 rec))" "valid_str rec"
  shows "fst (handoff_read L E h d) = accept_handoff L h sb ab rec body"
  using assms
  by (simp add: handoff_read_def bind_step_def get_def get_optional_def map_err_step_def
      fs_read_def fs_read_to_string_def entry_def healthy_def lift_step_def pure_step_def Let_def)

lemma accept_other_seal:
  assumes "ab \<noteq> []" and "seal L h0 s0 a0 d0 \<noteq> seal L h sb ab (Some (sha256_hex (sha256 L) body))"
  shows "accept_handoff L h sb ab (seal L h0 s0 a0 d0) body =
    refuse ''handoff seal does not match its contents''"
proof -
  have "utf8 (seal L h0 s0 a0 d0) \<noteq> utf8 (seal L h sb ab (Some (sha256_hex (sha256 L) body)))"
    using assms(2) utf8_inj [of "seal L h0 s0 a0 d0"] by auto
  then show ?thesis using assms(1) by (simp add: accept_handoff_def Let_def)
qed

lemma seal_refusal: "str_contains (lit ''seal'') (message (ContractError (lit ''handoff seal does not match its contents'')))"
  by (simp add: lit_def starts_with_def strip_prefix_Some_iff)

text \<open>Presenting one sealed message as another is noticed, when the MAC tells the two apart.\<close>

lemma read_other_seal:
  assumes "healthy E" "dir_exists d" "nodes d STAGE_FILE = Some (File sb)"
    and "nodes d ARTIFACT_FILE = Some (File ab)" "ab \<noteq> []" "nodes d BODY_FILE = Some (File body)"
    and "nodes d SEAL_FILE = Some (File (utf8 (seal L h0 s0 a0 d0)))"
    and "no_collision L (key_material (handoff_mac_key h0), seal_message h0 s0 a0 d0)
      (key_material (handoff_mac_key h), seal_message h sb ab (Some (sha256_hex (sha256 L) body)))"
    and "(key_material (handoff_mac_key h0), seal_message h0 s0 a0 d0) \<noteq>
      (key_material (handoff_mac_key h), seal_message h sb ab (Some (sha256_hex (sha256 L) body)))"
  shows "fst (handoff_read L E h d) = refuse ''handoff seal does not match its contents''"
proof -
  have "seal L h0 s0 a0 d0 \<noteq> seal L h sb ab (Some (sha256_hex (sha256 L) body))"
    using assms(8,9) by (simp add: no_collision_def seal_eq_iff)
  then show ?thesis
    using handoff_read_files [OF assms(1-7) seal_valid, of L h] accept_other_seal [OF assms(5)] by simp
qed

lemma test_seal_lengths:
  assumes "handoff_lawful L" "length sb < 2 ^ 64" "length ab < 2 ^ 64"
    and "dig = None \<or> (\<exists>body. dig = Some (sha256_hex (sha256 L) body))" "length run \<le> 10"
  shows "list_all (\<lambda>b. length b < 2 ^ 64)
    [utf8 run, sb, ab, utf8 (case dig of None \<Rightarrow> [] | Some d \<Rightarrow> d)]"
proof -
  have "length (sha256 L body) = 32" for body using assms(1) by (simp add: handoff_lawful_def)
  then have "byte_len (sha256_hex (sha256 L) body) = 64" for body
    by (simp add: sha256_hex_def byte_len_ascii [OF to_hex_ascii])
  moreover have "byte_len run \<le> 40" using byte_len_le_4_length [of run] assms(5) by simp
  ultimately show ?thesis using assms(2-4) by (auto simp: length_utf8 split: option.split)
qed

lemma seals_apart:
  assumes "handoff_lawful L" "length sb < 2 ^ 64" "length ab < 2 ^ 64" "length sb' < 2 ^ 64" "length ab' < 2 ^ 64"
    and "dig = None \<or> (\<exists>body. dig = Some (sha256_hex (sha256 L) body))"
    and "dig' = None \<or> (\<exists>body. dig' = Some (sha256_hex (sha256 L) body))"
    and "length (handoff_run_id h) \<le> 10" "length (handoff_run_id h') \<le> 10"
    and "utf8 (handoff_run_id h) \<noteq> utf8 (handoff_run_id h') \<or> sb \<noteq> sb' \<or> ab \<noteq> ab'"
  shows "seal_message h sb ab dig \<noteq> seal_message h' sb' ab' dig'"
  using seal_message_inj [OF _ test_seal_lengths [OF assms(1,2,3,6,8)] test_seal_lengths [OF assms(1,4,5,7,9)]]
    assms(10) by blast

lemma fetched_seal_1:
  "fetched_seal L 1 run_1 sb ab body =
     (key_material (handoff_mac_key handoff_1), seal_message handoff_1 sb ab (Some (sha256_hex (sha256 L) body)))"
  by (simp add: fetched_seal_def handoff_1_def handoff_new_def)

lemma run_1_length: "length (handoff_run_id handoff_1) \<le> 10"
  by (simp add: handoff_1_run) (simp add: run_1_def lit_def)

lemma body_sizes:
  "length real_html = 17" "length forged_html = 46" "length smuggled_html = 21" "length short_body = 4"
  by (simp_all add: real_html_def forged_html_def smuggled_html_def short_body_def length_utf8 lit_def
      len_utf8_def)

section \<open>The tests pass\<close>

lemma handoff_tests_delivery:
  assumes L: "handoff_lawful L" and E: "healthy E"
  shows "a_sealed_handoff_round_trips L E"
    and "a_recorded_failure_survives_with_no_body L E"
    and "a_failure_written_over_a_response_leaves_no_response_behind L E"
proof -
  obtain sb where sb: "ser_outcome L (outcome_ok Stage_Fetch run_1) = Inr sb"
    using lawful_outcome [OF L] in_tests by metis
  show "a_sealed_handoff_round_trips L E"
    unfolding a_sealed_handoff_round_trips_def with_handoff_eval Let_def
  proof -
    let ?html = "utf8 (lit ''<html>hi</html>'')"
    obtain ab where ab: "ser_artifact L (test_artifact L run_1 ?html) = Inr ab" using lawful_artifact [OF L] in_tests by metis
    obtain d where d: "write_fetched L E handoff_1 (test_artifact L run_1 ?html) ?html test_directory = (Inr (), d)"
        "holds_message L handoff_1 (Handed_Fetched (test_artifact L run_1 ?html) ?html) d"
      using test_write_fetched [OF L E test_directory_usable(1) sb ab] by blast
    from test_read [OF L E d(2)] show "after (write_fetched L E handoff_1 (test_artifact L run_1 ?html) ?html) test_directory
       (\<lambda>d. expect (fst (handoff_read L E handoff_1 d)) (\<lambda>m. case m of Handed_Failed x \<Rightarrow> False
         | Handed_Fetched a body \<Rightarrow> body = ?html \<and> art_run_id a = run_1))"
      by (simp add: after_def d(1) expect_def artifact_describes)
  qed
  obtain fb where fb: "ser_outcome L (outcome_failed Stage_Fetch run_1 UnsafeSource) = Inr fb"
    using lawful_outcome [OF L] in_tests by metis
  obtain d where d: "write_failure L E handoff_1 UnsafeSource test_directory = (Inr (), d)"
      "holds_message L handoff_1 (Handed_Failed UnsafeSource) d"
    using test_write_failure [OF L E test_directory_usable(1) fb] by blast
  from test_read [OF L E d(2)] show "a_recorded_failure_survives_with_no_body L E"
    by (simp add: a_recorded_failure_survives_with_no_body_def with_handoff_eval after_def d(1)
        reads_failure_def expect_def)
  obtain ab where ab: "ser_artifact L (test_artifact L run_1 real_html) = Inr ab" using lawful_artifact [OF L] in_tests by metis
  obtain d1 where d1: "write_fetched L E handoff_1 (test_artifact L run_1 real_html) real_html test_directory = (Inr (), d1)"
      "usable d1"
    using test_write_fetched [OF L E test_directory_usable(1) sb ab] by blast
  obtain gb where gb: "ser_outcome L (outcome_failed Stage_Fetch run_1 DeadlineExceeded) = Inr gb"
    using lawful_outcome [OF L] in_tests by metis
  obtain d2 where d2: "write_failure L E handoff_1 DeadlineExceeded d1 = (Inr (), d2)" "nodes d2 BODY_FILE = None"
      "holds_message L handoff_1 (Handed_Failed DeadlineExceeded) d2"
    using test_write_failure [OF L E d1(2) gb] by blast
  from test_read [OF L E d2(3)] show "a_failure_written_over_a_response_leaves_no_response_behind L E"
    by (simp add: a_failure_written_over_a_response_leaves_no_response_behind_def with_handoff_eval
        after_def d1(1) d2(1,2) reads_failure_def expect_def entry_def)
qed

lemma put_json_healthy:
  assumes "healthy E" "usable d" "dir_exists d" "n \<in> handoff_files" "ser x = Inr bs"
  shows "put_json E n ser x d = (Inr (), tick (put_file n bs d))"
  using put_healthy [OF assms(1-4), of bs] assms(5)
  by (simp add: put_json_def bind_step_def lift_step_def encode_def context_err_def)

lemma artifacts_differ:
  assumes "de_artifact L ab = Inr (test_artifact L run_1 b)" "de_artifact L ab' = Inr (test_artifact L run_1 b')"
    and "length b \<noteq> length b'"
  shows "ab \<noteq> ab'"
  using assms by (auto simp: test_artifact_def)

lemma names_in: "BODY_FILE \<in> handoff_files" "ARTIFACT_FILE \<in> handoff_files" "STAGE_FILE \<in> handoff_files"
  by (simp_all add: handoff_files_def)

lemma handoff_test_forgery:
  assumes L: "handoff_lawful L" and E: "healthy E"
  shows "rewriting_the_body_and_its_description_together_does_not_get_past_the_seal L E"
proof -
  obtain sb where sb: "ser_outcome L (outcome_ok Stage_Fetch run_1) = Inr sb" "length sb < 2 ^ 64"
    using lawful_outcome [OF L] in_tests by metis
  obtain real where real: "ser_artifact L (test_artifact L run_1 real_html) = Inr real"
      "de_artifact L real = Inr (test_artifact L run_1 real_html)" "length real < 2 ^ 64"
    using lawful_artifact [OF L] in_tests by metis
  obtain forged where forged: "ser_artifact L (test_artifact L run_1 forged_html) = Inr forged" "forged \<noteq> []"
      "de_artifact L forged = Inr (test_artifact L run_1 forged_html)" "length forged < 2 ^ 64"
    using lawful_artifact [OF L] in_tests by metis
  obtain d where d: "write_fetched L E handoff_1 (test_artifact L run_1 real_html) real_html test_directory = (Inr (), d)"
      "dir_exists d" "usable d" "nodes d STAGE_FILE = Some (File sb)"
      "nodes d SEAL_FILE = Some (File (utf8 (seal L handoff_1 sb real (Some (sha256_hex (sha256 L) real_html)))))"
    using test_write_fetched [OF L E test_directory_usable(1) sb(1) real(1)] by blast
  let ?d1 = "tick (put_file BODY_FILE forged_html d)"
  let ?d2 = "tick (put_file ARTIFACT_FILE forged ?d1)"
  note put = put_healthy [OF E d(3,2) names_in(1), of forged_html]
  have json: "put_json E ARTIFACT_FILE (ser_artifact L) (test_artifact L run_1 forged_html) ?d1 = (Inr (), ?d2)"
    by (rule put_json_healthy [where ser = "ser_artifact L"]) (use E forged(1) in \<open>simp_all add: d(2,3) names_in\<close>)
  have "real \<noteq> forged" by (rule artifacts_differ [OF real(2) forged(3)]) (simp add: body_sizes)
  then have other: "fetched_seal L 1 run_1 sb real real_html \<noteq> fetched_seal L 1 run_1 sb forged forged_html"
    using seals_apart [OF L sb(2) real(3) sb(2) forged(4) _ _ run_1_length run_1_length]
    by (auto simp: fetched_seal_1)
  have apart: "no_collision L (fetched_seal L 1 run_1 sb real real_html) (fetched_seal L 1 run_1 sb forged forged_html)"
    using L sb(1) real(1) forged(1) unfolding handoff_lawful_def mac_separates_def by blast
  have files: "dir_exists ?d2" "nodes ?d2 STAGE_FILE = Some (File sb)" "nodes ?d2 ARTIFACT_FILE = Some (File forged)"
      "nodes ?d2 BODY_FILE = Some (File forged_html)"
      "nodes ?d2 SEAL_FILE = Some (File (utf8 (seal L handoff_1 sb real (Some (sha256_hex (sha256 L) real_html)))))"
    by (simp_all add: d)
  note read_other_seal [OF E files(1-3) forged(2) files(4,5) apart [unfolded fetched_seal_1] other [unfolded fetched_seal_1]]
  then show ?thesis
    using seal_refusal
    by (simp add: rewriting_the_body_and_its_description_together_does_not_get_past_the_seal_def
        with_handoff_eval after_def d(1) put json read_fails_def refuse_def
        contract_error_new_def)
qed

lemma handoff_test_promotion:
  assumes L: "handoff_lawful L" and E: "healthy E"
  shows "a_recorded_failure_cannot_be_rewritten_into_a_success L E"
proof -
  obtain sb where sb: "ser_outcome L (outcome_ok Stage_Fetch run_1) = Inr sb"
      "de_outcome L sb = Inr (outcome_ok Stage_Fetch run_1)" "length sb < 2 ^ 64"
    using lawful_outcome [OF L] in_tests by metis
  obtain fb where fb: "ser_outcome L (outcome_failed Stage_Fetch run_1 UnsafeSource) = Inr fb"
      "de_outcome L fb = Inr (outcome_failed Stage_Fetch run_1 UnsafeSource)" "length fb < 2 ^ 64"
    using lawful_outcome [OF L] in_tests by metis
  obtain ab where ab: "ser_artifact L (test_artifact L run_1 smuggled_html) = Inr ab" "ab \<noteq> []" "length ab < 2 ^ 64"
    using lawful_artifact [OF L] in_tests by metis
  obtain d where d: "write_failure L E handoff_1 UnsafeSource test_directory = (Inr (), d)"
      "dir_exists d" "usable d" "nodes d SEAL_FILE = Some (File (utf8 (seal L handoff_1 fb [] None)))"
    using test_write_failure [OF L E test_directory_usable(1) fb(1)] by blast
  let ?d1 = "tick (put_file BODY_FILE smuggled_html d)"
  let ?d2 = "tick (put_file ARTIFACT_FILE ab ?d1)"
  let ?d3 = "tick (put_file STAGE_FILE sb ?d2)"
  note put = put_healthy [OF E d(3,2) names_in(1), of smuggled_html]
  have json1: "put_json E ARTIFACT_FILE (ser_artifact L) (test_artifact L run_1 smuggled_html) ?d1 = (Inr (), ?d2)"
    by (rule put_json_healthy [where ser = "ser_artifact L"]) (use E ab(1) in \<open>simp_all add: d(2,3) names_in\<close>)
  have json2: "put_json E STAGE_FILE (ser_outcome L) (outcome_ok Stage_Fetch run_1) ?d2 = (Inr (), ?d3)"
    by (rule put_json_healthy [where ser = "ser_outcome L"]) (use E sb(1) in \<open>simp_all add: d(2,3) names_in\<close>)
  have other: "(key_material (handoff_mac_key handoff_1), seal_message handoff_1 fb [] None) \<noteq>
      fetched_seal L 1 run_1 sb ab smuggled_html"
    using seals_apart [OF L fb(3) _ sb(3) ab(3) _ _ run_1_length run_1_length, of "[]"] ab(2)
    by (auto simp: fetched_seal_1)
  have "no_collision L (replicate 32 1, seal_message (handoff_new run_1 (HandoffKey (replicate 32 1))) fb [] None)
      (fetched_seal L 1 run_1 sb ab smuggled_html)"
    using L sb(1) fb(1) ab(1) unfolding handoff_lawful_def mac_separates_def by blast
  then have apart: "no_collision L (key_material (handoff_mac_key handoff_1), seal_message handoff_1 fb [] None)
      (fetched_seal L 1 run_1 sb ab smuggled_html)"
    by (simp add: handoff_1_def handoff_new_def)
  have files: "dir_exists ?d3" "nodes ?d3 STAGE_FILE = Some (File sb)" "nodes ?d3 ARTIFACT_FILE = Some (File ab)"
      "nodes ?d3 BODY_FILE = Some (File smuggled_html)"
      "nodes ?d3 SEAL_FILE = Some (File (utf8 (seal L handoff_1 fb [] None)))"
    by (simp_all add: d)
  note read_other_seal [OF E files(1-3) ab(2) files(4,5) apart [unfolded fetched_seal_1] other [unfolded fetched_seal_1]]
  then show ?thesis
    by (simp add: a_recorded_failure_cannot_be_rewritten_into_a_success_def with_handoff_eval after_def
        d(1) put json1 json2 read_fails_def refuse_def)
qed

lemma handoff_test_keys:
  assumes L: "handoff_lawful L" and E: "healthy E"
  shows "another_key_and_another_run_cannot_read_this_handoff L E"
proof -
  obtain sb where sb: "ser_outcome L (outcome_ok Stage_Fetch run_1) = Inr sb" "length sb < 2 ^ 64"
    using lawful_outcome [OF L] in_tests by metis
  obtain ab where ab: "ser_artifact L (test_artifact L run_1 short_body) = Inr ab" "ab \<noteq> []" "length ab < 2 ^ 64"
    using lawful_artifact [OF L] in_tests by metis
  obtain d where d: "write_fetched L E handoff_1 (test_artifact L run_1 short_body) short_body test_directory = (Inr (), d)"
      "dir_exists d" "nodes d STAGE_FILE = Some (File sb)" "nodes d ARTIFACT_FILE = Some (File ab)"
      "nodes d BODY_FILE = Some (File short_body)"
      "nodes d SEAL_FILE = Some (File (utf8 (seal L handoff_1 sb ab (Some (sha256_hex (sha256 L) short_body)))))"
    using test_write_fetched [OF L E test_directory_usable(1) sb(1) ab(1)] by blast
  have refused: "fst (handoff_read L E (handoff_new run (HandoffKey (replicate 32 byte))) d) =
      refuse ''handoff seal does not match its contents''"
    if "fetched_seal L 1 run_1 sb ab short_body \<noteq> fetched_seal L byte run sb ab short_body"
      and "no_collision L (fetched_seal L 1 run_1 sb ab short_body) (fetched_seal L byte run sb ab short_body)"
    for run byte
    using that read_other_seal [OF E d(2-4) ab(2) d(5,6), of "handoff_new run (HandoffKey (replicate 32 byte))"]
    by (simp add: fetched_seal_1) (simp add: fetched_seal_def handoff_new_def)
  have "fetched_seal L 1 run_1 sb ab short_body \<noteq> fetched_seal L 2 run_1 sb ab short_body"
    by (simp add: fetched_seal_def)
  moreover have "seal_message handoff_1 sb ab dig \<noteq>
      seal_message (handoff_new (lit ''run-2'') (HandoffKey (replicate 32 1))) sb ab dig"
    if "dig = Some (sha256_hex (sha256 L) short_body)" for dig
    using that by (intro seals_apart [OF L sb(2) ab(3) sb(2) ab(3) _ _ run_1_length])
      (auto simp: handoff_1_run handoff_new_def run_1_def lit_def utf8_char_def)
  then have "fetched_seal L 1 run_1 sb ab short_body \<noteq> fetched_seal L 1 (lit ''run-2'') sb ab short_body"
    by (simp add: fetched_seal_1) (simp add: fetched_seal_def)
  moreover have "no_collision L (fetched_seal L 1 run_1 sb ab short_body) (fetched_seal L 2 run_1 sb ab short_body)"
      "no_collision L (fetched_seal L 1 run_1 sb ab short_body) (fetched_seal L 1 (lit ''run-2'') sb ab short_body)"
    using L sb(1) ab(1) unfolding handoff_lawful_def mac_separates_def by blast+
  ultimately show ?thesis
    using refused
    by (simp add: another_key_and_another_run_cannot_read_this_handoff_def with_handoff_eval after_def
        d(1) test_key_eval expect_def read_fails_def refuse_def)
qed

lemma handoff_test_unsealed:
  assumes L: "handoff_lawful L" and E: "healthy E"
  shows "an_unsealed_directory_is_refused L E"
proof -
  obtain sb where sb: "ser_outcome L (outcome_ok Stage_Fetch run_1) = Inr sb" using lawful_outcome [OF L] .
  obtain ab where ab: "ser_artifact L (test_artifact L run_1 short_body) = Inr ab" using lawful_artifact [OF L] .
  obtain d where d: "write_fetched L E handoff_1 (test_artifact L run_1 short_body) short_body test_directory = (Inr (), d)"
      "dir_exists d" "nodes d STAGE_FILE = Some (File sb)" "nodes d ARTIFACT_FILE = Some (File ab)"
      "nodes d SEAL_FILE = Some (File (utf8 (seal L handoff_1 sb ab (Some (sha256_hex (sha256 L) short_body)))))"
    using test_write_fetched [OF L E test_directory_usable(1) sb ab] by blast
  let ?d1 = "tick (d\<lparr>nodes := (nodes d)(SEAL_FILE := None)\<rparr>)"
  have removed: "map_err_step (file_error SEAL_FILE) (fs_remove E SEAL_FILE) d = (Inr (), ?d1)"
    using E d by (simp add: map_err_step_def fs_remove_def entry_def healthy_def)
  have "\<exists>e. fst (handoff_read L E handoff_1 ?d1) = Inl e"
    using E d
    by (simp add: handoff_read_def bind_step_def get_def get_optional_def map_err_step_def
        fs_read_def fs_read_to_string_def entry_def healthy_def Let_def)
  then show ?thesis
    by (auto simp: an_unsealed_directory_is_refused_def with_handoff_eval after_def d(1) removed read_fails_def)
qed

lemma handoff_test_unreadable:
  assumes L: "handoff_lawful L" and E: "healthy E"
  shows "a_handoff_that_cannot_be_read_is_an_error_rather_than_an_absent_artifact L E"
proof -
  obtain sb where sb: "ser_outcome L (outcome_failed Stage_Fetch run_1 FetchFailed) = Inr sb"
    using lawful_outcome [OF L] .
  obtain d where d: "write_failure L E handoff_1 FetchFailed test_directory = (Inr (), d)"
      "dir_exists d" "nodes d STAGE_FILE = Some (File sb)" "nodes d ARTIFACT_FILE = None"
    using test_write_failure [OF L E test_directory_usable(1) sb] by blast
  let ?text = "lit ''Is a directory (os error 21)''"
  have "fst (handoff_read L E handoff_1 (put_directory ARTIFACT_FILE ?text d)) =
      Inl (file_error ARTIFACT_FILE (other_error ?text))"
    using E d
    by (simp add: handoff_read_def bind_step_def get_def get_optional_def map_err_step_def
        fs_read_def entry_def healthy_def put_directory_def other_error_def)
  moreover have "str_contains ARTIFACT_FILE (message (file_error ARTIFACT_FILE e))" for e
    unfolding str_contains_iff file_error_def contract_error_new_def contract_error.sel
    by (rule exI [of _ "[]"], rule exI [of _ "lit '': '' @ io_text e"]) simp
  ultimately show ?thesis
    using d(2,4)
    by (simp add: a_handoff_that_cannot_be_read_is_an_error_rather_than_an_absent_artifact_def
        with_handoff_eval after_def d(1) read_fails_def entry_def)
qed

lemma handoff_test_key_place:
  assumes "key_files K directory"
  shows "a_key_stored_in_the_handoff_it_seals_is_refused K directory"
proof -
  from assms obtain c e where K: "canonicalize K directory = Inr c"
    "canonicalize K (push_names directory [lit ''handoff.key'']) = Inr (push_names c [lit ''handoff.key''])"
    "canonicalize K (push_names directory [lit ''run.key'']) = Inr (push_names c [lit ''run.key''])"
    "canonicalize K (push_names directory [lit ''handoff'']) = Inl e"
    "read_path K (push_names c [lit ''run.key'']) = Inr (replicate 32 9)"
    by (auto simp: key_files_def)
  have "resolved K (push_names directory []) = push_names c []"
    by (rule resolved_ancestor [OF K(1)]) simp
  then have inside: "path_starts_with (push_names c [lit ''handoff.key'']) (resolved K directory)"
    by (simp add: path_starts_with_def push_names_def)
  have "resolved K (push_names directory [lit ''handoff'']) = push_names c [lit ''handoff'']"
    by (rule resolved_ancestor [OF K(1)]) (use K(4) in simp)
  then have beside: "\<not> path_starts_with (push_names c [lit ''run.key''])
      (resolved K (push_names directory [lit ''handoff'']))"
    by (simp add: path_starts_with_def push_names_def lit_def)
  have "str_contains (lit ''inside the handoff directory'') (message (ContractError
      (lit ''handoff key must not live inside the handoff directory; give it its own path or mount'')))"
    by (simp add: lit_def starts_with_def strip_prefix_Some_iff)
  then show ?thesis
    using K inside beside
    by (simp add: a_key_stored_in_the_handoff_it_seals_is_refused_def key_load_for_def refuse_def
        contract_error_new_def key_load_def key_from_bytes_def MIN_KEY_BYTES_def is_ok_iff)
qed

lemma handoff_test_short_key: "a_short_key_is_a_misconfiguration_rather_than_a_weaker_mode"
  by (simp add: a_short_key_is_a_misconfiguration_rather_than_a_weaker_mode_def key_from_bytes_def
      MIN_KEY_BYTES_def)

section \<open>A lawful library\<close>

text \<open>The values of the tests by a tag, all others by their number.\<close>

definition tagged :: "'a list \<Rightarrow> ('a \<Rightarrow> nat) \<Rightarrow> 'a \<Rightarrow> bytes" where
  "tagged known number x =
     (let i = length (takeWhile (\<lambda>y. y \<noteq> x) known)
      in if i < length known then [word_of_nat (Suc i)] else 0 # replicate (number x) 0)"

definition untagged :: "'a list \<Rightarrow> (nat \<Rightarrow> 'a) \<Rightarrow> bytes \<Rightarrow> 'a" where
  "untagged known numbered bs =
     (if hd bs = 0 then numbered (length (tl bs)) else known ! (unat (hd bs) - 1))"

lemma untagged_tagged:
  assumes "length known < 255" "\<And>x. numbered (number x) = x"
  shows "untagged known numbered (tagged known number x) = x"
proof (cases "length (takeWhile (\<lambda>y. y \<noteq> x) known) < length known")
  case True
  then have "unat (word_of_nat (Suc (length (takeWhile (\<lambda>y. y \<noteq> x) known))) :: u8) =
      Suc (length (takeWhile (\<lambda>y. y \<noteq> x) known))"
    using assms(1) by (simp add: unat_of_nat del: of_nat_Suc)
  then show ?thesis
    using True nth_length_takeWhile [of "\<lambda>y. y \<noteq> x" known]
    by (auto simp: tagged_def untagged_def Let_def simp del: of_nat_Suc simp flip: unat_eq_0)
next
  case False
  then show ?thesis using assms(2) by (simp add: tagged_def untagged_def Let_def)
qed

lemma takeWhile_shorter: "length (takeWhile P xs) < length xs \<longleftrightarrow> (\<exists>x \<in> set xs. \<not> P x)"
  by (induction xs) auto

lemma tagged_short: "x \<in> set known \<Longrightarrow> length (tagged known number x) = 1"
  by (auto simp: tagged_def Let_def takeWhile_shorter)

definition plain_digest :: "bytes \<Rightarrow> bytes" where
  "plain_digest bs = replicate 32 0"

definition tagging_lib :: handoff_lib where
  "tagging_lib =
     (let L = \<lparr>sha256 = plain_digest, hmac_sha256 = (@), ser_outcome = \<lambda>_. Inl [], de_outcome = \<lambda>_. Inl [],
            ser_artifact = \<lambda>_. Inl [], de_artifact = \<lambda>_. Inl []\<rparr>
      in L\<lparr>ser_outcome := \<lambda>o'. Inr (tagged test_outcomes number_outcome o'),
           de_outcome := \<lambda>bs. Inr (untagged test_outcomes outcome_numbered bs),
           ser_artifact := \<lambda>a. Inr (tagged (test_artifacts L) number_artifact a),
           de_artifact := \<lambda>bs. Inr (untagged (test_artifacts L) artifact_numbered bs)\<rparr>)"

lemma tagging_artifacts:
  "sha256 L = sha256 L' \<Longrightarrow> test_artifact L run body = test_artifact L' run body"
  "sha256 L = sha256 L' \<Longrightarrow> test_artifacts L = test_artifacts L'"
  by (simp_all add: test_artifact_def test_artifacts_def)

lemma tagging_no_collision:
  assumes "length (fst p) = length (fst q)"
  shows "no_collision tagging_lib p q"
  using assms by (auto simp: no_collision_def tagging_lib_def Let_def prod_eq_iff)

lemma tagging_lawful: "handoff_lawful tagging_lib"
proof -
  let ?L = "\<lparr>sha256 = plain_digest, hmac_sha256 = (@), ser_outcome = \<lambda>_. Inl [], de_outcome = \<lambda>_. Inl [],
    ser_artifact = \<lambda>_. Inl [], de_artifact = \<lambda>_. Inl []\<rparr>"
  have lib: "sha256 tagging_lib = plain_digest"
    "ser_outcome tagging_lib = (\<lambda>o'. Inr (tagged test_outcomes number_outcome o'))"
    "de_outcome tagging_lib = (\<lambda>bs. Inr (untagged test_outcomes outcome_numbered bs))"
    "ser_artifact tagging_lib = (\<lambda>a. Inr (tagged (test_artifacts ?L) number_artifact a))"
    "de_artifact tagging_lib = (\<lambda>bs. Inr (untagged (test_artifacts ?L) artifact_numbered bs))"
    by (simp_all add: tagging_lib_def Let_def)
  have known: "test_artifacts tagging_lib = test_artifacts ?L"
    by (rule tagging_artifacts) (simp add: lib)
  have codes: "untagged test_outcomes outcome_numbered (tagged test_outcomes number_outcome o') = o'"
    "untagged (test_artifacts ?L) artifact_numbered (tagged (test_artifacts ?L) number_artifact a) = a" for o' a
    by (rule untagged_tagged; simp add: test_outcomes_def test_artifacts_def)+
  have "tagged ks number x \<noteq> []" for ks :: "fetch_artifact list" and number x
    by (simp add: tagged_def Let_def)
  then have "json_faithful tagging_lib h" for h
    by (simp add: json_faithful_def lib codes)
  moreover have "mac_separates tagging_lib"
    unfolding mac_separates_def
    by (auto intro!: tagging_no_collision simp: fetched_seal_def)
  ultimately show ?thesis
    by (simp add: handoff_lawful_def known) (simp add: lib tagged_short plain_digest_def)
qed

definition test_directory_path :: path where
  "test_directory_path = \<lparr>absolute = True, components = [Normal (lit ''tmp''), Normal (lit ''handoffs'')]\<rparr>"

definition test_key_env :: key_env where
  "test_key_env =
     \<lparr>canonicalize = (\<lambda>p. if p = push_names test_directory_path [lit ''handoff''] then Inl (lit ''not found'') else Inr p),
      read_path = (\<lambda>_. Inr (replicate 32 9))\<rparr>"

lemma test_key_files: "key_files test_key_env test_directory_path"
  by (auto simp: key_files_def test_key_env_def test_directory_path_def push_names_def lit_def)

section \<open>Property\<close>

text \<open>C35: the handoff's own unit tests hold of the model, over any file system that works, any JSON
  coding that carries what it is given, any digest of 32 bytes and any MAC that does not collide on
  the messages of the tests. A sealed response and a recorded failure come back; a body rewritten
  together with its description, a failure rewritten into a success, another key, another run, a
  missing seal and an unreadable artifact are refused; a failure leaves no body behind; a key
  inside the handoff directory and a short key are refused.\<close>

theorem handoff_tests_pass:
  assumes "handoff_lawful L" "healthy E" "key_files K directory"
  shows "handoff_tests L E K directory"
  unfolding handoff_tests_def
  by (intro conjI handoff_tests_delivery handoff_test_forgery handoff_test_promotion handoff_test_keys
      handoff_test_unsealed handoff_test_unreadable handoff_test_key_place handoff_test_short_key assms)

lemma handoff_tests_pass_witness:
  "handoff_tests tagging_lib healthy_env test_key_env test_directory_path"
  using handoff_tests_pass [OF tagging_lawful _ test_key_files, of healthy_env] by simp

end
