(* ===== verification/Inspect_Tests.thy ===== *)
theory Inspect_Tests
  imports Normalize Decode Detect Convert "HOL-Library.Multiset"
begin

text \<open>
  The tests of \<^verbatim>\<open>normalize.rs\<close>, \<^verbatim>\<open>decode.rs\<close>, \<^verbatim>\<open>detect.rs\<close> and \<^verbatim>\<open>convert.rs\<close> of the inspector, one
  definition per test, and what is documented of the libraries they run on.
\<close>

section \<open>Normalization\<close>

definition numeric_and_named_references_decode :: bool where
  "numeric_and_named_references_decode \<longleftrightarrow>
     decode_entities (lit ''&#105;gnore &#x70;revious'') = lit ''ignore previous''
     \<and> decode_entities (lit ''a &amp; b &lt;tag&gt;'') = lit ''a & b <tag>''"

definition unknown_or_unterminated_references_are_left_alone :: bool where
  "unknown_or_unterminated_references_are_left_alone \<longleftrightarrow>
     decode_entities (lit ''&unknownthing; &amp'') = lit ''&unknownthing; &amp''
     \<and> decode_entities (lit ''100% & rising'') = lit ''100% & rising''"

definition invisible_padding_and_fullwidth_forms_fold_to_the_plain_phrase :: bool where
  "invisible_padding_and_fullwidth_forms_fold_to_the_plain_phrase \<longleftrightarrow>
     deobfuscate (lit ''ig'' @ [0x200b] @ lit ''no'' @ [0xfeff] @ lit ''re'') = lit ''ignore''
     \<and> deobfuscate [0xff29, 0xff47, 0xff4e, 0xff4f, 0xff52, 0xff45] = lit ''Ignore''
     \<and> deobfuscate (lit ''don'' @ [0x2019] @ lit ''t'' @ [0xa0] @ lit ''stop'') =
         lit ''don'' @ [uc CHR 0x27] @ lit ''t stop''"

definition ordinary_text_survives_unchanged :: bool where
  "ordinary_text_survives_unchanged \<longleftrightarrow>
     (let text = lit ''The quick brown fox '' @ [0x2014] @ lit '' with a dash.''
      in deobfuscate text = lit ''The quick brown fox - with a dash.''
         \<and> decode_entities text = text)"

section \<open>Decoding\<close>

text \<open>\<^verbatim>\<open>GzEncoder\<close> into a vector.\<close>

type_synonym gzip = "bytes \<Rightarrow> unit + bytes"

definition test_payload :: bytes where
  "test_payload = utf8 (lit ''<html><body>hello</body></html>'')"

definition test_html_type :: "contract_error + media_type" where
  "test_html_type = media_parse (lit ''text/html; charset=utf-8'')"

definition identity_and_gzip_bodies_decode_to_the_same_text :: "inflate_lib \<Rightarrow> gzip \<Rightarrow> bool" where
  "identity_and_gzip_bodies_decode_to_the_same_text Z gz \<longleftrightarrow>
     expect (decode_content_encoding Z test_payload None) (\<lambda>decoded. decoded = test_payload)
     \<and> expect (gz test_payload) (\<lambda>packed.
         expect (decode_content_encoding Z packed (Some (lit ''gzip''))) (\<lambda>decoded. decoded = test_payload))"

definition bomb_payload :: bytes where
  "bomb_payload = replicate (8 * 1024 * 1024) 97"

definition a_decompression_bomb_is_a_limit_failure_not_a_large_page :: "inflate_lib \<Rightarrow> gzip \<Rightarrow> bool" where
  "a_decompression_bomb_is_a_limit_failure_not_a_large_page Z gz \<longleftrightarrow>
     expect (gz bomb_payload) (\<lambda>bomb.
       length bomb < 64 * 1024
       \<and> decode_content_encoding Z bomb (Some (lit ''gzip'')) = Inl ResponseLimitExceeded)"

definition no_gzip :: bytes where
  "no_gzip = utf8 (lit ''not actually gzip'')"

definition a_broken_compressed_body_is_refused :: "inflate_lib \<Rightarrow> bool" where
  "a_broken_compressed_body_is_refused Z \<longleftrightarrow>
     decode_content_encoding Z no_gzip (Some (lit ''gzip'')) = Inl UnsupportedContent"

definition an_unknown_content_coding_is_refused :: "inflate_lib \<Rightarrow> bool" where
  "an_unknown_content_coding_is_refused Z \<longleftrightarrow>
     decode_content_encoding Z (utf8 (lit ''payload'')) (Some (lit ''br'')) = Inl UnsupportedContent"

definition declared_charsets_are_honoured_and_malformed_bytes_are_refused :: "'e encoding_lib \<Rightarrow> bool" where
  "declared_charsets_are_honoured_and_malformed_bytes_are_refused C \<longleftrightarrow>
     expect (media_parse (lit ''text/html; charset=iso-8859-1'')) (\<lambda>latin1.
       expect (decode_charset C [0xe9] latin1) (\<lambda>text. text = [0xe9]))
     \<and> expect test_html_type (\<lambda>html. decode_charset C [0xe9] html = Inl UnsupportedContent)"

definition a_byte_order_mark_wins_over_an_absent_declaration :: "'e encoding_lib \<Rightarrow> bool" where
  "a_byte_order_mark_wins_over_an_absent_declaration C \<longleftrightarrow>
     expect (media_parse (lit ''text/plain'')) (\<lambda>utf16.
       expect (decode_charset C [0xff, 0xfe, 104, 0, 105, 0] utf16) (\<lambda>text. text = lit ''hi''))"

section \<open>Detection\<close>

definition the_shipped_bundle_compiles_and_identifies_itself ::
    "('c, 'k) yara_lib \<Rightarrow> (bytes \<Rightarrow> bytes) \<Rightarrow> (str \<Rightarrow> str + bundle_manifest) \<Rightarrow> bundle_dir \<Rightarrow> bool" where
  "the_shipped_bundle_compiles_and_identifies_itself Y H manifest_json directory \<longleftrightarrow>
     expect (bundle_load Y H manifest_json directory) (\<lambda>bundle.
       bundle_policy_id bundle = lit ''web-content-v1''
       \<and> byte_len (bundle_policy_digest bundle) = 64
       \<and> 4 \<le> bundle_rule_count bundle)"

text \<open>A directory the test creates, and \<^verbatim>\<open>fs::write\<close> of a file into it.\<close>

definition new_bundle_dir :: "str \<Rightarrow> bundle_dir" where
  "new_bundle_dir name =
     \<lparr>dir_name = Some name, dir_manifest = Inl (lit ''No such file or directory (os error 2)''),
      dir_entries = Inr [], dir_source = (\<lambda>_. Inl (lit ''No such file or directory (os error 2)'')),
      dir_elapsed = 0\<rparr>"

definition write_bundle_file :: "string \<Rightarrow> str \<Rightarrow> bundle_dir \<Rightarrow> bundle_dir" where
  "write_bundle_file name text directory =
     directory\<lparr>dir_manifest := (if name = ''bundle.json'' then Inr text else dir_manifest directory),
       dir_entries := map_ok (\<lambda>entries. entries @ [Inr (utf8 (lit name))]) (dir_entries directory),
       dir_source := (dir_source directory)(utf8 (lit name) := Inr text)\<rparr>"

definition broken_rule :: str where
  "broken_rule = lit ''rule nope { condition: this is not yara }''"

definition test_manifest :: "str \<Rightarrow> str" where
  \<open>test_manifest name =
     lit ''{"policy_version":1,"policy_id":"'' @ name @ lit ''","description":"d","maintenance":"m"}''\<close>

definition an_absent_or_empty_bundle_does_not_load ::
    "('c, 'k) yara_lib \<Rightarrow> (bytes \<Rightarrow> bytes) \<Rightarrow> (str \<Rightarrow> str + bundle_manifest) \<Rightarrow> str \<Rightarrow> bool" where
  "an_absent_or_empty_bundle_does_not_load Y H manifest_json name \<longleftrightarrow>
     (let none = new_bundle_dir name;
          empty = write_bundle_file ''bundle.json'' (test_manifest name) none;
          broken = write_bundle_file ''broken.yar'' broken_rule empty
      in \<not> is_ok (bundle_load Y H manifest_json none)
         \<and> \<not> is_ok (bundle_load Y H manifest_json empty)
         \<and> \<not> is_ok (bundle_load Y H manifest_json broken))"

definition the_scan_budget_is_spent_rather_than_stretched ::
    "('c, 'k) yara_lib \<Rightarrow> (bytes \<Rightarrow> bytes) \<Rightarrow> (str \<Rightarrow> str + bundle_manifest) \<Rightarrow> bundle_dir \<Rightarrow> bool" where
  "the_scan_budget_is_spent_rather_than_stretched Y H manifest_json directory \<longleftrightarrow>
     expect (bundle_load Y H manifest_json directory) (\<lambda>bundle.
       case detector_scan Y (replicate MAX_SCAN_INPUT_BYTES 97) (bundle_detector bundle) of
         (first, detector) \<Rightarrow>
           first = Inr NoMatch \<and> remaining_bytes detector = 0
           \<and> \<not> is_ok (fst (detector_scan Y (utf8 (lit ''one more byte'')) detector)))"

section \<open>Conversion\<close>

definition DOCS :: str where
  \<open>DOCS = page_text
     [''<html><head><title>Config</title><style>.x{}</style></head>'',
      ''    <body>'',
      ''      <nav><ul><li><a href="/a">Alpha</a></li><li><a href="/b">Beta</a></li></ul></nav>'',
      ''      <main>'',
      ''        <h1>Configuration</h1>'',
      ''        <p>Set the values below before starting the service.</p>'',
      ''        <h2>Options</h2>'',
      ''        <table><thead><tr><th>Name</th><th>Default</th></tr></thead>'',
      ''        <tbody><tr><td>timeout</td><td>15s</td></tr><tr><td>retries</td><td>3</td></tr></tbody></table>'',
      ''        <pre><code class="language-bash">service start --timeout 15s</code></pre>'',
      ''        <ul><li>First item</li><li>Second item</li></ul>'',
      ''        <p>See <a href="https://example.com/manual">the manual</a> for details.</p>'',
      ''      </main>'',
      ''      <footer><p>Copyright</p></footer>'',
      ''    </body></html>'']\<close>

definition SHORT :: str where
  "SHORT = lit ''<html><body><h1>Status</h1><p>All systems normal.</p></body></html>''"

definition NAV_ONLY :: str where
  \<open>NAV_ONLY = page_text
     [''<html><body><nav><ul>'',
      ''      <li><a href="/1">One</a></li><li><a href="/2">Two</a></li><li><a href="/3">Three</a></li>'',
      ''      <li><a href="/4">Four</a></li><li><a href="/5">Five</a></li><li><a href="/6">Six</a></li>'',
      ''    </ul></nav></body></html>'']\<close>

definition native_conversion_keeps_the_structure_of_a_documentation_page :: "convert_lib \<Rightarrow> bool" where
  "native_conversion_keeps_the_structure_of_a_documentation_page V \<longleftrightarrow>
     (case conv_convert (native_cleanup V) DOCS Markdown of
        None \<Rightarrow> False
      | Some c \<Rightarrow>
          list_all (\<lambda>t. str_contains (lit t) (cand_content c))
            [''# Configuration'', ''## Options'', ''| timeout'', ''service start --timeout 15s'',
             ''First item'', ''](https://example.com/manual)'']
          \<and> \<not> str_contains (lit ''.x{}'') (cand_content c)
          \<and> quality V c Markdown (signals_of DOCS) = Usable)"

definition a_short_page_is_not_poor_quality_merely_for_being_short :: "convert_lib \<Rightarrow> bool" where
  "a_short_page_is_not_poor_quality_merely_for_being_short V \<longleftrightarrow>
     (case conv_convert (native_cleanup V) SHORT Markdown of
        None \<Rightarrow> False
      | Some c \<Rightarrow>
          str_contains (lit ''All systems normal'') (cand_content c)
          \<and> quality V c Markdown (signals_of SHORT) = Usable)"

definition nav_candidate :: candidate where
  "nav_candidate =
     \<lparr>cand_content = page_text [''- [One](/1)'', ''- [Two](/2)'', ''- [Three](/3)'', ''- [Four](/4)'',
        ''- [Five](/5)'', ''- [Six](/6)''], cand_method = Native\<rparr>"

definition a_navigation_only_result_is_poor_and_sends_the_chain_on :: "convert_lib \<Rightarrow> bool" where
  "a_navigation_only_result_is_poor_and_sends_the_chain_on V \<longleftrightarrow>
     quality V nav_candidate Markdown (signals_of NAV_ONLY) = Poor (lit ''navigation only'')"

definition prose_candidate :: candidate where
  "prose_candidate =
     \<lparr>cand_content = page_text [''# Configuration'', [], ''Some prose.''], cand_method = Native\<rparr>"

definition losing_a_table_the_source_had_is_poor_quality :: "convert_lib \<Rightarrow> bool" where
  "losing_a_table_the_source_had_is_poor_quality V \<longleftrightarrow>
     quality V prose_candidate Markdown (signals_of DOCS) = Poor (lit ''tables lost'')"

definition plain_text_output_carries_the_text_without_markup :: "convert_lib \<Rightarrow> bool" where
  "plain_text_output_carries_the_text_without_markup V \<longleftrightarrow>
     (case conv_convert (native_cleanup V) DOCS Text of
        None \<Rightarrow> False
      | Some c \<Rightarrow>
          str_contains (lit ''Set the values below'') (cand_content c)
          \<and> \<not> str_contains (lit ''# Configuration'') (cand_content c)
          \<and> quality V c Text (signals_of DOCS) = Usable)"

definition ARTICLE :: str where
  \<open>ARTICLE = page_text
     [''<html><body><header><nav><a href="/x">Home</a></nav></header>'',
      ''        <article><h1>A Long Title</h1>'',
      ''        <p>This paragraph is long enough that a main-content extractor recognises it as the body of'',
      ''        the document rather than as page furniture, which is what the extractor needs to work.</p>'',
      ''        <p>A second paragraph, also of a reasonable length, so that scoring has something to weigh'',
      ''        against the navigation links in the header of this page.</p></article></body></html>'']\<close>

definition every_converter_in_the_chain_produces_something_for_an_article :: "convert_lib \<Rightarrow> bool" where
  "every_converter_in_the_chain_produces_something_for_an_article V \<longleftrightarrow>
     list_all (\<lambda>converter.
       case conv_convert converter ARTICLE Markdown of
         None \<Rightarrow> False
       | Some c \<Rightarrow>
           str_contains (lit ''main-content extractor'') (cand_content c)
           \<and> cand_method c = conv_method converter) (CHAIN V)"

definition the_chain_is_native_cleanup_then_extraction_then_plain_conversion :: "convert_lib \<Rightarrow> bool" where
  "the_chain_is_native_cleanup_then_extraction_then_plain_conversion V \<longleftrightarrow>
     map conv_method (CHAIN V) = [Native, Extracted, Basic]"

section \<open>Lawful libraries\<close>

text \<open>Unpacking undoes packing, repetition packs well, and what is no gzip stream breaks off.\<close>

definition gzip_lawful :: "inflate_lib \<Rightarrow> gzip \<Rightarrow> bool" where
  "gzip_lawful Z gz \<longleftrightarrow>
     (\<forall>payload. \<exists>packed. gz payload = Inr packed \<and> gz_decoder Z packed = \<lparr>yields = payload, breaks = False\<rparr>)
     \<and> (\<forall>packed. gz bomb_payload = Inr packed \<longrightarrow> length packed < 64 * 1024)
     \<and> gz_decoder Z no_gzip = \<lparr>yields = [], breaks = True\<rparr>"

text \<open>What the Encoding Standard says of byte-order marks, UTF-8, windows-1252 (the label
  \<^verbatim>\<open>iso-8859-1\<close>) outside its C1 range and UTF-16LE on ASCII characters and odd lengths.\<close>

definition charsets_lawful :: "'e encoding_lib \<Rightarrow> bool" where
  "charsets_lawful C \<longleftrightarrow>
     utf8_lawful C
     \<and> (\<exists>utf8_marked utf16le utf16be.
          (\<forall>bs. for_bom C bs =
             (if take 3 bs = [0xef, 0xbb, 0xbf] then Some (utf8_marked, 3)
              else if take 2 bs = [0xff, 0xfe] then Some (utf16le, 2)
              else if take 2 bs = [0xfe, 0xff] then Some (utf16be, 2) else None))
          \<and> (\<forall>s. list_all is_ascii s \<longrightarrow>
               decode_marked C utf16le (concat (map (\<lambda>c. [word_of_nat c, 0]) s)) = (s, False))
          \<and> (\<forall>bs. odd (length bs) \<longrightarrow> snd (decode_marked C utf16le bs)))
     \<and> (\<exists>latin1. for_label C (utf8 (lit ''iso-8859-1'')) = Some latin1
          \<and> (\<forall>bs. list_all (\<lambda>b. b < 0x80 \<or> 0xa0 \<le> b) bs \<longrightarrow>
               decode_strict C latin1 bs = Some (map unat bs)))"

text \<open>The bundle of the repository: a manifest of its own name and five small files, in any order of
  the listing, that each start a rule and compile.\<close>

definition shipped_rule_files :: "string list" where
  "shipped_rule_files = [''chat_template_tokens.yar'', ''exfiltration.yar'', ''instruction_override.yar'',
     ''model_addressing.yar'', ''tool_coercion.yar'']"

definition shipped_bundle ::
    "('c, 'k) yara_lib \<Rightarrow> (str \<Rightarrow> str + bundle_manifest) \<Rightarrow> bundle_dir \<Rightarrow> bool" where
  "shipped_bundle Y manifest_json directory \<longleftrightarrow>
     dir_name directory = Some (lit ''web-content-v1'')
     \<and> (\<exists>raw manifest. dir_manifest directory = Inr raw \<and> manifest_json raw = Inr manifest
          \<and> manifest_version manifest = 1 \<and> manifest_policy_id manifest = lit ''web-content-v1'')
     \<and> (\<exists>listed. dir_entries directory = Inr listed
          \<and> mset listed = mset (map (\<lambda>n. Inr (utf8 (lit n))) (''bundle.json'' # shipped_rule_files)))
     \<and> (\<forall>n \<in> set shipped_rule_files. \<exists>a b.
          dir_source directory (utf8 (lit n)) = Inr (a @ [10] @ lit ''rule '' @ b)
          \<and> byte_len (a @ b) \<le> 16 * 1024
          \<and> (\<forall>c. is_ok (add_source Y c (a @ [10] @ lit ''rule '' @ b))))
     \<and> dir_elapsed directory \<le> COMPILE_BUDGET"

definition detection_lawful ::
    "('c, 'k) yara_lib \<Rightarrow> (bytes \<Rightarrow> bytes) \<Rightarrow> (str \<Rightarrow> str + bundle_manifest) \<Rightarrow> bundle_dir \<Rightarrow> bool" where
  "detection_lawful Y H manifest_json directory \<longleftrightarrow>
     shipped_bundle Y manifest_json directory
     \<and> (\<forall>bs. length (H bs) = 32)
     \<and> (\<forall>c. \<not> is_ok (add_source Y c broken_rule))
     \<and> (\<forall>bundle. bundle_load Y H manifest_json directory = Inr bundle \<longrightarrow>
          yara_scan Y (bundle_rules bundle) (det_config (bundle_detector bundle)) 0
            (replicate MAX_SCAN_INPUT_BYTES 97) = Inr [])"

text \<open>\<^verbatim>\<open>char::is_alphanumeric\<close> holds of the ASCII letters and of no white space.\<close>

definition letters_lawful :: "convert_lib \<Rightarrow> bool" where
  "letters_lawful V \<longleftrightarrow>
     (\<forall>c. is_ascii_lowercase c \<or> is_ascii_uppercase c \<longrightarrow> is_alphanumeric V c)
     \<and> (\<forall>c. is_alphanumeric V c \<longrightarrow> \<not> is_whitespace c)"

text \<open>What a converter makes of a page in Markdown: a heading is a line of its own behind a \<^verbatim>\<open>#\<close>,
  text outside navigation stays, and navigation leaves no item behind.\<close>

definition renders :: "convert_lib \<Rightarrow> str \<Rightarrow> string \<Rightarrow> string list \<Rightarrow> bool" where
  "renders V html heading texts \<longleftrightarrow>
     (\<exists>md. to_markdown V html Markdown Preset_Standard True = Some md
        \<and> lit heading \<in> set (content_lines md)
        \<and> (\<forall>t \<in> set texts. str_contains (lit t) md)
        \<and> list_all (\<lambda>l. \<not> is_link_item l) (content_lines md)
        \<and> byte_len md \<le> byte_len html)"

text \<open>What it makes of the documentation page: headings, a row of a table, a line of code and a list
  item are lines of their own, a link keeps its target, a stylesheet leaves nothing; and as plain text,
  where a paragraph is its line and nothing is marked up with \<^verbatim>\<open>#\<close>.\<close>

definition renders_docs :: "convert_lib \<Rightarrow> bool" where
  "renders_docs V \<longleftrightarrow>
     (\<exists>md. to_markdown V DOCS Markdown Preset_Standard True = Some md
        \<and> lit ` {''# Configuration'', ''## Options'', ''service start --timeout 15s'', ''- First item''}
            \<subseteq> set (content_lines md)
        \<and> (\<exists>cells. lit ''| timeout'' @ cells \<in> set (content_lines md))
        \<and> str_contains (lit ''](https://example.com/manual)'') md
        \<and> uc CHR ''{'' \<notin> set md
        \<and> list_all (\<lambda>l. \<not> is_link_item l) (content_lines md))
     \<and> (\<exists>plain. to_markdown V DOCS Text Preset_Standard True = Some plain
        \<and> lit ''Set the values below before starting the service.'' \<in> set (content_lines plain)
        \<and> uc CHR ''#'' \<notin> set plain
        \<and> list_all (\<lambda>l. \<not> is_link_item l) (content_lines plain))"

text \<open>What becomes of the article: a reader view keeps its paragraphs, and converting the page, with
  and without preprocessing, or the view keeps the first line of the first paragraph.\<close>

definition article_line :: str where
  "article_line = lit ''This paragraph is long enough that a main-content extractor recognises it as the body of''"

definition keeps_article_line :: "str option \<Rightarrow> bool" where
  "keeps_article_line output \<longleftrightarrow> (\<exists>md. output = Some md \<and> str_contains article_line md)"

definition renders_article :: "convert_lib \<Rightarrow> bool" where
  "renders_article V \<longleftrightarrow>
     (\<exists>view. readability V ARTICLE 50000 = Inr (Inr view) \<and> str_contains article_line view
        \<and> keeps_article_line (to_markdown V view Markdown Preset_Minimal False))
     \<and> keeps_article_line (to_markdown V ARTICLE Markdown Preset_Standard True)
     \<and> keeps_article_line (to_markdown V ARTICLE Markdown Preset_Minimal False)"

section \<open>All of them\<close>

definition normalize_tests :: bool where
  "normalize_tests \<longleftrightarrow>
     numeric_and_named_references_decode
     \<and> unknown_or_unterminated_references_are_left_alone
     \<and> invisible_padding_and_fullwidth_forms_fold_to_the_plain_phrase
     \<and> ordinary_text_survives_unchanged"

definition decode_tests :: "inflate_lib \<Rightarrow> gzip \<Rightarrow> 'e encoding_lib \<Rightarrow> bool" where
  "decode_tests Z gz C \<longleftrightarrow>
     identity_and_gzip_bodies_decode_to_the_same_text Z gz
     \<and> a_decompression_bomb_is_a_limit_failure_not_a_large_page Z gz
     \<and> a_broken_compressed_body_is_refused Z
     \<and> an_unknown_content_coding_is_refused Z
     \<and> declared_charsets_are_honoured_and_malformed_bytes_are_refused C
     \<and> a_byte_order_mark_wins_over_an_absent_declaration C"

definition detect_tests ::
    "('c, 'k) yara_lib \<Rightarrow> (bytes \<Rightarrow> bytes) \<Rightarrow> (str \<Rightarrow> str + bundle_manifest) \<Rightarrow> bundle_dir \<Rightarrow> str \<Rightarrow> bool" where
  "detect_tests Y H manifest_json directory name \<longleftrightarrow>
     the_shipped_bundle_compiles_and_identifies_itself Y H manifest_json directory
     \<and> an_absent_or_empty_bundle_does_not_load Y H manifest_json name
     \<and> the_scan_budget_is_spent_rather_than_stretched Y H manifest_json directory"

definition convert_tests :: "convert_lib \<Rightarrow> bool" where
  "convert_tests V \<longleftrightarrow>
     native_conversion_keeps_the_structure_of_a_documentation_page V
     \<and> a_short_page_is_not_poor_quality_merely_for_being_short V
     \<and> a_navigation_only_result_is_poor_and_sends_the_chain_on V
     \<and> losing_a_table_the_source_had_is_poor_quality V
     \<and> plain_text_output_carries_the_text_without_markup V
     \<and> every_converter_in_the_chain_produces_something_for_an_article V
     \<and> the_chain_is_native_cleanup_then_extraction_then_plain_conversion V"

end
