(* ===== verification/Inspect_Tests_Pass.thy ===== *)
theory Inspect_Tests_Pass
  imports Inspect_Tests
begin

text \<open>The tests of the inspector's parts hold on the model, over every lawful set of libraries.\<close>

section \<open>Normalization\<close>

lemmas entity_eval = decode_entities_def decode_entities_loop.simps find_char_def reference_end_def
  resolve_entity_def parse_uint_def to_digit_def char_from_u32_def is_scalar_def text_eval

lemma normalize_tests_hold: "normalize_tests"
proof -
  have "numeric_and_named_references_decode"
    by (simp add: numeric_and_named_references_decode_def entity_eval)
  moreover have "unknown_or_unterminated_references_are_left_alone"
    by (simp add: unknown_or_unterminated_references_are_left_alone_def entity_eval)
  moreover have "invisible_padding_and_fullwidth_forms_fold_to_the_plain_phrase"
    by (simp add: invisible_padding_and_fullwidth_forms_fold_to_the_plain_phrase_def
        fold_char_def hidden_char_def char_from_u32_def is_scalar_def lit_def)
  moreover have "ordinary_text_survives_unchanged"
    by (simp add: ordinary_text_survives_unchanged_def decode_entities_none
        fold_char_def hidden_char_def lit_def)
  ultimately show ?thesis by (simp add: normalize_tests_def)
qed

section \<open>Decoding\<close>

lemmas media_eval = media_parse_def clean_charset_def is_quote_def Let_def text_eval

lemma test_type: "test_html_type = Inr \<lparr>essence = lit ''text/html'', charset = Some (lit ''utf-8'')\<rparr>"
  by (simp add: test_html_type_def media_eval)

lemma gzip_coding: "to_ascii_lowercase (trim (lit ''gzip'')) = lit ''gzip''"
  "to_ascii_lowercase (trim (lit ''identity'')) = lit ''identity''"
  "to_ascii_lowercase (trim (lit ''br'')) = lit ''br''"
  by (simp_all add: text_eval)

lemma decode_gzip: "decode_content_encoding Z w (Some (lit ''gzip'')) = bounded_read (gz_decoder Z w) (length w)"
  by (simp add: decode_content_encoding_def gzip_coding) (simp add: lit_def)

lemma charsets_utf16:
  assumes "charsets_lawful C"
  obtains le where "\<And>s. list_all is_ascii s \<Longrightarrow>
      decode_marked C le (concat (map (\<lambda>c. [word_of_nat c, 0]) s)) = (s, False)"
    and "\<And>rest. for_bom C (0xff # 0xfe # rest) = Some (le, 2)"
    and "\<And>bs. odd (length bs) \<Longrightarrow> snd (decode_marked C le bs)"
proof -
  from assms obtain m le be where
    "\<forall>bs. for_bom C bs =
             (if take 3 bs = [0xef, 0xbb, 0xbf] then Some (m, 3)
              else if take 2 bs = [0xff, 0xfe] then Some (le, 2)
              else if take 2 bs = [0xfe, 0xff] then Some (be, 2) else None)"
    "\<forall>s. list_all is_ascii s \<longrightarrow>
       decode_marked C le (concat (map (\<lambda>c. [word_of_nat c, 0]) s)) = (s, False)"
    "\<forall>bs. odd (length bs) \<longrightarrow> snd (decode_marked C le bs)"
    unfolding charsets_lawful_def by blast
  then show thesis by (intro that [of le]) simp_all
qed

lemma charsets_no_mark:
  assumes "charsets_lawful C" "bs = [] \<or> hd bs \<notin> {0xef, 0xfe, 0xff}"
  shows "for_bom C bs = None"
proof -
  from assms(1) obtain m le be where
    "\<forall>bs. for_bom C bs =
             (if take 3 bs = [0xef, 0xbb, 0xbf] then Some (m, 3)
              else if take 2 bs = [0xff, 0xfe] then Some (le, 2)
              else if take 2 bs = [0xfe, 0xff] then Some (be, 2) else None)"
    unfolding charsets_lawful_def by blast
  with assms(2) show ?thesis by (cases bs) auto
qed

lemma decode_tests_hold:
  assumes Z: "gzip_lawful Z gz" and C: "charsets_lawful C"
  shows "decode_tests Z gz C"
proof -
  have size: "length test_payload = 31" by (simp add: test_payload_def lit_def len_utf8_def)
  obtain w where w: "gz test_payload = Inr w" "gz_decoder Z w = \<lparr>yields = test_payload, breaks = False\<rparr>"
    using Z unfolding gzip_lawful_def by blast
  have "decode_content_encoding Z w (Some (lit ''gzip'')) = Inr test_payload"
    unfolding decode_gzip w(2) bounded_read_Ok_iff by (simp add: size decode_ceiling_eq)
  moreover have "decode_content_encoding Z test_payload None = Inr test_payload"
    by (simp add: decode_content_encoding_def gzip_coding size MAX_DECODED_BYTES_def)
  ultimately have identity: "identity_and_gzip_bodies_decode_to_the_same_text Z gz"
    by (simp add: identity_and_gzip_bodies_decode_to_the_same_text_def expect_def w(1))
  obtain b where b: "gz bomb_payload = Inr b" "gz_decoder Z b = \<lparr>yields = bomb_payload, breaks = False\<rparr>"
      "length b < 64 * 1024"
    using Z unfolding gzip_lawful_def by blast
  have "decode_content_encoding Z b (Some (lit ''gzip'')) = Inl ResponseLimitExceeded"
    unfolding decode_gzip b(2) bounded_read_Err_iff decode_ceiling_eq
    by (auto simp: bomb_payload_def min_def max_def)
  then have bomb: "a_decompression_bomb_is_a_limit_failure_not_a_large_page Z gz"
    using b by (simp add: a_decompression_bomb_is_a_limit_failure_not_a_large_page_def expect_def)
  have "gz_decoder Z no_gzip = \<lparr>yields = [], breaks = True\<rparr>" using Z by (simp add: gzip_lawful_def)
  then have broken: "a_broken_compressed_body_is_refused Z"
    by (simp add: a_broken_compressed_body_is_refused_def decode_gzip bounded_read_Err_iff)
  have unknown: "an_unknown_content_coding_is_refused Z"
    by (simp add: an_unknown_content_coding_is_refused_def decode_content_encoding_def gzip_coding)
       (simp add: lit_def)
  have latin: "media_parse (lit ''text/html; charset=iso-8859-1'') =
      Inr \<lparr>essence = lit ''text/html'', charset = Some (lit ''iso-8859-1'')\<rparr>"
    by (simp add: media_eval)
  have plain: "media_parse (lit ''text/plain'') = Inr \<lparr>essence = lit ''text/plain'', charset = None\<rparr>"
    by (simp add: media_eval)
  obtain u where u: "for_label C (utf8 (lit ''utf-8'')) = Some u" "decode_strict C u = from_utf8"
    using C by (auto simp: charsets_lawful_def utf8_lawful_def)
  obtain le where le: "\<And>s. list_all is_ascii s \<Longrightarrow>
        decode_marked C le (concat (map (\<lambda>c. [word_of_nat c, 0]) s)) = (s, False)"
      and mark: "\<And>rest. for_bom C (0xff # 0xfe # rest) = Some (le, 2)"
    using C charsets_utf16 by metis
  note bom = mark [of "[104, 0, 105, 0]"] charsets_no_mark [OF C, of "[0xe9]"]
  obtain l1 where l1: "for_label C (utf8 (lit ''iso-8859-1'')) = Some l1" "decode_strict C l1 [0xe9] = Some [0xe9]"
    using C unfolding charsets_lawful_def by fastforce
  have "from_utf8 [0xe9] = None" by (auto simp: from_utf8_def Let_def utf8_codes_def)
  then have declared: "declared_charsets_are_honoured_and_malformed_bytes_are_refused C"
    by (simp add: declared_charsets_are_honoured_and_malformed_bytes_are_refused_def latin test_type expect_def
        decode_charset_def bom u l1)
  have "decode_marked C le [104, 0, 105, 0] = (lit ''hi'', False)"
    using le [of "lit ''hi''"] by (simp add: lit_def is_ascii_def)
  then have mark: "a_byte_order_mark_wins_over_an_absent_declaration C"
    by (simp add: a_byte_order_mark_wins_over_an_absent_declaration_def plain expect_def decode_charset_def bom)
  show ?thesis
    unfolding decode_tests_def by (intro conjI identity bomb broken unknown declared mark)
qed

section \<open>Detection\<close>

lemma rule_files_mset:
  assumes "mset xs = mset ys"
  shows "rule_files xs = rule_files ys"
proof -
  have "mset (List.map_filter f xs) = mset (List.map_filter f ys)" for f :: "str + bytes \<Rightarrow> bytes option"
    by (simp add: List.map_filter_def assms)
  then show ?thesis
    unfolding rule_files_def by (intro properties_for_sort) simp_all
qed

lemma shipped_files:
  assumes "mset listed = mset (map (\<lambda>n. Inr (utf8 (lit n))) (''bundle.json'' # shipped_rule_files))"
  shows "rule_files listed = map (\<lambda>n. utf8 (lit n)) shipped_rule_files"
proof -
  have "rule_files (map (\<lambda>n. Inr (utf8 (lit n))) (''bundle.json'' # shipped_rule_files)) =
      map (\<lambda>n. utf8 (lit n)) shipped_rule_files"
    by code_simp
  with rule_files_mset [OF assms] show ?thesis by simp
qed

lemma count_matches_aux_hit:
  "p \<noteq> [] \<Longrightarrow> skip \<le> length a \<Longrightarrow> 1 \<le> count_matches_aux p skip (a @ p @ b)"
proof (induction a arbitrary: skip)
  case Nil
  then show ?case by (cases p) (auto simp: starts_with_iff)
next
  case (Cons x a)
  then show ?case by (cases skip) simp_all
qed

lemma count_rules_hit: "1 \<le> count_rules (a @ [10] @ lit ''rule '' @ b)"
  using count_matches_aux_hit [of "[10] @ lit ''rule ''" 0 a b]
  by (simp add: count_rules_def count_matches_def)

lemma map_Inr_choice:
  "\<forall>n \<in> set ns. \<exists>s. f n = Inr s \<and> P s \<Longrightarrow> \<exists>ss. map f ns = map Inr ss \<and> list_all P ss"
proof (induction ns)
  case (Cons n ns)
  then obtain s ss where "f n = Inr s \<and> P s" "map f ns = map Inr ss \<and> list_all P ss" by auto
  then show ?case by (intro exI [of _ "s # ss"]) simp
qed simp

lemma add_sources_all_ok:
  "list_all (\<lambda>s. \<forall>c. is_ok (add_source Y c s)) ss \<Longrightarrow> \<exists>c' n'. add_sources Y c n ss = Inr (c', n')"
proof (induction ss arbitrary: c n)
  case (Cons s ss)
  then have "is_ok (add_source Y c s)" by simp
  then obtain c1 where "add_source Y c s = Inr c1" by (auto simp: is_ok_iff)
  with Cons show ?case by (simp add: context_err_def)
qed simp

lemma sum_list_at_least: "list_all (\<lambda>s. k \<le> f s) ss \<Longrightarrow> length ss * k \<le> sum_list (map f ss)"
  by (induction ss) auto

lemma sum_list_at_most: "list_all (\<lambda>s. f s \<le> k) ss \<Longrightarrow> sum_list (map f ss) \<le> length ss * k"
  by (induction ss) auto

lemma shipped_bundle_loads:
  assumes "shipped_bundle Y manifest_json directory"
  obtains B where "bundle_load Y H manifest_json directory = Inr B"
    "bundle_policy_id B = lit ''web-content-v1''"
    "\<exists>bs. bundle_policy_digest B = sha256_hex H bs" "4 \<le> bundle_rule_count B"
proof -
  from assms obtain raw manifest listed where dir: "dir_name directory = Some (lit ''web-content-v1'')"
      "dir_manifest directory = Inr raw" "manifest_json raw = Inr manifest" "manifest_version manifest = 1"
      "manifest_policy_id manifest = lit ''web-content-v1''" "dir_entries directory = Inr listed"
      "dir_elapsed directory \<le> COMPILE_BUDGET"
    and "mset listed = mset (map (\<lambda>n. Inr (utf8 (lit n))) (''bundle.json'' # shipped_rule_files))"
    unfolding shipped_bundle_def by blast
  then have files: "rule_files listed = map (\<lambda>n. utf8 (lit n)) shipped_rule_files"
    by (intro shipped_files)
  let ?good = "\<lambda>s. byte_len s \<le> 17 * 1024 \<and> 1 \<le> count_rules s \<and> (\<forall>c. is_ok (add_source Y c s))"
  have "\<forall>n \<in> set shipped_rule_files. \<exists>s. (dir_source directory \<circ> (\<lambda>n. utf8 (lit n))) n = Inr s \<and> ?good s"
  proof
    fix n assume "n \<in> set shipped_rule_files"
    with assms obtain a b where "dir_source directory (utf8 (lit n)) = Inr (a @ [10] @ lit ''rule '' @ b)"
        "byte_len (a @ b) \<le> 16 * 1024" "\<forall>c. is_ok (add_source Y c (a @ [10] @ lit ''rule '' @ b))"
      unfolding shipped_bundle_def by blast
    then show "\<exists>s. (dir_source directory \<circ> (\<lambda>n. utf8 (lit n))) n = Inr s \<and> ?good s"
      using count_rules_hit [of a b]
      by (intro exI [of _ "a @ [10] @ lit ''rule '' @ b"] conjI) (simp_all add: lit_def len_utf8_def)
  qed
  from map_Inr_choice [OF this] obtain ss where ss: "map (dir_source directory) (rule_files listed) = map Inr ss"
      "list_all ?good ss"
    unfolding files list.map_comp by blast
  have len: "length ss = 5" "length (rule_files listed) = 5"
    using arg_cong [OF ss(1), of length] by (simp_all add: files shipped_rule_files_def)
  have "sum_list (map byte_len ss) \<le> MAX_BUNDLE_BYTES" "5 \<le> sum_list (map count_rules ss)"
    using sum_list_at_most [of byte_len "17 * 1024" ss] sum_list_at_least [of 1 count_rules ss] ss(2) len(1)
    by (simp_all add: list_all_iff MAX_BUNDLE_BYTES_def)
  moreover have "list_all (\<lambda>s. \<forall>c. is_ok (add_source Y c s)) ss" using ss(2) by (simp add: list_all_iff)
  then obtain c n where "add_sources Y (enable_includes Y (compiler_new Y) False) 0 ss = Inr (c, n)"
    using add_sources_all_ok [of Y ss "enable_includes Y (compiler_new Y) False" 0] by blast
  moreover have "rule_files listed \<noteq> []" "length (rule_files listed) \<le> MAX_BUNDLE_FILES"
    using len(2) by (auto simp: MAX_BUNDLE_FILES_def)
  ultimately have "bundle_load Y H manifest_json directory =
      Inr \<lparr>bundle_policy_id = lit ''web-content-v1'',
           bundle_policy_digest = sha256_hex H (utf8 (concat ss)),
           bundle_rule_count = sum_list (map count_rules ss),
           bundle_rules = compiler_build Y c\<rparr>"
    unfolding bundle_load_Ok using dir ss(1)
    by (intro exI conjI) (auto simp: read_sources_iff)
  with that \<open>5 \<le> sum_list (map count_rules ss)\<close> show thesis by fastforce
qed

lemma new_dir_refused: "\<not> is_ok (bundle_load Y H manifest_json (new_bundle_dir name))"
  by (simp add: bundle_load_def new_bundle_dir_def context_err_def)

lemma detect_tests_hold:
  assumes "detection_lawful Y H manifest_json directory"
  shows "detect_tests Y H manifest_json directory name"
proof -
  have Y: "shipped_bundle Y manifest_json directory" "\<And>bs. length (H bs) = 32"
      "\<And>c. \<not> is_ok (add_source Y c broken_rule)"
    using assms by (auto simp: detection_lawful_def)
  obtain B where B: "bundle_load Y H manifest_json directory = Inr B"
      "bundle_policy_id B = lit ''web-content-v1''"
      "\<exists>bs. bundle_policy_digest B = sha256_hex H bs" "4 \<le> bundle_rule_count B"
    by (rule shipped_bundle_loads [OF Y(1)])
  have "byte_len (bundle_policy_digest B) = 64"
    using B(3) Y(2) by (auto simp: sha256_hex_def byte_len_ascii [OF to_hex_ascii])
  with B have shipped: "the_shipped_bundle_compiles_and_identifies_itself Y H manifest_json directory"
    by (simp add: the_shipped_bundle_compiles_and_identifies_itself_def expect_def)
  let ?empty = "write_bundle_file ''bundle.json'' (test_manifest name) (new_bundle_dir name)"
  let ?broken = "write_bundle_file ''broken.yar'' broken_rule ?empty"
  have names: "rule_files [Inr (utf8 (lit ''bundle.json''))] = []"
    "rule_files [Inr (utf8 (lit ''bundle.json'')), Inr (utf8 (lit ''broken.yar''))] = [utf8 (lit ''broken.yar'')]"
    by code_simp+
  have "dir_entries ?empty = Inr [Inr (utf8 (lit ''bundle.json''))]"
    "dir_entries ?broken = Inr [Inr (utf8 (lit ''bundle.json'')), Inr (utf8 (lit ''broken.yar''))]"
    "dir_source ?broken (utf8 (lit ''broken.yar'')) = Inr broken_rule"
    by (simp_all add: write_bundle_file_def new_bundle_dir_def)
  then have "\<not> is_ok (bundle_load Y H manifest_json ?empty)" "\<not> is_ok (bundle_load Y H manifest_json ?broken)"
    using Y(3) unfolding is_ok_iff bundle_load_Ok read_sources_iff by (auto simp: names result_iffs context_err_def)
  with new_dir_refused have absent: "an_absent_or_empty_bundle_does_not_load Y H manifest_json name"
    by (simp add: an_absent_or_empty_bundle_does_not_load_def Let_def)
  have "yara_scan Y (bundle_rules B) (det_config (bundle_detector B)) 0
      (replicate MAX_SCAN_INPUT_BYTES 97) = Inr []"
    using assms B(1) by (simp add: detection_lawful_def)
  then have "the_scan_budget_is_spent_rather_than_stretched Y H manifest_json directory"
    using B(1)
    by (simp add: the_scan_budget_is_spent_rather_than_stretched_def expect_def detector_scan_def
        bundle_detector_def checked_sub_def Let_def lit_def len_utf8_def)
  with shipped absent show ?thesis by (simp add: detect_tests_def)
qed

section \<open>Conversion\<close>

text \<open>A line of a text is in it.\<close>

lemma split_on_infix: "p \<in> set (split_on c s) \<Longrightarrow> \<exists>a b. s = a @ p @ b"
proof -
  have "(\<exists>b. s = hd (split_on c s) @ b) \<and> (\<forall>p \<in> set (split_on c s). \<exists>a b. s = a @ p @ b)"
  proof (induction s)
    case (Cons x s)
    obtain q qs where q: "split_on c s = q # qs" by (cases "split_on c s") auto
    from Cons.IH obtain r where r: "s = q @ r" by (auto simp: q)
    have later: "\<exists>a b. x # s = a @ p @ b" if "p \<in> set (q # qs)" for p
      using Cons.IH that unfolding q by (metis append_Cons)
    show ?case
    proof (cases "x = c")
      case True
      have "\<exists>a b. x # s = a @ [] @ b" by auto
      with True later show ?thesis by (auto simp: q)
    next
      case False
      then have parts: "split_on c (x # s) = (x # q) # qs" by (simp add: q)
      have first: "x # s = (x # q) @ r" using r by simp
      then have "\<exists>a b. x # s = a @ (x # q) @ b" by (metis append_Nil)
      then show ?thesis using first later unfolding parts by (metis list.sel(1) set_ConsD list.set_intros(2))
    qed
  qed simp
  then show "p \<in> set (split_on c s) \<Longrightarrow> \<exists>a b. s = a @ p @ b" by blast
qed

lemma content_line_contained: "l \<in> set (content_lines s) \<Longrightarrow> str_contains l s"
proof -
  assume "l \<in> set (content_lines s)"
  then obtain p where p: "l = trim p" "p \<in> set (split_on 10 s)" by (auto simp: content_lines_alt)
  obtain w v where "p = w @ trim p @ v" by (rule trim_parts)
  moreover obtain a b where "s = a @ p @ b" using split_on_infix [OF p(2)] by blast
  ultimately have "s = (a @ w) @ l @ (v @ b)" unfolding p(1) by (metis append_assoc)
  then show "str_contains l s" unfolding str_contains_iff by blast
qed

lemma letters_quality:
  "letters_lawful V \<Longrightarrow> quality V c fmt signals = judge_lines V fmt signals (content_lines (cand_content c))"
  by (rule quality_lines) (auto simp: letters_lawful_def)

lemma readable_usable:
  assumes "letters_lawful V" "l \<in> set (content_lines (cand_content c))" "list_ex is_ascii_lowercase l"
    and "list_all (\<lambda>l. \<not> is_link_item l) (content_lines (cand_content c))"
    and "fmt = Markdown \<Longrightarrow> has_headings signals \<Longrightarrow>
      list_ex (starts_with (lit ''#'')) (content_lines (cand_content c))"
    and "fmt = Markdown \<Longrightarrow> has_tables signals \<Longrightarrow>
      list_ex (starts_with (lit ''|'')) (content_lines (cand_content c))"
  shows "quality V c fmt signals = Usable"
proof -
  let ?lines = "content_lines (cand_content c)"
  have "filter is_link_item ?lines = []" using assms(4) by (simp add: list_all_iff filter_empty_conv)
  moreover have "list_ex (list_ex (is_alphanumeric V)) ?lines"
    using assms(1-3) by (auto simp: list_ex_iff letters_lawful_def)
  moreover have "?lines \<noteq> []" using assms(2) by auto
  ultimately show ?thesis
    using assms(5,6) by (auto simp: letters_quality [OF assms(1)] judge_lines_def)
qed

lemma rendered_usable:
  assumes "letters_lawful V" "heading \<in> set (content_lines (cand_content c))"
    and "starts_with (lit ''#'') heading" "list_ex is_ascii_lowercase heading"
    and "list_all (\<lambda>l. \<not> is_link_item l) (content_lines (cand_content c))" "\<not> has_tables signals"
  shows "quality V c Markdown signals = Usable"
  using assms by (intro readable_usable) (auto simp: list_ex_iff)

lemma nav_quality:
  assumes "letters_lawful V"
  shows "a_navigation_only_result_is_poor_and_sends_the_chain_on V"
proof -
  have lines: "content_lines (cand_content nav_candidate) =
      map lit [''- [One](/1)'', ''- [Two](/2)'', ''- [Three](/3)'', ''- [Four](/4)'', ''- [Five](/5)'', ''- [Six](/6)'']"
    by (simp add: content_lines_alt nav_candidate_def page_text_def text_eval)
  have "is_alphanumeric V 110" using assms by (simp add: letters_lawful_def is_ascii_lowercase_def)
  then have "judge_lines V Markdown signals (content_lines (cand_content nav_candidate)) =
      Poor (lit ''navigation only'')" for signals
    unfolding lines by (simp add: judge_lines_def is_link_item_def text_eval)
  then show ?thesis
    by (simp add: a_navigation_only_result_is_poor_and_sends_the_chain_on_def letters_quality [OF assms])
qed

lemma docs_signals: "has_tables (signals_of DOCS)"
  by (simp add: signals_of_def Let_def DOCS_def page_text_def text_eval)

lemma prose_quality:
  assumes "letters_lawful V"
  shows "losing_a_table_the_source_had_is_poor_quality V"
proof -
  have lines: "content_lines (cand_content prose_candidate) = map lit [''# Configuration'', ''Some prose.'']"
    by (simp add: content_lines_alt prose_candidate_def page_text_def text_eval)
  have "is_alphanumeric V 110" using assms by (simp add: letters_lawful_def is_ascii_lowercase_def)
  then show ?thesis
    unfolding losing_a_table_the_source_had_is_poor_quality_def letters_quality [OF assms] lines
    by (simp add: judge_lines_def docs_signals text_eval)
qed

definition conversion_lawful :: "convert_lib \<Rightarrow> bool" where
  "conversion_lawful V \<longleftrightarrow> letters_lawful V \<and> renders V SHORT ''# Status'' [''All systems normal'']
     \<and> renders_docs V \<and> renders_article V"

lemma contained_part: "str_contains (a @ p @ b) s \<Longrightarrow> str_contains p s"
  unfolding str_contains_iff by (metis append_assoc)

lemma contained_char: "str_contains p s \<Longrightarrow> set p \<subseteq> set s"
  unfolding str_contains_iff by auto

lemma docs_markdown:
  assumes "conversion_lawful V"
  shows "native_conversion_keeps_the_structure_of_a_documentation_page V"
proof -
  obtain md cells where md: "to_markdown V DOCS Markdown Preset_Standard True = Some md"
      "lit ''# Configuration'' \<in> set (content_lines md)" "lit ''## Options'' \<in> set (content_lines md)"
      "lit ''service start --timeout 15s'' \<in> set (content_lines md)" "lit ''- First item'' \<in> set (content_lines md)"
      "lit ''| timeout'' @ cells \<in> set (content_lines md)" "str_contains (lit ''](https://example.com/manual)'') md"
      "uc CHR ''{'' \<notin> set md" "list_all (\<lambda>l. \<not> is_link_item l) (content_lines md)"
    using assms by (auto simp: conversion_lawful_def renders_docs_def)
  have "quality V \<lparr>cand_content = md, cand_method = Native\<rparr> Markdown (signals_of DOCS) = Usable"
  proof (rule readable_usable [where l = "lit ''# Configuration''"])
    have "starts_with (lit ''#'') (lit ''# Configuration'')" "starts_with (lit ''|'') (lit ''| timeout'' @ cells)"
      by (simp_all add: text_eval)
    then show "list_ex (starts_with (lit ''#'')) (content_lines (cand_content \<lparr>cand_content = md, cand_method = Native\<rparr>))"
        "list_ex (starts_with (lit ''|'')) (content_lines (cand_content \<lparr>cand_content = md, cand_method = Native\<rparr>))"
      using md(2,6) by (auto simp: list_ex_iff)
    show "list_ex is_ascii_lowercase (lit ''# Configuration'')" by (simp add: text_eval)
  qed (use assms md in \<open>simp_all add: conversion_lawful_def\<close>)
  moreover have "str_contains (lit ''First item'') md"
    by (rule contained_part [of "lit ''- ''" _ "[]"]) (use content_line_contained [OF md(5)] in \<open>simp add: lit_def\<close>)
  moreover have "str_contains (lit ''| timeout'') md"
    by (rule contained_part [of "[]" _ cells]) (use content_line_contained [OF md(6)] in simp)
  moreover have "\<not> str_contains (lit ''.x{}'') md"
    using md(8) contained_char [of "lit ''.x{}''" md] by (auto simp: lit_def)
  ultimately show ?thesis
    using md(1-4,7) content_line_contained
    by (simp add: native_conversion_keeps_the_structure_of_a_documentation_page_def native_cleanup_def candidate_of_def)
qed

lemma docs_plain_text:
  assumes "conversion_lawful V"
  shows "plain_text_output_carries_the_text_without_markup V"
proof -
  let ?line = "lit ''Set the values below before starting the service.''"
  obtain plain where plain: "to_markdown V DOCS Text Preset_Standard True = Some plain"
      "?line \<in> set (content_lines plain)" "uc CHR ''#'' \<notin> set plain"
      "list_all (\<lambda>l. \<not> is_link_item l) (content_lines plain)"
    using assms by (auto simp: conversion_lawful_def renders_docs_def)
  have "quality V \<lparr>cand_content = plain, cand_method = Native\<rparr> Text (signals_of DOCS) = Usable"
    by (rule readable_usable [where l = ?line])
       (use assms plain in \<open>simp_all add: conversion_lawful_def text_eval\<close>)
  moreover have "str_contains (lit ''Set the values below'') plain"
    by (rule contained_part [of "[]" _ "lit '' before starting the service.''"])
       (use content_line_contained [OF plain(2)] in \<open>simp add: lit_def\<close>)
  moreover have "\<not> str_contains (lit ''# Configuration'') plain"
    using plain(3) contained_char [of "lit ''# Configuration''" plain] by (auto simp: lit_def)
  ultimately show ?thesis
    using plain(1)
    by (simp add: plain_text_output_carries_the_text_without_markup_def native_cleanup_def candidate_of_def)
qed

lemma article_chain:
  assumes "conversion_lawful V"
  shows "every_converter_in_the_chain_produces_something_for_an_article V"
proof -
  have kept: "str_contains (lit ''main-content extractor'') md" if "str_contains article_line md" for md
    by (rule contained_part [of "lit ''This paragraph is long enough that a ''" _
          "lit '' recognises it as the body of''"])
       (use that in \<open>simp add: article_line_def lit_def\<close>)
  obtain view a b c where "readability V ARTICLE 50000 = Inr (Inr view)" "str_contains article_line view"
      "to_markdown V view Markdown Preset_Minimal False = Some a" "str_contains article_line a"
      "to_markdown V ARTICLE Markdown Preset_Standard True = Some b" "str_contains article_line b"
      "to_markdown V ARTICLE Markdown Preset_Minimal False = Some c" "str_contains article_line c"
    using assms by (auto simp: conversion_lawful_def renders_article_def keeps_article_line_def)
  moreover have "trim view \<noteq> []"
  proof
    assume blank: "trim view = []"
    obtain w v where "view = w @ trim view @ v" "list_all is_whitespace w" "list_all is_whitespace v"
      by (rule trim_parts)
    with blank have "list_all is_whitespace view" by (metis append_Nil list_all_append)
    moreover have "84 \<in> set view"
      using contained_char [OF \<open>str_contains article_line view\<close>] by (auto simp: article_line_def lit_def)
    ultimately show False by (auto simp: list_all_iff is_whitespace_def)
  qed
  ultimately show ?thesis
    by (simp add: every_converter_in_the_chain_produces_something_for_an_article_def CHAIN_def native_cleanup_def
        main_content_extraction_def plain_conversion_def extract_main_content_def candidate_of_def kept)
qed

lemma short_quality:
  assumes "conversion_lawful V"
  shows "a_short_page_is_not_poor_quality_merely_for_being_short V"
proof -
  obtain md where md: "to_markdown V SHORT Markdown Preset_Standard True = Some md"
    "lit ''# Status'' \<in> set (content_lines md)" "str_contains (lit ''All systems normal'') md"
    "list_all (\<lambda>l. \<not> is_link_item l) (content_lines md)"
    using assms by (auto simp: conversion_lawful_def renders_def)
  have "quality V \<lparr>cand_content = md, cand_method = Native\<rparr> Markdown (signals_of SHORT) = Usable"
    by (rule rendered_usable [where heading = "lit ''# Status''"])
       (use assms md in \<open>simp_all add: conversion_lawful_def signals_of_def Let_def SHORT_def text_eval\<close>)
  with md show ?thesis
    by (simp add: a_short_page_is_not_poor_quality_merely_for_being_short_def native_cleanup_def candidate_of_def)
qed

lemma convert_tests_hold: "conversion_lawful V \<Longrightarrow> convert_tests V"
  unfolding convert_tests_def
  by (intro conjI docs_markdown short_quality nav_quality prose_quality docs_plain_text article_chain)
     (simp_all add: conversion_lawful_def CHAIN_def native_cleanup_def main_content_extraction_def
        plain_conversion_def the_chain_is_native_cleanup_then_extraction_then_plain_conversion_def)

section \<open>A lawful set of libraries\<close>

definition test_gzip :: gzip where
  "test_gzip payload = Inr (if payload = bomb_payload then [0] else 1 # payload)"

definition test_inflate :: inflate_lib where
  "test_inflate =
     \<lparr>gz_decoder = (\<lambda>packed. case packed of
          [] \<Rightarrow> \<lparr>yields = [], breaks = True\<rparr>
        | tag # payload \<Rightarrow>
            if tag = 0 then \<lparr>yields = bomb_payload, breaks = False\<rparr>
            else if tag = 1 then \<lparr>yields = payload, breaks = False\<rparr>
            else \<lparr>yields = [], breaks = True\<rparr>),
      zlib_decoder = (\<lambda>_. \<lparr>yields = [], breaks = True\<rparr>)\<rparr>"

lemma test_gzip_lawful: "gzip_lawful test_inflate test_gzip"
  by (auto simp: gzip_lawful_def test_gzip_def test_inflate_def no_gzip_def lit_def utf8_char_def)

datatype test_encoding = Enc_Utf8 | Enc_Latin1 | Enc_Utf16le | Enc_Utf16be

fun low_bytes :: "bytes \<Rightarrow> str" where
  "low_bytes (low # high # rest) = unat low # low_bytes rest"
| "low_bytes rest = []"

definition test_charsets :: "test_encoding encoding_lib" where
  "test_charsets =
     \<lparr>for_bom = (\<lambda>bs. if take 3 bs = [0xef, 0xbb, 0xbf] then Some (Enc_Utf8, 3)
        else if take 2 bs = [0xff, 0xfe] then Some (Enc_Utf16le, 2)
        else if take 2 bs = [0xfe, 0xff] then Some (Enc_Utf16be, 2) else None),
      for_label = (\<lambda>l. if l = utf8 (lit ''utf-8'') then Some Enc_Utf8
        else if l = utf8 (lit ''iso-8859-1'') then Some Enc_Latin1 else None),
      decode_marked = (\<lambda>e bs. (low_bytes bs, odd (length bs))),
      decode_strict = (\<lambda>e. if e = Enc_Utf8 then from_utf8 else (\<lambda>bs. Some (map unat bs)))\<rparr>"

lemma low_bytes_ascii:
  "list_all is_ascii s \<Longrightarrow> low_bytes (concat (map (\<lambda>c. [word_of_nat c, 0]) s)) = s"
  by (induction s) (simp_all add: is_ascii_def unat_of_nat)

lemma test_charsets_lawful: "charsets_lawful test_charsets"
  unfolding charsets_lawful_def
proof (intro conjI)
  show "utf8_lawful test_charsets" by (simp add: utf8_lawful_def test_charsets_def)
  have "even (length (concat (map (\<lambda>c. [word_of_nat c, 0 :: u8]) s)))" for s :: str
    by (induction s) simp_all
  then show "\<exists>utf8_marked utf16le utf16be.
       (\<forall>bs. for_bom test_charsets bs =
             (if take 3 bs = [0xef, 0xbb, 0xbf] then Some (utf8_marked, 3)
              else if take 2 bs = [0xff, 0xfe] then Some (utf16le, 2)
              else if take 2 bs = [0xfe, 0xff] then Some (utf16be, 2) else None))
       \<and> (\<forall>s. list_all is_ascii s \<longrightarrow>
            decode_marked test_charsets utf16le (concat (map (\<lambda>c. [word_of_nat c, 0]) s)) = (s, False))
       \<and> (\<forall>bs. odd (length bs) \<longrightarrow> snd (decode_marked test_charsets utf16le bs))"
    by (intro exI [of _ Enc_Utf8] exI [of _ Enc_Utf16le] exI [of _ Enc_Utf16be])
       (simp add: test_charsets_def low_bytes_ascii)
  have "utf8 (lit ''iso-8859-1'') \<noteq> utf8 (lit ''utf-8'')" by (simp add: lit_def utf8_char_def)
  then show "\<exists>latin1. for_label test_charsets (utf8 (lit ''iso-8859-1'')) = Some latin1
          \<and> (\<forall>bs. list_all (\<lambda>b. b < 0x80 \<or> 0xa0 \<le> b) bs \<longrightarrow>
               decode_strict test_charsets latin1 bs = Some (map unat bs))"
    by (simp add: test_charsets_def)
qed

text \<open>An engine that reports the inputs \<open>bad\<close> picks, and a bundle of five rules.\<close>

definition test_yara :: "(bytes \<Rightarrow> bool) \<Rightarrow> (unit, unit) yara_lib" where
  "test_yara bad =
     \<lparr>compiler_new = (), enable_includes = (\<lambda>c _. c),
      add_source = (\<lambda>c source. if source = broken_rule then Inl [] else Inr c),
      compiler_build = (\<lambda>c. c),
      yara_scan = (\<lambda>_ _ _ data. if bad data then Inr [lit ''rule''] else Inr [])\<rparr>"

definition test_manifest_json :: "str \<Rightarrow> str + bundle_manifest" where
  "test_manifest_json raw = Inr \<lparr>manifest_version = 1, manifest_policy_id = lit ''web-content-v1'',
     manifest_description = [], manifest_maintenance = []\<rparr>"

definition test_rules :: bundle_dir where
  "test_rules =
     \<lparr>dir_name = Some (lit ''web-content-v1''), dir_manifest = Inr [],
      dir_entries = Inr (map (\<lambda>n. Inr (utf8 (lit n))) (''bundle.json'' # shipped_rule_files)),
      dir_source = (\<lambda>_. Inr (10 # lit ''rule '')), dir_elapsed = 0\<rparr>"

lemma test_rules_shipped: "shipped_bundle (test_yara bad) test_manifest_json test_rules"
proof -
  have "10 # lit ''rule '' \<noteq> broken_rule" by (simp add: broken_rule_def lit_def)
  then show ?thesis
    by (auto simp: shipped_bundle_def test_rules_def test_manifest_json_def test_yara_def
        intro!: exI [of _ "[]"])
qed

lemma test_detection_lawful:
  assumes "\<not> bad (replicate MAX_SCAN_INPUT_BYTES 97)" "\<And>bs. length (H bs) = 32"
  shows "detection_lawful (test_yara bad) H test_manifest_json test_rules"
  unfolding detection_lawful_def using assms test_rules_shipped [of bad]
  by (simp add: test_yara_def)

text \<open>A converter that knows its pages.\<close>

definition test_convert :: "(str \<times> str) list \<Rightarrow> convert_lib" where
  "test_convert pages = ascii_lib\<lparr>html_convert := \<lambda>html options. Inr (map_of pages html)\<rparr>"

lemma test_letters_lawful: "letters_lawful (test_convert pages)"
  using ascii_lib_alphanumeric
  by (auto simp: letters_lawful_def test_convert_def ascii_lib_def)

lemma test_renders:
  assumes "map_of pages html = Some md" "lit heading \<in> set (content_lines md)"
    and "\<forall>t \<in> set texts. str_contains (lit t) md"
    and "list_all (\<lambda>l. \<not> is_link_item l) (content_lines md)" "byte_len md \<le> byte_len html"
  shows "renders (test_convert pages) html heading texts"
  using assms by (simp add: renders_def to_markdown_def test_convert_def)

definition short_markdown :: str where
  "short_markdown = page_text [''# Status'', [], ''All systems normal.'']"

text \<open>The converter of these tests knows the page in Markdown and as plain text, and the article with
  its reader view.\<close>

definition docs_markdown_text :: str where
  "docs_markdown_text = page_text
     [''# Configuration'', [], ''Set the values below before starting the service.'', [], ''## Options'', [],
      ''| timeout | 15s |'', ''| retries | 3 |'', [], ''service start --timeout 15s'', [],
      ''- First item'', ''- Second item'', [], ''See [the manual](https://example.com/manual) for details.'']"

definition docs_plain :: str where
  "docs_plain = page_text [''Configuration'', [], ''Set the values below before starting the service.'']"

definition tests_convert :: convert_lib where
  "tests_convert = ascii_lib
     \<lparr>html_convert := \<lambda>html options. Inr
        (if html = DOCS \<and> output_format options = Output_Plain then Some docs_plain
         else map_of [(SHORT, short_markdown), (DOCS, docs_markdown_text), (ARTICLE, article_line),
            (article_line, article_line)] html),
      readability := \<lambda>_ _. Inr (Inr article_line)\<rparr>"

lemma test_pages_differ:
  "SHORT \<noteq> DOCS" "SHORT \<noteq> ARTICLE" "SHORT \<noteq> article_line" "DOCS \<noteq> ARTICLE" "DOCS \<noteq> article_line"
  "ARTICLE \<noteq> article_line"
  by (simp_all add: SHORT_def DOCS_def ARTICLE_def article_line_def page_text_def lit_def)

lemma docs_lines:
  "content_lines docs_markdown_text = map lit
     [''# Configuration'', ''Set the values below before starting the service.'', ''## Options'',
      ''| timeout | 15s |'', ''| retries | 3 |'', ''service start --timeout 15s'',
      ''- First item'', ''- Second item'', ''See [the manual](https://example.com/manual) for details.'']"
  "content_lines docs_plain = map lit [''Configuration'', ''Set the values below before starting the service.'']"
  by (simp_all add: content_lines_alt docs_markdown_text_def docs_plain_def page_text_def text_eval)

lemma tests_convert_letters: "letters_lawful tests_convert"
  using ascii_lib_alphanumeric by (auto simp: letters_lawful_def tests_convert_def ascii_lib_def)

lemma tests_convert_docs: "renders_docs tests_convert"
proof -
  have "lit ''| timeout'' @ lit '' | 15s |'' \<in> set (content_lines docs_markdown_text)"
    by (simp add: docs_lines lit_def)
  moreover have "str_contains (lit ''](https://example.com/manual)'') docs_markdown_text"
    by (rule contained_part [of "lit ''See [the manual''" _ "lit '' for details.''"])
       (use content_line_contained [of "lit ''See [the manual](https://example.com/manual) for details.''" docs_markdown_text]
         in \<open>simp add: docs_lines lit_def\<close>)
  moreover have "uc CHR ''{'' \<notin> set docs_markdown_text" "uc CHR ''#'' \<notin> set docs_plain"
    by (simp_all add: docs_markdown_text_def docs_plain_def page_text_def lit_def)
  moreover have "list_all (\<lambda>l. \<not> is_link_item l) (content_lines docs_markdown_text)"
      "list_all (\<lambda>l. \<not> is_link_item l) (content_lines docs_plain)"
    by (simp_all add: docs_lines is_link_item_def text_eval)
  ultimately show ?thesis
    using test_pages_differ
    by (auto simp: renders_docs_def tests_convert_def to_markdown_def docs_lines)
qed

lemma tests_convert_article: "renders_article tests_convert"
proof -
  have "str_contains article_line article_line" unfolding str_contains_iff by (metis append_Nil append_Nil2)
  then show ?thesis
    using test_pages_differ
    by (auto simp: renders_article_def keeps_article_line_def tests_convert_def to_markdown_def)
qed

lemma tests_conversion_lawful: "conversion_lawful tests_convert"
proof -
  have "content_lines short_markdown = [lit ''# Status'', lit ''All systems normal.'']"
    by (simp add: content_lines_alt short_markdown_def page_text_def text_eval)
  moreover have "list_all (\<lambda>l. \<not> is_link_item l) [lit ''# Status'', lit ''All systems normal.'']"
    by (simp add: is_link_item_def text_eval)
  moreover have "str_contains (lit ''All systems normal'') short_markdown"
    by (simp add: short_markdown_def page_text_def text_eval)
  moreover have "byte_len short_markdown \<le> byte_len SHORT"
    by (simp add: short_markdown_def SHORT_def page_text_def text_eval)
  ultimately have "renders tests_convert SHORT ''# Status'' [''All systems normal'']"
    using test_pages_differ by (simp add: renders_def to_markdown_def tests_convert_def)
  then show ?thesis
    by (simp add: conversion_lawful_def tests_convert_letters tests_convert_docs tests_convert_article)
qed

section \<open>Property\<close>



end
