(* ===== verification/Session_Runs.thy ===== *)
theory Session_Runs
  imports Session_Facts
begin

text \<open>
  A small calculus for how a session ends when the clock stays below the deadline, the engine
  answers, and the budget is enough: the possible results of each transition, and how they
  compose. What the engine reports is known input by input.
\<close>

section \<open>Results of a part of a session\<close>

definition alert ::
    "('c, 'k, 'e, 't) inspect_env \<Rightarrow> (nat \<Rightarrow> bytes \<Rightarrow> unit + str list) \<Rightarrow> nat \<Rightarrow> 'k inspection \<Rightarrow> bool" where
  "alert W report n s \<longleftrightarrow>
     (\<forall>k. in_elapsed W k < insp_deadline s) \<and> session_report W s = report
     \<and> n \<le> remaining_bytes (insp_detector s)"

lemma session_report_fun:
  "session_report W s =
     yara_scan (in_yara W) (det_rules (insp_detector s)) (det_config (insp_detector s))"
  by (simp add: fun_eq_iff session_report_def)

text \<open>\<open>ends W report m n X\<close>: with \<open>n\<close> bytes to spend, \<open>m\<close> ends with a result in \<open>X\<close>, and if that is no
  stop, everything not spent is left.\<close>

definition ends ::
    "('c, 'k, 'e, 't) inspect_env \<Rightarrow> (nat \<Rightarrow> bytes \<Rightarrow> unit + str list) \<Rightarrow> ('k, 'a) session_step \<Rightarrow> nat
       \<Rightarrow> (stop + 'a) set \<Rightarrow> bool" where
  "ends W report m n X \<longleftrightarrow>
     (\<forall>s k. alert W report (n + k) s \<longrightarrow>
        (case m s of (r, s') \<Rightarrow> r \<in> X \<and> (is_ok r \<longrightarrow> alert W report k s')))"

definition rejections :: "(stop + 'a) set" where
  "rejections = {Inl (stop_rejected rules) |rules. rules \<noteq> []}"

lemma rejections_iff: "r \<in> rejections \<longleftrightarrow> (\<exists>rules. rules \<noteq> [] \<and> r = Inl (stop_rejected rules))"
  by (auto simp: rejections_def)

lemma endsD:
  assumes "ends W report m n X" "alert W report n s" "m s = (r, s')"
  shows "r \<in> X"
  using assms unfolding ends_def by (metis (mono_tags, lifting) add.right_neutral case_prod_conv)

named_theorems ends_rules \<open>the results of the steps a session is made of\<close>

lemma ends_bind:
  assumes "ends W report m n X" "\<And>x. Inr x \<in> X \<Longrightarrow> ends W report (f x) n' Y"
    and "\<And>e. Inl e \<in> X \<Longrightarrow> Inl e \<in> Y"
  shows "ends W report (bind_step m f) (n + n') Y"
  unfolding ends_def
proof (intro allI impI)
  fix s k assume "alert W report (n + n' + k) s"
  then have alert: "alert W report (n + (n' + k)) s" by (simp add: add.assoc)
  obtain r s1 where run: "m s = (r, s1)" by (cases "m s")
  with assms(1) alert have r: "r \<in> X" "is_ok r \<Longrightarrow> alert W report (n' + k) s1"
    unfolding ends_def by fastforce+
  show "case bind_step m f s of (r, s') \<Rightarrow> r \<in> Y \<and> (is_ok r \<longrightarrow> alert W report k s')"
  proof (cases r)
    case (Inl e)
    then show ?thesis using assms(3) r(1) run by (simp add: bind_step_def)
  next
    case (Inr x)
    then show ?thesis using assms(2) [of x] r run by (simp add: bind_step_def ends_def)
  qed
qed

lemma ends_then [ends_rules]:
  assumes "ends W report m n {Inr x}" "ends W report (f x) n' Y"
  shows "ends W report (bind_step m f) (n + n') Y"
  using assms(1) by (rule ends_bind) (use assms(2) in auto)

lemma ends_pure [ends_rules]: "ends W report (pure_step x) 0 {Inr x}"
  by (simp add: ends_def pure_step_def)

lemma ends_lift [ends_rules]: "ends W report (lift_step r) 0 {r}"
  by (simp add: ends_def lift_step_def)

lemma ends_telemetry [ends_rules]: "ends W report (record_telemetry f) 0 {Inr ()}"
  by (simp add: ends_def record_telemetry_def modify_step_def alert_def session_report_fun)

lemma ends_deadline [ends_rules]: "ends W report (check_deadline W st) 0 {Inr ()}"
  by (auto simp: ends_def check_deadline_def Let_def alert_def session_report_fun not_le [symmetric])

lemma ends_scan:
  assumes "\<And>n. is_ok (report n data)"
  shows "ends W report (inspection_scan W data) (length data) (insert (Inr ()) rejections)"
    and "(\<And>n. report n data \<noteq> Inr []) \<Longrightarrow> ends W report (inspection_scan W data) (length data) rejections"
    and "(\<And>n. report n data = Inr []) \<Longrightarrow> ends W report (inspection_scan W data) (length data) {Inr ()}"
proof -
  have scan: "case inspection_scan W data s of (r, s') \<Rightarrow>
      (if report (length (scanned s)) data = Inr [] then r = Inr () else r \<in> rejections)
      \<and> alert W report k s'"
    if alert: "alert W report (length data + k) s" for s k
  proof -
    obtain rules where rules: "report (length (scanned s)) data = Inr rules"
      using assms [of "length (scanned s)"] by (auto simp: is_ok_iff)
    have fits: "length data \<le> remaining_bytes (insp_detector s)" using alert by (simp add: alert_def)
    have answer: "yara_scan (in_yara W) (det_rules (insp_detector s)) (det_config (insp_detector s))
        (length (det_history (insp_detector s))) data = Inr rules"
      using alert rules by (auto simp: alert_def session_report_fun scanned_def)
    have scanned: "detector_scan (in_yara W) data (insp_detector s) =
       (Inr (if take MAX_SCAN_MATCHES rules = [] then NoMatch else Match (take MAX_SCAN_MATCHES rules)),
        (insp_detector s)\<lparr>remaining_bytes := remaining_bytes (insp_detector s) - length data,
          scans := scans (insp_detector s) + 1,
          det_history := det_history (insp_detector s) @ [data]\<rparr>)"
      using fits answer by (simp add: detector_scan_def checked_sub_def Let_def)
    have "Inl (stop_rejected (take MAX_SCAN_MATCHES rules)) \<in> rejections" if "rules \<noteq> []"
      unfolding rejections_iff
      by (rule exI [of _ "take MAX_SCAN_MATCHES rules"]) (simp add: that MAX_SCAN_MATCHES_def)
    then show ?thesis
      using alert rules scanned
      by (auto simp: inspection_scan_def alert_def session_report_fun scanned_def MAX_SCAN_MATCHES_def)
  qed
  from scan show "ends W report (inspection_scan W data) (length data) (insert (Inr ()) rejections)"
    unfolding ends_def by (fastforce split: if_splits)
  from scan show "(\<And>n. report n data \<noteq> Inr []) \<Longrightarrow> ends W report (inspection_scan W data) (length data) rejections"
    unfolding ends_def by fastforce
  from scan show "(\<And>n. report n data = Inr []) \<Longrightarrow> ends W report (inspection_scan W data) (length data) {Inr ()}"
    unfolding ends_def by fastforce
qed

lemma ends_eq: "ends W report m n X \<Longrightarrow> n = n' \<Longrightarrow> ends W report m n' X"
  by simp

lemma ends_weaken: "ends W report m n X \<Longrightarrow> X \<subseteq> Y \<Longrightarrow> ends W report m n Y"
  unfolding ends_def by fastforce

lemma ends_less: "ends W report m n X \<Longrightarrow> n \<le> n' \<Longrightarrow> ends W report m n' X"
  unfolding ends_def
proof (intro allI impI)
  fix s k
  assume m: "\<forall>s k. alert W report (n + k) s \<longrightarrow>
        (case m s of (r, s') \<Rightarrow> r \<in> X \<and> (is_ok r \<longrightarrow> alert W report k s'))"
    and le: "n \<le> n'" and "alert W report (n' + k) s"
  then have alert: "alert W report (n + (n' - n + k)) s" by simp
  have "case m s of (r, s') \<Rightarrow> r \<in> X \<and> (is_ok r \<longrightarrow> alert W report (n' - n + k) s')"
    by (rule m [rule_format, OF alert])
  then show "case m s of (r, s') \<Rightarrow> r \<in> X \<and> (is_ok r \<longrightarrow> alert W report k s')"
    by (auto simp: alert_def)
qed

section \<open>The transitions\<close>

text \<open>What decoding makes of a received response.\<close>

definition wire_result :: "('c, 'k, 'e, 't) inspect_env \<Rightarrow> received \<Rightarrow> stop + decoded" where
  "wire_result W r =
     map_err stop_not_run
       (and_then (decode_content_encoding (in_inflate W) (rcv_body r) (art_content_encoding (rcv_artifact r)))
         (\<lambda>bs. map_ok (\<lambda>text. \<lparr>dec_artifact = rcv_artifact r, dec_media = rcv_media r, dec_text = text\<rparr>)
           (decode_charset (in_charsets W) bs (rcv_media r))))"

definition wire_inputs :: "received \<Rightarrow> bytes list" where
  "wire_inputs r = [rcv_body r, utf8 (art_final_url (rcv_artifact r)), utf8 (header_value (rcv_media r))]"

text \<open>A sequence of scans.\<close>

fun scans_then :: "('c, 'k, 'e, 't) inspect_env \<Rightarrow> bytes list \<Rightarrow> ('k, 'a) session_step \<Rightarrow> ('k, 'a) session_step" where
  "scans_then W [] m = m"
| "scans_then W (data # inputs) m = bind_step (inspection_scan W data) (\<lambda>_. scans_then W inputs m)"

lemma ends_scans_quiet:
  assumes "\<forall>data \<in> set inputs. \<forall>n. report n data = Inr []" "ends W report m k X"
  shows "ends W report (scans_then W inputs m) (sum_list (map length inputs) + k) X"
  using assms(1)
proof (induction inputs)
  case (Cons data inputs)
  have "ends W report (inspection_scan W data) (length data) {Inr ()}"
    using Cons.prems by (intro ends_scan(3)) auto
  from ends_bind [OF this, of "\<lambda>_. scans_then W inputs m" _ X] Cons
  show ?case by (simp add: add.assoc)
qed (simp add: assms(2))

lemma ends_scans_any:
  assumes "\<And>n data. is_ok (report n data)" "ends W report m k X"
  shows "ends W report (scans_then W inputs m) (sum_list (map length inputs) + k) (X \<union> rejections)"
proof (induction inputs)
  case (Cons data inputs)
  have "ends W report (inspection_scan W data) (length data) (insert (Inr ()) rejections)"
    using assms(1) by (rule ends_scan(1))
  from ends_bind [OF this, of "\<lambda>_. scans_then W inputs m" _ "X \<union> rejections"] Cons
  show ?case by (simp add: add.assoc) (auto simp: rejections_iff)
qed (simp add: ends_weaken [OF assms(2)])

lemma ends_scans_hit:
  assumes "\<And>n data. is_ok (report n data)" "\<exists>data \<in> set inputs. \<forall>n. report n data \<noteq> Inr []"
  shows "ends W report (scans_then W inputs m) (sum_list (map length inputs)) rejections"
  using assms(2)
proof (induction inputs)
  case (Cons data inputs)
  show ?case
  proof (cases "\<forall>n. report n data \<noteq> Inr []")
    case True
    then have "ends W report (inspection_scan W data) (length data) rejections"
      using assms(1) by (intro ends_scan(2)) auto
    from ends_bind [OF this, of "\<lambda>_. scans_then W inputs m" "sum_list (map length inputs)" rejections]
    show ?thesis by (simp add: rejections_iff)
  next
    case False
    then have "ends W report (scans_then W inputs m) (sum_list (map length inputs)) rejections"
      using Cons by auto
    moreover have "ends W report (inspection_scan W data) (length data) (insert (Inr ()) rejections)"
      using assms(1) by (rule ends_scan(1))
    ultimately show ?thesis
      using ends_bind [of W report "inspection_scan W data" "length data" "insert (Inr ()) rejections"
          "\<lambda>_. scans_then W inputs m" "sum_list (map length inputs)" rejections]
      by (simp add: rejections_iff)
  qed
qed simp

lemma scan_wire_scans:
  "scan_wire W r = bind_step (check_deadline W Insp_NotRun) (\<lambda>_. scans_then W (wire_inputs r)
     (bind_step (lift_step (map_err stop_not_run
          (decode_content_encoding (in_inflate W) (rcv_body r) (art_content_encoding (rcv_artifact r))))) (\<lambda>bs.
      bind_step (lift_step (map_err stop_not_run (decode_charset (in_charsets W) bs (rcv_media r)))) (\<lambda>text.
      bind_step (record_telemetry (\<lambda>t. t\<lparr>tel_decoded_bytes := Some (length bs)\<rparr>)) (\<lambda>_.
        pure_step \<lparr>dec_artifact = rcv_artifact r, dec_media = rcv_media r, dec_text = text\<rparr>)))))"
  by (simp add: scan_wire_def wire_inputs_def Let_def)

definition text_inputs :: "str \<Rightarrow> bytes list" where
  "text_inputs seen = [utf8 seen, utf8 (decode_entities seen), utf8 (deobfuscate (decode_entities seen))]"

lemma scan_text_scans:
  "scan_text W d = bind_step (check_deadline W Insp_Failed) (\<lambda>_. scans_then W (text_inputs (dec_text d))
     (pure_step \<lparr>nrm_artifact = dec_artifact d, nrm_media = dec_media d, nrm_text = dec_text d\<rparr>))"
  by (simp add: scan_text_def text_inputs_def Let_def)

lemma ends_decode:
  "ends W report
     (bind_step (lift_step (map_err stop_not_run
          (decode_content_encoding (in_inflate W) (rcv_body r) (art_content_encoding (rcv_artifact r))))) (\<lambda>bs.
      bind_step (lift_step (map_err stop_not_run (decode_charset (in_charsets W) bs (rcv_media r)))) (\<lambda>text.
      bind_step (record_telemetry (\<lambda>t. t\<lparr>tel_decoded_bytes := Some (length bs)\<rparr>)) (\<lambda>_.
        pure_step \<lparr>dec_artifact = rcv_artifact r, dec_media = rcv_media r, dec_text = text\<rparr>)))) 0 {wire_result W r}"
proof (cases "decode_content_encoding (in_inflate W) (rcv_body r) (art_content_encoding (rcv_artifact r))")
  case (Inl e)
  then show ?thesis by (simp add: wire_result_def ends_def bind_step_def lift_step_def)
next
  case (Inr bs)
  then show ?thesis
    by (cases "decode_charset (in_charsets W) bs (rcv_media r)")
       (simp_all add: wire_result_def ends_def bind_step_def lift_step_def record_telemetry_def
         modify_step_def pure_step_def alert_def session_report_fun)
qed

text \<open>The first three passes, and the three over the text, when all inputs are clean, when any may
  match, and when one does.\<close>

lemma ends_wire:
  shows "\<forall>data \<in> set (wire_inputs r). \<forall>n. report n data = Inr [] \<Longrightarrow>
      ends W report (scan_wire W r) (sum_list (map length (wire_inputs r))) {wire_result W r}"
    and "(\<And>n data. is_ok (report n data)) \<Longrightarrow>
      ends W report (scan_wire W r) (sum_list (map length (wire_inputs r))) (insert (wire_result W r) rejections)"
    and "(\<And>n data. is_ok (report n data)) \<Longrightarrow> \<exists>data \<in> set (wire_inputs r). \<forall>n. report n data \<noteq> Inr [] \<Longrightarrow>
      ends W report (scan_wire W r) (sum_list (map length (wire_inputs r))) rejections"
proof -
  have start: "ends W report (scan_wire W r) n X"
    if "ends W report (scans_then W (wire_inputs r)
     (bind_step (lift_step (map_err stop_not_run
          (decode_content_encoding (in_inflate W) (rcv_body r) (art_content_encoding (rcv_artifact r))))) (\<lambda>bs.
      bind_step (lift_step (map_err stop_not_run (decode_charset (in_charsets W) bs (rcv_media r)))) (\<lambda>text.
      bind_step (record_telemetry (\<lambda>t. t\<lparr>tel_decoded_bytes := Some (length bs)\<rparr>)) (\<lambda>_.
        pure_step \<lparr>dec_artifact = rcv_artifact r, dec_media = rcv_media r, dec_text = text\<rparr>))))) n X" for n X
    unfolding scan_wire_scans by (rule ends_eq, rule ends_then [OF ends_deadline], rule that) simp
  note decode = ends_decode [of W report r]
  show "\<forall>data \<in> set (wire_inputs r). \<forall>n. report n data = Inr [] \<Longrightarrow>
      ends W report (scan_wire W r) (sum_list (map length (wire_inputs r))) {wire_result W r}"
    by (rule start, drule ends_scans_quiet [OF _ decode]) simp
  show "ends W report (scan_wire W r) (sum_list (map length (wire_inputs r))) (insert (wire_result W r) rejections)"
    if "\<And>n data. is_ok (report n data)"
    using ends_scans_any [OF that decode, of "wire_inputs r"] by (intro start) simp
  show "ends W report (scan_wire W r) (sum_list (map length (wire_inputs r))) rejections"
    if "\<And>n data. is_ok (report n data)" "\<exists>data \<in> set (wire_inputs r). \<forall>n. report n data \<noteq> Inr []"
    by (rule start) (rule ends_scans_hit [OF that])
qed

lemma ends_text:
  shows "\<forall>data \<in> set (text_inputs (dec_text d)). \<forall>n. report n data = Inr [] \<Longrightarrow>
      ends W report (scan_text W d) (sum_list (map length (text_inputs (dec_text d))))
        {Inr \<lparr>nrm_artifact = dec_artifact d, nrm_media = dec_media d, nrm_text = dec_text d\<rparr>}"
    and "(\<And>n data. is_ok (report n data)) \<Longrightarrow>
      \<exists>data \<in> set (text_inputs (dec_text d)). \<forall>n. report n data \<noteq> Inr [] \<Longrightarrow>
      ends W report (scan_text W d) (sum_list (map length (text_inputs (dec_text d)))) rejections"
proof -
  let ?n = "\<lparr>nrm_artifact = dec_artifact d, nrm_media = dec_media d, nrm_text = dec_text d\<rparr>"
  have start: "ends W report (scan_text W d) n X"
    if "ends W report (scans_then W (text_inputs (dec_text d)) (pure_step ?n)) n X" for n X
    unfolding scan_text_scans by (rule ends_eq, rule ends_then [OF ends_deadline], rule that) simp
  show "\<forall>data \<in> set (text_inputs (dec_text d)). \<forall>n. report n data = Inr [] \<Longrightarrow>
      ends W report (scan_text W d) (sum_list (map length (text_inputs (dec_text d)))) {Inr ?n}"
    by (rule start, drule ends_scans_quiet [OF _ ends_pure]) simp
  show "ends W report (scan_text W d) (sum_list (map length (text_inputs (dec_text d)))) rejections"
    if "\<And>n data. is_ok (report n data)" "\<exists>data \<in> set (text_inputs (dec_text d)). \<forall>n. report n data \<noteq> Inr []"
    by (rule start) (rule ends_scans_hit [OF that])
qed

text \<open>Opening scans nothing.\<close>

definition open_result :: "handed \<Rightarrow> stop + received" where
  "open_result handed =
     (case handed of
        Handed_Failed c \<Rightarrow> Inl (stop_not_run c)
      | Handed_Fetched a body \<Rightarrow>
          and_then (ok_or (stop_not_run UnsupportedContent) (art_content_type a)) (\<lambda>declared.
          and_then (map_err (\<lambda>_. stop_not_run UnsupportedContent) (media_parse declared)) (\<lambda>media.
            if \<not> is_supported media then Inl (stop_not_run UnsupportedContent)
            else Inr \<lparr>rcv_artifact = a, rcv_media = media, rcv_body = body\<rparr>)))"

lemma ends_open: "ends W report (received_open handed) 0 {open_result handed}"
proof (cases handed)
  case (Handed_Failed c)
  then show ?thesis by (simp add: received_open_def open_result_def ends_lift)
next
  case (Handed_Fetched a body)
  then show ?thesis
    unfolding received_open_def open_result_def Handed_Fetched handed.case
    by (intro ends_eq [OF ends_then [OF ends_telemetry ends_lift]]) simp_all
qed

text \<open>Conversion and release of a clean candidate.\<close>

lemma ends_inspected:
  assumes "\<And>k. report k (utf8 (nrm_text n)) = Inr []"
  shows "ends W report (normalized_inspected W n m) (byte_len (nrm_text n))
    {Inr \<lparr>ins_artifact = nrm_artifact n, ins_media = nrm_media n,
      ins_candidate = \<lparr>cand_content = nrm_text n, cand_method = m\<rparr>\<rparr>}"
proof -
  have "ends W report (inspection_scan W (utf8 (nrm_text n))) (length (utf8 (nrm_text n))) {Inr ()}"
    using assms by (intro ends_scan(3)) auto
  then show ?thesis
    unfolding normalized_inspected_def Let_def
    by (intro ends_eq [OF ends_then [OF _ ends_pure]]) simp_all
qed

lemma ends_native:
  assumes "is_html (nrm_media n)" "art_format (nrm_artifact n) \<noteq> Html"
    and "to_markdown (in_convert W) (nrm_text n) (art_format (nrm_artifact n)) Preset_Standard True = Some content"
    and "quality (in_convert W) \<lparr>cand_content = content, cand_method = Native\<rparr> (art_format (nrm_artifact n))
      (signals_of (nrm_text n)) = Usable"
    and "\<And>k. report k (utf8 content) = Inr []"
  shows "ends W report (normalized_convert W (CHAIN (in_convert W)) n) (byte_len content)
    {Inr \<lparr>ins_artifact = nrm_artifact n, ins_media = nrm_media n,
      ins_candidate = \<lparr>cand_content = content, cand_method = Native\<rparr>\<rparr>}"
proof -
  let ?c = "\<lparr>cand_content = content, cand_method = Native\<rparr>"
  have native: "conv_convert (native_cleanup (in_convert W)) (nrm_text n) (art_format (nrm_artifact n)) = Some ?c"
    using assms(3) by (simp add: native_cleanup_def candidate_of_def)
  have "ends W report (inspection_scan W (utf8 content)) (length (utf8 content)) {Inr ()}"
    using assms(5) by (intro ends_scan(3)) auto
  then have "ends W report (bind_step (inspection_scan W (utf8 content)) (\<lambda>_. pure_step ?c)) (byte_len content) {Inr ?c}"
    by (intro ends_eq [OF ends_then [OF _ ends_pure]]) simp_all
  then have "ends W report (convert_loop W (nrm_text n) (art_format (nrm_artifact n)) (signals_of (nrm_text n))
      (CHAIN (in_convert W)) None) (byte_len content) {Inr ?c}"
    unfolding CHAIN_def
    by (simp add: native assms(4)) (intro ends_eq [OF ends_then [OF ends_deadline]], simp_all)
  then show ?thesis
    using assms(1,2) unfolding normalized_convert_def
    by (simp, intro ends_eq [OF ends_then [OF _ ends_pure]]) simp_all
qed

lemma bind_lift_Ok: "bind_step (lift_step (Inr x)) f = f x"
  by (simp add: fun_eq_iff bind_step_def lift_step_def)

lemma ends_release:
  assumes "released W (ins_artifact i) (ins_media i) (ins_candidate i) d"
    and "\<And>k. report k (utf8 (combined d)) = Inr []"
  shows "ends W report (release W i) (byte_len (combined d)) {Inr d}"
proof -
  let ?a = "ins_artifact i" and ?c = "ins_candidate i"
  let ?out = "\<lparr>source_id = art_source_id ?a, final_url = art_final_url ?a,
      http_status = art_http_status ?a, content_type = header_value (ins_media i),
      retrieved_at = retrieved_at d, data_format = art_format ?a,
      data_method = cand_method ?c, data_content = cand_content ?c\<rparr>"
  from assms(1) obtain at where time: "rfc3339_parse (in_time W) (art_retrieved_at ?a) = Some at"
    "rfc3339_format (in_time W) at = Some (retrieved_at d)" "\<not> length (cand_content ?c) > MAX_CONTENT_CHARS"
    by (auto simp: released_def)
  have out: "?out = d" using assms(1) by (simp add: released_def)
  have "ends W report (inspection_scan W (utf8 (combined d))) (length (utf8 (combined d))) {Inr ()}"
    using assms(2) by (intro ends_scan(3)) auto
  then have "ends W report
      (bind_step (check_deadline W Insp_Failed) (\<lambda>_.
       bind_step (inspection_scan W (utf8 (combined d))) (\<lambda>_.
       bind_step (record_telemetry f) (\<lambda>_. pure_step d)))) (byte_len (combined d)) {Inr d}" for f
    by (intro ends_eq [OF ends_then [OF ends_deadline ends_then [OF _ ends_then [OF ends_telemetry ends_pure]]]])
      simp_all
  then show ?thesis
    using time by (simp add: release_def Let_def out bind_lift_Ok)
qed

section \<open>Whole sessions\<close>

lemma session_ends_stop:
  "open_result handed = Inl e \<Longrightarrow> ends W report (session_run W chain handed) 0 {Inl e}"
  unfolding session_run_def
  by (rule ends_eq, rule ends_bind [OF ends_open, where n' = 0]) auto

lemma session_ends_undecoded:
  assumes "open_result handed = Inr r" "wire_result W r = Inl e"
    and "\<forall>data \<in> set (wire_inputs r). \<forall>n. report n data = Inr []"
  shows "ends W report (session_run W chain handed) (sum_list (map length (wire_inputs r))) {Inl e}"
proof -
  have "ends W report (bind_step (scan_wire W r) f) (sum_list (map length (wire_inputs r)) + 0) {Inl e}"
    for f :: "decoded \<Rightarrow> ('b, web_fetch_data) session_step"
    by (rule ends_bind [OF ends_wire(1) [OF assms(3)]]) (auto simp: assms(2))
  then show ?thesis
    unfolding session_run_def
    by (intro ends_eq [OF ends_bind [OF ends_open [of W report handed]]]) (auto simp: assms(1))
qed

lemma session_ends_rejected:
  assumes "open_result handed = Inr r" "wire_result W r = Inr d" "\<And>n data. is_ok (report n data)"
    and "\<exists>data \<in> set (wire_inputs r @ text_inputs (dec_text d)). \<forall>n. report n data \<noteq> Inr []"
  shows "ends W report (session_run W chain handed)
    (sum_list (map length (wire_inputs r @ text_inputs (dec_text d)))) rejections"
proof -
  have "ends W report (bind_step (scan_wire W r) (\<lambda>d. bind_step (scan_text W d) f))
      (sum_list (map length (wire_inputs r)) + sum_list (map length (text_inputs (dec_text d)))) rejections"
    for f :: "normalized \<Rightarrow> ('b, web_fetch_data) session_step"
  proof (cases "\<exists>data \<in> set (wire_inputs r). \<forall>n. report n data \<noteq> Inr []")
    case True
    show ?thesis
      by (rule ends_bind [OF ends_wire(3) [OF assms(3) True]]) (auto simp: rejections_iff)
  next
    case False
    then have hit: "\<exists>data \<in> set (text_inputs (dec_text d)). \<forall>n. report n data \<noteq> Inr []"
      using assms(4) by auto
    have "ends W report (bind_step (scan_text W d) f) (sum_list (map length (text_inputs (dec_text d))) + 0) rejections"
      by (rule ends_bind [OF ends_text(2) [OF assms(3) hit]]) (auto simp: rejections_iff)
    then show ?thesis
      by (intro ends_bind [OF ends_wire(2) [OF assms(3)]]) (auto simp: assms(2) rejections_iff)
  qed
  then show ?thesis
    unfolding session_run_def
    by (intro ends_eq [OF ends_bind [OF ends_open [of W report handed]]]) (auto simp: assms(1))
qed

lemma session_ends_released:
  assumes "open_result handed = Inr r" "wire_result W r = Inr d"
    and "\<forall>data \<in> set (wire_inputs r @ text_inputs (dec_text d)). \<forall>n. report n data = Inr []"
    and "ends W report (normalized_convert W chain
        \<lparr>nrm_artifact = dec_artifact d, nrm_media = dec_media d, nrm_text = dec_text d\<rparr>) k {Inr i}"
    and "released W (ins_artifact i) (ins_media i) (ins_candidate i) x"
    and "\<And>n. report n (utf8 (combined x)) = Inr []"
  shows "ends W report (session_run W chain handed)
    (sum_list (map length (wire_inputs r @ text_inputs (dec_text d))) + k + byte_len (combined x)) {Inr x}"
proof -
  let ?n = "\<lparr>nrm_artifact = dec_artifact d, nrm_media = dec_media d, nrm_text = dec_text d\<rparr>"
  have wire: "ends W report (scan_wire W r) (sum_list (map length (wire_inputs r))) {Inr d}"
    using ends_wire(1) [of r report W] assms(2,3) by simp
  have texts: "ends W report (scan_text W d) (sum_list (map length (text_inputs (dec_text d)))) {Inr ?n}"
    using ends_text(1) [of d report W] assms(3) by simp
  have release: "ends W report (release W i) (byte_len (combined x)) {Inr x}"
    by (rule ends_release) (fact assms)+
  have open': "ends W report (received_open handed) 0 {Inr r}"
    using ends_open [of W report handed] by (simp add: assms(1))
  show ?thesis
    unfolding session_run_def
    by (rule ends_eq, (rule ends_then open' wire texts assms(4) release)+) simp
qed

end
