(* ===== verification/Pipeline_Runs.thy ===== *)
theory Pipeline_Runs
  imports Pipeline_Tests Session_Runs Inspect_Tests_Pass
begin

text \<open>
  How the runs of the pipeline's tests end over a lawful fixture: what a sealed page is received and
  decoded as, when it is rejected, when it comes back, and the reports of both.
\<close>

section \<open>The fixture\<close>

definition test_handoff :: "string \<Rightarrow> handoff" where
  "test_handoff run_id = handoff_new (lit run_id) (HandoffKey (replicate 32 7))"

lemma pipeline_key_eval: "pipeline_key = Inr (HandoffKey (replicate 32 7))"
  by (simp add: pipeline_key_def key_from_bytes_def MIN_KEY_BYTES_def)

lemma test_handoff_run: "handoff_run_id (test_handoff run_id) = lit run_id"
  by (simp add: test_handoff_def handoff_new_def)

lemma run_artifact_fields:
  "art_run_id (run_artifact L run_id body ctype fmt) = lit run_id"
  "body_bytes (run_artifact L run_id body ctype fmt) = length body"
  "body_sha256 (run_artifact L run_id body ctype fmt) = sha256_hex (sha256 L) body"
  "artifact_version (run_artifact L run_id body ctype fmt) = ARTIFACT_VERSION"
  "art_content_type (run_artifact L run_id body ctype fmt) = Some (lit ctype)"
  "art_content_encoding (run_artifact L run_id body ctype fmt) = None"
  "art_final_url (run_artifact L run_id body ctype fmt) = page_url"
  "art_format (run_artifact L run_id body ctype fmt) = fmt"
  "art_http_status (run_artifact L run_id body ctype fmt) = 200"
  "art_source_id (run_artifact L run_id body ctype fmt) = lit ''source-1''"
  "art_retrieved_at (run_artifact L run_id body ctype fmt) = lit ''2026-09-12T12:00:00Z''"
  by (simp_all add: run_artifact_def)

lemma lawful_fixture:
  assumes "pipeline_lawful F"
  shows "healthy (pf_fs F)" "\<And>h. json_faithful (pf_handoff F) h" "charsets_lawful (in_charsets (pf_env F))"
    "letters_lawful (in_convert (pf_env F))" "web_urls (pf_urls F)" "prints_failures (pf_print F)"
    "\<And>n. 1 \<le> in_elapsed (pf_env F) n" "\<And>n. in_elapsed (pf_env F) n < from_secs INSPECTION_DEADLINE_SECONDS"
    "\<And>B. test_bundle F = Inr B \<Longrightarrow> engine_lawful (in_convert (pf_env F))
       (yara_scan (in_yara (pf_env F)) (bundle_rules B) (det_config (bundle_detector B)))"
    "renders (in_convert (pf_env F)) PIPELINE_PAGE ''# Deploying the service'' [''helm upgrade'']"
    "renders (in_convert (pf_env F)) docs_page ''# Prompt injection'' []"
    "renders (in_convert (pf_env F)) large_page ''# Large'' []" "renders_text (in_convert (pf_env F))"
  using assms unfolding pipeline_lawful_def Let_def by blast+

lemma lawful_time:
  assumes "pipeline_lawful F"
  obtains at formatted where "rfc3339_parse (in_time (pf_env F)) (lit ''2026-09-12T12:00:00Z'') = Some at"
    "rfc3339_format (in_time (pf_env F)) at = Some formatted"
    "rfc3339_parse (in_time (pf_env F)) formatted \<noteq> None"
  using assms unfolding pipeline_lawful_def Let_def by blast

lemma lawful_bundle:
  assumes "pipeline_lawful F"
  obtains B where "test_bundle F = Inr B" "bundle_policy_id B = lit ''web-content-v1''"
proof -
  have "shipped_bundle (in_yara (pf_env F)) (pf_manifest_json F) (pf_rules F)"
    using assms unfolding pipeline_lawful_def Let_def by blast
  from shipped_bundle_loads [OF this] show thesis using that unfolding test_bundle_def by metis
qed

text \<open>The sealed directory of a test.\<close>

definition page_message :: "('c, 'k, 'e, 't, 'u) pipeline_fixture \<Rightarrow> string \<Rightarrow> bytes \<Rightarrow> string \<Rightarrow> format \<Rightarrow> handed" where
  "page_message F run_id body ctype fmt =
     Handed_Fetched (run_artifact (pf_handoff F) run_id body ctype fmt) body"

lemma prepared:
  assumes F: "pipeline_lawful F"
  obtains d where
    "\<And>test. prepared_handoff F run_id body ctype fmt test = test (test_handoff run_id) d"
    "holds_message (pf_handoff F) (test_handoff run_id) (page_message F run_id body ctype fmt) d"
    "usable d"
proof -
  let ?L = "pf_handoff F" and ?E = "pf_fs F" and ?h = "test_handoff run_id"
    and ?m = "page_message F run_id body ctype fmt"
  note E = lawful_fixture(1) [OF F]
  have start: "usable new_directory" by (simp add: usable_def new_directory_def)
  have "writable ?L ?h ?m"
    using lawful_fixture(2) [OF F]
    by (rule json_faithful_writable) (auto simp: page_message_def run_artifact_fields test_handoff_run)
  then obtain d where run: "handoff_write ?L ?E ?h ?m new_directory = (Inr (), d)"
    using write_healthy [OF E start] by blast
  have "usable d"
    using usable_attempt [OF start, of ?L ?E ?h ?m] run by (simp add: handoff_attempt_def)
  moreover have "prepared_handoff F run_id body ctype fmt test = test ?h d" for test
    using run
    by (simp add: prepared_handoff_def pipeline_key_eval expect_def Let_def test_handoff_def
        handoff_write_def page_message_def)
  ultimately show thesis using that write_holds [OF run E start] by blast
qed

lemma read_held:
  assumes "pipeline_lawful F" "holds_message (pf_handoff F) h m d"
    and "\<And>a body. m = Handed_Fetched a body \<Longrightarrow> artifact_version a = ARTIFACT_VERSION"
  shows "fst (handoff_read (pf_handoff F) (pf_fs F) h d) = Inr m"
proof -
  have "carries (pf_handoff F) h m"
    using lawful_fixture(2) [OF assms(1)] assms(3) by (rule json_faithful_carries)
  from handoff_read_holds [OF assms(2) this lawful_fixture(1) [OF assms(1)]] show ?thesis by auto
qed

lemma page_message_version:
  "page_message F run_id body ctype fmt = Handed_Fetched a b \<Longrightarrow> artifact_version a = ARTIFACT_VERSION"
  by (auto simp: page_message_def run_artifact_fields)

lemma inspect_prepared_eval:
  "inspect_prepared F run_id d test = inspector_says F id (test_handoff run_id) d test"
  by (simp add: inspect_prepared_def pipeline_key_eval expect_def test_handoff_def)

text \<open>What the inspector says of what it read.\<close>

lemma inspector_says_read:
  assumes "test_bundle F = Inr B" "fst (handoff_read (pf_handoff F) (pf_fs F) h d) = Inr handed"
    and "\<And>r s. session_run (pf_env F) (CHAIN (in_convert (pf_env F))) handed (fresh_session (setup (inspector_new B))) = (r, s) \<Longrightarrow>
      test (inspect_report (pf_env F) (pf_urls F) (setup (inspector_new B)) r
        (inspector_audit (pf_env F) (setup (inspector_new B)) (handoff_run_id h) s))"
  shows "inspector_says F setup h d test"
proof -
  obtain r s where run: "session_run (pf_env F) (CHAIN (in_convert (pf_env F))) handed
      (fresh_session (setup (inspector_new B))) = (r, s)"
    by (cases "session_run (pf_env F) (CHAIN (in_convert (pf_env F))) handed (fresh_session (setup (inspector_new B)))")
  then show ?thesis
    using assms(1,2) assms(3) [OF run]
    by (simp add: inspector_says_def expect_def inspect_eq inspect_result_def)
qed

lemma inspector_says_unread:
  assumes "test_bundle F = Inr B" "fst (handoff_read (pf_handoff F) (pf_fs F) h d) = Inl e"
    and "\<And>s. test (inspect_report (pf_env F) (pf_urls F) (setup (inspector_new B)) (Inl (stop_not_run InternalError))
        (inspector_audit (pf_env F) (setup (inspector_new B)) (handoff_run_id h) s))"
  shows "inspector_says F setup h d test"
  using assms by (simp add: inspector_says_def expect_def inspect_eq inspect_result_def)

text \<open>A fresh session is alert.\<close>

definition bundle_report :: "('c, 'k, 'e, 't, 'u) pipeline_fixture \<Rightarrow> 'k rule_bundle \<Rightarrow> nat \<Rightarrow> bytes \<Rightarrow> unit + str list" where
  "bundle_report F B = yara_scan (in_yara (pf_env F)) (bundle_rules B) (det_config (bundle_detector B))"

lemma fresh_alert:
  assumes "pipeline_lawful F" "n \<le> 8 * 1024 * 1024"
  shows "alert (pf_env F) (bundle_report F B) n (fresh_session (inspector_new B))"
  using assms(2) lawful_fixture(8) [OF assms(1)]
  by (simp add: alert_def session_report_fun bundle_report_def fresh_session_def session_new_def
      inspector_new_def bundle_detector_def MAX_SCAN_INPUT_BYTES_def)

lemma inspects_ends:
  assumes "pipeline_lawful F" "test_bundle F = Inr B" "n \<le> 8 * 1024 * 1024"
    and "ends (pf_env F) (bundle_report F B) (session_run (pf_env F) (CHAIN (in_convert (pf_env F)))
      (page_message F run_id body ctype fmt)) n X"
    and "\<And>r s. r \<in> X \<Longrightarrow> session_run (pf_env F) (CHAIN (in_convert (pf_env F)))
        (page_message F run_id body ctype fmt) (fresh_session (inspector_new B)) = (r, s) \<Longrightarrow>
      test (inspect_report (pf_env F) (pf_urls F) (inspector_new B) r
        (inspector_audit (pf_env F) (inspector_new B) (lit run_id) s))"
  shows "inspects F run_id body ctype fmt test"
proof -
  obtain d where prepared: "\<And>test. prepared_handoff F run_id body ctype fmt test = test (test_handoff run_id) d"
    and holds: "holds_message (pf_handoff F) (test_handoff run_id) (page_message F run_id body ctype fmt) d"
    using prepared [OF assms(1)] by blast
  have "inspector_says F id (test_handoff run_id) d test"
    using assms(2) read_held [OF assms(1) holds page_message_version]
  proof (rule inspector_says_read)
    fix r s
    assume run: "session_run (pf_env F) (CHAIN (in_convert (pf_env F))) (page_message F run_id body ctype fmt)
        (fresh_session (id (inspector_new B))) = (r, s)"
    then have "r \<in> X" using endsD [OF assms(4) fresh_alert [OF assms(1,3)]] by simp
    with run show "test (inspect_report (pf_env F) (pf_urls F) (id (inspector_new B)) r
        (inspector_audit (pf_env F) (id (inspector_new B)) (handoff_run_id (test_handoff run_id)) s))"
      using assms(5) by (simp add: test_handoff_run)
  qed
  then show ?thesis by (simp add: inspects_def prepared inspect_prepared_eval)
qed

section \<open>Reports\<close>

lemma report_not_run:
  assumes "c \<notin> {ContentRejected, InspectionFailed}"
    and "outc = inspect_report W U I (Inl (stop_not_run c)) audit"
  shows "out_status outc = Status_Error" "out_code outc = Some c" "out_inspection outc = Insp_NotRun"
    "out_data outc = None"
proof -
  have "stop_field I (stop_not_run c) = inspection_not_run"
    by (simp add: stop_field_def inspection_not_run_def Envelope.inspection_new_def)
  moreover have "failure_admitted c inspection_not_run"
    using assms(1) by (cases c) (simp_all add: failure_admitted_def inspection_not_run_def
        Envelope.inspection_new_def permits_status_def)
  ultimately show "out_status outc = Status_Error" "out_code outc = Some c" "out_inspection outc = Insp_NotRun"
    "out_data outc = None"
    using assms
    by (auto simp: inspect_report_stop stop_not_run_def out_status_def out_code_def out_inspection_def
        out_data_def failure_envelope_def tool_error_new_def inspection_not_run_def
        Envelope.inspection_new_def code_status_def split: error_code.splits)
qed

lemma policy_shaped: "policy_id_shaped (lit ''web-content-v1'')"
  by (simp add: policy_id_shaped_def text_eval)

lemma report_rejected:
  assumes "bundle_policy_id (insr_bundle I) = lit ''web-content-v1''" "rules \<noteq> []"
    and "outc = inspect_report W U I (Inl (stop_rejected rules)) audit"
  shows "out_envelope outc = failure_envelope (web_fetch_payload U (in_time W)) ContentRejected
      \<lparr>insp_status = Insp_Match, insp_policy_id = Some (lit ''web-content-v1'')\<rparr>"
    "out_status outc = Status_Rejected" "out_inspection outc = Insp_Match" "out_data outc = None"
    "out_code outc = Some ContentRejected" "aud_matched_rules (out_audit outc) \<noteq> []"
    "aud_content_chars (out_audit outc) = None"
proof -
  have field: "stop_field I (stop_rejected rules) =
      \<lparr>insp_status = Insp_Match, insp_policy_id = Some (lit ''web-content-v1'')\<rparr>"
    using assms(1) by (simp add: stop_field_def stop_rejected_def Envelope.inspection_new_def)
  then have "failure_admitted ContentRejected (stop_field I (stop_rejected rules))"
    using policy_shaped by (simp add: failure_admitted_def permits_status_def)
  then show env: "out_envelope outc = failure_envelope (web_fetch_payload U (in_time W)) ContentRejected
      \<lparr>insp_status = Insp_Match, insp_policy_id = Some (lit ''web-content-v1'')\<rparr>"
    using assms(3) field by (simp add: inspect_report_stop stop_rejected_def)
  then show "out_status outc = Status_Rejected" "out_inspection outc = Insp_Match" "out_data outc = None"
      "out_code outc = Some ContentRejected"
    by (simp_all add: out_status_def out_inspection_def out_data_def out_code_def failure_envelope_def
        tool_error_new_def code_status_def)
  show "aud_matched_rules (out_audit outc) \<noteq> []" "aud_content_chars (out_audit outc) = None"
    using assms(2,3) by (simp_all add: inspect_report_stop stop_rejected_def)
qed

lemma report_ok:
  assumes "payload_validate (web_fetch_payload U (in_time W)) x = Inr ()"
    and "bundle_policy_id (insr_bundle I) = lit ''web-content-v1''"
    and "outc = inspect_report W U I (Inr x) audit"
  shows "out_status outc = Status_Ok" "out_inspection outc = Insp_NoMatch"
    "insp_policy_id (inspection (out_envelope outc)) = Some (lit ''web-content-v1'')"
    "out_data outc = Some x" "aud_outcome (out_audit outc) = lit ''ok''"
    "aud_scans (out_audit outc) = aud_scans audit"
  using inspect_report_ok [OF assms(1), of I audit] assms(2,3) policy_shaped
  by (simp_all add: out_status_def out_inspection_def out_data_def ok_envelope_def
      Envelope.inspection_new_def)

section \<open>Receiving and decoding\<close>

text \<open>The media types of the tests.\<close>

definition declares :: "string \<Rightarrow> media_type \<Rightarrow> bool" where
  "declares ctype media \<longleftrightarrow>
     media_parse (lit ctype) = Inr media \<and> is_supported media \<and> header_value media = lit ctype
     \<and> charset media \<in> {None, Some (lit ''utf-8'')}"

definition html_media :: media_type where
  "html_media = \<lparr>essence = lit ''text/html'', charset = None\<rparr>"

definition html_utf8_media :: media_type where
  "html_utf8_media = \<lparr>essence = lit ''text/html'', charset = Some (lit ''utf-8'')\<rparr>"

definition json_media :: media_type where
  "json_media = \<lparr>essence = lit ''application/json'', charset = None\<rparr>"

lemma page_media:
  "declares ''text/html'' html_media" "declares ''text/html; charset=utf-8'' html_utf8_media"
  "declares ''application/json'' json_media" "declares ''text/plain'' plain_media"
  by (simp_all add: declares_def html_media_def html_utf8_media_def json_media_def plain_media_def
      media_eval is_supported_def SUPPORTED_MEDIA_TYPES_def SUPPORTED_CHARSETS_def header_value_def)

lemma page_media_html: "is_html html_media" "is_html html_utf8_media" "\<not> is_html json_media"
  by (simp_all add: is_html_def html_media_def html_utf8_media_def json_media_def lit_def)

definition page_received ::
    "('c, 'k, 'e, 't, 'u) pipeline_fixture \<Rightarrow> string \<Rightarrow> bytes \<Rightarrow> string \<Rightarrow> format \<Rightarrow> media_type \<Rightarrow> received" where
  "page_received F run_id body ctype fmt media =
     \<lparr>rcv_artifact = run_artifact (pf_handoff F) run_id body ctype fmt, rcv_media = media, rcv_body = body\<rparr>"

lemma page_opens:
  "declares ctype media \<Longrightarrow>
     open_result (page_message F run_id body ctype fmt) = Inr (page_received F run_id body ctype fmt media)"
  by (simp add: open_result_def page_message_def page_received_def run_artifact_fields declares_def)

lemma page_wire_inputs:
  "declares ctype media \<Longrightarrow>
     wire_inputs (page_received F run_id body ctype fmt media) = [body, utf8 page_url, utf8 (lit ctype)]"
  by (simp add: wire_inputs_def page_received_def run_artifact_fields declares_def)

text \<open>A page that starts with an ASCII character and takes at most 1 MiB.\<close>

definition plain_page :: "str \<Rightarrow> bool" where
  "plain_page s \<longleftrightarrow> valid_str s \<and> byte_len s \<le> 1024 * 1024 \<and> s \<noteq> [] \<and> is_ascii (hd s)"

lemma utf8_no_mark: "plain_page s \<Longrightarrow> hd (utf8 s) \<notin> {0xef, 0xfe, 0xff}"
proof -
  assume "plain_page s"
  then obtain c r where s: "s = c # r" "c < 128" by (cases s) (auto simp: plain_page_def is_ascii_def)
  then have "hd (utf8 s) = word_of_nat c" by (simp add: utf8_char_def)
  moreover have "unat (word_of_nat c :: u8) < 128" using s(2) by (simp add: unat_of_nat)
  ultimately show ?thesis by auto
qed

definition page_decoded ::
    "('c, 'k, 'e, 't, 'u) pipeline_fixture \<Rightarrow> string \<Rightarrow> str \<Rightarrow> string \<Rightarrow> format \<Rightarrow> media_type \<Rightarrow> decoded" where
  "page_decoded F run_id text ctype fmt media =
     \<lparr>dec_artifact = run_artifact (pf_handoff F) run_id (utf8 text) ctype fmt, dec_media = media, dec_text = text\<rparr>"

lemma page_decodes:
  assumes "pipeline_lawful F" "plain_page s" "declares ctype media"
  shows "wire_result (pf_env F) (page_received F run_id (utf8 s) ctype fmt media) =
    Inr (page_decoded F run_id s ctype fmt media)"
proof -
  have "for_bom (in_charsets (pf_env F)) (utf8 s) = None"
    using charsets_no_mark [OF lawful_fixture(3) [OF assms(1)]] utf8_no_mark [OF assms(2)] by blast
  moreover have "utf8_lawful (in_charsets (pf_env F))"
    using lawful_fixture(3) [OF assms(1)] by (simp add: charsets_lawful_def)
  moreover have "charset media \<in> {None, Some (lit ''utf-8'')}" using assms(3) by (simp add: declares_def)
  ultimately have "decode_charset (in_charsets (pf_env F)) (utf8 s) media = Inr s"
    using decode_charset_utf8 [of "in_charsets (pf_env F)" "utf8 s" media] assms(2) by (simp add: plain_page_def)
  moreover have "decode_content_encoding (in_inflate (pf_env F)) (utf8 s) None = Inr (utf8 s)"
    using assms(2) by (simp add: decode_content_encoding_def gzip_coding plain_page_def MAX_DECODED_BYTES_def)
  ultimately show ?thesis
    by (simp add: wire_result_def page_received_def page_decoded_def run_artifact_fields)
qed

lemma page_url_length: "byte_len page_url = 24"
  by (simp add: page_url_def lit_def len_utf8_def)

lemma declared_length: "declares ctype media \<Longrightarrow> byte_len (lit ctype) \<le> 43"
  using header_value_supported(2) [of media] by (simp add: declares_def)

lemma page_input_size:
  assumes "declares ctype media"
  shows "sum_list (map length (wire_inputs (page_received F run_id (utf8 s) ctype fmt media) @ text_inputs s))
    \<le> 4 * byte_len s + 67"
  using declared_length [OF assms] decode_entities_shrinks [of s] deobfuscate_shrinks [of "decode_entities s"]
  by (simp add: page_wire_inputs [OF assms] text_inputs_def page_url_length)

lemma engine_answers:
  "pipeline_lawful F \<Longrightarrow> test_bundle F = Inr B \<Longrightarrow> is_ok (bundle_report F B n data)"
  using lawful_fixture(9) [of F B] by (simp add: engine_lawful_def bundle_report_def)

section \<open>A hostile page is rejected\<close>

definition hostile :: "str \<Rightarrow> bool" where
  "hostile s \<longleftrightarrow> (\<exists>before behind. \<exists>phrase \<in> set hostile_phrases. s = before @ lit phrase @ behind)"

lemma hostile_hit:
  assumes "pipeline_lawful F" "test_bundle F = Inr B" "hostile s"
  shows "bundle_report F B n (utf8 s) \<noteq> Inr []"
proof -
  from assms(3) obtain u v phrase where "phrase \<in> set hostile_phrases" "utf8 s = utf8 u @ utf8 (lit phrase) @ utf8 v"
    by (auto simp: hostile_def)
  then show ?thesis
    using lawful_fixture(9) [OF assms(1,2)] by (simp add: engine_lawful_def bundle_report_def)
qed

lemma hostile_page_rejected:
  assumes F: "pipeline_lawful F" and B: "test_bundle F = Inr B" "bundle_policy_id B = lit ''web-content-v1''"
    and page: "plain_page s" "hostile s \<or> hostile (decode_entities s) \<or> hostile (deobfuscate (decode_entities s))"
    and test: "\<And>rules audit. rules \<noteq> [] \<Longrightarrow> test (inspect_report (pf_env F) (pf_urls F) (inspector_new B)
      (Inl (stop_rejected rules)) audit)"
  shows "inspects F run_id (utf8 s) ''text/html'' fmt test"
proof -
  let ?r = "page_received F run_id (utf8 s) ''text/html'' fmt html_media"
  let ?d = "page_decoded F run_id s ''text/html'' fmt html_media"
  have d: "dec_text ?d = s" by (simp add: page_decoded_def)
  have hit: "\<exists>data \<in> set (wire_inputs ?r @ text_inputs s). \<forall>n. bundle_report F B n data \<noteq> Inr []"
    using page(2) hostile_hit [OF F B(1)] by (auto simp: text_inputs_def)
  have rejected: "ends (pf_env F) (bundle_report F B) (session_run (pf_env F) (CHAIN (in_convert (pf_env F)))
      (page_message F run_id (utf8 s) ''text/html'' fmt)) (sum_list (map length (wire_inputs ?r @ text_inputs s))) rejections"
    by (rule session_ends_rejected [where d = ?d, unfolded d])
       (rule page_opens [OF page_media(1)] page_decodes [OF F page(1) page_media(1)] engine_answers [OF F B(1)]
         hit)+
  have "sum_list (map length (wire_inputs ?r @ text_inputs s)) \<le> 8 * 1024 * 1024"
    using page_input_size [OF page_media(1), of F run_id s fmt] page(1) by (simp add: plain_page_def)
  from inspects_ends [OF F B(1) this rejected] show ?thesis
    using test by (auto simp: rejections_iff)
qed

section \<open>A clean page comes back\<close>

lemma page_url_web: "page_url = web_text (lit ''https'') (lit ''example.com'') None (lit ''/page'')"
  by (simp add: page_url_def web_text_def lit_def)

lemma page_payload:
  assumes F: "pipeline_lawful F" and media: "declares ctype media"
    and x: "released (pf_env F) (run_artifact (pf_handoff F) run_id body ctype fmt) media c x"
    and "fmt = Html \<Longrightarrow> cand_method c = Source"
  shows "payload_validate (web_fetch_payload (pf_urls F) (in_time (pf_env F))) x = Inr ()"
proof -
  have web: "plain_web (lit ''https'') (lit ''example.com'') None (lit ''/page'')"
    by (simp add: plain_web_def plain_host_def plain_path_def text_eval)
  obtain u where u: "url_parse (pf_urls F) page_url = Inr u"
      "web_url (pf_urls F) u (lit ''https'') (lit ''example.com'') None (lit ''/page'')"
    using web_urls_parse [OF lawful_fixture(5) [OF F] web] unfolding page_url_web .
  have "check_destination (pf_urls F) u = Inr ()" by (rule web_url_destination [OF web u(2)])
  then have "plain_http (pf_urls F) u" by (simp add: check_destination_iff)
  moreover obtain at formatted where "rfc3339_parse (in_time (pf_env F)) (lit ''2026-09-12T12:00:00Z'') = Some at"
    "rfc3339_format (in_time (pf_env F)) at = Some formatted" "rfc3339_parse (in_time (pf_env F)) formatted \<noteq> None"
    by (rule lawful_time [OF F])
  then have "rfc3339_parse (in_time (pf_env F)) (retrieved_at x) \<noteq> None"
    using x by (simp add: released_def run_artifact_fields)
  moreover have "printable (content_type x)" "byte_len (content_type x) \<le> MAX_CONTENT_TYPE_CHARS"
    using header_value_supported [of media] media x
    by (simp_all add: released_def declares_def MAX_CONTENT_TYPE_CHARS_def)
  moreover have "lit ''source-1'' = lit ''source-'' @ lit ''1''" by (simp add: lit_def)
  then have "\<exists>n. source_id x = lit ''source-'' @ n \<and> n \<noteq> [] \<and> byte_len n \<le> 32 \<and> list_all is_ascii_digit n"
    using x by (intro exI [of _ "lit ''1''"]) (simp add: released_def run_artifact_fields text_eval)
  ultimately have "payload_contract (pf_urls F) (in_time (pf_env F)) x"
    using x u(1) assms(4)
    by (simp add: payload_contract_def released_def run_artifact_fields page_url_length MAX_URL_CHARS_def)
  then show ?thesis by (simp add: web_fetch_payload_def data_validate_contract)
qed

text \<open>The responses that come back: what of them is scanned, and what each returns.\<close>

lemma clean_quiet:
  assumes "pipeline_lawful F" "test_bundle F = Inr B" "r \<in> set clean_responses"
    and "s \<in> set (response_inputs (in_convert (pf_env F)) r)"
  shows "bundle_report F B n (utf8 s) = Inr []"
  using lawful_fixture(9) [OF assms(1,2)] assms(3,4) by (auto simp: engine_lawful_def bundle_report_def)

lemma release_shape:
  assumes F: "pipeline_lawful F" and "length (cand_content c) \<le> MAX_CONTENT_CHARS"
  obtains x where "released (pf_env F) (run_artifact (pf_handoff F) run_id body ctype fmt) media c x"
proof -
  obtain at formatted where time: "rfc3339_parse (in_time (pf_env F)) (lit ''2026-09-12T12:00:00Z'') = Some at"
    "rfc3339_format (in_time (pf_env F)) at = Some formatted"
    by (rule lawful_time [OF F])
  let ?x = "\<lparr>source_id = lit ''source-1'', final_url = page_url, http_status = 200,
      content_type = header_value media, retrieved_at = formatted, data_format = fmt,
      data_method = cand_method c, data_content = cand_content c\<rparr>"
  have "released (pf_env F) (run_artifact (pf_handoff F) run_id body ctype fmt) media c ?x"
    using time assms(2) by (simp add: released_def run_artifact_fields)
  with that show thesis by blast
qed

lemma clean_page_returned:
  assumes F: "pipeline_lawful F" and B: "test_bundle F = Inr B" "bundle_policy_id B = lit ''web-content-v1''"
    and clean: "(s, ctype, fmt) \<in> set clean_responses" and page: "plain_page s" and media: "declares ctype media"
    and convert: "content = response_content (in_convert (pf_env F)) (s, ctype, fmt)" "byte_len content \<le> byte_len s"
      "ends (pf_env F) (bundle_report F B) (normalized_convert (pf_env F) (CHAIN (in_convert (pf_env F)))
        \<lparr>nrm_artifact = run_artifact (pf_handoff F) run_id (utf8 s) ctype fmt, nrm_media = media, nrm_text = s\<rparr>)
        (byte_len content)
        {Inr \<lparr>ins_artifact = run_artifact (pf_handoff F) run_id (utf8 s) ctype fmt, ins_media = media,
           ins_candidate = \<lparr>cand_content = content, cand_method = m\<rparr>\<rparr>}"
      "fmt = Html \<Longrightarrow> m = Source"
    and test: "\<And>outc x. out_status outc = Status_Ok \<Longrightarrow> out_inspection outc = Insp_NoMatch \<Longrightarrow>
      insp_policy_id (inspection (out_envelope outc)) = Some (lit ''web-content-v1'') \<Longrightarrow>
      out_data outc = Some x \<Longrightarrow> data_format x = fmt \<Longrightarrow> data_method x = m \<Longrightarrow> data_content x = content \<Longrightarrow>
      http_status x = 200 \<Longrightarrow> aud_outcome (out_audit outc) = lit ''ok'' \<Longrightarrow> 6 \<le> aud_scans (out_audit outc) \<Longrightarrow>
      test outc"
  shows "inspects F run_id (utf8 s) ctype fmt test"
proof -
  let ?W = "pf_env F" and ?R = "bundle_report F B" and ?I = "inspector_new B"
  let ?a = "run_artifact (pf_handoff F) run_id (utf8 s) ctype fmt"
  let ?c = "\<lparr>cand_content = content, cand_method = m\<rparr>"
  let ?i = "\<lparr>ins_artifact = ?a, ins_media = media, ins_candidate = ?c\<rparr>"
  let ?r = "page_received F run_id (utf8 s) ctype fmt media" and ?d = "page_decoded F run_id s ctype fmt media"
  let ?m = "page_message F run_id (utf8 s) ctype fmt"
  have size: "byte_len s \<le> 1024 * 1024" using page by (simp add: plain_page_def)
  then have "length content \<le> MAX_CONTENT_CHARS"
    using length_le_byte_len [of content] convert(2) by (simp add: MAX_CONTENT_CHARS_def)
  then obtain x where x: "released ?W ?a media ?c x"
    using release_shape [OF F, of ?c run_id "utf8 s" ctype fmt media] by auto
  then have fields: "final_url x = page_url" "content_type x = lit ctype" "data_content x = content"
      "data_format x = fmt" "data_method x = m" "http_status x = 200"
    using media by (simp_all add: released_def run_artifact_fields declares_def)
  have quiet: "?R n (utf8 y) = Inr []" if "y \<in> set (response_inputs (in_convert ?W) (s, ctype, fmt))" for n y
    using clean_quiet [OF F B(1) clean that] .
  have inputs: "\<forall>data \<in> set (wire_inputs ?r @ text_inputs s). \<forall>n. ?R n data = Inr []"
    by (auto simp: page_wire_inputs [OF media] text_inputs_def response_inputs_def intro!: quiet)
  have combined: "combined x = page_url @ [10] @ lit ctype @ [10] @ response_content (in_convert ?W) (s, ctype, fmt)"
    by (simp add: combined_def fields convert(1))
  then have last: "?R n (utf8 (combined x)) = Inr []" for n
    by (intro quiet) (simp add: response_inputs_def)
  have run: "ends ?W ?R (session_run ?W (CHAIN (in_convert ?W)) ?m)
      (sum_list (map length (wire_inputs ?r @ text_inputs (dec_text ?d))) + byte_len content + byte_len (combined x)) {Inr x}"
    by (rule session_ends_released [OF page_opens [OF media] page_decodes [OF F page media], where i = ?i])
       (use inputs convert(3) x last in \<open>simp_all add: page_decoded_def\<close>)
  have "byte_len (combined x) = 26 + byte_len (lit ctype) + byte_len content"
    by (simp add: combined_def fields page_url_length len_utf8_def)
  then have fits: "sum_list (map length (wire_inputs ?r @ text_inputs (dec_text ?d))) + byte_len content
      + byte_len (combined x) \<le> 8 * 1024 * 1024"
    using page_input_size [OF media, of F run_id s fmt] size convert(2) declared_length [OF media]
    by (simp add: page_decoded_def)
  show ?thesis
  proof (rule inspects_ends [OF F B(1) fits run])
    fix r t assume "r \<in> {Inr x}" and run: "session_run ?W (CHAIN (in_convert ?W)) ?m (fresh_session ?I) = (r, t)"
    then have r: "r = Inr x" by simp
    then obtain inputs where "passed ?W inputs (fresh_session ?I) t" "6 \<le> length inputs"
      using run by (auto elim!: session_run_Ok simp: required_inputs_def)
    then have "6 \<le> scans (insp_detector t)" by (simp add: passed_def fresh_session_facts)
    moreover have "bundle_policy_id (insr_bundle ?I) = lit ''web-content-v1''" by (simp add: inspector_new_def B(2))
    moreover have "payload_validate (web_fetch_payload (pf_urls F) (in_time ?W)) x = Inr ()"
      using page_payload [OF F media x] convert(4) by simp
    ultimately show "test (inspect_report ?W (pf_urls F) ?I r (inspector_audit ?W ?I (lit run_id) t))"
      unfolding r
      by (intro test [of _ x] fields) (simp_all add: report_ok inspector_audit_def Let_def)
  qed
qed

end
