(* ===== verification/Serde.thy ===== *)
theory Serde
  imports Rust_Text
begin

text \<open>
  What \<^verbatim>\<open>serde\<close> documents of the code it derives for the structs and enumerations of the
  contracts, and of JSON as a format: a value as its tree, the deserializers the attributes in the
  source select, the serializers, and a locale for a pair of them. Reading a text into a tree and
  printing one is \<^verbatim>\<open>serde_json\<close>, which is an argument.
\<close>

section \<open>JSON values\<close>

text \<open>Objects keep their members in the order of the text, duplicates included. A number that is no
  integer is kept as its literal.\<close>

datatype json =
    JNull
  | JBool bool
  | JNumber int
  | JReal str
  | JString str
  | JArray "json list"
  | JObject "(str \<times> json) list"

text \<open>The values the contracts write; the literals of other numbers are none.\<close>

fun valid_json :: "json \<Rightarrow> bool" where
  "valid_json (JString s) = valid_str s"
| "valid_json (JReal s) = False"
| "valid_json (JArray vs) = list_all valid_json vs"
| "valid_json (JObject ms) = list_all (\<lambda>(k, v). valid_str k \<and> valid_json v) ms"
| "valid_json _ = True"

section \<open>Scalars, options, vectors and enumerations\<close>

fun de_string :: "json \<Rightarrow> str option" where
  "de_string (JString s) = Some s"
| "de_string _ = None"

text \<open>The unsigned integers take an integer in their range.\<close>

fun de_word :: "json \<Rightarrow> 'w::len word option" where
  "de_word (JNumber n) = (if 0 \<le> n \<and> n < 2 ^ LENGTH('w) then Some (word_of_int n) else None)"
| "de_word _ = None"

fun de_usize :: "json \<Rightarrow> nat option" where
  "de_usize (JNumber n) = (if 0 \<le> n \<and> n \<le> int usize_max then Some (nat n) else None)"
| "de_usize _ = None"

text \<open>\<^verbatim>\<open>Option\<close>: \<^verbatim>\<open>null\<close> is \<^verbatim>\<open>None\<close>.\<close>

definition de_option :: "(json \<Rightarrow> 'a option) \<Rightarrow> json \<Rightarrow> 'a option option" where
  "de_option de j = (if j = JNull then Some None else map_option Some (de j))"

fun de_each :: "(json \<Rightarrow> 'a option) \<Rightarrow> json list \<Rightarrow> 'a list option" where
  "de_each de [] = Some []"
| "de_each de (j # js) =
     (case de j of None \<Rightarrow> None | Some x \<Rightarrow> map_option ((#) x) (de_each de js))"

fun de_vec :: "(json \<Rightarrow> 'a option) \<Rightarrow> json \<Rightarrow> 'a list option" where
  "de_vec de (JArray js) = de_each de js"
| "de_vec de _ = None"

text \<open>An enumeration of unit variants: the name of one, or an object with that name and \<^verbatim>\<open>null\<close>.\<close>

fun de_enum :: "(string \<times> 'a) list \<Rightarrow> json \<Rightarrow> 'a option" where
  "de_enum variants (JString s) = map_of (map (\<lambda>(n, v). (lit n, v)) variants) s"
| "de_enum variants (JObject [(s, JNull)]) = map_of (map (\<lambda>(n, v). (lit n, v)) variants) s"
| "de_enum variants _ = None"

definition ser_word :: "'w::len word \<Rightarrow> json" where
  "ser_word w = JNumber (uint w)"

definition ser_usize :: "nat \<Rightarrow> json" where
  "ser_usize n = JNumber (int n)"

definition ser_option :: "('a \<Rightarrow> json) \<Rightarrow> 'a option \<Rightarrow> json" where
  "ser_option ser v = (case v of None \<Rightarrow> JNull | Some x \<Rightarrow> ser x)"

definition ser_name :: "string \<Rightarrow> json" where
  "ser_name n = JString (lit n)"

section \<open>Structs\<close>

text \<open>A field of a struct in the value it is read from: there, left out of an object, or behind the
  end of an array.\<close>

datatype field = Present json | Absent | Beyond

text \<open>A derived struct is read from an object, in which no known field may occur twice and, under
  \<^verbatim>\<open>deny_unknown_fields\<close>, none that is not known; or from an array of its fields in order.\<close>

definition member_field :: "(str \<times> json) list \<Rightarrow> string \<Rightarrow> field" where
  "member_field ms name = (case map_of ms (lit name) of None \<Rightarrow> Absent | Some j \<Rightarrow> Present j)"

fun element_fields :: "json list \<Rightarrow> string list \<Rightarrow> field list" where
  "element_fields vs [] = []"
| "element_fields [] (n # names) = Beyond # element_fields [] names"
| "element_fields (v # vs) (n # names) = Present v # element_fields vs names"

definition known_once :: "string list \<Rightarrow> (str \<times> json) list \<Rightarrow> bool" where
  "known_once names ms \<longleftrightarrow> distinct (filter (\<lambda>k. k \<in> lit ` set names) (map fst ms))"

definition only_known :: "string list \<Rightarrow> (str \<times> json) list \<Rightarrow> bool" where
  "only_known names ms \<longleftrightarrow> list_all (\<lambda>k. k \<in> lit ` set names) (map fst ms)"

fun struct_fields :: "bool \<Rightarrow> string list \<Rightarrow> json \<Rightarrow> field list option" where
  "struct_fields deny names (JObject ms) =
     (if known_once names ms \<and> (deny \<longrightarrow> only_known names ms)
      then Some (map (member_field ms) names) else None)"
| "struct_fields deny names (JArray vs) =
     (if length vs \<le> length names then Some (element_fields vs names) else None)"
| "struct_fields deny names _ = None"

text \<open>A field that must be there, one of type \<^verbatim>\<open>Option\<close>, which an object may leave out, and one with
  \<^verbatim>\<open>serde(default)\<close>, which an array may leave out too.\<close>

fun required :: "(json \<Rightarrow> 'a option) \<Rightarrow> field \<Rightarrow> 'a option" where
  "required de (Present j) = de j"
| "required de _ = None"

fun optional :: "(json \<Rightarrow> 'a option) \<Rightarrow> field \<Rightarrow> 'a option option" where
  "optional de (Present j) = de_option de j"
| "optional de Absent = Some None"
| "optional de Beyond = None"

fun defaulted :: "'a \<Rightarrow> (json \<Rightarrow> 'a option) \<Rightarrow> field \<Rightarrow> 'a option" where
  "defaulted d de (Present j) = de j"
| "defaulted d de _ = Some d"

definition ser_struct :: "(string \<times> json) list \<Rightarrow> json" where
  "ser_struct members = JObject (map (\<lambda>(n, j). (lit n, j)) members)"

text \<open>Chaining reads that may fail.\<close>

definition opt_bind :: "'a option \<Rightarrow> ('a \<Rightarrow> 'b option) \<Rightarrow> 'b option" where
  "opt_bind m f = (case m of None \<Rightarrow> None | Some x \<Rightarrow> f x)"

lemma opt_bind_simps [simp]: "opt_bind None f = None" "opt_bind (Some x) f = f x"
  by (simp_all add: opt_bind_def)

lemma opt_bind_Some_iff: "opt_bind m f = Some y \<longleftrightarrow> (\<exists>x. m = Some x \<and> f x = Some y)"
  by (cases m) simp_all

section \<open>What is read back\<close>

lemma lit_inject [simp]: "lit a = lit b \<longleftrightarrow> a = b"
  unfolding lit_def by (simp add: inj_map_eq_map inj_def)

lemma valid_lit: "valid_str (lit s)"
proof -
  have "(of_char c :: nat) < 0xd800" for c
    by (rule less_le_trans [OF nat_of_char_less_256]) simp
  then show ?thesis by (simp add: valid_str_def lit_def list_all_iff is_scalar_def)
qed

lemma map_of_lit: "map_of (map (\<lambda>(n, v). (lit n, v)) ms) (lit n) = map_of ms n"
  by (induction ms) auto

lemma de_enum_name: "de_enum variants (ser_name n) = map_of variants n"
  by (simp add: ser_name_def map_of_lit)

lemma map_fst_lit: "map fst (map (\<lambda>(n, j). (lit n, j)) ms) = map lit (map fst ms)"
  by (induction ms) auto

lemma struct_fields_written:
  assumes "distinct names" "map fst ms = names"
  shows "struct_fields deny names (ser_struct ms) = Some (map Present (map snd ms))"
proof -
  have names: "map fst (map (\<lambda>(n, j). (lit n, j)) ms) = map lit names"
    using assms(2) by (simp only: map_fst_lit)
  have "known_once names (map (\<lambda>(n, j). (lit n, j)) ms)"
    unfolding known_once_def names using assms(1)
    by (simp add: distinct_map inj_on_def distinct_filter)
  moreover have "only_known names (map (\<lambda>(n, j). (lit n, j)) ms)"
    unfolding only_known_def names by (simp add: list_all_iff)
  moreover have "member_field (map (\<lambda>(n, j). (lit n, j)) ms) n = Present j" if "(n, j) \<in> set ms" for n j
    using that assms by (simp add: member_field_def map_of_lit)
  then have "map (member_field (map (\<lambda>(n, j). (lit n, j)) ms)) names = map Present (map snd ms)"
    unfolding assms(2) [symmetric] by (auto intro!: map_cong simp: comp_def)
  ultimately show ?thesis by (simp add: ser_struct_def)
qed

text \<open>What a struct read from an object says of it.\<close>

lemma struct_fields_object:
  "struct_fields True names (JObject ms) = Some fs \<longleftrightarrow>
     distinct (map fst ms) \<and> fst ` set ms \<subseteq> lit ` set names \<and> fs = map (member_field ms) names"
proof -
  have "filter (\<lambda>k. k \<in> lit ` set names) (map fst ms) = map fst ms" if "only_known names ms"
    using that by (simp add: only_known_def list_all_iff filter_id_conv)
  then show ?thesis
    by (auto simp: known_once_def only_known_def list_all_iff)
qed

section \<open>Codecs\<close>

text \<open>A serializer and a deserializer that belong together: good values come back, are valid JSON
  and are not written as \<^verbatim>\<open>null\<close>.\<close>

locale codec =
  fixes ser :: "'a \<Rightarrow> json" and de :: "json \<Rightarrow> 'a option" and good :: "'a \<Rightarrow> bool"
  assumes reads: "good x \<Longrightarrow> de (ser x) = Some x"
    and writes: "good x \<Longrightarrow> valid_json (ser x)"
    and solid: "ser x \<noteq> JNull"
begin

lemma ser_inj: "good x \<Longrightarrow> good y \<Longrightarrow> ser x = ser y \<Longrightarrow> x = y"
  using reads by (metis option.inject)

lemma reads_option: "(\<forall>x \<in> set_option v. good x) \<Longrightarrow> de_option de (ser_option ser v) = Some v"
  using reads solid by (cases v) (simp_all add: de_option_def ser_option_def)

lemma writes_option: "(\<forall>x \<in> set_option v. good x) \<Longrightarrow> valid_json (ser_option ser v)"
  using writes by (cases v) (simp_all add: ser_option_def)

lemma reads_required: "good x \<Longrightarrow> required de (Present (ser x)) = Some x"
  by (simp add: reads)

lemma reads_optional: "(\<forall>x \<in> set_option v. good x) \<Longrightarrow> optional de (Present (ser_option ser v)) = Some v"
  by (simp add: reads_option)

end

interpretation word_codec: codec ser_word "de_word :: json \<Rightarrow> 'w::len word option" "\<lambda>_. True"
proof
  fix w :: "'w word"
  show "de_word (ser_word w) = Some w"
    using uint_lt2p [of w] by (simp add: ser_word_def)
qed (simp_all add: ser_word_def)

interpretation usize_codec: codec ser_usize de_usize "\<lambda>n. n \<le> usize_max"
  by unfold_locales (simp_all add: ser_usize_def)

interpretation string_codec: codec JString de_string valid_str
  by unfold_locales simp_all

lemma codec_enum:
  assumes "\<And>v. map_of variants (name v) = Some v"
  shows "codec (\<lambda>v. ser_name (name v)) (de_enum variants) (\<lambda>_. True)"
  by unfold_locales (simp_all add: assms de_enum_name valid_lit, simp_all add: ser_name_def valid_lit)

section \<open>Texts\<close>

text \<open>\<^verbatim>\<open>serde_json\<close>: reading a text as a value, the message for a value that does not fit the type,
  and the compact printer.\<close>

record json_lib =
  json_read :: "str \<Rightarrow> str + json"
  json_misfit :: "str \<Rightarrow> str"
  json_write :: "json \<Rightarrow> str"

text \<open>\<^verbatim>\<open>from_str\<close> and \<^verbatim>\<open>to_string\<close> at a type with derived codecs, and \<^verbatim>\<open>from_slice\<close> and \<^verbatim>\<open>to_vec\<close>.\<close>

definition from_str :: "json_lib \<Rightarrow> (json \<Rightarrow> 'a option) \<Rightarrow> str \<Rightarrow> str + 'a" where
  "from_str J de text = and_then (json_read J text) (\<lambda>j. ok_or (json_misfit J text) (de j))"

definition to_string :: "json_lib \<Rightarrow> ('a \<Rightarrow> json) \<Rightarrow> 'a \<Rightarrow> str + str" where
  "to_string J ser x = Inr (json_write J (ser x))"

definition from_slice :: "json_lib \<Rightarrow> (json \<Rightarrow> 'a option) \<Rightarrow> bytes \<Rightarrow> str + 'a" where
  "from_slice J de bs = (case from_utf8 bs of None \<Rightarrow> Inl (json_misfit J []) | Some text \<Rightarrow> from_str J de text)"

definition to_vec :: "json_lib \<Rightarrow> ('a \<Rightarrow> json) \<Rightarrow> 'a \<Rightarrow> str + bytes" where
  "to_vec J ser x = Inr (utf8 (json_write J (ser x)))"

text \<open>What is documented of it: a printed value is a text that is read as that value.\<close>

definition json_lawful :: "json_lib \<Rightarrow> bool" where
  "json_lawful J \<longleftrightarrow>
     (\<forall>j. valid_json j \<longrightarrow> json_read J (json_write J j) = Inr j \<and> valid_str (json_write J j) \<and> json_write J j \<noteq> [])"

context codec
begin

lemma text_reads:
  assumes "json_lawful J" "good x"
  shows "\<exists>t. to_string J ser x = Inr t \<and> from_str J de t = Inr x"
  using assms writes [OF assms(2)] reads [OF assms(2)]
  by (simp add: json_lawful_def to_string_def from_str_def)

lemma slice_reads:
  assumes "json_lawful J" "good x"
  shows "\<exists>bs. to_vec J ser x = Inr bs \<and> bs \<noteq> [] \<and> from_slice J de bs = Inr x"
proof -
  have "json_read J (json_write J (ser x)) = Inr (ser x)" "valid_str (json_write J (ser x))"
      "json_write J (ser x) \<noteq> []"
    using assms(1) writes [OF assms(2)] by (auto simp: json_lawful_def)
  moreover from this(3) have "utf8 (json_write J (ser x)) \<noteq> []"
    by (cases "json_write J (ser x)") (simp_all add: utf8_char_def)
  ultimately show ?thesis
    using reads [OF assms(2)] by (simp add: to_vec_def from_slice_def from_str_def from_utf8_utf8)
qed

end

end
