(* ===== verification/Wire.thy ===== *)
theory Wire
  imports Serde Artifact
begin

text \<open>
  The derived JSON codecs of \<^verbatim>\<open>contracts/src\<close>: for every struct and enumeration with
  \<^verbatim>\<open>#[derive(Serialize, Deserialize)]\<close>, its names and fields as the attributes give them, and that
  what is written is read back.
\<close>

section \<open>Enumerations\<close>

text \<open>\<^verbatim>\<open>rename_all = "snake_case"\<close>.\<close>

fun status_name :: "status \<Rightarrow> string" where
  "status_name Status_Ok = ''ok''"
| "status_name Status_Rejected = ''rejected''"
| "status_name Status_Error = ''error''"

fun trust_name :: "trust \<Rightarrow> string" where
  "trust_name ExternalUntrusted = ''external_untrusted''"

fun inspection_status_name :: "inspection_status \<Rightarrow> string" where
  "inspection_status_name Insp_NoMatch = ''no_match''"
| "inspection_status_name Insp_Match = ''match''"
| "inspection_status_name Insp_Failed = ''failed''"
| "inspection_status_name Insp_NotRun = ''not_run''"

fun error_code_name :: "error_code \<Rightarrow> string" where
  "error_code_name ContentRejected = ''content_rejected''"
| "error_code_name InspectionFailed = ''inspection_failed''"
| "error_code_name UnsafeSource = ''unsafe_source''"
| "error_code_name UnsupportedContent = ''unsupported_content''"
| "error_code_name ResponseLimitExceeded = ''response_limit_exceeded''"
| "error_code_name FetchFailed = ''fetch_failed''"
| "error_code_name DeadlineExceeded = ''deadline_exceeded''"
| "error_code_name InternalError = ''internal_error''"

fun format_name :: "format \<Rightarrow> string" where
  "format_name Markdown = ''markdown''"
| "format_name Text = ''text''"
| "format_name Html = ''html''"

fun method_name :: "conversion_method \<Rightarrow> string" where
  "method_name Native = ''native''"
| "method_name Extracted = ''extracted''"
| "method_name Basic = ''basic''"
| "method_name Passthrough = ''passthrough''"
| "method_name Source = ''source''"

fun stage_name :: "stage \<Rightarrow> string" where
  "stage_name Stage_Fetch = ''fetch''"
| "stage_name Stage_Inspect = ''inspect''"

text \<open>The names with their variants.\<close>

definition named :: "('a \<Rightarrow> string) \<Rightarrow> 'a list \<Rightarrow> (string \<times> 'a) list" where
  "named name vs = map (\<lambda>v. (name v, v)) vs"

definition STATUSES :: "status list" where
  "STATUSES = [Status_Ok, Status_Rejected, Status_Error]"

definition TRUSTS :: "trust list" where
  "TRUSTS = [ExternalUntrusted]"

definition INSPECTION_STATUSES :: "inspection_status list" where
  "INSPECTION_STATUSES = [Insp_NoMatch, Insp_Match, Insp_Failed, Insp_NotRun]"

definition ERROR_CODES :: "error_code list" where
  "ERROR_CODES = [ContentRejected, InspectionFailed, UnsafeSource, UnsupportedContent,
     ResponseLimitExceeded, FetchFailed, DeadlineExceeded, InternalError]"

definition FORMATS :: "format list" where
  "FORMATS = [Markdown, Text, Html]"

definition METHODS :: "conversion_method list" where
  "METHODS = [Native, Extracted, Basic, Passthrough, Source]"

definition STAGES :: "stage list" where
  "STAGES = [Stage_Fetch, Stage_Inspect]"

definition ser_named :: "('a \<Rightarrow> string) \<Rightarrow> 'a \<Rightarrow> json" where
  "ser_named name v = ser_name (name v)"

definition de_named :: "('a \<Rightarrow> string) \<Rightarrow> 'a list \<Rightarrow> json \<Rightarrow> 'a option" where
  "de_named name vs = de_enum (named name vs)"

lemma named_found: "inj name \<Longrightarrow> v \<in> set vs \<Longrightarrow> map_of (named name vs) (name v) = Some v"
  by (induction vs) (auto simp: named_def inj_eq)

lemma codec_named:
  assumes "inj name" "set vs = UNIV"
  shows "codec (ser_named name) (de_named name vs) (\<lambda>_. True)"
  using codec_enum [of "named name vs" name] named_found [OF assms(1)] assms(2)
  by (simp add: ser_named_def [abs_def] de_named_def)

lemma all_variants:
  "set STATUSES = UNIV" "set TRUSTS = UNIV" "set INSPECTION_STATUSES = UNIV" "set ERROR_CODES = UNIV"
  "set FORMATS = UNIV" "set METHODS = UNIV" "set STAGES = UNIV"
  by (auto simp: STATUSES_def TRUSTS_def INSPECTION_STATUSES_def ERROR_CODES_def FORMATS_def METHODS_def
      STAGES_def intro: status.exhaust trust.exhaust inspection_status.exhaust error_code.exhaust
      format.exhaust conversion_method.exhaust stage.exhaust)

lemma names_differ:
  "inj status_name" "inj trust_name" "inj inspection_status_name" "inj error_code_name"
  "inj format_name" "inj method_name" "inj stage_name"
  unfolding inj_def
  by (intro allI impI, case_tac x; case_tac y; simp)+

interpretation status_codec: codec "ser_named status_name" "de_named status_name STATUSES" "\<lambda>_. True"
  by (rule codec_named [OF names_differ(1) all_variants(1)])

interpretation trust_codec: codec "ser_named trust_name" "de_named trust_name TRUSTS" "\<lambda>_. True"
  by (rule codec_named [OF names_differ(2) all_variants(2)])

interpretation inspection_status_codec:
  codec "ser_named inspection_status_name" "de_named inspection_status_name INSPECTION_STATUSES" "\<lambda>_. True"
  by (rule codec_named [OF names_differ(3) all_variants(3)])

interpretation error_code_codec: codec "ser_named error_code_name" "de_named error_code_name ERROR_CODES" "\<lambda>_. True"
  by (rule codec_named [OF names_differ(4) all_variants(4)])

interpretation format_codec: codec "ser_named format_name" "de_named format_name FORMATS" "\<lambda>_. True"
  by (rule codec_named [OF names_differ(5) all_variants(5)])

interpretation method_codec: codec "ser_named method_name" "de_named method_name METHODS" "\<lambda>_. True"
  by (rule codec_named [OF names_differ(6) all_variants(6)])

interpretation stage_codec: codec "ser_named stage_name" "de_named stage_name STAGES" "\<lambda>_. True"
  by (rule codec_named [OF names_differ(7) all_variants(7)])

section \<open>The structs\<close>

text \<open>Every struct is \<^verbatim>\<open>deny_unknown_fields\<close>; the request alone has a field with a default.\<close>

definition REQUEST_FIELDS :: "string list" where
  "REQUEST_FIELDS = [''url'', ''format'']"

definition de_request :: "json \<Rightarrow> web_fetch_request option" where
  "de_request j = opt_bind (struct_fields True REQUEST_FIELDS j) (\<lambda>fs.
     opt_bind (required de_string (fs ! 0)) (\<lambda>url.
     opt_bind (defaulted Markdown (de_named format_name FORMATS) (fs ! 1)) (\<lambda>fmt.
       Some \<lparr>req_url = url, req_format = fmt\<rparr>)))"

definition ser_request :: "web_fetch_request \<Rightarrow> json" where
  "ser_request r = ser_struct
     [(''url'', JString (req_url r)), (''format'', ser_named format_name (req_format r))]"

definition INSPECTION_FIELDS :: "string list" where
  "INSPECTION_FIELDS = [''status'', ''policy_id'']"

definition de_inspection :: "json \<Rightarrow> inspection_field option" where
  "de_inspection j = opt_bind (struct_fields True INSPECTION_FIELDS j) (\<lambda>fs.
     opt_bind (required (de_named inspection_status_name INSPECTION_STATUSES) (fs ! 0)) (\<lambda>s.
     opt_bind (optional de_string (fs ! 1)) (\<lambda>p.
       Some \<lparr>insp_status = s, insp_policy_id = p\<rparr>)))"

definition ser_inspection :: "inspection_field \<Rightarrow> json" where
  "ser_inspection i = ser_struct
     [(''status'', ser_named inspection_status_name (insp_status i)),
      (''policy_id'', ser_option JString (insp_policy_id i))]"

definition ERROR_FIELDS :: "string list" where
  "ERROR_FIELDS = [''code'', ''message'']"

definition de_tool_error :: "json \<Rightarrow> tool_error option" where
  "de_tool_error j = opt_bind (struct_fields True ERROR_FIELDS j) (\<lambda>fs.
     opt_bind (required (de_named error_code_name ERROR_CODES) (fs ! 0)) (\<lambda>c.
     opt_bind (required de_string (fs ! 1)) (\<lambda>m.
       Some \<lparr>err_code = c, err_message = m\<rparr>)))"

definition ser_tool_error :: "tool_error \<Rightarrow> json" where
  "ser_tool_error e = ser_struct
     [(''code'', ser_named error_code_name (err_code e)), (''message'', JString (err_message e))]"

definition ENVELOPE_FIELDS :: "string list" where
  "ENVELOPE_FIELDS = [''envelope_version'', ''tool'', ''tool_version'', ''status'', ''trust'',
     ''inspection'', ''data'', ''error'']"

definition de_envelope :: "(json \<Rightarrow> 'p option) \<Rightarrow> json \<Rightarrow> 'p envelope option" where
  "de_envelope de_data j = opt_bind (struct_fields True ENVELOPE_FIELDS j) (\<lambda>fs.
     opt_bind (required de_word (fs ! 0)) (\<lambda>version.
     opt_bind (required de_string (fs ! 1)) (\<lambda>name.
     opt_bind (required de_word (fs ! 2)) (\<lambda>of_tool.
     opt_bind (required (de_named status_name STATUSES) (fs ! 3)) (\<lambda>s.
     opt_bind (required (de_named trust_name TRUSTS) (fs ! 4)) (\<lambda>t.
     opt_bind (required de_inspection (fs ! 5)) (\<lambda>i.
     opt_bind (optional de_data (fs ! 6)) (\<lambda>d.
     opt_bind (optional de_tool_error (fs ! 7)) (\<lambda>e.
       Some \<lparr>envelope_version = version, tool = name, tool_version = of_tool, env_status = s,
          trust = t, inspection = i, env_data = d, env_error = e\<rparr>)))))))))"

definition ser_envelope :: "('p \<Rightarrow> json) \<Rightarrow> 'p envelope \<Rightarrow> json" where
  "ser_envelope ser_data e = ser_struct
     [(''envelope_version'', ser_word (envelope_version e)), (''tool'', JString (tool e)),
      (''tool_version'', ser_word (tool_version e)), (''status'', ser_named status_name (env_status e)),
      (''trust'', ser_named trust_name (trust e)), (''inspection'', ser_inspection (inspection e)),
      (''data'', ser_option ser_data (env_data e)), (''error'', ser_option ser_tool_error (env_error e))]"

definition DATA_FIELDS :: "string list" where
  "DATA_FIELDS = [''source_id'', ''final_url'', ''http_status'', ''content_type'', ''retrieved_at'',
     ''format'', ''conversion_method'', ''content'']"

definition de_data :: "json \<Rightarrow> web_fetch_data option" where
  "de_data j = opt_bind (struct_fields True DATA_FIELDS j) (\<lambda>fs.
     opt_bind (required de_string (fs ! 0)) (\<lambda>source.
     opt_bind (required de_string (fs ! 1)) (\<lambda>url.
     opt_bind (required de_word (fs ! 2)) (\<lambda>status.
     opt_bind (required de_string (fs ! 3)) (\<lambda>ctype.
     opt_bind (required de_string (fs ! 4)) (\<lambda>at.
     opt_bind (required (de_named format_name FORMATS) (fs ! 5)) (\<lambda>fmt.
     opt_bind (required (de_named method_name METHODS) (fs ! 6)) (\<lambda>m.
     opt_bind (required de_string (fs ! 7)) (\<lambda>content.
       Some \<lparr>source_id = source, final_url = url, http_status = status, content_type = ctype,
          retrieved_at = at, data_format = fmt, data_method = m, data_content = content\<rparr>)))))))))"

definition ser_data :: "web_fetch_data \<Rightarrow> json" where
  "ser_data d = ser_struct
     [(''source_id'', JString (source_id d)), (''final_url'', JString (final_url d)),
      (''http_status'', ser_word (http_status d)), (''content_type'', JString (content_type d)),
      (''retrieved_at'', JString (retrieved_at d)), (''format'', ser_named format_name (data_format d)),
      (''conversion_method'', ser_named method_name (data_method d)),
      (''content'', JString (data_content d))]"

definition OUTCOME_FIELDS :: "string list" where
  "OUTCOME_FIELDS = [''stage_version'', ''stage'', ''run_id'', ''code'']"

definition de_stage_outcome :: "json \<Rightarrow> stage_outcome option" where
  "de_stage_outcome j = opt_bind (struct_fields True OUTCOME_FIELDS j) (\<lambda>fs.
     opt_bind (required de_word (fs ! 0)) (\<lambda>version.
     opt_bind (required (de_named stage_name STAGES) (fs ! 1)) (\<lambda>s.
     opt_bind (required de_string (fs ! 2)) (\<lambda>run.
     opt_bind (optional (de_named error_code_name ERROR_CODES) (fs ! 3)) (\<lambda>c.
       Some \<lparr>stage_version = version, outcome_stage = s, outcome_run_id = run, outcome_code = c\<rparr>)))))"

definition ser_stage_outcome :: "stage_outcome \<Rightarrow> json" where
  "ser_stage_outcome o' = ser_struct
     [(''stage_version'', ser_word (stage_version o')), (''stage'', ser_named stage_name (outcome_stage o')),
      (''run_id'', JString (outcome_run_id o')),
      (''code'', ser_option (ser_named error_code_name) (outcome_code o'))]"

definition ARTIFACT_FIELDS :: "string list" where
  "ARTIFACT_FIELDS = [''artifact_version'', ''run_id'', ''source_id'', ''requested_url_sha256'',
     ''final_url'', ''http_status'', ''content_type'', ''content_encoding'', ''redirects'',
     ''retrieved_at'', ''format'', ''body_bytes'', ''body_sha256'', ''policy_profile'']"

definition de_fetch_artifact :: "json \<Rightarrow> fetch_artifact option" where
  "de_fetch_artifact j = opt_bind (struct_fields True ARTIFACT_FIELDS j) (\<lambda>fs.
     opt_bind (required de_word (fs ! 0)) (\<lambda>version.
     opt_bind (required de_string (fs ! 1)) (\<lambda>run.
     opt_bind (required de_string (fs ! 2)) (\<lambda>source.
     opt_bind (required de_string (fs ! 3)) (\<lambda>requested.
     opt_bind (required de_string (fs ! 4)) (\<lambda>url.
     opt_bind (required de_word (fs ! 5)) (\<lambda>status.
     opt_bind (optional de_string (fs ! 6)) (\<lambda>ctype.
     opt_bind (optional de_string (fs ! 7)) (\<lambda>coding.
     opt_bind (required de_word (fs ! 8)) (\<lambda>hops.
     opt_bind (required de_string (fs ! 9)) (\<lambda>at.
     opt_bind (required (de_named format_name FORMATS) (fs ! 10)) (\<lambda>fmt.
     opt_bind (required de_usize (fs ! 11)) (\<lambda>size.
     opt_bind (required de_string (fs ! 12)) (\<lambda>digest.
     opt_bind (required de_string (fs ! 13)) (\<lambda>prof.
       Some \<lparr>artifact_version = version, art_run_id = run, art_source_id = source,
          requested_url_sha256 = requested, art_final_url = url, art_http_status = status,
          art_content_type = ctype, art_content_encoding = coding, art_redirects = hops,
          art_retrieved_at = at, art_format = fmt, body_bytes = size, body_sha256 = digest,
          policy_profile = prof\<rparr>)))))))))))))))"

definition ser_fetch_artifact :: "fetch_artifact \<Rightarrow> json" where
  "ser_fetch_artifact a = ser_struct
     [(''artifact_version'', ser_word (artifact_version a)), (''run_id'', JString (art_run_id a)),
      (''source_id'', JString (art_source_id a)),
      (''requested_url_sha256'', JString (requested_url_sha256 a)),
      (''final_url'', JString (art_final_url a)), (''http_status'', ser_word (art_http_status a)),
      (''content_type'', ser_option JString (art_content_type a)),
      (''content_encoding'', ser_option JString (art_content_encoding a)),
      (''redirects'', ser_word (art_redirects a)), (''retrieved_at'', JString (art_retrieved_at a)),
      (''format'', ser_named format_name (art_format a)), (''body_bytes'', ser_usize (body_bytes a)),
      (''body_sha256'', JString (body_sha256 a)), (''policy_profile'', JString (policy_profile a))]"

section \<open>Values that can be written\<close>

text \<open>Strings are sequences of Unicode scalar values, and a \<^verbatim>\<open>usize\<close> is one.\<close>

definition good_request :: "web_fetch_request \<Rightarrow> bool" where
  "good_request r \<longleftrightarrow> valid_str (req_url r)"

definition good_inspection :: "inspection_field \<Rightarrow> bool" where
  "good_inspection i \<longleftrightarrow> (\<forall>p \<in> set_option (insp_policy_id i). valid_str p)"

definition good_envelope :: "('p \<Rightarrow> bool) \<Rightarrow> 'p envelope \<Rightarrow> bool" where
  "good_envelope good e \<longleftrightarrow> valid_str (tool e) \<and> good_inspection (inspection e)
     \<and> (\<forall>d \<in> set_option (env_data e). good d)
     \<and> (\<forall>x \<in> set_option (env_error e). valid_str (err_message x))"

definition good_data :: "web_fetch_data \<Rightarrow> bool" where
  "good_data d \<longleftrightarrow> list_all valid_str
     [source_id d, final_url d, content_type d, retrieved_at d, data_content d]"

definition good_artifact :: "fetch_artifact \<Rightarrow> bool" where
  "good_artifact a \<longleftrightarrow> body_bytes a \<le> usize_max
     \<and> list_all valid_str [art_run_id a, art_source_id a, requested_url_sha256 a, art_final_url a,
         art_retrieved_at a, body_sha256 a, policy_profile a]
     \<and> (\<forall>s \<in> set_option (art_content_type a) \<union> set_option (art_content_encoding a). valid_str s)"

section \<open>Reading back\<close>

named_theorems wire_fields \<open>the names of the fields of the structs\<close>

declare REQUEST_FIELDS_def [wire_fields] INSPECTION_FIELDS_def [wire_fields] ERROR_FIELDS_def [wire_fields]
  ENVELOPE_FIELDS_def [wire_fields] DATA_FIELDS_def [wire_fields] OUTCOME_FIELDS_def [wire_fields]
  ARTIFACT_FIELDS_def [wire_fields]

lemma valid_struct: "valid_json (ser_struct ms) \<longleftrightarrow> list_all (\<lambda>(n, j). valid_json j) ms"
  by (induction ms) (auto simp: ser_struct_def valid_lit)

lemma struct_solid: "ser_struct ms \<noteq> JNull"
  by (simp add: ser_struct_def)

lemmas wire_reads = word_codec.reads usize_codec.reads string_codec.reads_option
  status_codec.reads trust_codec.reads inspection_status_codec.reads error_code_codec.reads
  error_code_codec.reads_option format_codec.reads method_codec.reads stage_codec.reads

lemmas wire_writes = word_codec.writes usize_codec.writes string_codec.writes_option
  status_codec.writes trust_codec.writes inspection_status_codec.writes error_code_codec.writes
  error_code_codec.writes_option format_codec.writes method_codec.writes stage_codec.writes

interpretation request_codec: codec ser_request de_request good_request
  by unfold_locales
     (simp_all add: ser_request_def de_request_def good_request_def struct_fields_written wire_fields
       wire_reads wire_writes valid_struct struct_solid)

interpretation inspection_codec: codec ser_inspection de_inspection good_inspection
  by unfold_locales
     (simp_all add: ser_inspection_def de_inspection_def good_inspection_def struct_fields_written wire_fields
       wire_reads wire_writes valid_struct struct_solid)

interpretation tool_error_codec: codec ser_tool_error de_tool_error "\<lambda>e. valid_str (err_message e)"
  by unfold_locales
     (simp_all add: ser_tool_error_def de_tool_error_def struct_fields_written wire_fields
       wire_reads wire_writes valid_struct struct_solid)

interpretation data_codec: codec ser_data de_data good_data
  by unfold_locales
     (simp_all add: ser_data_def de_data_def good_data_def struct_fields_written wire_fields
       wire_reads wire_writes valid_struct struct_solid)

interpretation stage_outcome_codec: codec ser_stage_outcome de_stage_outcome "\<lambda>o'. valid_str (outcome_run_id o')"
  by unfold_locales
     (simp_all add: ser_stage_outcome_def de_stage_outcome_def struct_fields_written wire_fields
       wire_reads wire_writes valid_struct struct_solid)

interpretation artifact_codec: codec ser_fetch_artifact de_fetch_artifact good_artifact
  by unfold_locales
     (simp_all add: ser_fetch_artifact_def de_fetch_artifact_def good_artifact_def struct_fields_written
       wire_fields wire_reads wire_writes valid_struct struct_solid)

text \<open>An envelope over any payload with a codec.\<close>

lemma codec_envelope:
  assumes "codec ser de good"
  shows "codec (ser_envelope ser) (de_envelope de) (good_envelope good)"
  using codec.reads_option [OF assms] codec.writes_option [OF assms]
  by unfold_locales
     (simp_all add: ser_envelope_def de_envelope_def good_envelope_def struct_fields_written wire_fields
       wire_reads wire_writes inspection_codec.reads inspection_codec.writes
       tool_error_codec.reads_option tool_error_codec.writes_option valid_struct struct_solid)

interpretation envelope_codec: codec "ser_envelope ser_data" "de_envelope de_data" "good_envelope good_data"
  by (rule codec_envelope) (rule data_codec.codec_axioms)

end
