(* ===== verification/Wire_Schema.thy ===== *)
theory Wire_Schema
  imports Wire
begin

text \<open>
  The JSON schemas of \<^verbatim>\<open>schemas/\<close>, which the other side of the wire validates against, as values of
  a small schema language with the keywords they use, and how the contracts of the Rust types relate
  to them.
\<close>

section \<open>Schemas\<close>

datatype json_type = T_Object | T_String | T_Integer | T_Null

text \<open>\<^verbatim>\<open>Members\<close> is \<^verbatim>\<open>properties\<close>, closed if \<^verbatim>\<open>additionalProperties\<close> is \<^verbatim>\<open>false\<close>; a pattern is the set of
  strings it matches; \<^verbatim>\<open>format\<close> and \<^verbatim>\<open>description\<close> assert nothing.\<close>

datatype schema = Schema "keyword list"
  and keyword =
    Types "json_type list"
  | Enum "json list"
  | Required "string list"
  | Members bool "(string \<times> schema) list"
  | Max_Length nat
  | Minimum int
  | Maximum int
  | Pattern "str \<Rightarrow> bool"
  | All_Of "schema list"
  | One_Of "schema list"
  | If_Then schema schema

fun has_type :: "json \<Rightarrow> json_type \<Rightarrow> bool" where
  "has_type (JObject _) t \<longleftrightarrow> t = T_Object"
| "has_type (JString _) t \<longleftrightarrow> t = T_String"
| "has_type (JNumber _) t \<longleftrightarrow> t = T_Integer"
| "has_type JNull t \<longleftrightarrow> t = T_Null"
| "has_type _ t \<longleftrightarrow> False"

text \<open>A keyword says nothing of values of another type.\<close>

fun accepts :: "schema \<Rightarrow> json \<Rightarrow> bool"
  and holds :: "keyword \<Rightarrow> json \<Rightarrow> bool" where
  "accepts (Schema ks) j = list_all (\<lambda>k. holds k j) ks"
| "holds (Types ts) j = list_ex (has_type j) ts"
| "holds (Enum vs) j = (j \<in> set vs)"
| "holds (Required ns) j = (case j of JObject ms \<Rightarrow> list_all (\<lambda>n. lit n \<in> fst ` set ms) ns | _ \<Rightarrow> True)"
| "holds (Members closed ps) j = (case j of
     JObject ms \<Rightarrow>
       (closed \<longrightarrow> list_all (\<lambda>(k, _). k \<in> lit ` fst ` set ps) ms)
       \<and> list_all (\<lambda>(n, s). case map_of ms (lit n) of None \<Rightarrow> True | Some v \<Rightarrow> accepts s v) ps
   | _ \<Rightarrow> True)"
| "holds (Max_Length n) j = (case j of JString s \<Rightarrow> length s \<le> n | _ \<Rightarrow> True)"
| "holds (Minimum n) j = (case j of JNumber m \<Rightarrow> n \<le> m | _ \<Rightarrow> True)"
| "holds (Maximum n) j = (case j of JNumber m \<Rightarrow> m \<le> n | _ \<Rightarrow> True)"
| "holds (Pattern p) j = (case j of JString s \<Rightarrow> p s | _ \<Rightarrow> True)"
| "holds (All_Of ss) j = list_all (\<lambda>s. accepts s j) ss"
| "holds (One_Of ss) j = (length (filter (\<lambda>s. accepts s j) ss) = 1)"
| "holds (If_Then c s) j = (accepts c j \<longrightarrow> accepts s j)"

definition Const :: "json \<Rightarrow> keyword" where
  "Const v = Enum [v]"

definition strings :: "string list \<Rightarrow> json list" where
  "strings ns = map (\<lambda>n. JString (lit n)) ns"

text \<open>The patterns.\<close>

definition between :: "nat \<Rightarrow> nat \<Rightarrow> (uchar \<Rightarrow> bool) \<Rightarrow> str \<Rightarrow> bool" where
  "between m n p s \<longleftrightarrow> m \<le> length s \<and> length s \<le> n \<and> list_all p s"

definition is_lower_hex :: "uchar \<Rightarrow> bool" where
  "is_lower_hex c \<longleftrightarrow> is_ascii_digit c \<or> (97 \<le> c \<and> c \<le> 102)"

definition source_id_pattern :: "str \<Rightarrow> bool" where
  "source_id_pattern s \<longleftrightarrow>
     (case strip_prefix (lit ''source-'') s of None \<Rightarrow> False | Some n \<Rightarrow> between 1 32 is_ascii_digit n)"

definition policy_id_pattern :: "str \<Rightarrow> bool" where
  "policy_id_pattern = between 1 64 (\<lambda>c. is_ascii_lowercase c \<or> is_ascii_digit c
     \<or> c = uc CHR ''.'' \<or> c = uc CHR ''_'' \<or> c = uc CHR ''-'')"

definition run_id_pattern :: "str \<Rightarrow> bool" where
  "run_id_pattern = between 1 64 (\<lambda>c. is_ascii_lowercase c \<or> is_ascii_digit c \<or> c = uc CHR ''-'')"

definition digest_pattern :: "str \<Rightarrow> bool" where
  "digest_pattern = between 64 64 is_lower_hex"

section \<open>The five schemas\<close>

definition request_schema :: schema where
  "request_schema = Schema
     [Types [T_Object], Required [''url''],
      Members True
        [(''url'', Schema [Types [T_String], Max_Length 2048]),
         (''format'', Schema [Enum (strings [''markdown'', ''text'', ''html''])])]]"

definition inspection_schema :: schema where
  "inspection_schema = Schema
     [Types [T_Object], Required [''status'', ''policy_id''],
      Members True
        [(''status'', Schema [Enum (strings [''no_match'', ''match'', ''failed'', ''not_run''])]),
         (''policy_id'', Schema [Types [T_String, T_Null], Pattern policy_id_pattern])]]"

definition tool_error_schema :: schema where
  "tool_error_schema = Schema
     [Types [T_Object], Required [''code'', ''message''],
      Members True
        [(''code'', Schema [Enum (strings
           [''content_rejected'', ''inspection_failed'', ''unsafe_source'', ''unsupported_content'',
            ''response_limit_exceeded'', ''fetch_failed'', ''deadline_exceeded'', ''internal_error''])]),
         (''message'', Schema [Types [T_String], Max_Length 500, Enum (strings
           [''Response content was withheld from model context.'',
            ''Response inspection did not complete; no content was returned.'',
            ''The requested destination is not allowed.'',
            ''The response media type or encoding is not supported.'',
            ''The response exceeded a configured limit.'',
            ''The request to the source could not be completed.'',
            ''The request did not complete within its deadline.'',
            ''The tool could not complete this request.''])])]]"

definition envelope_schema :: schema where
  "envelope_schema = Schema
     [Types [T_Object],
      Required [''envelope_version'', ''tool'', ''tool_version'', ''status'', ''trust'', ''inspection'',
        ''data'', ''error''],
      Members True
        [(''envelope_version'', Schema [Const (JNumber 1)]),
         (''tool'', Schema [Types [T_String], Max_Length 64]),
         (''tool_version'', Schema [Types [T_Integer], Minimum 1]),
         (''status'', Schema [Enum (strings [''ok'', ''rejected'', ''error''])]),
         (''trust'', Schema [Enum (strings [''external_untrusted''])]),
         (''inspection'', inspection_schema),
         (''data'', Schema [Types [T_Object, T_Null]]),
         (''error'', Schema [One_Of [tool_error_schema, Schema [Types [T_Null]]]])],
      All_Of
        [Schema [If_Then (Schema [Members False [(''status'', Schema [Const (JString (lit ''ok''))])]])
           (Schema [Members False
              [(''data'', Schema [Types [T_Object]]), (''error'', Schema [Types [T_Null]]),
               (''inspection'', Schema [Members False
                  [(''status'', Schema [Const (JString (lit ''no_match''))]),
                   (''policy_id'', Schema [Types [T_String]])]])]])],
         Schema [If_Then (Schema [Members False [(''status'', Schema [Enum (strings [''rejected'', ''error''])])]])
           (Schema [Members False
              [(''data'', Schema [Types [T_Null]]), (''error'', tool_error_schema)]])]]]"

definition result_schema :: schema where
  "result_schema = Schema
     [Types [T_Object],
      Required [''source_id'', ''final_url'', ''http_status'', ''content_type'', ''retrieved_at'', ''format'',
        ''conversion_method'', ''content''],
      Members True
        [(''source_id'', Schema [Types [T_String], Pattern source_id_pattern]),
         (''final_url'', Schema [Types [T_String], Max_Length 2048]),
         (''http_status'', Schema [Types [T_Integer], Minimum 100, Maximum 599]),
         (''content_type'', Schema [Types [T_String], Max_Length 200]),
         (''retrieved_at'', Schema [Types [T_String]]),
         (''format'', Schema [Enum (strings [''markdown'', ''text'', ''html''])]),
         (''conversion_method'', Schema [Enum (strings
            [''native'', ''extracted'', ''basic'', ''passthrough'', ''source''])]),
         (''content'', Schema [Types [T_String], Max_Length 1048576])],
      All_Of
        [Schema [If_Then
           (Schema [Members False [(''format'', Schema [Const (JString (lit ''html''))])], Required [''format'']])
           (Schema [Members False [(''conversion_method'', Schema [Const (JString (lit ''source''))])]])]]]"

definition artifact_schema :: schema where
  "artifact_schema = Schema
     [Types [T_Object],
      Required [''artifact_version'', ''run_id'', ''source_id'', ''requested_url_sha256'', ''final_url'',
        ''http_status'', ''content_type'', ''content_encoding'', ''redirects'', ''retrieved_at'', ''format'',
        ''body_bytes'', ''body_sha256'', ''policy_profile''],
      Members True
        [(''artifact_version'', Schema [Const (JNumber 1)]),
         (''run_id'', Schema [Types [T_String], Pattern run_id_pattern]),
         (''source_id'', Schema [Types [T_String], Pattern source_id_pattern]),
         (''requested_url_sha256'', Schema [Types [T_String], Pattern digest_pattern]),
         (''final_url'', Schema [Types [T_String], Max_Length 2048]),
         (''http_status'', Schema [Types [T_Integer], Minimum 100, Maximum 599]),
         (''content_type'', Schema [Types [T_String, T_Null], Max_Length 200]),
         (''content_encoding'', Schema [Types [T_String, T_Null], Max_Length 64]),
         (''redirects'', Schema [Types [T_Integer], Minimum 0, Maximum 3]),
         (''retrieved_at'', Schema [Types [T_String]]),
         (''format'', Schema [Enum (strings [''markdown'', ''text'', ''html''])]),
         (''body_bytes'', Schema [Types [T_Integer], Minimum 0, Maximum 1048576]),
         (''body_sha256'', Schema [Types [T_String], Pattern digest_pattern]),
         (''policy_profile'', Schema [Enum (strings [''production'', ''test''])])]]"

definition outcome_schema :: schema where
  "outcome_schema = Schema
     [Types [T_Object], Required [''stage_version'', ''stage'', ''run_id'', ''code''],
      Members True
        [(''stage_version'', Schema [Const (JNumber 1)]),
         (''stage'', Schema [Enum (strings [''fetch'', ''inspect''])]),
         (''run_id'', Schema [Types [T_String], Pattern run_id_pattern]),
         (''code'', Schema [Types [T_String, T_Null], Enum (JNull # strings
           [''content_rejected'', ''inspection_failed'', ''unsafe_source'', ''unsupported_content'',
            ''response_limit_exceeded'', ''fetch_failed'', ''deadline_exceeded'', ''internal_error''])])]]"

section \<open>What is written fits\<close>

named_theorems schema_eval \<open>evaluation of schemas on written structs\<close>

lemma closed_written:
  "list_all (\<lambda>(k, _). k \<in> lit ` A) (map (\<lambda>(n, j). (lit n, j)) ms) \<longleftrightarrow> set (map fst ms) \<subseteq> A"
  by (induction ms) auto

lemma members_written [schema_eval]:
  "holds (Members closed ps) (ser_struct ms) \<longleftrightarrow>
     (closed \<longrightarrow> set (map fst ms) \<subseteq> fst ` set ps)
     \<and> list_all (\<lambda>(n, s). case map_of ms n of None \<Rightarrow> True | Some v \<Rightarrow> accepts s v) ps"
  by (simp add: ser_struct_def map_of_lit closed_written)

lemma required_written [schema_eval]:
  "holds (Required ns) (ser_struct ms) \<longleftrightarrow> set ns \<subseteq> set (map fst ms)"
  by (force simp: ser_struct_def list_all_iff)

lemma struct_type [schema_eval]: "has_type (ser_struct ms) t \<longleftrightarrow> t = T_Object"
  by (simp add: ser_struct_def)

lemma lit_length [schema_eval]: "length (lit s) = length s"
  by (simp add: lit_def)

declare ser_named_def [schema_eval] ser_name_def [schema_eval]
  ser_word_def [schema_eval] ser_usize_def [schema_eval]

lemma option_type [schema_eval]:
  "has_type (ser_option ser v) t \<longleftrightarrow> (case v of None \<Rightarrow> t = T_Null | Some x \<Rightarrow> has_type (ser x) t)"
  by (simp add: ser_option_def split: option.split)

declare holds.simps(3,4) [simp del]

lemma source_id_fits: "is_source_id s \<Longrightarrow> source_id_pattern s"
proof -
  assume "is_source_id s"
  then obtain n where n: "strip_prefix (lit ''source-'') s = Some n" "n \<noteq> []" "byte_len n \<le> 32"
      "list_all is_ascii_digit n"
    by (auto simp: is_source_id_iff strip_prefix_Some_iff)
  then show ?thesis using length_le_byte_len [of n] by (simp add: source_id_pattern_def between_def Suc_le_eq)
qed

lemma policy_id_fits: "policy_id_shaped p \<Longrightarrow> policy_id_pattern p"
  using length_le_byte_len [of p]
  by (auto simp: policy_id_shaped_def policy_id_pattern_def between_def list_all_iff Suc_le_eq)

lemma enum_strings: "holds (Enum (strings ns)) (JString (lit n)) \<longleftrightarrow> n \<in> set ns"
  by (auto simp: strings_def)

lemma const_string [schema_eval]: "holds (Const (JString (lit n))) (JString (lit m)) \<longleftrightarrow> m = n"
  by (simp add: Const_def)

lemma const_number [schema_eval]: "holds (Const (JNumber n)) (JNumber m) \<longleftrightarrow> m = n"
  by (simp add: Const_def)

declare holds.simps(2-4) [simp del]

text \<open>The names of an enumeration are the ones its schema lists.\<close>

lemma enum_format [schema_eval]:
  "holds (Enum (strings [''markdown'', ''text'', ''html''])) (JString (lit (format_name f)))"
  by (cases f) (simp_all add: enum_strings)

lemma enum_method [schema_eval]:
  "holds (Enum (strings [''native'', ''extracted'', ''basic'', ''passthrough'', ''source'']))
     (JString (lit (method_name m)))"
  by (cases m) (simp_all add: enum_strings)

lemma enum_status [schema_eval]:
  "holds (Enum (strings [''ok'', ''rejected'', ''error''])) (JString (lit (status_name s)))"
  "holds (Enum (strings [''rejected'', ''error''])) (JString (lit (status_name s))) \<longleftrightarrow> s \<noteq> Status_Ok"
  by (cases s; simp add: enum_strings)+

lemma enum_trust [schema_eval]:
  "holds (Enum (strings [''external_untrusted''])) (JString (lit (trust_name r)))"
  by (cases r) (simp_all add: enum_strings)

lemma enum_inspection [schema_eval]:
  "holds (Enum (strings [''no_match'', ''match'', ''failed'', ''not_run'']))
     (JString (lit (inspection_status_name i)))"
  by (cases i) (simp_all add: enum_strings)

lemma enum_code [schema_eval]:
  "holds (Enum (strings [''content_rejected'', ''inspection_failed'', ''unsafe_source'', ''unsupported_content'',
     ''response_limit_exceeded'', ''fetch_failed'', ''deadline_exceeded'', ''internal_error'']))
     (JString (lit (error_code_name c)))"
  by (cases c) (simp_all add: enum_strings)

lemma enum_message [schema_eval]:
  "holds (Enum (strings
     [''Response content was withheld from model context.'',
      ''Response inspection did not complete; no content was returned.'',
      ''The requested destination is not allowed.'',
      ''The response media type or encoding is not supported.'',
      ''The response exceeded a configured limit.'',
      ''The request to the source could not be completed.'',
      ''The request did not complete within its deadline.'',
      ''The tool could not complete this request.''])) (JString (code_message c))"
  by (cases c) (simp_all add: enum_strings code_message_def)

lemma enum_stage [schema_eval]:
  "holds (Enum (strings [''fetch'', ''inspect''])) (JString (lit (stage_name g)))"
  by (cases g) (simp_all add: enum_strings)

lemma names_are [schema_eval]:
  "format_name f = ''html'' \<longleftrightarrow> f = Html" "method_name m = ''source'' \<longleftrightarrow> m = Source"
  "status_name s = ''ok'' \<longleftrightarrow> s = Status_Ok" "inspection_status_name i = ''no_match'' \<longleftrightarrow> i = Insp_NoMatch"
  using names_differ injD [OF names_differ(1), of s Status_Ok] injD [OF names_differ(3), of i Insp_NoMatch]
    injD [OF names_differ(5), of f Html] injD [OF names_differ(6), of m Source]
  by auto

lemma message_size: "length (code_message c) \<le> 500"
  by (cases c) (simp_all add: code_message_def lit_length)

lemma data_fits:
  assumes "payload_contract L T d"
  shows "accepts result_schema (ser_data d)"
proof -
  have "source_id_pattern (source_id d)"
    using assms source_id_fits by (auto simp: payload_contract_def is_source_id_iff)
  moreover have "length (final_url d) \<le> 2048" "length (content_type d) \<le> 200" "length (data_content d) \<le> 1048576"
    using assms length_le_byte_len [of "final_url d"] length_le_byte_len [of "content_type d"]
    by (simp_all add: payload_contract_def limit_defs)
  moreover have "int 100 \<le> int (unat (http_status d))" "int (unat (http_status d)) \<le> int 599"
    using assms unfolding payload_contract_def of_nat_le_iff by blast+
  then have "100 \<le> uint (http_status d)" "uint (http_status d) \<le> 599" by simp_all
  moreover have "data_format d = Html \<Longrightarrow> data_method d = Source" using assms by (simp add: payload_contract_def)
  ultimately show ?thesis
    by (simp add: result_schema_def ser_data_def schema_eval)
qed

lemma inspection_fits:
  assumes "\<And>p. insp_policy_id i = Some p \<Longrightarrow> policy_id_shaped p"
  shows "accepts inspection_schema (ser_inspection i)"
  using assms policy_id_fits
  by (cases "insp_policy_id i") (simp_all add: inspection_schema_def ser_inspection_def schema_eval ser_option_def)

lemma tool_error_fits: "accepts tool_error_schema (ser_tool_error (tool_error_new c))"
  by (simp add: tool_error_schema_def ser_tool_error_def tool_error_new_def message_size schema_eval)

text \<open>Every envelope a stage may write fits the schema of envelopes, whatever its payload type is, as
  long as its payloads are written as objects.\<close>

lemma envelope_fits:
  assumes "envelope_contract P e" and "length (TOOL P) \<le> 64" "1 \<le> uint (TOOL_VERSION P)"
    and "\<And>d. has_type (ser d) T_Object"
  shows "accepts envelope_schema (ser_envelope ser e)"
proof -
  have head: "envelope_version e = 1" "tool e = TOOL P" "tool_version e = TOOL_VERSION P"
    using assms(1) by (simp_all add: envelope_contract_def ENVELOPE_VERSION_def)
  have policy: "accepts inspection_schema (ser_inspection (inspection e))"
    using assms(1)
    by (intro inspection_fits) (auto simp: envelope_contract_def clean_success_def fixed_failure_def)
  from assms(1) consider (ok) d p where "env_status e = Status_Ok" "env_error e = None" "env_data e = Some d"
        "insp_status (inspection e) = Insp_NoMatch" "insp_policy_id (inspection e) = Some p"
    | (failed) c where "env_status e = code_status c" "env_data e = None" "env_error e = Some (tool_error_new c)"
    by (auto simp: envelope_contract_def clean_success_def fixed_failure_def)
  then show ?thesis
  proof cases
    case ok
    have "\<not> accepts tool_error_schema JNull" by (simp add: tool_error_schema_def)
    then show ?thesis
      using ok head policy assms(2-4)
      by (simp add: envelope_schema_def ser_envelope_def ser_option_def schema_eval)
         (simp add: ser_inspection_def ser_option_def schema_eval enum_strings)
  next
    case failed
    have "ser_tool_error (tool_error_new c) \<noteq> JNull" "\<not> has_type (ser_tool_error (tool_error_new c)) T_Null"
      by (simp_all add: ser_tool_error_def struct_solid struct_type)
    then show ?thesis
      using failed head policy assms(2-3) tool_error_fits [of c]
      by (simp add: envelope_schema_def ser_envelope_def ser_option_def schema_eval)
  qed
qed

end
