(* ===== verification/Reference_Json.thy ===== *)
theory Reference_Json
  imports Serde Rust_Numbers
begin

text \<open>
  A concrete JSON library for the properties that speak of one: a compact printer with the escapes
  of \<^verbatim>\<open>serde_json\<close>, and a reader of what it prints.
\<close>

section \<open>Printing\<close>

definition escape :: "uchar \<Rightarrow> str" where
  "escape c =
     (if c = 34 \<or> c = 92 then [92, c]
      else if c = 8 then [92, 98] else if c = 9 then [92, 116] else if c = 10 then [92, 110]
      else if c = 12 then [92, 102] else if c = 13 then [92, 114]
      else if c < 32 then [92, 117, 48, 48, hex_digit (c div 16), hex_digit (c mod 16)]
      else [c])"

definition print_string :: "str \<Rightarrow> str" where
  "print_string s = 34 # concat (map escape s) @ [34]"

fun json_print :: "json \<Rightarrow> str"
  and print_elements :: "json list \<Rightarrow> str"
  and print_members :: "(str \<times> json) list \<Rightarrow> str" where
  "json_print JNull = lit ''null''"
| "json_print (JBool b) = lit (if b then ''true'' else ''false'')"
| "json_print (JNumber n) = (if n < 0 then 45 # show_nat (nat (- n)) else show_nat (nat n))"
| "json_print (JReal s) = s"
| "json_print (JString s) = print_string s"
| "json_print (JArray []) = [91, 93]"
| "json_print (JArray (v # vs)) = 91 # json_print v @ print_elements vs"
| "json_print (JObject []) = [123, 125]"
| "json_print (JObject ((k, v) # ms)) = 123 # print_string k @ 58 # json_print v @ print_members ms"
| "print_elements [] = [93]"
| "print_elements (v # vs) = 44 # json_print v @ print_elements vs"
| "print_members [] = [125]"
| "print_members ((k, v) # ms) = 44 # print_string k @ 58 # json_print v @ print_members ms"

section \<open>Reading\<close>

definition push :: "'a \<Rightarrow> ('a list \<times> str) option \<Rightarrow> ('a list \<times> str) option" where
  "push x r = map_option (\<lambda>(xs, rest). (x # xs, rest)) r"

definition unescape :: "uchar \<Rightarrow> uchar option" where
  "unescape e =
     (if e = 34 \<or> e = 92 \<or> e = 47 then Some e
      else if e = 98 then Some 8 else if e = 116 then Some 9 else if e = 110 then Some 10
      else if e = 102 then Some 12 else if e = 114 then Some 13 else None)"

definition hex_code :: "str \<Rightarrow> uchar option" where
  "hex_code digits = parse_digits 16 (2 ^ 16) 0 digits"

fun read_string :: "str \<Rightarrow> (str \<times> str) option" where
  "read_string [] = None"
| "read_string (c # s) =
     (if c = 34 then Some ([], s)
      else if c \<noteq> 92 then (if c < 32 then None else push c (read_string s))
      else case s of
        [] \<Rightarrow> None
      | e # t \<Rightarrow>
          if e = 117 then
            (case t of
               h1 # h2 # h3 # h4 # u \<Rightarrow>
                 (case hex_code [h1, h2, h3, h4] of
                    None \<Rightarrow> None
                  | Some x \<Rightarrow> if is_scalar x then push x (read_string u) else None)
             | _ \<Rightarrow> None)
          else (case unescape e of None \<Rightarrow> None | Some x \<Rightarrow> push x (read_string t)))"

definition digits_value :: "str \<Rightarrow> nat" where
  "digits_value ds = foldl (\<lambda>a c. 10 * a + (c - 48)) 0 ds"

definition read_digits :: "(nat \<Rightarrow> int) \<Rightarrow> str \<Rightarrow> (json \<times> str) option" where
  "read_digits f s =
     (let ds = takeWhile is_ascii_digit s
      in if ds = [] then None else Some (JNumber (f (digits_value ds)), dropWhile is_ascii_digit s))"

definition read_word :: "(string \<times> json) list \<Rightarrow> str \<Rightarrow> (json \<times> str) option" where
  "read_word words s =
     (case filter (\<lambda>(w, _). starts_with (lit w) s) words of
        [] \<Rightarrow> None
      | (w, j) # _ \<Rightarrow> Some (j, drop (length w) s))"

definition read_scalar :: "str \<Rightarrow> (json \<times> str) option" where
  "read_scalar s =
     (case s of
        [] \<Rightarrow> None
      | c # r \<Rightarrow>
          if c = 34 then map_option (\<lambda>(t, u). (JString t, u)) (read_string r)
          else if c = 45 then read_digits (\<lambda>n. - int n) r
          else if is_ascii_digit c then read_digits int s
          else read_word [(''null'', JNull), (''true'', JBool True), (''false'', JBool False)] s)"

definition read_key :: "str \<Rightarrow> (str \<times> str) option" where
  "read_key s =
     (case s of
        [] \<Rightarrow> None
      | c # r \<Rightarrow>
          if c \<noteq> 34 then None
          else (case read_string r of
                  None \<Rightarrow> None
                | Some (k, u) \<Rightarrow> (case u of [] \<Rightarrow> None | d # v \<Rightarrow> if d = 58 then Some (k, v) else None)))"

text \<open>The depth is bounded; the text's length is always enough.\<close>

fun read_value :: "nat \<Rightarrow> str \<Rightarrow> (json \<times> str) option"
  and read_elements :: "nat \<Rightarrow> str \<Rightarrow> (json list \<times> str) option"
  and read_members :: "nat \<Rightarrow> str \<Rightarrow> ((str \<times> json) list \<times> str) option"
  and read_member :: "nat \<Rightarrow> str \<Rightarrow> ((str \<times> json) list \<times> str) option" where
  "read_value 0 s = None"
| "read_value (Suc n) s =
     (if take 2 s = [91, 93] then Some (JArray [], drop 2 s)
      else if take 2 s = [123, 125] then Some (JObject [], drop 2 s)
      else if take 1 s = [91] then
        (case read_value n (drop 1 s) of
           None \<Rightarrow> None
         | Some (v, r) \<Rightarrow> map_option (\<lambda>(vs, u). (JArray vs, u)) (push v (read_elements n r)))
      else if take 1 s = [123] then map_option (\<lambda>(ms, u). (JObject ms, u)) (read_member n (drop 1 s))
      else read_scalar s)"
| "read_elements 0 s = None"
| "read_elements (Suc n) s =
     (if take 1 s = [93] then Some ([], drop 1 s)
      else if take 1 s = [44] then
        (case read_value n (drop 1 s) of None \<Rightarrow> None | Some (v, r) \<Rightarrow> push v (read_elements n r))
      else None)"
| "read_members 0 s = None"
| "read_members (Suc n) s =
     (if take 1 s = [125] then Some ([], drop 1 s)
      else if take 1 s = [44] then read_member n (drop 1 s)
      else None)"
| "read_member 0 s = None"
| "read_member (Suc n) s =
     (case read_key s of
        None \<Rightarrow> None
      | Some (k, r) \<Rightarrow>
          (case read_value n r of None \<Rightarrow> None | Some (v, u) \<Rightarrow> push (k, v) (read_members n u)))"

definition reference_json :: json_lib where
  "reference_json =
     \<lparr>json_read = (\<lambda>s. case read_value (Suc (length s)) s of
        Some (j, []) \<Rightarrow> Inr j
      | _ \<Rightarrow> Inl (lit ''not JSON'')),
      json_misfit = (\<lambda>_. lit ''not the type''), json_write = json_print\<rparr>"

section \<open>What is printed is read\<close>

lemma hex_digit_read: "n < 16 \<Longrightarrow> to_digit 16 (hex_digit n) = Some n"
  by (auto simp: to_digit_def hex_digit_def is_ascii_digit_def is_ascii_lowercase_def is_ascii_uppercase_def Let_def)

lemma control_code: "c < 32 \<Longrightarrow> hex_code [48, 48, hex_digit (c div 16), hex_digit (c mod 16)] = Some c"
proof -
  assume "c < 32"
  then have "c div 16 < 16" "c mod 16 < 16" "16 * (c div 16) + c mod 16 = c" by simp_all
  moreover have "to_digit 16 48 = Some 0" by (simp add: to_digit_def is_ascii_digit_def)
  ultimately show ?thesis using \<open>c < 32\<close> by (simp add: hex_code_def hex_digit_read mult.commute)
qed

lemma read_escaped: "read_string (escape c @ s) = push c (read_string s)"
  by (auto simp: escape_def unescape_def control_code is_scalar_def)

lemma read_string_body: "read_string (concat (map escape s) @ 34 # r) = Some (s, r)"
  by (induction s) (simp_all add: read_escaped push_def)

lemma read_printed_key: "read_key (print_string k @ 58 # r) = Some (k, r)"
  by (simp add: read_key_def print_string_def read_string_body)

lemma digits_value_show: "digits_value (show_nat n) = n"
proof (induction n rule: show_nat.induct)
  case (1 n)
  then show ?case
    by (subst show_nat.simps) (auto simp: digits_value_def)
qed

definition ends_number :: "str \<Rightarrow> bool" where
  "ends_number r \<longleftrightarrow> takeWhile is_ascii_digit r = []"

lemma ends_number_simps [simp]:
  "ends_number []" "ends_number (44 # r)" "ends_number (93 # r)" "ends_number (125 # r)"
  by (simp_all add: ends_number_def is_ascii_digit_def)

lemma read_digits_show:
  assumes "ends_number r"
  shows "read_digits f (show_nat n @ r) = Some (JNumber (f n), r)"
proof -
  have "takeWhile is_ascii_digit (show_nat n @ r) = show_nat n"
    using assms show_nat_digits by (simp add: takeWhile_append2 ends_number_def)
  moreover have "dropWhile is_ascii_digit (show_nat n @ r) = r"
    using assms show_nat_digits by (simp add: dropWhile_append2 ends_number_def dropWhile_eq_self_iff takeWhile_eq_Nil_iff)
  ultimately show ?thesis by (simp add: read_digits_def Let_def digits_value_show)
qed

lemma show_nat_head: "\<exists>c t. show_nat n = c # t \<and> is_ascii_digit c"
  using show_nat_digits [of _ n] by (cases "show_nat n") auto

lemma print_head: "valid_json j \<Longrightarrow> \<exists>c t. json_print j = c # t \<and> c \<noteq> 93 \<and> c \<noteq> 125 \<and> c \<noteq> 44"
proof (cases j)
  case (JNumber n)
  then show ?thesis
    using show_nat_head [of "nat n"] by (cases "n < 0") (auto simp: is_ascii_digit_def)
next
  case (JArray vs)
  then show ?thesis by (cases vs) auto
next
  case (JObject ms)
  then show ?thesis by (cases ms) auto
qed (auto simp: print_string_def lit_def)

text \<open>The scalars.\<close>

fun scalar :: "json \<Rightarrow> bool" where
  "scalar (JArray _) = False"
| "scalar (JObject _) = False"
| "scalar _ = True"

lemma read_printed_scalar:
  assumes "scalar j" "valid_json j" "ends_number r"
  shows "read_value (Suc n) (json_print j @ r) = Some (j, r)"
proof (cases j)
  case (JNumber k)
  show ?thesis
  proof (cases "k < 0")
    case True
    then show ?thesis
      using JNumber read_digits_show [OF assms(3), of "\<lambda>n. - int n" "nat (- k)"] by (simp add: read_scalar_def)
  next
    case False
    obtain c t where c: "show_nat (nat k) = c # t" "is_ascii_digit c" using show_nat_head by blast
    then have "c \<noteq> 91" "c \<noteq> 123" "c \<noteq> 34" "c \<noteq> 45" by (auto simp: is_ascii_digit_def)
    then show ?thesis
      using JNumber False c read_digits_show [OF assms(3), of int "nat k"] by (simp add: read_scalar_def)
  qed
next
  case (JString s)
  then show ?thesis by (simp add: read_scalar_def print_string_def read_string_body)
qed (use assms in \<open>auto simp: read_scalar_def read_word_def is_ascii_digit_def text_eval\<close>)

lemma read_printed_flat:
  assumes "scalar j \<or> j = JArray [] \<or> j = JObject []" "valid_json j" "length (json_print j) \<le> n" "ends_number r"
  shows "read_value n (json_print j @ r) = Some (j, r)"
proof -
  obtain m where "n = Suc m" using print_head [OF assms(2)] assms(3) by (cases n) auto
  then show ?thesis using assms(1) read_printed_scalar [OF _ assms(2,4)] by auto
qed

lemma read_printed:
  "valid_json j \<Longrightarrow> length (json_print j) \<le> n \<Longrightarrow> ends_number r \<Longrightarrow>
     read_value n (json_print j @ r) = Some (j, r)"
  "list_all valid_json vs \<Longrightarrow> length (print_elements vs) \<le> m \<Longrightarrow>
     read_elements m (print_elements vs @ r) = Some (vs, r)"
  "list_all (\<lambda>(k, v). valid_str k \<and> valid_json v) ms \<Longrightarrow> length (print_members ms) \<le> m \<Longrightarrow>
     read_members m (print_members ms @ r) = Some (ms, r)"
proof (induction j and vs and ms arbitrary: n r and m r and m r
    rule: json_print_print_elements_print_members.induct)
  case (7 v vs)
  then obtain n' where n: "n = Suc n'" by (cases n) auto
  obtain c t where c: "json_print v = c # t" "c \<noteq> 93" using print_head [of v] 7 by auto
  have "read_value n' (json_print v @ print_elements vs @ r) = Some (v, print_elements vs @ r)"
    using 7 n by (intro "7.IH"(1)) (auto, cases vs, auto)
  moreover have "read_elements n' (print_elements vs @ r) = Some (vs, r)"
    using 7 n by (intro "7.IH"(2)) auto
  ultimately show ?case using c n by (simp add: push_def)
next
  case (9 k v ms)
  then obtain n' where n: "n = Suc (Suc n')" by (cases n; cases "n - 1") (auto simp: print_string_def)
  have "read_value n' (json_print v @ print_members ms @ r) = Some (v, print_members ms @ r)"
    using 9 n by (intro "9.IH"(1)) (auto simp: print_string_def, cases ms, auto)
  moreover have "read_members n' (print_members ms @ r) = Some (ms, r)"
    using 9 n by (intro "9.IH"(2)) (auto simp: print_string_def)
  ultimately show ?case using n
    by (simp add: read_printed_key push_def) (simp add: print_string_def)
next
  case (11 v vs)
  then obtain n' where n: "m = Suc n'" by (cases m) auto
  have "read_value n' (json_print v @ print_elements vs @ r) = Some (v, print_elements vs @ r)"
    using 11 n by (intro "11.IH"(1)) (auto, cases vs, auto)
  moreover have "read_elements n' (print_elements vs @ r) = Some (vs, r)"
    using 11 n by (intro "11.IH"(2)) auto
  ultimately show ?case using n by (simp add: push_def)
next
  case (13 k v ms)
  then obtain n' where n: "m = Suc (Suc n')" by (cases m; cases "m - 1") (auto simp: print_string_def)
  have "read_value n' (json_print v @ print_members ms @ r) = Some (v, print_members ms @ r)"
    using 13 n by (intro "13.IH"(1)) (auto simp: print_string_def, cases ms, auto)
  moreover have "read_members n' (print_members ms @ r) = Some (ms, r)"
    using 13 n by (intro "13.IH"(2)) (auto simp: print_string_def)
  ultimately show ?case using n by (simp add: read_printed_key push_def)
next
  case (10 m r)
  then show ?case by (cases m) simp_all
next
  case (12 m r)
  then show ?case by (cases m) simp_all
qed (simp_all add: read_printed_flat del: json_print.simps)

lemma print_nonempty: "valid_json j \<Longrightarrow> json_print j \<noteq> []"
  using print_head by fastforce

lemma valid_ascii: "list_all is_ascii s \<Longrightarrow> valid_str s"
  by (auto simp: valid_str_def list_all_iff is_ascii_def is_scalar_def)

lemma valid_escape: "is_scalar c \<Longrightarrow> valid_str (escape c)"
proof -
  have "is_scalar (hex_digit (c div 16))" "is_scalar (hex_digit (c mod 16))" if "c < 32"
    using that by (auto simp: hex_digit_def is_scalar_def)
  then show "is_scalar c \<Longrightarrow> valid_str (escape c)"
    by (auto simp: escape_def valid_str_def) (auto simp: is_scalar_def)
qed

lemma valid_print_string: "valid_str s \<Longrightarrow> valid_str (print_string s)"
  using valid_escape by (auto simp: print_string_def valid_str_def list_all_iff) (auto simp: is_scalar_def)

lemma valid_show_nat: "valid_str (show_nat n)"
  using show_nat_digits by (intro valid_ascii) (force simp: list_all_iff is_ascii_digit_def is_ascii_def)

lemma valid_print:
  "valid_json j \<Longrightarrow> valid_str (json_print j)"
  "list_all valid_json vs \<Longrightarrow> valid_str (print_elements vs)"
  "list_all (\<lambda>(k, v). valid_str k \<and> valid_json v) ms \<Longrightarrow> valid_str (print_members ms)"
proof (induction j and vs and ms rule: json_print_print_elements_print_members.induct)
  case (3 n)
  then show ?case using valid_show_nat by (simp add: valid_str_def is_scalar_def)
next
  case (9 k v ms)
  then show ?case using valid_print_string [of k] by (simp add: valid_str_def is_scalar_def)
next
  case (13 k v ms)
  then show ?case using valid_print_string [of k] by (simp add: valid_str_def is_scalar_def)
qed (simp_all add: valid_lit valid_print_string, simp_all add: valid_str_def is_scalar_def)

lemma reference_json_lawful: "json_lawful reference_json"
proof -
  have "read_value (Suc (length (json_print j))) (json_print j) = Some (j, [])" if "valid_json j" for j
    using read_printed(1) [OF that, of "Suc (length (json_print j))" "[]"] by simp
  then show ?thesis
    using valid_print(1) print_nonempty by (auto simp: json_lawful_def reference_json_def)
qed

end
