(* ===== verification/Wire_Facts.thy ===== *)
theory Wire_Facts
  imports Wire_Schema Reference_Json Fetch_Main
begin

text \<open>
  The contracts on the wire: what is written is read back, what is written fits the schemas, what is
  read need not, and what a request may say.
\<close>

section \<open>Round trips\<close>

text \<open>Reading at another payload type still sees the tool.\<close>

lemma envelope_tool_seen:
  "de_envelope de (ser_envelope ser e) = Some e' \<Longrightarrow> tool e' = tool e"
  by (auto simp: de_envelope_def ser_envelope_def struct_fields_written wire_fields opt_bind_Some_iff)

lemma envelope_text:
  assumes "json_lawful J" "codec ser de good" "good_envelope good e"
    and "envelope_to_json (to_string J (ser_envelope ser)) P e = Inr t"
  shows "json_read J t = Inr (ser_envelope ser e)" "de_envelope de (ser_envelope ser e) = Some e"
    "envelope_contract P e"
proof -
  note envelope = codec_envelope [OF assms(2)]
  show "envelope_contract P e" using assms(4) by (simp add: envelope_to_json_iff)
  show "de_envelope de (ser_envelope ser e) = Some e" by (rule codec.reads [OF envelope assms(3)])
  show "json_read J t = Inr (ser_envelope ser e)"
    using assms(1,4) codec.writes [OF envelope assms(3)]
    by (auto simp: json_lawful_def to_string_def envelope_to_json_iff)
qed

lemma envelope_json_codec:
  assumes "json_lawful J" "codec ser de good" "good_envelope good e"
    and "envelope_to_json (to_string J (ser_envelope ser)) P e = Inr t"
  shows "envelope_from_json (from_str J (de_envelope de)) P t = Inr e"
    and "TOOL Q \<noteq> TOOL P \<Longrightarrow> \<not> is_ok (envelope_from_json (from_str J (de_envelope de')) Q t)"
proof -
  note read = envelope_text [OF assms]
  show "envelope_from_json (from_str J (de_envelope de)) P t = Inr e"
    using read by (simp add: envelope_from_json_iff from_str_def)
  show "\<not> is_ok (envelope_from_json (from_str J (de_envelope de')) Q t)" if "TOOL Q \<noteq> TOOL P"
    using read that envelope_tool_seen [of de' ser e]
    by (auto simp: is_ok_iff envelope_from_json_iff from_str_def envelope_contract_def result_iffs)
qed

text \<open>C0: what the stages write they read back. Over every JSON library that reads what it prints,
  a request, a stage outcome and an artifact survive being written and read, an envelope that
  \<^verbatim>\<open>to_json\<close> writes is what \<^verbatim>\<open>from_json\<close> reads from the text, and a consumer of another tool
  refuses that text, whatever its payload is.\<close>

theorem wire_roundtrip:
  assumes "json_lawful J"
  shows "(\<forall>r. good_request r \<longrightarrow>
        (\<exists>t. to_string J ser_request r = Inr t \<and> from_str J de_request t = Inr r))
    \<and> (\<forall>o'. valid_str (outcome_run_id o') \<longrightarrow>
        (\<exists>bs. to_vec J ser_stage_outcome o' = Inr bs \<and> from_slice J de_stage_outcome bs = Inr o'))
    \<and> (\<forall>a. good_artifact a \<longrightarrow>
        (\<exists>bs. to_vec J ser_fetch_artifact a = Inr bs \<and> from_slice J de_fetch_artifact bs = Inr a))
    \<and> (\<forall>P e t. good_envelope good_data e \<and> envelope_to_json (to_string J (ser_envelope ser_data)) P e = Inr t \<longrightarrow>
        envelope_from_json (from_str J (de_envelope de_data)) P t = Inr e
        \<and> (\<forall>Q. TOOL Q \<noteq> TOOL P \<longrightarrow> \<not> is_ok (envelope_from_json (from_str J (de_envelope de)) Q t)))"
  using request_codec.text_reads [OF assms] stage_outcome_codec.slice_reads [OF assms]
    artifact_codec.slice_reads [OF assms] envelope_json_codec [OF assms data_codec.codec_axioms]
  by (intro conjI allI impI) blast+

lemma wire_roundtrip_witness:
  "\<exists>t. to_string reference_json ser_request \<lparr>req_url = lit ''https://example.com/'', req_format = Html\<rparr> = Inr t
     \<and> from_str reference_json de_request t = Inr \<lparr>req_url = lit ''https://example.com/'', req_format = Html\<rparr>"
  using wire_roundtrip [OF reference_json_lawful, THEN conjunct1] by (simp add: good_request_def valid_lit)

section \<open>What a request may say\<close>

lemma table_found:
  assumes "inj name"
  shows "map_of (map (\<lambda>(n, v). (lit n, v)) (named name vs)) s = Some v \<longleftrightarrow> v \<in> set vs \<and> s = lit (name v)"
proof (induction vs)
  case (Cons w vs)
  have "name w = name v \<longleftrightarrow> w = v" using assms by (auto dest: injD)
  with Cons show ?case by (auto simp: named_def)
qed (simp add: named_def)

text \<open>The two spellings of a variant.\<close>

definition spellings :: "string \<Rightarrow> json set" where
  "spellings n = {JString (lit n), JObject [(lit n, JNull)]}"

lemma de_named_iff:
  assumes "inj name" "set vs = UNIV"
  shows "de_named name vs j = Some v \<longleftrightarrow> j \<in> spellings (name v)"
proof -
  have "de_enum (named name vs) j = Some v \<longleftrightarrow> j \<in> spellings (name v)"
    using assms
    by (induction "named name vs" j rule: de_enum.induct) (auto simp: table_found spellings_def)
  then show ?thesis by (simp add: de_named_def)
qed

lemmas format_spelled = de_named_iff [OF names_differ(5) all_variants(5)]

lemma de_string_iff: "de_string j = Some s \<longleftrightarrow> j = JString s"
  by (cases j) auto

text \<open>The values a request is read from: an object with the URL, possibly the format, and nothing
  else or twice; or an array of the URL and possibly the format.\<close>

definition says_request :: "web_fetch_request \<Rightarrow> json \<Rightarrow> bool" where
  "says_request r j \<longleftrightarrow>
     (\<exists>ms. j = JObject ms \<and> distinct (map fst ms) \<and> fst ` set ms \<subseteq> {lit ''url'', lit ''format''}
        \<and> map_of ms (lit ''url'') = Some (JString (req_url r))
        \<and> (case map_of ms (lit ''format'') of
             None \<Rightarrow> req_format r = Markdown
           | Some f \<Rightarrow> f \<in> spellings (format_name (req_format r))))
     \<or> (j = JArray [JString (req_url r)] \<and> req_format r = Markdown)
     \<or> (\<exists>f \<in> spellings (format_name (req_format r)). j = JArray [JString (req_url r), f])"

lemma de_request_iff: "de_request j = Some r \<longleftrightarrow> says_request r j"
proof (cases j)
  case (JObject ms)
  have "de_request j = Some r \<longleftrightarrow>
      distinct (map fst ms) \<and> fst ` set ms \<subseteq> {lit ''url'', lit ''format''}
      \<and> required de_string (member_field ms ''url'') = Some (req_url r)
      \<and> defaulted Markdown (de_named format_name FORMATS) (member_field ms ''format'') = Some (req_format r)"
    unfolding de_request_def opt_bind_Some_iff JObject struct_fields_object
    by (cases r) (auto simp: wire_fields)
  also have "required de_string (member_field ms ''url'') = Some (req_url r) \<longleftrightarrow>
      map_of ms (lit ''url'') = Some (JString (req_url r))"
    by (auto simp: member_field_def de_string_iff split: option.splits)
  also have "defaulted Markdown (de_named format_name FORMATS) (member_field ms ''format'') = Some (req_format r) \<longleftrightarrow>
      (case map_of ms (lit ''format'') of
         None \<Rightarrow> req_format r = Markdown
       | Some f \<Rightarrow> f \<in> spellings (format_name (req_format r)))"
    by (auto simp: member_field_def format_spelled split: option.splits)
  finally show ?thesis using JObject by (simp add: says_request_def)
next
  case (JArray vs)
  consider "vs = []" | u where "vs = [u]" | u f where "vs = [u, f]" | u f g us where "vs = u # f # g # us"
    by (metis neq_Nil_conv)
  then show ?thesis
    by cases
       (cases r, auto simp: JArray de_request_def wire_fields says_request_def opt_bind_Some_iff de_string_iff
         format_spelled)+
qed (simp_all add: de_request_def says_request_def)

text \<open>C0: a request says a URL, possibly a format, and nothing else. \<^verbatim>\<open>WebFetchRequest::from_json\<close>
  accepts a text exactly if it is JSON for an object whose members are \<^verbatim>\<open>url\<close>, a string, and
  possibly \<^verbatim>\<open>format\<close>, the name of one (without it the format is Markdown), each once, or for an array
  of the two in that order, and if that URL passes every check of \<^verbatim>\<open>validated_url\<close>. There is no
  text with a header, a timeout, a rule or a switch in it that is accepted.\<close>

theorem request_wire_strict:
  "request_from_json (from_str J de_request) L text = Inr r \<longleftrightarrow>
     (\<exists>j. json_read J text = Inr j \<and> says_request r j) \<and> is_ok (validated_url L r)"
proof -
  have "from_str J de_request text = Inr r \<longleftrightarrow> (\<exists>j. json_read J text = Inr j \<and> says_request r j)"
    by (auto simp: from_str_def result_iffs de_request_iff)
  then show ?thesis
    by (auto simp: request_from_json_def result_iffs context_err_Ok_iff is_ok_iff)
qed

end
