(* ===== verification/Wire_Handoff.thy ===== *)
theory Wire_Handoff
  imports Wire_Facts
begin

text \<open>
  The handoff over the derived codecs: with \<^verbatim>\<open>serde_json::to_vec\<close> and \<^verbatim>\<open>from_slice\<close> at the types of
  \<^verbatim>\<open>artifact.rs\<close> and \<^verbatim>\<open>stage.rs\<close> in place of an arbitrary coding, what theory Handoff_Facts asks of one
  holds for every message the stages can build.
\<close>

definition wire_handoff_lib :: "json_lib \<Rightarrow> (bytes \<Rightarrow> bytes) \<Rightarrow> (bytes \<Rightarrow> bytes \<Rightarrow> bytes) \<Rightarrow> handoff_lib" where
  "wire_handoff_lib J H M =
     \<lparr>sha256 = H, hmac_sha256 = M,
      ser_outcome = to_vec J ser_stage_outcome, de_outcome = from_slice J de_stage_outcome,
      ser_artifact = to_vec J ser_fetch_artifact, de_artifact = from_slice J de_fetch_artifact\<rparr>"

text \<open>A message that belongs to the handoff: its strings are strings, its size is a \<^verbatim>\<open>usize\<close>, and it
  describes its body.\<close>

definition wire_message :: "(bytes \<Rightarrow> bytes) \<Rightarrow> handoff \<Rightarrow> handed \<Rightarrow> bool" where
  "wire_message H h m \<longleftrightarrow> valid_str (handoff_run_id h)
     \<and> (case m of
          Handed_Failed c \<Rightarrow> True
        | Handed_Fetched a body \<Rightarrow>
            good_artifact a \<and> artifact_version a = ARTIFACT_VERSION \<and> art_run_id a = handoff_run_id h
            \<and> body_bytes a = length body \<and> body_sha256 a = sha256_hex H body)"

lemma wire_outcome:
  assumes "json_lawful J" "valid_str (handoff_run_id h)"
  obtains bs where "to_vec J ser_stage_outcome (outcome_of h m) = Inr bs"
    "from_slice J de_stage_outcome bs = Inr (outcome_of h m)"
proof -
  have "valid_str (outcome_run_id (outcome_of h m))"
    using assms(2) by (cases m) (simp_all add: outcome_of_def outcome_ok_def outcome_failed_def)
  then show ?thesis using stage_outcome_codec.slice_reads [OF assms(1)] that by blast
qed

lemma wire_writable:
  assumes "json_lawful J" "wire_message H h m"
  shows "writable (wire_handoff_lib J H M) h m"
proof -
  obtain bs where "to_vec J ser_stage_outcome (outcome_of h m) = Inr bs"
    using wire_outcome assms by (metis wire_message_def)
  then show ?thesis
    using assms artifact_codec.slice_reads [OF assms(1)]
    by (cases m) (auto simp: writable_def wire_handoff_lib_def wire_message_def is_ok_iff)
qed

lemma wire_carries:
  assumes "json_lawful J" "wire_message H h m"
  shows "carries (wire_handoff_lib J H M) h m"
proof -
  obtain bs where "to_vec J ser_stage_outcome (outcome_of h m) = Inr bs"
      "from_slice J de_stage_outcome bs = Inr (outcome_of h m)"
    using wire_outcome assms by (metis wire_message_def)
  moreover have "bs \<noteq> [] \<and> from_slice J de_fetch_artifact bs = Inr a"
    if "good_artifact a" "to_vec J ser_fetch_artifact a = Inr bs" for a bs
    using artifact_codec.slice_reads [OF assms(1) that(1)] that(2) by auto
  ultimately show ?thesis
    using assms(2) by (cases m) (auto simp: carries_def wire_handoff_lib_def wire_message_def)
qed

section \<open>The fetch process over them\<close>

text \<open>What the libraries of a fetch hand out as strings are strings, and its body reader obeys its
  limit.\<close>

definition stringy :: "('u, 'r, 't) fetch_env \<Rightarrow> bool" where
  "stringy E \<longleftrightarrow>
     (\<forall>u. valid_str (url_as_str (url E) u))
     \<and> (\<forall>t s. rfc3339_format (time E) t = Some s \<longrightarrow> valid_str s)
     \<and> (\<forall>r n s. header_str (http E) r n = Some s \<longrightarrow> valid_str s)
     \<and> (\<forall>r n bs. read_body (http E) r n = Inr bs \<longrightarrow> length bs \<le> n)"

lemma ascii_valid: "list_all is_ascii s \<Longrightarrow> valid_str s"
  by (auto simp: valid_str_def list_all_iff is_ascii_def is_scalar_def)

lemma run_id_valid:
  assumes "run_id_arg v = Inr r"
  shows "valid_str v"
proof -
  have "list_all (\<lambda>c. is_ascii_lowercase c \<or> is_ascii_digit c \<or> c = uc CHR ''-'') v"
    using assms by (simp add: run_id_arg_def split: if_splits)
  then have "list_all is_ascii v"
    by (rule list.pred_mono_strong) (auto simp: is_ascii_def is_ascii_lowercase_def is_ascii_digit_def)
  then show ?thesis by (rule ascii_valid)
qed

lemma fetched_good:
  assumes "fetch (main_env W) (fetcher_new policy) run_id request = (Inr f, cs)"
    and "stringy (proc_net W)" "valid_str run_id"
  shows "good_artifact (fetched_artifact f)"
proof -
  obtain requested response final n where
    desc: "describes (main_env W) (fetcher_new policy) run_id request requested final n response f"
    using fetch_run [OF assms(1)] by auto
  then obtain m where m: "is_supported m" "art_content_type (fetched_artifact f) = Some (header_value m)"
    by (auto simp: describes_def Let_def)
  have "valid_str (header_value m)"
    using header_value_supported(1) [OF m(1)] by (auto simp: printable_def list_all_iff intro!: ascii_valid)
  moreover have "length (fetched_body f) \<le> usize_max"
  proof -
    have "read_body (http (proc_net W)) response MAX_WIRE_BYTES = Inr (fetched_body f)"
      using desc by (simp add: describes_def Let_def main_env_def)
    then have "length (fetched_body f) \<le> MAX_WIRE_BYTES" using assms(2) by (auto simp: stringy_def)
    then show ?thesis by (simp add: limit_defs usize_max_def)
  qed
  moreover have "valid_str (profile_as_str p)" for p by (cases p) (simp_all add: valid_lit)
  ultimately show ?thesis
    using desc m(2) assms(2,3)
    by (auto simp: good_artifact_def describes_def Let_def main_env_def stringy_def valid_lit sha256_hex_def
        to_hex_valid)
qed


text \<open>The example process over them, with libraries whose strings are strings.\<close>

definition wire_process :: "(str, u16 \<times> (str \<times> bytes) list \<times> bytes, str) fetch_process" where
  "wire_process = example_process
     \<lparr>proc_lib := wire_handoff_lib reference_json (take 1) (\<lambda>k m. m),
      proc_net := example_env
        \<lparr>url := example_url_lib\<lparr>url_as_str := (\<lambda>u. if valid_str u then u else [])\<rparr>,
         time := example_time_lib\<lparr>rfc3339_format := (\<lambda>t. if valid_str t then Some t else None)\<rparr>\<rparr>\<rparr>"


end
