(* ===== verification/Wire_Config.thy ===== *)
theory Wire_Config
  imports Wire_Facts Policy_Facts Detect
begin

text \<open>
  The derived readers of the two files an operator writes: the destination policy of the fetch
  worker (\<^verbatim>\<open>PolicyFile\<close> in \<^verbatim>\<open>fetch-worker/src/policy.rs\<close>) and the manifest of the rule bundle
  (\<^verbatim>\<open>BundleManifestFile\<close> in \<^verbatim>\<open>inspector/src/detect.rs\<close>), and which texts they take.
\<close>

section \<open>The destination policy\<close>

fun profile_name :: "profile \<Rightarrow> string" where
  "profile_name Production = ''production''"
| "profile_name Test = ''test''"

definition PROFILES :: "profile list" where
  "PROFILES = [Production, Test]"

definition POLICY_FIELDS :: "string list" where
  "POLICY_FIELDS = [''policy_version'', ''profile'', ''denied_cidrs'']"

definition de_policy_file :: "json \<Rightarrow> policy_file option" where
  "de_policy_file j = opt_bind (struct_fields True POLICY_FIELDS j) (\<lambda>fs.
     opt_bind (required de_word (fs ! 0)) (\<lambda>version.
     opt_bind (required (de_named profile_name PROFILES) (fs ! 1)) (\<lambda>prof.
     opt_bind (required (de_vec de_string) (fs ! 2)) (\<lambda>ranges.
       Some \<lparr>policy_version = version, file_profile = prof, denied_cidrs = ranges\<rparr>))))"

lemma profiles: "inj profile_name" "set PROFILES = UNIV"
proof -
  show "inj profile_name"
    unfolding inj_def by (intro allI impI, case_tac x; case_tac y; simp)
  show "set PROFILES = UNIV" by (auto simp: PROFILES_def intro: profile.exhaust)
qed

text \<open>Reading by kind of value.\<close>

lemma de_word_iff: "de_word j = Some (w :: 'w::len word) \<longleftrightarrow> j = JNumber (uint w)"
proof
  assume "de_word j = Some w"
  then obtain n where "j = JNumber n" "0 \<le> n" "n < 2 ^ LENGTH('w)" "word_of_int n = w"
    by (cases j) (auto split: if_splits)
  then show "j = JNumber (uint w)" by (auto simp: uint_word_of_int)
next
  assume "j = JNumber (uint w)"
  then show "de_word j = Some w" using word_codec.reads [of w] by (simp add: ser_word_def)
qed

lemma de_each_iff:
  assumes "\<And>j x. de j = Some x \<longleftrightarrow> j = ser x"
  shows "de_each de js = Some xs \<longleftrightarrow> js = map ser xs"
proof (induction js arbitrary: xs)
  case (Cons j js)
  have "de_each de (j # js) = Some xs \<longleftrightarrow> (\<exists>x ys. de j = Some x \<and> de_each de js = Some ys \<and> xs = x # ys)"
    by (auto split: option.splits)
  also have "\<dots> \<longleftrightarrow> j # js = map ser xs" unfolding assms Cons by (cases xs) auto
  finally show ?case .
qed auto

lemma de_strings_iff: "de_vec de_string j = Some xs \<longleftrightarrow> j = JArray (map JString xs)"
  using de_each_iff [of de_string JString] by (cases j) (auto simp: de_string_iff)

text \<open>What a struct of required fields is read from: an object with each of them once and nothing
  else, or an array of them in order.\<close>

definition says_fields :: "string list \<Rightarrow> (json \<Rightarrow> bool) list \<Rightarrow> json \<Rightarrow> bool" where
  "says_fields names checks j \<longleftrightarrow>
     (\<exists>ms. j = JObject ms \<and> distinct (map fst ms) \<and> fst ` set ms = lit ` set names
        \<and> list_all2 (\<lambda>n check. \<exists>v. map_of ms (lit n) = Some v \<and> check v) names checks)
     \<or> (\<exists>vs. j = JArray vs \<and> list_all2 (\<lambda>v check. check v) vs checks)"

lemma required_Some_iff: "required de f = Some x \<longleftrightarrow> (\<exists>j. f = Present j \<and> de j = Some x)"
  by (cases f) auto

lemma member_present: "member_field ms n = Present j \<longleftrightarrow> map_of ms (lit n) = Some j"
  by (simp add: member_field_def split: option.split)

lemma all_members:
  assumes "fst ` set ms \<subseteq> lit ` set names" "\<forall>n \<in> set names. \<exists>j. map_of ms (lit n) = Some j"
  shows "fst ` set ms = lit ` set names"
  using assms by (force dest: map_of_SomeD)

text \<open>The texts a policy is loaded from.\<close>

definition says_policy :: "profile \<Rightarrow> str list \<Rightarrow> json \<Rightarrow> bool" where
  "says_policy p ranges = says_fields POLICY_FIELDS
     [\<lambda>v. v = JNumber 1, \<lambda>v. v \<in> spellings (profile_name p), \<lambda>v. v = JArray (map JString ranges)]"

lemma de_policy_file_iff:
  "de_policy_file j = Some \<lparr>policy_version = 1, file_profile = p, denied_cidrs = ranges\<rparr> \<longleftrightarrow>
     says_policy p ranges j"
proof (cases j)
  case (JObject ms)
  have "de_policy_file j = Some \<lparr>policy_version = 1, file_profile = p, denied_cidrs = ranges\<rparr> \<longleftrightarrow>
      distinct (map fst ms) \<and> fst ` set ms \<subseteq> lit ` set POLICY_FIELDS
      \<and> map_of ms (lit ''policy_version'') = Some (JNumber 1)
      \<and> (\<exists>v. map_of ms (lit ''profile'') = Some v \<and> v \<in> spellings (profile_name p))
      \<and> map_of ms (lit ''denied_cidrs'') = Some (JArray (map JString ranges))"
    unfolding de_policy_file_def opt_bind_Some_iff JObject struct_fields_object
    by (auto simp: POLICY_FIELDS_def required_Some_iff member_present de_word_iff de_named_iff [OF profiles]
        de_strings_iff)
  moreover have "\<dots> \<longleftrightarrow> says_policy p ranges j"
    using all_members [of ms POLICY_FIELDS]
    by (auto simp: says_policy_def says_fields_def JObject POLICY_FIELDS_def)
  ultimately show ?thesis by blast
next
  case (JArray vs)
  consider "vs = []" | a where "vs = [a]" | a b where "vs = [a, b]" | a b c where "vs = [a, b, c]"
    | a b c d us where "vs = a # b # c # d # us"
    by (metis neq_Nil_conv)
  then show ?thesis
    by cases
       (auto simp: JArray de_policy_file_def POLICY_FIELDS_def says_policy_def says_fields_def opt_bind_Some_iff
         de_word_iff de_named_iff [OF profiles] de_strings_iff)
qed (simp_all add: de_policy_file_def says_policy_def says_fields_def)

text \<open>C0: a policy that loads is a policy that restricts, and says so itself. Over any JSON library, a
  policy loads exactly from a readable text of an object with the members \<^verbatim>\<open>policy_version\<close> (the
  number 1), \<^verbatim>\<open>profile\<close> and \<^verbatim>\<open>denied_cidrs\<close>, each once and no others (or an array of the three in
  that order): a list of at least one range, each of which parses with a prefix that fits its address
  family. The policy has that profile and those ranges, in order. Nothing has a default, and a
  misspelt, missing, repeated or additional member refuses the file.\<close>

theorem policy_text_iff:
  "policy_load (from_str J de_policy_file) contents = Inr P \<longleftrightarrow>
     (\<exists>raw j ranges. contents = Inr raw \<and> json_read J raw = Inr j \<and> says_policy (profile P) ranges j
        \<and> ranges \<noteq> []
        \<and> list_all2 (\<lambda>t c. cidr_parse t = Inr c \<and> unat (prefix c) \<le> 8 * length (octets (network c)))
            ranges (denied P))"
  (is "?load \<longleftrightarrow> ?says")
proof
  assume ?load
  then obtain raw pf where "contents = Inr raw" "from_str J de_policy_file raw = Inr pf" "policy_version pf = 1"
      "profile P = file_profile pf" "denied P \<noteq> []"
      "list_all2 (\<lambda>t c. cidr_parse t = Inr c \<and> unat (prefix c) \<le> 8 * length (octets (network c)))
         (denied_cidrs pf) (denied P)"
    using policy_load_sound [of "from_str J de_policy_file" contents P] by blast
  moreover from this obtain j where "json_read J raw = Inr j" "de_policy_file j = Some pf"
    by (auto simp: from_str_def result_iffs)
  moreover from this \<open>policy_version pf = 1\<close> have "says_policy (file_profile pf) (denied_cidrs pf) j"
    by (cases pf) (simp add: de_policy_file_iff [symmetric])
  moreover from calculation have "denied_cidrs pf \<noteq> []" by auto
  ultimately show ?says by auto
next
  assume ?says
  then obtain raw j ranges where parts: "contents = Inr raw" "json_read J raw = Inr j"
      "says_policy (profile P) ranges j" "ranges \<noteq> []"
    and "list_all2 (\<lambda>t c. cidr_parse t = Inr c \<and> unat (prefix c) \<le> 8 * length (octets (network c)))
            ranges (denied P)"
    by blast
  from this(5) have "list_all2 (\<lambda>t c. cidr_parse t = Inr c) ranges (denied P)"
    by (rule list_all2_mono) simp
  moreover have "from_str J de_policy_file raw =
      Inr \<lparr>policy_version = 1, file_profile = profile P, denied_cidrs = ranges\<rparr>"
    using parts(2,3) by (simp add: from_str_def de_policy_file_iff [symmetric])
  ultimately show ?load
    using parts(1,4) by (cases P) (auto simp: policy_load_def result_iffs collect_ok_list_all2)
qed

text \<open>\<^verbatim>\<open>fixtures/test-destination-policy.json\<close>, and that it loads.\<close>

definition TEST_POLICY :: json where
  "TEST_POLICY = ser_struct
     [(''policy_version'', JNumber 1), (''profile'', JString (lit ''test'')),
      (''denied_cidrs'', JArray (map (\<lambda>s. JString (lit s)) [''10.42.0.0/16'', ''10.43.0.0/16'', ''fd00::/8'']))]"

lemma test_policy_says:
  "says_policy Test (map lit [''10.42.0.0/16'', ''10.43.0.0/16'', ''fd00::/8'']) TEST_POLICY"
  by (simp add: de_policy_file_iff [symmetric] TEST_POLICY_def de_policy_file_def POLICY_FIELDS_def
      struct_fields_written de_named_def named_def PROFILES_def)

lemma test_policy_loads:
  assumes "json_read J raw = Inr TEST_POLICY"
  shows "policy_load (from_str J de_policy_file) (Inr raw) =
    Inr \<lparr>profile = Test, denied = [range4 10 42 0 0 16, range4 10 43 0 0 16,
      \<lparr>network = V6 (Ipv6 0xfd00 0 0 0 0 0 0 0), prefix = 8\<rparr>]\<rparr>"
proof -
  have "cidr_parse (lit ''10.42.0.0/16'') = Inr (range4 10 42 0 0 16)"
      "cidr_parse (lit ''10.43.0.0/16'') = Inr (range4 10 43 0 0 16)"
    by (simp_all add: cidr_parse_def text_eval read_eval parse_uint_def range4_def)
  moreover have "cidr_parse (lit ''fd00::/8'') =
      Inr \<lparr>network = V6 (Ipv6 0xfd00 0 0 0 0 0 0 0), prefix = 8\<rparr>"
    by (simp add: cidr_parse_def text_eval read_eval u16_of_def parse_uint_def)
  ultimately show ?thesis
    unfolding policy_text_iff using assms test_policy_says
    by (intro exI [of _ raw] exI [of _ TEST_POLICY] exI) (auto simp: range4_def)
qed

section \<open>The manifest of a rule bundle\<close>

definition MANIFEST_FIELDS :: "string list" where
  "MANIFEST_FIELDS = [''policy_version'', ''policy_id'', ''description'', ''maintenance'']"

definition de_bundle_manifest :: "json \<Rightarrow> bundle_manifest option" where
  "de_bundle_manifest j = opt_bind (struct_fields True MANIFEST_FIELDS j) (\<lambda>fs.
     opt_bind (required de_word (fs ! 0)) (\<lambda>version.
     opt_bind (required de_string (fs ! 1)) (\<lambda>policy_id.
     opt_bind (required de_string (fs ! 2)) (\<lambda>description.
     opt_bind (required de_string (fs ! 3)) (\<lambda>maintenance.
       Some \<lparr>manifest_version = version, manifest_policy_id = policy_id,
          manifest_description = description, manifest_maintenance = maintenance\<rparr>)))))"

text \<open>\<^verbatim>\<open>rules/web-content-v1/bundle.json\<close>, and what it is read as.\<close>

definition BUNDLE_JSON :: json where
  "BUNDLE_JSON = ser_struct
     [(''policy_version'', JNumber 1), (''policy_id'', JString (lit ''web-content-v1'')),
      (''description'', JString (lit (''Small opportunistic bundle for text fetched from the public web, ''
         @ ''aimed at content that addresses a model rather than a reader.''))),
      (''maintenance'', JString (lit ''docs/runbooks/webfetch.md''))]"

lemma shipped_manifest_reads:
  "\<exists>m. de_bundle_manifest BUNDLE_JSON = Some m \<and> manifest_version m = 1
     \<and> manifest_policy_id m = lit ''web-content-v1''"
  by (simp add: BUNDLE_JSON_def de_bundle_manifest_def MANIFEST_FIELDS_def struct_fields_written)

text \<open>A bundle's manifest has nothing to add and nothing to leave out either.\<close>

lemma de_bundle_manifest_says:
  assumes "de_bundle_manifest j = Some m"
  shows "says_fields MANIFEST_FIELDS
    [\<lambda>v. v = JNumber (uint (manifest_version m)), \<lambda>v. v = JString (manifest_policy_id m),
     \<lambda>v. v = JString (manifest_description m), \<lambda>v. v = JString (manifest_maintenance m)] j"
proof (cases j)
  case (JObject ms)
  with assms show ?thesis
    using all_members [of ms MANIFEST_FIELDS]
    unfolding de_bundle_manifest_def opt_bind_Some_iff JObject struct_fields_object
    by (auto simp: MANIFEST_FIELDS_def says_fields_def required_Some_iff member_present de_word_iff de_string_iff
        intro: rev_image_eqI)
next
  case (JArray vs)
  consider "vs = []" | a where "vs = [a]" | a b where "vs = [a, b]" | a b c where "vs = [a, b, c]"
    | a b c d where "vs = [a, b, c, d]" | a b c d e us where "vs = a # b # c # d # e # us"
    by (metis neq_Nil_conv)
  then show ?thesis
    using assms
    by cases
       (auto simp: JArray de_bundle_manifest_def MANIFEST_FIELDS_def says_fields_def opt_bind_Some_iff
         de_word_iff de_string_iff)
qed (use assms in \<open>simp_all add: de_bundle_manifest_def\<close>)

end
