(* ===== verification/Wire_Emits.thy ===== *)
theory Wire_Emits
  imports Wire_Facts Web_Urls Inspect_Main
begin

text \<open>
  The Rust contracts against the schemas of \<^verbatim>\<open>schemas/\<close>: what a stage writes fits them, what a stage
  reads may not, and when the artifact of a fetch fits its own.
\<close>

section \<open>What is written fits\<close>

lemma data_of_contract:
  assumes "envelope_contract (web_fetch_payload L T) e" "env_data e = Some d"
  shows "payload_contract L T d"
  using assms
  by (auto simp: envelope_contract_def clean_success_def fixed_failure_def web_fetch_payload_def
      data_validate_contract)

lemma web_fetch_envelope_fits:
  assumes "envelope_contract (web_fetch_payload L T) e"
  shows "accepts envelope_schema (ser_envelope ser_data e)"
  using assms
  by (rule envelope_fits)
     (simp_all add: web_fetch_payload_def WEB_FETCH_TOOL_def WEB_FETCH_TOOL_VERSION_def lit_length
       ser_data_def struct_type)

lemma data_member:
  "\<exists>ms. ser_envelope ser e = JObject ms \<and> map_of ms (lit ''data'') = Some (ser_option ser (env_data e))"
  by (simp add: ser_envelope_def ser_struct_def)

section \<open>What the process prints\<close>

lemma printed_envelope:
  assumes "inspect_main N d = (code, Some t, d')"
  obtains e where "envelope_contract (iproc_payload N) e" "iproc_ser N e = Inr t"
    "code = 0 \<longleftrightarrow> env_status e = Status_Ok"
proof (cases "\<exists>h I. inspect_configured N h I")
  case True
  then obtain h I where conf: "inspect_configured N h I" by blast
  obtain outc d1 where run: "inspect (iproc_env N) (iproc_url N) (iproc_lib N) (iproc_fs N) I h d = (outc, d1)"
    by (cases "inspect (iproc_env N) (iproc_url N) (iproc_lib N) (iproc_fs N) I h d")
  show ?thesis
    using inspect_main_configured [OF conf run] assms
    by (intro that [of "out_envelope outc"]) (auto simp: Let_def emit_Ok_iff split: sum.splits if_splits)
next
  case False
  then obtain c field where "inspect_main N d =
      (2, ok_value (emit N (failure_envelope (iproc_payload N) c field)), d)"
    using inspect_main_unconfigured by metis
  with assms have "emit N (failure_envelope (iproc_payload N) c field) = Inr t" "code = 2"
    by (auto simp: ok_value_Some_iff)
  then show ?thesis
    by (intro that [of "failure_envelope (iproc_payload N) c field"]) (auto simp: emit_Ok_iff failure_envelope_def)
qed

lemma status_member:
  "ser_envelope ser e = JObject ms \<Longrightarrow> map_of ms (lit ''status'') = Some (JString (lit (status_name (env_status e))))"
  by (auto simp: ser_envelope_def ser_struct_def ser_named_def ser_name_def)

text \<open>C0: what the offline process prints fits the published schemas, whatever it was given. If the
  inspection process emits anything, through the derived codec and any JSON printer, that is the
  printed form of one object that \<^verbatim>\<open>envelope-v1.schema.json\<close> accepts, whose \<^verbatim>\<open>data\<close> member is
  \<^verbatim>\<open>null\<close> or accepted by \<^verbatim>\<open>web-fetch-v1-result.schema.json\<close>; it is not \<^verbatim>\<open>null\<close> exactly if \<^verbatim>\<open>status\<close>
  is \<^verbatim>\<open>ok\<close>, which it is exactly if the exit code is 0.\<close>

theorem printed_fits_schema:
  assumes "iproc_ser N = to_string J (ser_envelope ser_data)" and "inspect_main N d = (code, Some t, d')"
  shows "\<exists>ms v. t = json_write J (JObject ms) \<and> accepts envelope_schema (JObject ms)
    \<and> map_of ms (lit ''data'') = Some v \<and> (v = JNull \<or> accepts result_schema v)
    \<and> (v \<noteq> JNull \<longleftrightarrow> map_of ms (lit ''status'') = Some (JString (lit ''ok'')))
    \<and> (code = 0 \<longleftrightarrow> map_of ms (lit ''status'') = Some (JString (lit ''ok'')))"
proof -
  obtain e where e: "envelope_contract (iproc_payload N) e" "iproc_ser N e = Inr t"
      "code = 0 \<longleftrightarrow> env_status e = Status_Ok"
    using printed_envelope [OF assms(2)] .
  obtain ms where ms: "ser_envelope ser_data e = JObject ms"
      "map_of ms (lit ''data'') = Some (ser_option ser_data (env_data e))"
    using data_member by blast
  have status: "map_of ms (lit ''status'') = Some (JString (lit ''ok'')) \<longleftrightarrow> env_status e = Status_Ok"
    by (simp add: status_member [OF ms(1)] names_are)
  have "ser_data x \<noteq> JNull" for x by (simp add: ser_data_def struct_solid)
  then have "ser_option ser_data (env_data e) \<noteq> JNull \<longleftrightarrow> env_data e \<noteq> None"
    by (cases "env_data e") (simp_all add: ser_option_def)
  also have "\<dots> \<longleftrightarrow> env_status e = Status_Ok"
    using e(1) by (auto simp: envelope_contract_def clean_success_def fixed_failure_def)
  finally have data: "ser_option ser_data (env_data e) \<noteq> JNull \<longleftrightarrow> env_status e = Status_Ok" .
  have "ser_option ser_data (env_data e) = JNull \<or> accepts result_schema (ser_option ser_data (env_data e))"
    using data_fits [OF data_of_contract [OF e(1)]]
    by (cases "env_data e") (simp_all add: ser_option_def)
  moreover have "t = json_write J (JObject ms)" using e(2) ms(1) by (simp add: assms(1) to_string_def)
  moreover have "accepts envelope_schema (JObject ms)"
    using web_fetch_envelope_fits [OF e(1)] by (simp only: ms(1))
  ultimately show ?thesis using ms(2) status data e(3) by blast
qed

text \<open>A page of the example site.\<close>

definition sample_url :: str where
  "sample_url = lit ''https://example.com/page''"

lemma sample_url_parses:
  assumes "web_urls L"
  obtains u where "url_parse L sample_url = Inr u" "web_url L u (lit ''https'') (lit ''example.com'') None (lit ''/page'')"
proof -
  have "plain_web (lit ''https'') (lit ''example.com'') None (lit ''/page'')"
    by (simp add: plain_web_def plain_host_def plain_path_def text_eval)
  moreover have "web_text (lit ''https'') (lit ''example.com'') None (lit ''/page'') = sample_url"
    by (simp add: web_text_def sample_url_def lit_def)
  ultimately show ?thesis using web_urls_parse [OF assms] that by metis
qed

definition sample_data :: "str \<Rightarrow> str \<Rightarrow> format \<Rightarrow> conversion_method \<Rightarrow> str \<Rightarrow> web_fetch_data" where
  "sample_data source at fmt m content =
     \<lparr>source_id = source, final_url = sample_url, http_status = 200, content_type = lit ''text/html'',
      retrieved_at = at, data_format = fmt, data_method = m, data_content = content\<rparr>"

lemma page_contract:
  assumes "web_urls L"
  shows "payload_contract L T (sample_data source at fmt m content) \<longleftrightarrow>
    is_source_id source \<and> rfc3339_parse T at \<noteq> None \<and> length content \<le> MAX_CONTENT_CHARS
    \<and> (fmt = Html \<longrightarrow> m = Source)"
proof -
  obtain u where "url_parse L sample_url = Inr u"
      "web_url L u (lit ''https'') (lit ''example.com'') None (lit ''/page'')"
    using sample_url_parses [OF assms] .
  then have "\<exists>u. url_parse L sample_url = Inr u \<and> plain_http L u"
    by (auto simp: plain_http_def web_url_def lit_def)
  moreover have "byte_len sample_url \<le> MAX_URL_CHARS" by (simp add: sample_url_def limit_defs text_eval)
  moreover have "printable (lit ''text/html'')" "byte_len (lit ''text/html'') \<le> MAX_CONTENT_TYPE_CHARS"
    by (simp_all add: printable_def limit_defs text_eval)
  ultimately show ?thesis
    by (simp add: payload_contract_def sample_data_def is_source_id_iff)
qed

definition printing_main :: "(unit, unit, unit, str, str) inspect_process" where
  "printing_main = example_main\<lparr>iproc_ser := to_string reference_json (ser_envelope ser_data)\<rparr>"

lemma printed_fits_schema_witness:
  "\<exists>code t d' ms. inspect_main printing_main example_disk = (code, Some t, d')
    \<and> t = json_write reference_json (JObject ms) \<and> accepts envelope_schema (JObject ms)"
proof -
  have "\<exists>h I. inspect_configured printing_main h I"
    using example_main_configured by (simp add: inspect_configured_def printing_main_def)
  then obtain h I where conf: "inspect_configured printing_main h I" by blast
  obtain outc d1 where run: "inspect (iproc_env printing_main) (iproc_url printing_main) (iproc_lib printing_main)
      (iproc_fs printing_main) I h example_disk = (outc, d1)"
    by (cases "inspect (iproc_env printing_main) (iproc_url printing_main) (iproc_lib printing_main)
      (iproc_fs printing_main) I h example_disk")
  obtain r s where res: "inspect_result (iproc_env printing_main) (iproc_lib printing_main)
      (iproc_fs printing_main) I h example_disk = (r, s)"
    by (cases "inspect_result (iproc_env printing_main) (iproc_lib printing_main)
      (iproc_fs printing_main) I h example_disk")
  have "iproc_out printing_main = None" "iproc_ser printing_main = to_string reference_json (ser_envelope ser_data)"
    by (simp_all add: printing_main_def example_main_def)
  then have "\<exists>t. emit printing_main (out_envelope outc) = Inr t"
    using inspect_envelope(1) [OF run res] by (simp add: emit_Ok_iff to_string_def)
  then obtain code t d' where main: "inspect_main printing_main example_disk = (code, Some t, d')"
    using inspect_main_configured [OF conf run] by (auto simp: Let_def)
  have "iproc_ser printing_main = to_string reference_json (ser_envelope ser_data)"
    by (simp add: printing_main_def)
  from printed_fits_schema [OF this main] main show ?thesis by blast
qed

section \<open>What is read need not fit\<close>

text \<open>Other spellings of a written envelope: without a member, and as an array of its members.\<close>

fun left_out :: "string \<Rightarrow> json \<Rightarrow> json" where
  "left_out n (JObject ms) = JObject (filter (\<lambda>(k, _). k \<noteq> lit n) ms)"
| "left_out n j = j"

fun as_array :: "json \<Rightarrow> json" where
  "as_array (JObject ms) = JArray (map snd ms)"
| "as_array j = j"

definition loose_spellings :: "web_fetch_data envelope \<Rightarrow> json set" where
  "loose_spellings e =
     {as_array (ser_envelope ser_data e)}
     \<union> (if env_data e = None then {left_out ''data'' (ser_envelope ser_data e)} else {})
     \<union> (if env_error e = None then {left_out ''error'' (ser_envelope ser_data e)} else {})"

lemma loose_read:
  assumes "good_envelope good_data e" "j \<in> loose_spellings e"
  shows "de_envelope de_data j = Some e"
proof -
  have parts: "good_inspection (inspection e)" "optional de_data (Present (ser_option ser_data (env_data e))) = Some (env_data e)"
      "optional de_tool_error (Present (ser_option ser_tool_error (env_error e))) = Some (env_error e)"
    using assms(1) data_codec.reads_optional [of "env_data e"] tool_error_codec.reads_optional [of "env_error e"]
    by (simp_all add: good_envelope_def)
  note fields = de_envelope_def ser_envelope_def ser_struct_def struct_fields_object wire_fields member_field_def
    wire_reads inspection_codec.reads parts
  have "de_envelope de_data (as_array (ser_envelope ser_data e)) = Some e"
    using parts by (simp add: fields del: optional.simps)
  moreover have "de_envelope de_data (left_out ''data'' (ser_envelope ser_data e)) = Some e" if "env_data e = None"
    unfolding de_envelope_def opt_bind_Some_iff ser_envelope_def ser_struct_def list.map left_out.simps
      struct_fields_object
    using that parts by (simp add: wire_fields member_field_def wire_reads inspection_codec.reads)
  moreover have "de_envelope de_data (left_out ''error'' (ser_envelope ser_data e)) = Some e" if "env_error e = None"
    unfolding de_envelope_def opt_bind_Some_iff ser_envelope_def ser_struct_def list.map left_out.simps
      struct_fields_object
    using that parts by (simp add: wire_fields member_field_def wire_reads inspection_codec.reads)
  ultimately show ?thesis using assms(2) by (auto simp: loose_spellings_def split: if_splits)
qed

lemma loose_misfit:
  assumes "j \<in> loose_spellings e"
  shows "\<not> accepts envelope_schema j"
  using assms
  by (auto simp: loose_spellings_def envelope_schema_def ser_envelope_def ser_struct_def holds.simps
      split: if_splits)

text \<open>C0: the Rust side reads more than the published schema admits. For every envelope the webfetch
  contract admits, \<^verbatim>\<open>from_json\<close> also accepts it as an array of its members and with \<^verbatim>\<open>data\<close>, or
  \<^verbatim>\<open>error\<close>, left out where it is \<^verbatim>\<open>null\<close>, and reads the same envelope; the schema, which requires an
  object with every member, accepts the written form and none of these.\<close>

theorem schema_gap:
  assumes "envelope_validate (web_fetch_payload L T) e = Inr ()" "good_envelope good_data e"
  shows "accepts envelope_schema (ser_envelope ser_data e)
    \<and> (\<forall>j t J. j \<in> loose_spellings e \<and> json_read J t = Inr j \<longrightarrow>
         envelope_from_json (from_str J (de_envelope de_data)) (web_fetch_payload L T) t = Inr e
         \<and> \<not> accepts envelope_schema j)"
  using assms web_fetch_envelope_fits loose_read [OF assms(2)] loose_misfit [of _ e]
  by (auto simp: envelope_from_json_iff from_str_def envelope_validate_contract)

definition fetch_failure :: "web_fetch_data envelope" where
  "fetch_failure = failure_envelope (web_fetch_payload plain_url_lib example_time_lib) FetchFailed inspection_not_run"

definition fetch_failure_text :: str where
  "fetch_failure_text = json_write reference_json (left_out ''data'' (ser_envelope ser_data fetch_failure))"

lemma schema_gap_witness:
  "envelope_from_json (from_str reference_json (de_envelope de_data))
     (web_fetch_payload plain_url_lib example_time_lib) fetch_failure_text = Inr fetch_failure
   \<and> (\<exists>j. json_read reference_json fetch_failure_text = Inr j \<and> \<not> accepts envelope_schema j)"
proof -
  let ?j = "left_out ''data'' (ser_envelope ser_data fetch_failure)"
  have contract: "envelope_validate (web_fetch_payload plain_url_lib example_time_lib) fetch_failure = Inr ()"
    by (simp add: envelope_validate_contract fetch_failure_def failure_envelope_contract failure_admitted_def inspection_not_run_def
        inspection_new_def permits_status_def)
  have good: "good_envelope good_data fetch_failure" "env_data fetch_failure = None"
    by (simp_all add: good_envelope_def fetch_failure_def failure_envelope_def good_inspection_def
        inspection_not_run_def inspection_new_def web_fetch_payload_def WEB_FETCH_TOOL_def valid_lit
        tool_error_new_def code_message_def)
  have "valid_json (ser_envelope ser_data fetch_failure)" by (rule envelope_codec.writes [OF good(1)])
  then have "valid_json ?j" by (simp add: ser_envelope_def ser_struct_def)
  then have "json_read reference_json fetch_failure_text = Inr ?j"
    using reference_json_lawful by (simp add: json_lawful_def fetch_failure_text_def)
  moreover have "?j \<in> loose_spellings fetch_failure" using good(2) by (simp add: loose_spellings_def)
  ultimately show ?thesis using schema_gap [OF contract good(1)] by blast
qed

section \<open>The artifact of a fetch\<close>

lemma sha256_hex_fits: "(\<And>bs. length (H bs) = 32) \<Longrightarrow> digest_pattern (sha256_hex H bs)"
  using to_hex_chars [of _ "H bs"]
  by (auto simp: digest_pattern_def between_def sha256_hex_def list_all_iff is_lower_hex_def)

lemma run_id_fits: "run_id_arg v = Inr r \<Longrightarrow> run_id_pattern v"
  using length_le_byte_len [of v]
  by (auto simp: run_id_arg_def run_id_pattern_def between_def list_all_iff Suc_le_eq split: if_splits)

lemma enum_profile: "holds (Enum (strings [''production'', ''test''])) (JString (profile_as_str p))"
  by (cases p) (simp_all add: enum_strings)

text \<open>A request that passes its checks fits its schema, and so does either outcome of a run.\<close>

lemma request_fits:
  assumes "validated_url L r = Inr u"
  shows "accepts request_schema (ser_request r)"
proof -
  have "length (req_url r) \<le> 2048"
    using assms length_le_byte_len [of "req_url r"]
    by (auto simp: validated_url_def destination_url_def result_iffs limit_defs split: if_splits)
  then show ?thesis by (simp add: request_schema_def ser_request_def schema_eval)
qed

lemma enum_code_or_null:
  "holds (Enum (JNull # strings ns)) (ser_option (ser_named name) c) \<longleftrightarrow>
     (case c of None \<Rightarrow> True | Some x \<Rightarrow> holds (Enum (strings ns)) (JString (lit (name x))))"
  by (auto simp: ser_option_def ser_named_def ser_name_def holds.simps split: option.split)

lemma outcome_fits:
  assumes "stage_version o' = 1" "run_id_pattern (outcome_run_id o')"
  shows "accepts outcome_schema (ser_stage_outcome o')"
  using assms
  by (cases "outcome_code o'")
     (simp_all add: outcome_schema_def ser_stage_outcome_def enum_code_or_null schema_eval)

text \<open>What the schema says of an artifact, once the fields that a fetch fixes are right.\<close>

lemma artifact_fits_iff:
  assumes "artifact_version a = 1" "run_id_pattern (art_run_id a)" "source_id_pattern (art_source_id a)"
    and "digest_pattern (requested_url_sha256 a)" "digest_pattern (body_sha256 a)"
    and "art_content_type a = Some ctype" "length ctype \<le> 200"
    and "uint (art_redirects a) \<le> 3" "body_bytes a \<le> 1048576" "policy_profile a = profile_as_str p"
  shows "accepts artifact_schema (ser_fetch_artifact a) \<longleftrightarrow>
    length (art_final_url a) \<le> 2048 \<and> 100 \<le> uint (art_http_status a) \<and> uint (art_http_status a) \<le> 599
    \<and> (\<forall>e. art_content_encoding a = Some e \<longrightarrow> length e \<le> 64)"
  using assms enum_profile [of p]
  by (cases "art_content_encoding a")
     (auto simp: artifact_schema_def ser_fetch_artifact_def schema_eval ser_option_def)

text \<open>C0: what the fetch stage hands on fits the published schema of artifacts as far as the fetch
  bounds it. Under a digest of 32 bytes, a body reader that obeys its limit and a run id from the
  command line, every field of a successful fetch's artifact is what
  \<^verbatim>\<open>fetch-artifact-v1.schema.json\<close> requires, except that nothing bounds the final URL (which a
  redirect names), the status (which the server sends) and the length of the encoding's spelling:
  the schema accepts the artifact exactly if these three are within its bounds. Every outcome of a
  stage of that run fits \<^verbatim>\<open>stage-outcome-v1.schema.json\<close>.\<close>

theorem artifact_fits_schema:
  assumes "fetch E F run_id request = (Inr f, trace)" and "run_id_arg run_id = Inr run_id"
    and "\<And>bs. length (digest E bs) = 32"
    and "\<And>response limit body. read_body (http E) response limit = Inr body \<Longrightarrow> length body \<le> limit"
  shows "(accepts artifact_schema (ser_fetch_artifact (fetched_artifact f)) \<longleftrightarrow>
      length (art_final_url (fetched_artifact f)) \<le> 2048
      \<and> 100 \<le> uint (art_http_status (fetched_artifact f)) \<and> uint (art_http_status (fetched_artifact f)) \<le> 599
      \<and> (\<forall>e. art_content_encoding (fetched_artifact f) = Some e \<longrightarrow> length e \<le> 64))
    \<and> (\<forall>s c. accepts outcome_schema (ser_stage_outcome (outcome_ok s run_id))
        \<and> accepts outcome_schema (ser_stage_outcome (outcome_failed s run_id c)))"
proof -
  obtain requested response where run: "length trace \<le> 4"
    and desc: "describes E F run_id request requested (call_url (last trace))
             (word_of_nat (length trace - 1)) response f"
    using fetch_run [OF assms(1)] by auto
  from desc obtain m where m: "is_supported m" "art_content_type (fetched_artifact f) = Some (header_value m)"
    by (auto simp: describes_def Let_def)
  have "source_id_pattern (lit ''source-1'')"
    by (rule source_id_fits) (simp add: is_source_id_def text_eval)
  moreover have "length (header_value m) \<le> 200"
    using header_value_supported(2) [OF m(1)] length_le_byte_len [of "header_value m"] by linarith
  moreover have "uint (word_of_nat (length trace - 1) :: u32) \<le> 3"
    using run by (auto simp: word_of_nat_less_iff uint_nat unat_of_nat)
  moreover have "length (fetched_body f) \<le> 1048576"
    using desc assms(4) by (auto simp: describes_def Let_def limit_defs)
  ultimately have "accepts artifact_schema (ser_fetch_artifact (fetched_artifact f)) \<longleftrightarrow>
      length (art_final_url (fetched_artifact f)) \<le> 2048
      \<and> 100 \<le> uint (art_http_status (fetched_artifact f)) \<and> uint (art_http_status (fetched_artifact f)) \<le> 599
      \<and> (\<forall>e. art_content_encoding (fetched_artifact f) = Some e \<longrightarrow> length e \<le> 64)"
    using desc m run_id_fits [OF assms(2)] sha256_hex_fits [of "digest E", OF assms(3)]
    by (intro artifact_fits_iff) (auto simp: describes_def Let_def ARTIFACT_VERSION_def)
  then show ?thesis
    using run_id_fits [OF assms(2)]
    by (simp add: outcome_fits outcome_ok_def outcome_failed_def STAGE_VERSION_def)
qed

definition digest_env :: "(str, u16 \<times> (str \<times> bytes) list \<times> bytes, str) fetch_env" where
  "digest_env = example_env\<lparr>digest := (\<lambda>_. replicate 32 0)\<rparr>"

lemma artifact_fits_schema_witness:
  "\<exists>f trace. fetch digest_env (fetcher_new example_policy) (lit ''run'') example_request = (Inr f, trace)
     \<and> (accepts artifact_schema (ser_fetch_artifact (fetched_artifact f)) \<longleftrightarrow>
          length (art_final_url (fetched_artifact f)) \<le> 2048
          \<and> 100 \<le> uint (art_http_status (fetched_artifact f)) \<and> uint (art_http_status (fetched_artifact f)) \<le> 599
          \<and> (\<forall>e. art_content_encoding (fetched_artifact f) = Some e \<longrightarrow> length e \<le> 64))"
proof -
  have "example_like digest_env" using example_env_like by (simp add: digest_env_def example_like_def)
  then obtain f trace where run: "fetch digest_env (fetcher_new example_policy) (lit ''run'')
      example_request = (Inr f, trace)"
    using example_fetch by blast
  have "length body \<le> limit" if "read_body (http digest_env) response limit = Inr body"
    for response limit body
    using that by (auto simp: digest_env_def example_env_def example_http_def split: if_splits)
  moreover have "run_id_arg (lit ''run'') = Inr (lit ''run'')" by (simp add: run_id_arg_def text_eval)
  moreover have "length (digest digest_env bs) = 32" for bs by (simp add: digest_env_def)
  ultimately show ?thesis using artifact_fits_schema [OF run] run by blast
qed

end
