(* ===== verification/Spec2Isabelle.thy ===== *)
theory Spec2Isabelle
  imports Fetch_Main Inspect_Main Lifecycle Fetch_Tests_Pass Handoff_Tests_Pass Inspect_Tests_Pass
    Pipeline_Tests_Pass Wire_Handoff Wire_Config Fixture_Tests_Pass
begin

text \<open>
  A model of HearthAI's \<^verbatim>\<open>webfetch\<close>, the Rust workspace
  \<^verbatim>\<open>src/service/web_fetch\<close>: a URL goes in, content or nothing comes out.

  \<^bold>\<open>The program.\<close> Two processes run one after the other, with two sets of permissions, and
  share one directory. \<^verbatim>\<open>webfetch-fetch\<close> has network egress: it makes one bounded GET under a
  destination policy and leaves one sealed response, or the fact that there is none, in the
  handoff directory. \<^verbatim>\<open>webfetch-inspect\<close> has no network: it checks the seal, scans the bytes,
  decodes them, scans the text in three views, converts it, scans every candidate and then the
  result, and emits one envelope. Nothing it finds wrong may end in an envelope with data.

  \<^bold>\<open>Theories and code.\<close> Paths are relative to \<^verbatim>\<open>src/service/web_fetch\<close>. Definitions have the
  names of the functions they model, with a prefix or suffix where HOL or another module has
  the name (\<open>fetch_main\<close> and \<open>inspect_main\<close>, \<open>policy_load\<close>, \<open>bundle_load\<close>,
  \<open>data_validate\<close>).

  \<^item> \<open>Prelude\<close>: the sum type as \<^verbatim>\<open>Result\<close>, its combinators, state-passing steps with
    \<open>bind_step\<close> as \<^verbatim>\<open>?\<close>, and the simp sets \<open>result_iffs\<close> and \<open>step_simps\<close>.
  \<^item> \<open>Rust_Text\<close>, \<open>Rust_Numbers\<close>, \<open>Rust_Net\<close>, \<open>Disk\<close>: what the code uses of the standard
    library. A \<^verbatim>\<open>str\<close> is a list of code points, its bytes are \<open>utf8\<close> of it, and lengths are in
    bytes or characters as the code has them; numbers of fixed width are words; \<^verbatim>\<open>std::net\<close>
    addresses are their octets and segments; \<^verbatim>\<open>std::fs\<close> is a directory in which any call may
    fail, and a write may fail after part of the file is written.
  \<^item> \<open>Contracts\<close>, \<open>Media\<close>, \<open>Envelope\<close>, \<open>Web_Fetch\<close>, \<open>Artifact\<close>: \<^verbatim>\<open>contracts/src\<close>, its limits,
    media types, envelope, request and payload, artifact and stage outcome.
  \<^item> \<open>Serde\<close>, \<open>Wire\<close>, \<open>Wire_Schema\<close>: the wire format. JSON values and what \<^verbatim>\<open>serde\<close> documents of the
    code it derives; the derived codec of every struct and enumeration of \<^verbatim>\<open>contracts/src\<close>, as their
    attributes select it (\<open>de_request\<close>, \<open>ser_request\<close> and so on); and the schemas of \<^verbatim>\<open>schemas/\<close> in a
    small schema language. \<open>Wire_Facts\<close>, \<open>Wire_Emits\<close> and \<open>Wire_Handoff\<close> say what comes back, what
    fits the schemas, and what the handoff needs of its coding; \<open>Wire_Config\<close> reads the worker's
    policy file and the manifest of the rule bundle; \<open>Reference_Json\<close> is a printer and
    reader of JSON for the witnesses.
  \<^item> \<open>Handoff\<close>, \<open>Handoff_Facts\<close>, \<open>Handoff_Key\<close>: \<^verbatim>\<open>contracts/src/handoff.rs\<close>.
  \<^item> \<open>Policy\<close>, \<open>Policy_Facts\<close>, \<open>Resolve\<close>, \<open>Fetch\<close>, \<open>Fetch_Facts\<close>, \<open>Fetch_Main\<close>:
    \<^verbatim>\<open>policy.rs\<close>, \<^verbatim>\<open>resolve.rs\<close>, \<^verbatim>\<open>fetch.rs\<close> and \<^verbatim>\<open>main.rs\<close> of \<^verbatim>\<open>fetch-worker/src\<close>.
  \<^item> \<open>Normalize\<close>, \<open>Decode\<close>, \<open>Detect\<close>, \<open>Convert\<close>, \<open>Session\<close>, \<open>Session_Facts\<close>, \<open>Lifecycle\<close>,
    \<open>Pipeline\<close>, \<open>Inspect_Main\<close>: the files of those names in \<^verbatim>\<open>inspector/src\<close>, \<open>Lifecycle\<close>
    being the states of \<^verbatim>\<open>session.rs\<close> as a step relation.
  \<^item> \<open>Testserver\<close>, \<open>Served_Fetch\<close>: \<^verbatim>\<open>fetch-worker/src/testserver.rs\<close>, the scripted HTTP server, and
    the fetcher against it. \<open>Web_Urls\<close> and \<open>Reference_Client\<close> hold what is documented of URLs and of
    reading an HTTP response, with a small library and a client that keep to it.
  \<^item> \<open>Policy_Tests\<close>, \<open>Fetch_Tests\<close>, \<open>Fetch_Tests_Pass\<close>, \<open>Handoff_Tests\<close>, \<open>Handoff_Tests_Pass\<close>: the
    test modules of \<^verbatim>\<open>policy.rs\<close>, \<^verbatim>\<open>resolve.rs\<close>, \<^verbatim>\<open>fetch.rs\<close> and \<^verbatim>\<open>handoff.rs\<close>, one definition per
    test, and that they pass.
  \<^item> \<open>Inspect_Tests\<close>, \<open>Inspect_Tests_Pass\<close>: the test modules of \<^verbatim>\<open>normalize.rs\<close>, \<^verbatim>\<open>decode.rs\<close>,
    \<^verbatim>\<open>detect.rs\<close> and \<^verbatim>\<open>convert.rs\<close>. \<open>Pipeline_Tests\<close>, \<open>Pipeline_Tests_Pass\<close>: those of \<^verbatim>\<open>pipeline.rs\<close>,
    by way of \<open>Session_Runs\<close> (a calculus for how a session ends, given what the engine reports of
    each input), \<open>Pipeline_Runs\<close> (a sealed page from the directory to the report) and
    \<open>Pipeline_Pages\<close> (the pages of the tests).
  \<^item> \<open>Fixture_Tests\<close>, \<open>Fixture_Tests_Pass\<close>: \<^verbatim>\<open>contracts/tests/fixtures.rs\<close>, the 39 shared fixture files
    as values, and that the Rust types judge each as the manifest says.
  \<^item> This theory: the two processes on one directory.

  \<^bold>\<open>State.\<close> The fetcher's state is the list of calls it has made (URL, agent, request, answer);
  the handoff's is the directory; the session's is the detector (remaining budget, number of
  scans, and the history of inputs given to the engine, which the code does not keep) and the
  telemetry. The values that consume one another in \<^verbatim>\<open>session.rs\<close> are records with private
  fields there and plain records here; that no other order of the methods is possible is what
  the step relation \<open>advance\<close> leaves out and \<open>lifecycle_is_session_run\<close> puts back.

  \<^bold>\<open>Parameters.\<close> What the repository does not contain is an argument, grouped in records: the
  \<^verbatim>\<open>url\<close> and \<^verbatim>\<open>time\<close> crates (\<open>url_lib\<close>, \<open>time_lib\<close>), SHA-256, HMAC and JSON (\<open>handoff_lib\<close>),
  the HTTP client, its answers, the resolver and the clock (\<open>fetch_env\<close>; the index of an answer
  is the number of the call, so answers may differ from hop to hop), \<^verbatim>\<open>flate2\<close>, \<^verbatim>\<open>encoding_rs\<close>,
  YARA-X, the HTML converter and article extractor, the table of alphanumeric characters and
  the inspector's clock (\<open>inspect_env\<close>). Every property holds for all of them, or names what it
  needs of them: that a printed URL or timestamp parses back (\<open>url_reparses\<close>,
  \<open>time_reparses\<close>), that JSON carries a message (\<open>carries\<close>, \<open>json_faithful\<close>; for the derived codecs this is proved,
  from a JSON library that reads what it prints, \<open>json_lawful\<close>), that UTF-8 is
  decoded as UTF-8 (\<open>utf8_lawful\<close>), that clearing a fragment leaves the rest alone
  (\<open>fragment_inert\<close>), that plain URLs are parsed and joined by the standard (\<open>web_urls\<close>), that the
  client reads a whole response as HTTP frames it (\<open>client_lawful\<close>). The tests of the inspector
  name more, each where it is used: gzip (\<open>gzip_lawful\<close>), byte-order marks and charsets
  (\<open>charsets_lawful\<close>), the bundle of the repository (\<open>shipped_bundle\<close>), what the converter makes of the
  test pages (\<open>renders\<close>, \<open>renders_docs\<close>, \<open>renders_article\<close>), what the engine finds in the test pages (\<open>engine_lawful\<close>). Tamper evidence needs no assumption on the MAC or the digest: the
  alternative is a collision on the very values involved.

  \<^bold>\<open>Interfaces.\<close> \<open>step_relation\<close> (a transitive relation every step keeps; \<open>disk_frame\<close>,
  \<open>usable_kept\<close>, \<open>spending\<close>), \<open>prefix_code\<close> and \<open>visible_prefix_code\<close> (what makes a
  concatenation readable; UTF-8, hexadecimal, length-prefixed fields, address bits),
  \<open>sealed_channel\<close> (a sender and a reader over a directory; the handoff), \<open>scan_contract\<close> (an
  engine with a budget; the detector), \<open>labelled_converter\<close> (a converter whose candidates bear
  its method; the three of the chain), \<open>codec\<close> (a serializer and a deserializer that belong
  together; every type of the wire format). Each is interpreted on the model's own definitions.

  \<^bold>\<open>Bounds.\<close> The fetch loop is a recursion on the redirects left, at most four calls; paths are
  resolved by recursion on their length; the entity decoder by recursion on what is left of the
  text. There is no fuel anywhere: every function is total. The scan budget is 8 MiB over all
  inputs, and \<open>budget_suffices\<close> says for which responses that is enough. Clocks are functions
  of the number of readings so far, with no assumption but where a property says that the
  deadline is met.

  \<^bold>\<open>What the lemmas show.\<close>

  \<^item> Both stages (here): \<open>fetched_inspected_released\<close> (exit code 0 means a permitted fetch, an
    untampered handoff, all passes clean), \<open>clean_page_served\<close> (a clean page does get through).
  \<^item> Inspection: \<open>released_after_every_pass\<close>, \<open>match_always_rejects\<close>,
    \<open>conversion_choice\<close>, \<open>scan_budget_spent\<close>, \<open>budget_suffices\<close>,
    \<open>lifecycle_is_session_run\<close>, \<open>lifecycle_terminates\<close>; how results and stops are reported,
    \<open>inspect_single_result\<close>, \<open>inspect_reports_stop\<close>, \<open>inspect_main_exit\<close>; and the passes
    themselves, \<open>decode_content_exact\<close>, \<open>utf8_body_exact\<close>, \<open>entities_reveal\<close>,
    \<open>bundle_load_iff\<close>; \<open>inspect_tests_pass\<close> and \<open>pipeline_tests_pass\<close> (the
    tests of the inspector hold over every library that keeps its documentation).
  \<^item> Handoff: \<open>handoff_delivers_last\<close>, \<open>tamper_evident\<close>, \<open>torn_write_safe\<close>,
    \<open>key_outside_handoff\<close>, \<open>handoff_tests_pass\<close>.
  \<^item> Fetch: \<open>fetch_contacts\<close>, \<open>fetch_success\<close>, \<open>fetch_main_hands_over\<close>,
    \<open>resolve_pins_permitted\<close>, \<open>permits_iff\<close>, \<open>policy_text_iff\<close>; \<open>served_fetch\<close> (against the scripted server a fetch
    is a walk over its replies) and \<open>worker_tests_pass\<close>.
  \<^item> Contracts: \<open>data_validate_iff\<close>, and lemmas of theories Envelope and Web_Fetch that say which
    envelopes and requests pass. On the wire: \<open>request_wire_strict\<close> (what a text must be to be a
    request), \<open>wire_roundtrip\<close>, \<open>wire_hands_over\<close> (nothing is lost between the processes),
    \<open>printed_fits_schema\<close>, \<open>artifact_fits_schema\<close>, \<open>fixture_tests_pass\<close>.
  \<^item> Surprises: \<open>schema_gap\<close> (the Rust side reads envelopes that the schema refuses),
    \<open>artifact_fits_schema\<close> (which artifacts the fetch writes against its own schema),
    \<open>stray_ampersand_hides\<close> (a literal ampersand hides the reference after it from
    the scanner), \<open>mapped_range_is_dead\<close> (a denied range in IPv4-mapped form never matches),
    the second half of \<open>clean_page_served\<close> (a long redirect target is fetched and then
    withheld), \<open>inspect_reports_stop\<close> (a badly named bundle turns every rejection into an
    internal error).

  \<^bold>\<open>Not modelled.\<close> Command lines (\<^verbatim>\<open>clap\<close>) and the lines on stderr, which carry no decision;
  \<^verbatim>\<open>Display\<close> and \<^verbatim>\<open>Debug\<close>; the detection rules, which are data;
  the other services of the repository (Python), its charts and its scripts. The order in which
  \<^verbatim>\<open>Instant\<close> readings and file system calls of the two processes interleave is not a question:
  they do not run at the same time.
\<close>

section \<open>Both stages\<close>

text \<open>What the offline process emits for a message the network process left.\<close>

definition report_of ::
    "('c, 'k, 'e, 't, 'u) inspect_process \<Rightarrow> handoff \<Rightarrow> 'k inspector
       \<Rightarrow> (stop + web_fetch_data) \<times> 'k inspection \<Rightarrow> web_fetch_data envelope" where
  "report_of N h I result =
     out_envelope (inspect_report (iproc_env N) (iproc_url N) I (fst result)
       (inspector_audit (iproc_env N) I (handoff_run_id h) (snd result)))"

definition session_on ::
    "('c, 'k, 'e, 't, 'u) inspect_process \<Rightarrow> 'k inspector \<Rightarrow> handed \<Rightarrow> (stop + web_fetch_data) \<times> 'k inspection" where
  "session_on N I m = session_run (iproc_env N) (CHAIN (in_convert (iproc_env N))) m (fresh_session I)"

lemma inspect_main_message:
  assumes "inspect_configured N h I"
    and "fst (handoff_read (iproc_lib N) (iproc_fs N) h d) = Inr m"
    and "inspect_main N d = (code, emitted, d')"
  shows "case emit N (report_of N h I (session_on N I m)) of
      Inl _ \<Rightarrow> code = 2 \<and> emitted = None
    | Inr t \<Rightarrow> code = (if env_status (report_of N h I (session_on N I m)) = Status_Ok then 0 else 1)
        \<and> emitted = Some t"
proof -
  obtain outc d1 where run: "inspect (iproc_env N) (iproc_url N) (iproc_lib N) (iproc_fs N) I h d = (outc, d1)"
    by (cases "inspect (iproc_env N) (iproc_url N) (iproc_lib N) (iproc_fs N) I h d")
  obtain r s where "session_on N I m = (r, s)" by (cases "session_on N I m")
  with run assms(2) have "out_envelope outc = report_of N h I (session_on N I m)"
    by (auto simp: inspect_eq inspect_result_def session_on_def report_of_def)
  with inspect_main_configured [OF assms(1) run] assms(3) show ?thesis
    by (auto simp: Let_def split: sum.splits)
qed

text \<open>Two processes set up for one run: the same key, run id and digest, a file system that works
  and JSON that carries what it is given.\<close>

definition deployed ::
    "('u, 'r, 't) fetch_process \<Rightarrow> ('c, 'k, 'e, 't', 'u') inspect_process \<Rightarrow> destination_policy
       \<Rightarrow> web_fetch_request \<Rightarrow> handoff \<Rightarrow> 'k inspector \<Rightarrow> disk \<Rightarrow> bool" where
  "deployed F N policy request h I d \<longleftrightarrow>
     configured F policy h request \<and> inspect_configured N h I \<and> iproc_lib N = proc_lib F
     \<and> healthy (proc_fs F) \<and> healthy (iproc_fs N) \<and> usable d \<and> json_faithful (proc_lib F) h"

definition both_run ::
    "('u, 'r, 't) fetch_process \<Rightarrow> ('c, 'k, 'e, 't', 'u') inspect_process \<Rightarrow> disk
       \<Rightarrow> u8 \<times> str option \<times> disk" where
  "both_run F N d = inspect_main N (snd (fetch_main F d))"

lemma both_run_message:
  assumes "deployed F N policy request h I d"
    and "fetch (main_env F) (fetcher_new policy) (proc_run_id F) request = (r, contacts)"
    and "both_run F N d = (code, emitted, d')"
  shows "case emit N (report_of N h I (session_on N I (message_of r))) of
      Inl _ \<Rightarrow> code = 2 \<and> emitted = None
    | Inr t \<Rightarrow> code = (if env_status (report_of N h I (session_on N I (message_of r))) = Status_Ok
          then 0 else 1)
        \<and> emitted = Some t"
proof (rule inspect_main_message)
  show "inspect_configured N h I" using assms(1) by (simp add: deployed_def)
  show "inspect_main N (snd (fetch_main F d)) = (code, emitted, d')"
    using assms(3) by (simp add: both_run_def)
  obtain d1 x where "fetch_main F d = ((if is_ok r then 0 else 1), d1)"
      "handoff_read (proc_lib F) (iproc_fs N) h d1 = (Inr (message_of r), x)"
    using fetch_main_delivers [of F policy h request "iproc_fs N" d r contacts] assms(1,2)
    by (auto simp: deployed_def)
  then show "fst (handoff_read (iproc_lib N) (iproc_fs N) h (snd (fetch_main F d))) = Inr (message_of r)"
    using assms(1) by (simp add: deployed_def)
qed

lemma failed_fetch_report:
  assumes "fetch E (fetcher_new policy) run_id request = (Inl c, contacts)"
  shows "report_of N h I (session_on N I (message_of (Inl c))) =
    failure_envelope (iproc_payload N) c inspection_not_run"
proof -
  have "failure_admitted c inspection_not_run"
    using fetch_failure_admitted [OF assms, of "iproc_payload N"] by (simp add: envelope_failure_iff)
  moreover have "fst (session_on N I (message_of (Inl c))) = Inl (stop_not_run c)"
    by (simp add: session_on_def message_of_def session_run_def received_open_def bind_step_def
        lift_step_def)
  moreover have "stop_field I (stop_not_run c) = inspection_not_run" "stop_code (stop_not_run c) = c"
    by (simp_all add: stop_field_def stop_not_run_def inspection_not_run_def)
  ultimately show ?thesis by (simp add: report_of_def inspect_report_stop)
qed

lemma released_report:
  assumes "env_status (report_of N h I (session_on N I (Handed_Fetched a body))) = Status_Ok"
  obtains y s where "session_on N I (Handed_Fetched a body) = (Inr y, s)"
    "report_of N h I (session_on N I (Handed_Fetched a body)) =
       ok_envelope (iproc_payload N) y (bundle_policy_id (insr_bundle I))"
    "final_url y = art_final_url a" "quiet_session (iproc_env N) s" "hd (scanned s) = body"
proof -
  let ?W = "iproc_env N"
  obtain r s where ran: "session_on N I (Handed_Fetched a body) = (r, s)"
    by (cases "session_on N I (Handed_Fetched a body)")
  note run = ran [unfolded session_on_def]
  show thesis
  proof (cases rule: inspect_report_cases [of r ?W "iproc_url N" I
        "inspector_audit ?W I (handoff_run_id h) s"])
    case (ok y)
    have "quiet_session ?W (fresh_session I)" by (simp add: quiet_session_def fresh_session_facts)
    then have "quiet_session ?W s"
      using disciplined_run [of ?W] run ok(1) unfolding disciplined_def by fastforce
    moreover from run [unfolded ok(1)] have "final_url y = art_final_url a \<and> hd (scanned s) = body"
      by (rule session_run_Ok)
         (auto simp: released_def passed_def required_inputs_def fresh_session_facts)
    ultimately show thesis using that [of y s] ran ok(1,2) by (simp add: report_of_def)
  next
    case (failed c field)
    then show thesis using assms ran by (simp add: report_of_def failure_envelope_def)
  qed
qed

text \<open>C1: the two stages together. Both processes are set up for one run. If the offline process
  exits with 0, then the fetch succeeded; everything it contacted, redirects included, was an
  address the policy permits; the emitted envelope is the success envelope for data whose final
  URL is that of the last call; and the session that released the data scanned the fetched body
  and everything derived from it without one report. If the fetch failed, whatever is emitted is
  the fixed failure for its code, with no data and no inspection.\<close>

theorem fetched_inspected_released:
  assumes "deployed F N policy request h I d"
    and "fetch (main_env F) (fetcher_new policy) (proc_run_id F) request = (r, contacts)"
    and "both_run F N d = (code, emitted, d')"
  shows "(code = 0 \<longrightarrow> (\<exists>f y s t. r = Inr f
        \<and> contacts \<noteq> [] \<and> (\<forall>i < length contacts. within_policy (main_env F) (fetcher_new policy) i (contacts ! i))
        \<and> session_run (iproc_env N) (CHAIN (in_convert (iproc_env N)))
            (Handed_Fetched (fetched_artifact f) (fetched_body f)) (fresh_session I) = (Inr y, s)
        \<and> emitted = Some t
        \<and> iproc_ser N (ok_envelope (iproc_payload N) y (bundle_policy_id (insr_bundle I))) = Inr t
        \<and> final_url y = url_as_str (url (main_env F)) (call_url (last contacts))
        \<and> quiet_session (iproc_env N) s \<and> hd (scanned s) = fetched_body f))
    \<and> (\<forall>c. r = Inl c \<longrightarrow> code \<noteq> 0 \<and>
        (case emitted of None \<Rightarrow> True
         | Some t \<Rightarrow> iproc_ser N (failure_envelope (iproc_payload N) c inspection_not_run) = Inr t))"
proof (cases r)
  case (Inl c)
  have "env_status (failure_envelope (iproc_payload N) c inspection_not_run) \<noteq> Status_Ok"
    by (simp add: failure_envelope_def)
  then show ?thesis
    using both_run_message [OF assms, unfolded Inl failed_fetch_report [OF assms(2) [unfolded Inl]]]
    unfolding Inl by (auto simp: emit_Ok_iff split: sum.splits)
next
  case (Inr f)
  let ?m = "Handed_Fetched (fetched_artifact f) (fetched_body f)"
  have m: "message_of r = ?m" using Inr by (simp add: message_of_def)
  have contacts: "contacts \<noteq> []" "\<forall>i < length contacts. within_policy (main_env F) (fetcher_new policy) i (contacts ! i)"
    and url: "art_final_url (fetched_artifact f) = url_as_str (url (main_env F)) (call_url (last contacts))"
    using fetch_run [OF assms(2)] Inr by (auto simp: trace_ok_def describes_def Let_def)
  have "\<exists>y s t. session_on N I ?m = (Inr y, s) \<and> emitted = Some t
      \<and> iproc_ser N (ok_envelope (iproc_payload N) y (bundle_policy_id (insr_bundle I))) = Inr t
      \<and> final_url y = art_final_url (fetched_artifact f) \<and> quiet_session (iproc_env N) s
      \<and> hd (scanned s) = fetched_body f" if zero: "code = 0"
  proof -
    obtain t where t: "emit N (report_of N h I (session_on N I ?m)) = Inr t" "emitted = Some t"
        "env_status (report_of N h I (session_on N I ?m)) = Status_Ok"
      using both_run_message [OF assms] zero unfolding m by (auto split: sum.splits if_splits)
    from released_report [OF t(3)] t(1,2) show ?thesis by (metis emit_Ok_iff)
  qed
  then show ?thesis using contacts url Inr unfolding session_on_def by auto
qed

section \<open>A clean page is served\<close>

text \<open>The data a session releases for a candidate, and when the emission itself works.\<close>

definition served :: "fetch_artifact \<Rightarrow> media_type \<Rightarrow> candidate \<Rightarrow> web_fetch_data" where
  "served a media c =
     \<lparr>source_id = art_source_id a, final_url = art_final_url a, http_status = art_http_status a,
      content_type = header_value media, retrieved_at = art_retrieved_at a,
      data_format = art_format a, data_method = cand_method c, data_content = cand_content c\<rparr>"

definition emission_works :: "('c, 'k, 'e, 't, 'u) inspect_process \<Rightarrow> bool" where
  "emission_works N \<longleftrightarrow>
     (\<forall>e. is_ok (iproc_ser N e))
     \<and> (case iproc_out N of None \<Rightarrow> True | Some p \<Rightarrow> (\<forall>t. iproc_write N p t = Inr ()))"

lemma emission_works_emit:
  "emission_works N \<Longrightarrow> envelope_contract (iproc_payload N) e \<Longrightarrow>
     \<exists>t. emit N e = Inr t \<and> iproc_ser N e = Inr t"
  by (force simp: emission_works_def emit_Ok_iff is_ok_iff split: option.splits)

lemma both_run_emitted:
  assumes "deployed F N policy request h I d"
    and "fetch (main_env F) (fetcher_new policy) (proc_run_id F) request = (r, contacts)"
    and "both_run F N d = (code, emitted, d')" and "emission_works N"
    and e: "report_of N h I (session_on N I (message_of r)) = e" "envelope_contract (iproc_payload N) e"
  shows "code = (if env_status e = Status_Ok then 0 else 1) \<and> (\<exists>t. emitted = Some t \<and> iproc_ser N e = Inr t)"
  using both_run_message [OF assms(1-3)] emission_works_emit [OF assms(4) e(2)] unfolding e(1) by auto

text \<open>What is documented of the two libraries: a URL printed by the url crate parses to an
  equivalent one, and so does a timestamp printed by the time crate.\<close>

definition url_reparses :: "'u url_lib \<Rightarrow> 'u \<Rightarrow> bool" where
  "url_reparses L u \<longleftrightarrow>
     (\<exists>v. url_parse L (url_as_str L u) = Inr v \<and> url_scheme L v = url_scheme L u
        \<and> url_username L v = url_username L u \<and> url_password L v = url_password L u
        \<and> url_host_str L v = url_host_str L u)"

definition time_reparses :: "'t time_lib \<Rightarrow> bool" where
  "time_reparses T \<longleftrightarrow> (\<forall>t s. rfc3339_format T t = Some s \<longrightarrow> rfc3339_parse T s = Some t)"

text \<open>The engine, the clock and the rest of the budget let a response through, which decodes and
  converts to \<open>c\<close>.\<close>

definition clean_page ::
    "('c, 'k, 'e, 't) inspect_env \<Rightarrow> 'k inspection \<Rightarrow> fetch_artifact \<Rightarrow> bytes \<Rightarrow> media_type \<Rightarrow> candidate \<Rightarrow> bool" where
  "clean_page W s a body media c \<longleftrightarrow>
     (\<exists>declared decoded_bytes seen.
        art_content_type a = Some declared \<and> media_parse declared = Inr media
        \<and> decode_content_encoding (in_inflate W) body (art_content_encoding a) = Inr decoded_bytes
        \<and> decode_charset (in_charsets W) decoded_bytes media = Inr seen
        \<and> conversion_result W (CHAIN (in_convert W)) a media seen = Some c
        \<and> length (cand_content c) \<le> MAX_CONTENT_CHARS
        \<and> ready W (sum_list (map length
             (required_inputs W (CHAIN (in_convert W)) a media body seen (served a media c)))) s)"

lemma printed_source_id: "is_source_id (lit ''source-1'')"
  by (simp add: is_source_id_def text_eval)

lemma conversion_result_html:
  "conversion_result W chain a media seen = Some c \<Longrightarrow> art_format a = Html \<Longrightarrow> cand_method c = Source"
  by (auto simp: conversion_result_def)

lemma clean_page_runs:
  assumes clean: "clean_page W s a body media c" and "is_supported media"
    and "time_reparses (in_time W)" "rfc3339_format (in_time W) at = Some (art_retrieved_at a)"
  shows "\<exists>s'. session_run W (CHAIN (in_convert W)) (Handed_Fetched a body) s = (Inr (served a media c), s')"
proof -
  have "rfc3339_parse (in_time W) (art_retrieved_at a) = Some at"
    using assms(3,4) by (simp add: time_reparses_def)
  then have "released W a media c (served a media c)"
    using clean assms(4) by (auto simp: clean_page_def released_def served_def)
  then show ?thesis
    using clean assms(2) by (auto simp: clean_page_def intro: clean_run)
qed

text \<open>What the checks on the released data still depend on, for an artifact the fetcher made.\<close>

lemma served_payload:
  assumes "clean_page W s a body media c" and "is_supported media"
    and "art_source_id a = lit ''source-1''" "art_final_url a = url_as_str L u"
    and "plain_http L u" "url_reparses L u"
    and "time_reparses (in_time W)" "rfc3339_format (in_time W) at = Some (art_retrieved_at a)"
  shows "payload_validate (web_fetch_payload L (in_time W)) (served a media c) = Inr () \<longleftrightarrow>
    byte_len (art_final_url a) \<le> 2048 \<and> 100 \<le> unat (art_http_status a) \<and> unat (art_http_status a) \<le> 599"
proof -
  have "\<exists>v. url_parse L (art_final_url a) = Inr v \<and> plain_http L v"
    using assms(4,5,6) by (auto simp: url_reparses_def plain_http_def)
  moreover have "rfc3339_parse (in_time W) (art_retrieved_at a) = Some at"
    using assms(7,8) by (simp add: time_reparses_def)
  moreover have "printable (header_value media)" "byte_len (header_value media) \<le> 200"
    using header_value_supported [OF assms(2)] by auto
  moreover have "length (cand_content c) \<le> MAX_CONTENT_CHARS" "art_format a = Html \<longrightarrow> cand_method c = Source"
    using assms(1) conversion_result_html by (auto simp: clean_page_def)
  ultimately show ?thesis
    using printed_source_id assms(3)
    by (simp add: web_fetch_payload_def data_validate_contract payload_contract_def served_def
        is_source_id_iff limit_defs)
qed

lemma fetched_artifact_facts:
  assumes "fetch E F run_id request = (Inr f, contacts)"
  obtains m where "art_content_type (fetched_artifact f) = Some (header_value m)"
    "media_parse (header_value m) = Inr m" "is_supported m"
    "art_source_id (fetched_artifact f) = lit ''source-1''"
    "art_final_url (fetched_artifact f) = url_as_str (url E) (call_url (last contacts))"
    "plain_http (url E) (call_url (last contacts))"
    "rfc3339_format (time E) (now_utc E) = Some (art_retrieved_at (fetched_artifact f))"
proof -
  have ne: "contacts \<noteq> []" and trace: "\<exists>requested. trace_ok E F requested contacts"
    and desc: "\<exists>requested redirects response. describes E F run_id request requested
      (call_url (last contacts)) redirects response f"
    using fetch_run [OF assms] by auto
  then have "within_policy E F (length contacts - 1) (last contacts)"
    by (auto simp: trace_ok_def last_conv_nth)
  then have "plain_http (url E) (call_url (last contacts))"
    by (auto simp: within_policy_def is_ok_iff check_destination_iff)
  with desc that show thesis
    by (auto simp: describes_def Let_def intro: media_parse_header_value_supported)
qed

lemma clean_page_outcome:
  assumes "deployed F N policy request h I d"
    and "fetch (main_env F) (fetcher_new policy) (proc_run_id F) request = (Inr f, contacts)"
    and "both_run F N d = (code, emitted, d')"
    and "iproc_url N = url (main_env F)" "in_time (iproc_env N) = time (main_env F)"
    and "url_reparses (url (main_env F)) (call_url (last contacts))" "time_reparses (time (main_env F))"
    and "policy_id_shaped (bundle_policy_id (insr_bundle I))" "emission_works N"
    and "clean_page (iproc_env N) (fresh_session I) (fetched_artifact f) (fetched_body f) media c"
  shows "let a = fetched_artifact f in
    (if byte_len (art_final_url a) \<le> 2048 \<and> 100 \<le> unat (art_http_status a) \<and> unat (art_http_status a) \<le> 599
     then code = 0 \<and> (\<exists>t. emitted = Some t
       \<and> iproc_ser N (ok_envelope (iproc_payload N) (served a media c)
            (bundle_policy_id (insr_bundle I))) = Inr t)
     else code = 1 \<and> (\<exists>t. emitted = Some t
       \<and> iproc_ser N (failure_envelope (iproc_payload N) InternalError inspection_not_run) = Inr t))"
proof -
  let ?a = "fetched_artifact f" and ?body = "fetched_body f" and ?id = "bundle_policy_id (insr_bundle I)"
  let ?e = "report_of N h I (session_on N I (message_of (Inr f)))"
  from fetched_artifact_facts [OF assms(2)] obtain m where
    m: "art_content_type ?a = Some (header_value m)" "media_parse (header_value m) = Inr m" "is_supported m"
    and src: "art_source_id ?a = lit ''source-1''"
      "art_final_url ?a = url_as_str (iproc_url N) (call_url (last contacts))"
      "plain_http (iproc_url N) (call_url (last contacts))"
    and at: "rfc3339_format (in_time (iproc_env N)) (now_utc (main_env F)) = Some (art_retrieved_at ?a)"
    unfolding assms(4,5) by blast
  have media: "is_supported media" using assms(10) m by (auto simp: clean_page_def)
  have laws: "url_reparses (iproc_url N) (call_url (last contacts))" "time_reparses (in_time (iproc_env N))"
    using assms(4-7) by simp_all
  note valid = served_payload [OF assms(10) media src laws at]
  obtain s' where ran: "session_on N I (message_of (Inr f)) = (Inr (served ?a media c), s')"
    using clean_page_runs [OF assms(10) media laws(2) at] by (auto simp: session_on_def message_of_def)
  note out = both_run_emitted [OF assms(1-3,9)]
  show ?thesis
  proof (cases "payload_validate (iproc_payload N) (served ?a media c) = Inr ()")
    case True
    then have e: "?e = ok_envelope (iproc_payload N) (served ?a media c) ?id"
      using assms(8) by (simp add: report_of_def ran inspect_report_ok)
    have "envelope_contract (iproc_payload N) ?e"
      using True assms(8) by (simp add: e ok_envelope_contract)
    moreover have "env_status ?e = Status_Ok" by (simp add: e ok_envelope_def)
    ultimately show ?thesis
      using out [OF e] e valid True by (simp add: Let_def)
  next
    case False
    then have e: "?e = failure_envelope (iproc_payload N) InternalError inspection_not_run"
      by (simp add: report_of_def ran inspect_report_withheld)
    have "envelope_contract (iproc_payload N) ?e"
      by (simp add: e failure_envelope_contract fixed_failures_admitted)
    moreover have "env_status ?e \<noteq> Status_Ok" by (simp add: e failure_envelope_def)
    ultimately show ?thesis
      using out [OF e] e valid False by (simp add: Let_def)
  qed
qed

text \<open>C2: a clean page is served. Both processes are set up for one run and share the URL and time
  libraries, which read back what they print. The fetch succeeded, the response decodes and
  converts, its content is within the limit, the clock stays below the deadline, the engine
  reports nothing and everything that must be scanned fits the budget. Then the offline process
  exits with 0 and emits the success envelope for the converted content and the artifact's
  fields; unless the final URL has more than 2048 bytes or the status is not in 100 to 599,
  which the fetch does not check: then it exits with 1 and the page is withheld as an internal
  error.\<close>

theorem clean_page_served:
  assumes "deployed F N policy request h I d"
    and "fetch (main_env F) (fetcher_new policy) (proc_run_id F) request = (Inr f, contacts)"
    and "both_run F N d = (code, emitted, d')"
    and "iproc_url N = url (main_env F)" "in_time (iproc_env N) = time (main_env F)"
    and "url_reparses (url (main_env F)) (call_url (last contacts))" "time_reparses (time (main_env F))"
    and "policy_id_shaped (bundle_policy_id (insr_bundle I))" "emission_works N"
    and "clean_page (iproc_env N) (fresh_session I) (fetched_artifact f) (fetched_body f) media c"
  shows "let a = fetched_artifact f in
    (if byte_len (art_final_url a) \<le> 2048 \<and> 100 \<le> unat (art_http_status a) \<and> unat (art_http_status a) \<le> 599
     then code = 0 \<and> (\<exists>t. emitted = Some t
       \<and> iproc_ser N (ok_envelope (iproc_payload N) (served a media c)
            (bundle_policy_id (insr_bundle I))) = Inr t)
     else code = 1 \<and> (\<exists>t. emitted = Some t
       \<and> iproc_ser N (failure_envelope (iproc_payload N) InternalError inspection_not_run) = Inr t))"
  using assms by (rule clean_page_outcome)

section \<open>An example run\<close>

text \<open>The two example processes, with one key, one run id and one coding. The fetch follows one
  redirect to a plain-text page.\<close>

definition example_inspector ::
    "(unit, unit, unit, str, str) inspect_process" where
  "example_inspector = example_main\<lparr>iproc_lib := numbering_lib\<rparr>"

abbreviation example_handoff :: handoff where
  "example_handoff \<equiv> handoff_new (lit ''run'') (HandoffKey (replicate 32 0))"

lemma example_inspector_simps [simp]:
  "iproc_lib example_inspector = numbering_lib" "iproc_fs example_inspector = healthy_env"
  "iproc_env example_inspector = example_inspect (\<lambda>_. False)"
  "iproc_url example_inspector = example_url_lib"
  by (simp_all add: example_inspector_def example_main_def)

lemma example_deployed:
  "\<exists>I. deployed example_process example_inspector example_policy example_request example_handoff I
     example_disk \<and> bundle_policy_id (insr_bundle I) = lit ''rules'' \<and> insr_deadline I \<noteq> 0"
proof -
  obtain B where B: "bundle_load (in_yara (iproc_env example_main)) (sha256 numbering_lib)
      (iproc_manifest_json example_main) (iproc_rules example_main) = Inr B"
      "bundle_policy_id B = lit ''rules''"
    using example_bundle_loads [of "sha256 numbering_lib"] by blast
  have "key_load_for example_key_env (rooted [lit ''k'']) (rooted [lit ''h'']) =
      Inr (HandoffKey (replicate 32 0))"
    using example_configured by (auto simp: configured_def example_process_def handoff_new_def)
  then have "inspect_configured example_inspector example_handoff (inspector_new B)"
    using B(1) by (simp add: inspect_configured_def example_inspector_def example_main_def)
  moreover have "insr_deadline (inspector_new B) \<noteq> 0"
    by (simp add: inspector_new_def from_secs_def limit_defs)
  moreover have "insr_bundle (inspector_new B) = B" by (simp add: inspector_new_def)
  ultimately show ?thesis
    using B(2) example_configured numbering_faithful example_good
    by (intro exI [of _ "inspector_new B"]) (simp add: deployed_def example_process_def)
qed

lemma example_process_like: "example_like (main_env example_process)"
  using example_env_like
  by (simp add: example_like_def main_env_def example_process_def system_lookup_def example_env_def)

lemma example_fetched:
  obtains f contacts where
    "fetch (main_env example_process) (fetcher_new example_policy) (proc_run_id example_process)
       example_request = (Inr f, contacts)"
    "call_url (last contacts) = lit ''https://example.com''"
    "art_final_url (fetched_artifact f) = lit ''https://example.com''"
    "art_http_status (fetched_artifact f) = 200"
    "art_content_type (fetched_artifact f) = Some (lit ''text/plain'')"
    "art_content_encoding (fetched_artifact f) = None" "art_format (fetched_artifact f) = Markdown"
    "fetched_body f = utf8 (lit ''hi'')"
proof -
  let ?E = "main_env example_process" and ?F = "fetcher_new example_policy"
  have run_id: "proc_run_id example_process = lit ''run''" by (simp add: example_process_def)
  obtain f contacts where run: "fetch ?E ?F (lit ''run'') example_request = (Inr f, contacts)"
    and last: "call_url (last contacts) = lit ''https://example.com''"
      "call_result (last contacts) = Inr (example_response 1)"
    using example_fetch [OF example_process_like] by blast
  from fetch_run [OF run] last obtain requested redirects where desc:
    "describes ?E ?F (lit ''run'') example_request requested (lit ''https://example.com'') redirects
       (example_response 1) f"
    by auto
  have libs: "url ?E = example_url_lib" "http ?E = example_http"
    using example_process_like by (simp_all add: example_like_def)
  have header: "header_str example_http (example_response 1) ''content-type'' = Some (lit ''text/plain'')"
    "header_str example_http (example_response 1) ''content-encoding'' = None"
    by (simp_all add: header_str_def example_http_def example_response_def text_eval utf8_char_def)
  have "header_value plain_media = lit ''text/plain''" "media_parse (lit ''text/plain'') = Inr plain_media"
    by (rule plain_media_parsed)+
  with desc have "art_content_type (fetched_artifact f) = Some (lit ''text/plain'')"
    unfolding describes_def Let_def libs header by auto
  moreover from desc have "art_content_encoding (fetched_artifact f) = None"
    "art_format (fetched_artifact f) = Markdown"
    "art_final_url (fetched_artifact f) = lit ''https://example.com''"
    "art_http_status (fetched_artifact f) = 200" "fetched_body f = [104, 105]"
    unfolding describes_def Let_def libs header
    by (simp_all add: example_request_def request_new_def example_url_lib_def example_http_def
        example_response_def limit_defs)
  moreover have "utf8 (lit ''hi'') = [104, 105]" by (simp add: lit_def utf8_char_def)
  ultimately show thesis using that [of f contacts] run last(1) run_id by simp
qed

abbreviation example_candidate :: candidate where
  "example_candidate \<equiv> \<lparr>cand_content = lit ''hi'', cand_method = Passthrough\<rparr>"

lemma hi_str: "valid_str (lit ''hi'')" "byte_len (lit ''hi'') = 2" "length (lit ''hi'') = 2"
  by (simp_all add: lit_def valid_str_def is_scalar_def len_utf8_def)

lemma example_clean:
  assumes "art_content_type a = Some (lit ''text/plain'')" "art_content_encoding a = None"
    and "art_format a = Markdown" "art_final_url a = lit ''https://example.com''"
    and "insr_deadline I \<noteq> 0"
  shows "clean_page (iproc_env example_inspector) (fresh_session I) a (utf8 (lit ''hi'')) plain_media
    example_candidate"
proof -
  let ?W = "iproc_env example_inspector" and ?seen = "lit ''hi''"
  have "to_ascii_lowercase (trim (lit ''identity'')) = lit ''identity''" by (simp add: text_eval)
  then have "decode_content_encoding (in_inflate ?W) (utf8 ?seen) (art_content_encoding a) = Inr (utf8 ?seen)"
    using hi_str(2) assms(2)
    by (simp add: decode_content_encoding_def MAX_DECODED_BYTES_def length_utf8)
  moreover have "decode_charset (in_charsets ?W) (utf8 ?seen) plain_media = Inr ?seen"
    using example_page_released(4) [OF hi_str(1), of "\<lambda>_. False"] hi_str(3)
    by (simp add: MAX_CONTENT_CHARS_def)
  moreover have "conversion_result ?W (CHAIN (in_convert ?W)) a plain_media ?seen = Some example_candidate"
    and one: "conversion_candidates ?W (CHAIN (in_convert ?W)) a plain_media ?seen = [example_candidate]"
    using assms(3) plain_media_parsed(3)
    by (simp_all add: conversion_result_def conversion_candidates_def)
  moreover have "ready ?W (sum_list (map length (required_inputs ?W (CHAIN (in_convert ?W)) a
      plain_media (utf8 ?seen) ?seen (served a plain_media example_candidate)))) (fresh_session I)"
  proof -
    have "byte_len (deobfuscate (decode_entities ?seen)) \<le> 2" "byte_len (decode_entities ?seen) \<le> 2"
      using decode_entities_shrinks [of ?seen] deobfuscate_shrinks [of "decode_entities ?seen"] hi_str(2)
      by linarith+
    then have "sum_list (map length (required_inputs ?W (CHAIN (in_convert ?W)) a
        plain_media (utf8 ?seen) ?seen (served a plain_media example_candidate))) \<le> 1000"
      unfolding required_inputs_def one
      by (simp add: assms(4) served_def combined_def plain_media_parsed length_utf8 hi_str)
         (simp add: lit_def len_utf8_def)
    moreover have "session_report ?W (fresh_session I) k data = Inr []" for k data
      by (simp add: session_report_def example_inspect_def example_yara_def)
    ultimately show ?thesis
      using assms(5) fresh_session_facts(3) [of I]
      by (simp add: ready_def MAX_SCAN_INPUT_BYTES_def fresh_session_def session_new_def
          example_inspect_def)
  qed
  ultimately show ?thesis
    using assms(1) plain_media_parsed(1) hi_str(3)
    by (auto simp: clean_page_def MAX_CONTENT_CHARS_def)
qed

lemma example_laws:
  "url_reparses (url (main_env example_process)) (lit ''https://example.com'')"
  "time_reparses (time (main_env example_process))" "emission_works example_inspector"
  "iproc_url example_inspector = url (main_env example_process)"
  "in_time (iproc_env example_inspector) = time (main_env example_process)"
  "policy_id_shaped (lit ''rules'')"
proof -
  have libs: "url (main_env example_process) = example_url_lib"
    "time (main_env example_process) = example_time_lib"
    using example_process_like by (simp_all add: example_like_def)
  show "url_reparses (url (main_env example_process)) (lit ''https://example.com'')"
    unfolding libs by (simp add: url_reparses_def example_url_lib_def text_eval)
  show "time_reparses (time (main_env example_process))"
    unfolding libs by (simp add: time_reparses_def example_time_lib_def)
  show "emission_works example_inspector"
    by (simp add: emission_works_def example_inspector_def example_main_def)
  show "iproc_url example_inspector = url (main_env example_process)"
    "in_time (iproc_env example_inspector) = time (main_env example_process)"
    unfolding libs by (simp_all add: example_inspect_def)
  show "policy_id_shaped (lit ''rules'')" by (simp add: policy_id_shaped_def text_eval)
qed

lemma example_ser: "iproc_ser example_inspector e = Inr (lit ''{}'')"
  by (simp add: example_inspector_def example_main_def)

lemma example_short_url: "byte_len (lit ''https://example.com'') \<le> 2048"
  by (simp add: lit_def len_utf8_def)

lemma example_run:
  obtains I f contacts d' where
    "deployed example_process example_inspector example_policy example_request example_handoff I
       example_disk"
    "policy_id_shaped (bundle_policy_id (insr_bundle I))"
    "fetch (main_env example_process) (fetcher_new example_policy) (proc_run_id example_process)
       example_request = (Inr f, contacts)"
    "url_reparses (url (main_env example_process)) (call_url (last contacts))"
    "byte_len (art_final_url (fetched_artifact f)) \<le> 2048" "art_http_status (fetched_artifact f) = 200"
    "clean_page (iproc_env example_inspector) (fresh_session I) (fetched_artifact f) (fetched_body f)
       plain_media example_candidate"
    "both_run example_process example_inspector example_disk = (0, Some (lit ''{}''), d')"
proof -
  obtain I where I: "deployed example_process example_inspector example_policy example_request
      example_handoff I example_disk"
    "bundle_policy_id (insr_bundle I) = lit ''rules''" "insr_deadline I \<noteq> 0"
    using example_deployed by blast
  obtain f contacts where f: "fetch (main_env example_process) (fetcher_new example_policy)
      (proc_run_id example_process) example_request = (Inr f, contacts)"
    "call_url (last contacts) = lit ''https://example.com''"
    "art_final_url (fetched_artifact f) = lit ''https://example.com''"
    "art_http_status (fetched_artifact f) = 200"
    "art_content_type (fetched_artifact f) = Some (lit ''text/plain'')"
    "art_content_encoding (fetched_artifact f) = None" "art_format (fetched_artifact f) = Markdown"
    "fetched_body f = utf8 (lit ''hi'')"
    by (rule example_fetched)
  obtain code emitted d' where run: "both_run example_process example_inspector example_disk =
      (code, emitted, d')"
    by (cases "both_run example_process example_inspector example_disk")
  note laws = example_laws
  have clean: "clean_page (iproc_env example_inspector) (fresh_session I) (fetched_artifact f)
      (fetched_body f) plain_media example_candidate"
    unfolding f(8) by (rule example_clean [OF f(5,6,7,3) I(3)])
  from clean_page_outcome [OF I(1) f(1) run laws(4,5) _ laws(2) _ laws(3) this] laws(1,6) f I(2)
  have "code = 0" "emitted = Some (lit ''{}'')"
    using example_short_url by (simp_all add: Let_def example_ser)
  with that [of I f contacts d'] I f clean run laws(1,6) example_short_url show thesis by simp
qed

text \<open>The example run does exit with 0, so its envelope, its contacts and its session are as C1 says.\<close>

lemma fetched_inspected_released_witness:
  "\<exists>I f contacts y s d'. both_run example_process example_inspector example_disk = (0, Some (lit ''{}''), d')
     \<and> fetch (main_env example_process) (fetcher_new example_policy) (proc_run_id example_process)
         example_request = (Inr f, contacts)
     \<and> contacts \<noteq> []
     \<and> session_run (iproc_env example_inspector) (CHAIN (in_convert (iproc_env example_inspector)))
         (Handed_Fetched (fetched_artifact f) (fetched_body f)) (fresh_session I) = (Inr y, s)
     \<and> quiet_session (iproc_env example_inspector) s \<and> hd (scanned s) = fetched_body f"
proof -
  obtain I f contacts d' where ex: "deployed example_process example_inspector example_policy
      example_request example_handoff I example_disk"
    "fetch (main_env example_process) (fetcher_new example_policy) (proc_run_id example_process)
       example_request = (Inr f, contacts)"
    "both_run example_process example_inspector example_disk = (0, Some (lit ''{}''), d')"
    by (rule example_run)
  from fetched_inspected_released [OF ex] show ?thesis using ex(2,3) by auto
qed

lemma clean_page_served_witness:
  "\<exists>f contacts d'. fetch (main_env example_process) (fetcher_new example_policy)
       (proc_run_id example_process) example_request = (Inr f, contacts)
     \<and> both_run example_process example_inspector example_disk = (0, Some (lit ''{}''), d')
     \<and> iproc_ser example_inspector (ok_envelope (iproc_payload example_inspector)
         (served (fetched_artifact f) plain_media example_candidate) (lit ''rules'')) = Inr (lit ''{}'')"
proof -
  obtain I f contacts d' where ex: "deployed example_process example_inspector example_policy
      example_request example_handoff I example_disk"
    "policy_id_shaped (bundle_policy_id (insr_bundle I))"
    "fetch (main_env example_process) (fetcher_new example_policy) (proc_run_id example_process)
       example_request = (Inr f, contacts)"
    "url_reparses (url (main_env example_process)) (call_url (last contacts))"
    "byte_len (art_final_url (fetched_artifact f)) \<le> 2048" "art_http_status (fetched_artifact f) = 200"
    "clean_page (iproc_env example_inspector) (fresh_session I) (fetched_artifact f) (fetched_body f)
       plain_media example_candidate"
    "both_run example_process example_inspector example_disk = (0, Some (lit ''{}''), d')"
    by (rule example_run)
  note laws = example_laws
  from clean_page_served [OF ex(1,3,8) laws(4,5) ex(4) laws(2) ex(2) laws(3) ex(7)] ex
  show ?thesis by (auto simp: Let_def example_ser)
qed

end
